(* ===== verification/Prelude.thy ===== *)
theory Prelude
  imports Main "HOL-Library.State_Monad" "HOL-Library.Char_ord" "HOL-Library.List_Lexorder"
begin

text \<open>
  Shared vocabulary of the development: Go's error values, the state monad in which the
  effectful functions are written, and the two proof calculi the component theories use on it.

  The Go code returns errors as values and tests them with \<open>if err != nil\<close>; the model does
  the same. A function that returns only an error returns \<open>goerr option\<close> (\<open>None\<close> is nil),
  a function that returns a value or an error returns \<open>goerr + 'a\<close>.

  \<^item> \<open>wp m Q w\<close>: running \<open>m\<close> in \<open>w\<close> ends with a result and state satisfying \<open>Q\<close>. Its rules
    are equations (collection \<open>wp_simps\<close>).
  \<^item> \<open>keeps R m\<close>: the states before and after \<open>m\<close> are related by \<open>R\<close>. For a reflexive and
    transitive \<open>R\<close> the rules (collection \<open>keeps_intros\<close>) follow the structure of \<open>m\<close>; the
    component theories instantiate \<open>R\<close> with frame conditions and with "only events of this
    kind were added".
\<close>

named_theorems wp_simps \<open>equations of the weakest precondition\<close>
named_theorems keeps_intros \<open>structural rules of the frame calculus\<close>
named_theorems api_simps \<open>accessor and setter equations of the API objects\<close>

subsection \<open>Go error values\<close>

text \<open>
  The errors the code distinguishes: \<open>errors.New\<close>/\<open>errors.Errorf\<close>, \<open>errors.Wrap\<close>, the API
  server's status errors (told apart by reason), the client's \<open>AuthSelectionError\<close>. A loop
  that has used up its fuel answers \<open>NotReturned\<close>: it stands for a Go call that has not
  returned, and the termination theorems show where it cannot arise.
\<close>

datatype kube_reason = Conflict | NotFound | OtherReason

datatype goerr =
    ErrorString string
  | Wrapped goerr string
  | KubeError kube_reason string
  | AuthSelectionError string
  | NotReturned

fun Error :: "goerr \<Rightarrow> string" where
  "Error (ErrorString m) = m"
| "Error (Wrapped e m) = m @ '': '' @ Error e"
| "Error (KubeError _ m) = m"
| "Error (AuthSelectionError m) = m"
| "Error NotReturned = ''the call has not returned''"

fun Cause :: "goerr \<Rightarrow> goerr" where
  "Cause (Wrapped e _) = Cause e"
| "Cause e = e"

fun IsConflict :: "goerr option \<Rightarrow> bool" where
  "IsConflict (Some (KubeError Conflict _)) = True"
| "IsConflict (Some (Wrapped e _)) = IsConflict (Some e)"
| "IsConflict _ = False"

fun IsNotFound :: "goerr option \<Rightarrow> bool" where
  "IsNotFound (Some (KubeError NotFound _)) = True"
| "IsNotFound (Some (Wrapped e _)) = IsNotFound (Some e)"
| "IsNotFound _ = False"

definition Wrap :: "goerr option \<Rightarrow> string \<Rightarrow> goerr option" where
  "Wrap e m = map_option (\<lambda>x. Wrapped x m) e"

lemma Wrap_simps [simp]:
  "Wrap None m = None" "Wrap (Some e) m = Some (Wrapped e m)"
  by (simp_all add: Wrap_def)

lemma Wrap_None_iff [simp]: "Wrap e m = None \<longleftrightarrow> e = None"
  by (simp add: Wrap_def)

lemma map_sum_Inr_iff [simp]: "map_sum id f x = Inr y \<longleftrightarrow> (\<exists>z. x = Inr z \<and> y = f z)"
  by (cases x) auto

lemma map_sum_Inl_iff [simp]: "map_sum id f x = Inl e \<longleftrightarrow> x = Inl e"
  by (cases x) auto

text \<open>A call that has not returned, seen through any number of wrappers.\<close>

fun has_not_returned :: "goerr \<Rightarrow> bool" where
  "has_not_returned (Wrapped e _) = has_not_returned e"
| "has_not_returned e = (e = NotReturned)"

subsection \<open>Running effectful functions\<close>

definition wp :: "('s, 'a) state \<Rightarrow> ('a \<Rightarrow> 's \<Rightarrow> bool) \<Rightarrow> 's \<Rightarrow> bool" where
  "wp m Q s = (case run_state m s of (r, s') \<Rightarrow> Q r s')"

lemma wp_return [wp_simps]: "wp (State_Monad.return x) Q s = Q x s"
  by (simp add: wp_def)

lemma wp_return_eta [wp_simps]: "wp (State_Monad.return x) Q = Q x"
  by (simp add: fun_eq_iff wp_return)

lemma wp_bind [wp_simps]: "wp (State_Monad.bind m f) Q s = wp m (\<lambda>x. wp (f x) Q) s"
  by (simp add: wp_def split: prod.splits)

lemma wp_get [wp_simps]: "wp State_Monad.get Q s = Q s s"
  by (simp add: wp_def)

lemma wp_set [wp_simps]: "wp (State_Monad.set t) Q s = Q () t"
  by (simp add: wp_def)

lemma wp_update [wp_simps]: "wp (State_Monad.update f) Q s = Q () (f s)"
  by (simp add: wp_def State_Monad.update_def)

lemma wp_if [wp_simps]: "wp (if b then m else n) Q s = (if b then wp m Q s else wp n Q s)"
  by simp

lemma wp_option [wp_simps]:
  "wp (case x of None \<Rightarrow> m | Some y \<Rightarrow> f y) Q s =
     (case x of None \<Rightarrow> wp m Q s | Some y \<Rightarrow> wp (f y) Q s)"
  by (cases x) simp_all

lemma wp_sum [wp_simps]:
  "wp (case x of Inl e \<Rightarrow> f e | Inr y \<Rightarrow> g y) Q s =
     (case x of Inl e \<Rightarrow> wp (f e) Q s | Inr y \<Rightarrow> wp (g y) Q s)"
  by (cases x) simp_all

lemma wp_prod [wp_simps]:
  "wp (case x of (a, b) \<Rightarrow> f a b) Q s = (case x of (a, b) \<Rightarrow> wp (f a b) Q s)"
  by (cases x) simp

lemma wp_mono:
  assumes "wp m P s" and "\<And>r s'. P r s' \<Longrightarrow> Q r s'"
  shows "wp m Q s"
  using assms by (auto simp: wp_def split: prod.splits)

lemma wp_any: "(\<And>r s'. Q r s') \<Longrightarrow> wp m Q s"
  by (simp add: wp_def split: prod.split)

lemma wp_conj: "wp m P s \<Longrightarrow> wp m Q s \<Longrightarrow> wp m (\<lambda>r s'. P r s' \<and> Q r s') s"
  by (auto simp: wp_def split: prod.splits)

lemma wp_run: "wp m Q s \<Longrightarrow> run_state m s = (r, s') \<Longrightarrow> Q r s'"
  by (simp add: wp_def)

lemma wp_fst_snd: "wp m Q s \<longleftrightarrow> Q (fst (run_state m s)) (snd (run_state m s))"
  by (simp add: wp_def split: prod.splits)

lemma run_state_update [simp]: "run_state (State_Monad.update f) s = ((), f s)"
  by (simp add: State_Monad.update_def)

subsection \<open>The frame calculus\<close>

definition keeps :: "('s \<Rightarrow> 's \<Rightarrow> bool) \<Rightarrow> ('s, 'a) state \<Rightarrow> bool" where
  "keeps R m = (\<forall>s. R s (snd (run_state m s)))"

text \<open>The relations the calculus is used with: reflexive and transitive ones.\<close>

definition preorder_rel :: "('s \<Rightarrow> 's \<Rightarrow> bool) \<Rightarrow> bool" where
  "preorder_rel R \<longleftrightarrow> (\<forall>s. R s s) \<and> (\<forall>s t u. R s t \<longrightarrow> R t u \<longrightarrow> R s u)"

lemma preorder_relI:
  "(\<And>s. R s s) \<Longrightarrow> (\<And>s t u. R s t \<Longrightarrow> R t u \<Longrightarrow> R s u) \<Longrightarrow> preorder_rel R"
  by (auto simp: preorder_rel_def)

lemma preorder_rel_conj [intro]:
  "preorder_rel R \<Longrightarrow> preorder_rel S \<Longrightarrow> preorder_rel (\<lambda>s t. R s t \<and> S s t)"
  unfolding preorder_rel_def by blast

lemma preorder_rel_eq [intro, simp]: "preorder_rel (\<lambda>s t. f s = f t)"
  by (auto simp: preorder_rel_def)

lemma preorder_rel_imp [intro]: "preorder_rel (\<lambda>s t. P s \<longrightarrow> P t)"
  by (auto simp: preorder_rel_def)

lemma keepsD: "keeps R m \<Longrightarrow> run_state m s = (r, s') \<Longrightarrow> R s s'"
  by (auto simp: keeps_def dest: spec [of _ s])

lemma keepsI: "(\<And>s r s'. run_state m s = (r, s') \<Longrightarrow> R s s') \<Longrightarrow> keeps R m"
  by (auto simp: keeps_def) (metis prod.collapse)

lemma keeps_wp: "keeps R m \<longleftrightarrow> (\<forall>s. wp m (\<lambda>_ s'. R s s') s)"
  by (auto simp: keeps_def wp_def split: prod.splits) (metis snd_conv prod.collapse)+

lemma keeps_return [keeps_intros]: "preorder_rel R \<Longrightarrow> keeps R (State_Monad.return x)"
  by (simp add: keeps_def preorder_rel_def)

lemma keeps_get [keeps_intros]: "preorder_rel R \<Longrightarrow> keeps R State_Monad.get"
  by (simp add: keeps_def preorder_rel_def)

lemma keeps_update [keeps_intros]: "(\<And>s. R s (f s)) \<Longrightarrow> keeps R (State_Monad.update f)"
  by (simp add: keeps_def)

lemma keeps_bind [keeps_intros]:
  assumes "preorder_rel R" "keeps R m" "\<And>x. keeps R (f x)"
  shows "keeps R (State_Monad.bind m f)"
proof (rule keepsI)
  fix s r s'
  assume "run_state (State_Monad.bind m f) s = (r, s')"
  then obtain x t where "run_state m s = (x, t)" "run_state (f x) t = (r, s')"
    by (auto split: prod.splits)
  with assms show "R s s'"
    unfolding preorder_rel_def by (meson keepsD)
qed

text \<open>The same with what is known of the first result.\<close>

lemma keeps_bind_result:
  assumes "preorder_rel R" "keeps R m" "\<And>s. wp m (\<lambda>x _. Q x) s" "\<And>x. Q x \<Longrightarrow> keeps R (f x)"
  shows "keeps R (State_Monad.bind m f)"
proof (rule keepsI)
  fix s r s'
  assume "run_state (State_Monad.bind m f) s = (r, s')"
  then obtain x t where x: "run_state m s = (x, t)" "run_state (f x) t = (r, s')"
    by (auto split: prod.splits)
  moreover have "Q x" using wp_run [OF assms(3) x(1)] .
  ultimately show "R s s'"
    using assms(1,2) assms(4) [of x] unfolding preorder_rel_def by (meson keepsD)
qed

lemma keeps_if [keeps_intros]:
  "(b \<Longrightarrow> keeps R m) \<Longrightarrow> (\<not> b \<Longrightarrow> keeps R n) \<Longrightarrow> keeps R (if b then m else n)"
  by simp

lemma keeps_option [keeps_intros]:
  "(x = None \<Longrightarrow> keeps R m) \<Longrightarrow> (\<And>y. x = Some y \<Longrightarrow> keeps R (f y)) \<Longrightarrow>
   keeps R (case x of None \<Rightarrow> m | Some y \<Rightarrow> f y)"
  by (cases x) simp_all

lemma keeps_sum [keeps_intros]:
  "(\<And>e. x = Inl e \<Longrightarrow> keeps R (f e)) \<Longrightarrow> (\<And>y. x = Inr y \<Longrightarrow> keeps R (g y)) \<Longrightarrow>
   keeps R (case x of Inl e \<Rightarrow> f e | Inr y \<Rightarrow> g y)"
  by (cases x) simp_all

lemma keeps_prod [keeps_intros]:
  "(\<And>a b. x = (a, b) \<Longrightarrow> keeps R (f a b)) \<Longrightarrow> keeps R (case x of (a, b) \<Rightarrow> f a b)"
  by (cases x) simp

lemma keeps_Let [keeps_intros]: "keeps R (f x) \<Longrightarrow> keeps R (Let x f)"
  by (simp add: Let_def)

lemma keeps_conj: "keeps R m \<Longrightarrow> keeps S m \<Longrightarrow> keeps (\<lambda>s t. R s t \<and> S s t) m"
  by (simp add: keeps_def)

lemma keeps_mono: "keeps R m \<Longrightarrow> (\<And>s t. R s t \<Longrightarrow> S s t) \<Longrightarrow> keeps S m"
  by (simp add: keeps_def)

subsection \<open>Lists as Go maps\<close>

text \<open>
  A Go map is an association list whose order stands for one iteration order; \<open>map_put\<close> is
  \<open>m[k] = v\<close> and \<open>map_del\<close> is \<open>delete(m, k)\<close>.
\<close>

fun map_put :: "'k \<Rightarrow> 'v \<Rightarrow> ('k \<times> 'v) list \<Rightarrow> ('k \<times> 'v) list" where
  "map_put k v [] = [(k, v)]"
| "map_put k v ((k', v') # m) = (if k = k' then (k, v) # m else (k', v') # map_put k v m)"

definition map_del :: "'k \<Rightarrow> ('k \<times> 'v) list \<Rightarrow> ('k \<times> 'v) list" where
  "map_del k m = filter (\<lambda>p. fst p \<noteq> k) m"

lemma map_of_map_put [simp]: "map_of (map_put k v m) = (map_of m)(k \<mapsto> v)"
  by (induction k v m rule: map_put.induct) auto

lemma map_of_map_del [simp]: "map_of (map_del k m) = (map_of m)(k := None)"
  by (induction m) (auto simp: map_del_def fun_eq_iff)

lemma fst_set_map_put [simp]: "fst ` set (map_put k v m) = insert k (fst ` set m)"
  by (induction k v m rule: map_put.induct) auto

lemma distinct_map_put [simp]:
  "distinct (map fst m) \<Longrightarrow> distinct (map fst (map_put k v m))"
proof (induction k v m rule: map_put.induct)
  case (2 k v k' v' m)
  then show ?case using fst_set_map_put [of k v m] by auto
qed simp

lemma distinct_map_del [simp]: "distinct (map fst m) \<Longrightarrow> distinct (map fst (map_del k m))"
  by (induction m) (auto simp: map_del_def)

end
