(* ===== verification/GoText.thy ===== *)
theory GoText
  imports Prelude
begin

text \<open>
  The part of Go's \<^verbatim>\<open>strings\<close>, \<^verbatim>\<open>strconv\<close>, \<^verbatim>\<open>time\<close> and \<^verbatim>\<open>fmt\<close> packages that the code uses, on strings
  as lists of bytes. Strings are taken to be UTF-8, and a byte of 128 or more is never a
  delimiter, a digit or white space, as in UTF-8. Durations and instants are \<open>int\<close> counts of
  nanoseconds; the code's durations come from \<^verbatim>\<open>time.ParseDuration\<close>, which refuses a value
  outside \<open>int64\<close>, and the arithmetic on them (a deadline, a budget) stays inside it.
\<close>

subsection \<open>strings\<close>

fun has_prefix :: "string \<Rightarrow> string \<Rightarrow> bool" where
  "has_prefix [] s = True"
| "has_prefix (p # ps) [] = False"
| "has_prefix (p # ps) (c # cs) = (p = c \<and> has_prefix ps cs)"

text \<open>\<open>str_contains s sub\<close> is \<^verbatim>\<open>strings.Contains(s, sub)\<close>.\<close>

fun str_contains :: "string \<Rightarrow> string \<Rightarrow> bool" where
  "str_contains [] sub = (sub = [])"
| "str_contains (c # cs) sub = (has_prefix sub (c # cs) \<or> str_contains cs sub)"

text \<open>
  \<^verbatim>\<open>strings.ReplaceAll(s, old, new)\<close> for a non-empty \<open>old\<close>: left to right, occurrences that do
  not overlap. For an empty \<open>old\<close> Go inserts \<open>new\<close> around every character; the code never
  passes one, and \<open>replace_all\<close> leaves the string alone.
\<close>

function replace_all :: "string \<Rightarrow> string \<Rightarrow> string \<Rightarrow> string" where
  "replace_all old new [] = []"
| "replace_all old new (c # cs) =
     (if old \<noteq> [] \<and> has_prefix old (c # cs)
      then new @ replace_all old new (drop (length old) (c # cs))
      else c # replace_all old new cs)"
  by pat_completeness auto
termination
  by (relation "measure (\<lambda>(old, new, s). length s)") auto

definition is_space :: "char \<Rightarrow> bool" where
  "is_space c \<longleftrightarrow> c \<in> {CHR 0x20, CHR 0x09, CHR 0x0A, CHR 0x0B, CHR 0x0C, CHR 0x0D}"

text \<open>\<^verbatim>\<open>strings.Fields\<close>: the maximal runs of bytes that are not white space.\<close>

fun fields_acc :: "string \<Rightarrow> string \<Rightarrow> string list" where
  "fields_acc acc [] = (if acc = [] then [] else [rev acc])"
| "fields_acc acc (c # cs) =
     (if is_space c then (if acc = [] then fields_acc [] cs else rev acc # fields_acc [] cs)
      else fields_acc (c # acc) cs)"

definition str_fields :: "string \<Rightarrow> string list" where
  "str_fields s = fields_acc [] s"

fun str_join :: "string list \<Rightarrow> string \<Rightarrow> string" where
  "str_join [] sep = []"
| "str_join [x] sep = x"
| "str_join (x # xs) sep = x @ sep @ str_join xs sep"

text \<open>\<^verbatim>\<open>strings.TrimSpace\<close>.\<close>

definition trim_space :: "string \<Rightarrow> string" where
  "trim_space s = rev (dropWhile is_space (rev (dropWhile is_space s)))"

lemma has_prefix_append [simp]: "has_prefix p (p @ s)"
  by (induction p) auto

lemma has_prefix_iff: "has_prefix p s \<longleftrightarrow> (\<exists>t. s = p @ t)"
  by (induction p s rule: has_prefix.induct) auto

lemma str_contains_iff: "str_contains s sub \<longleftrightarrow> (\<exists>a b. s = a @ sub @ b)"
proof (induction s sub rule: str_contains.induct)
  case (1 sub)
  then show ?case by auto
next
  case (2 c cs sub)
  have "(\<exists>a b. c # cs = a @ sub @ b) \<longleftrightarrow>
        (\<exists>b. c # cs = sub @ b) \<or> (\<exists>a b. cs = a @ sub @ b)" (is "?l \<longleftrightarrow> ?r")
  proof
    assume ?l
    then obtain a b where ab: "c # cs = a @ sub @ b" by blast
    then show ?r by (cases a) auto
  next
    assume ?r
    then show ?l
    proof
      assume "\<exists>b. c # cs = sub @ b"
      then show ?l by (metis append_Nil)
    next
      assume "\<exists>a b. cs = a @ sub @ b"
      then show ?l by (metis append_Cons)
    qed
  qed
  with 2 show ?case by (simp only: str_contains.simps has_prefix_iff)
qed

lemma str_contains_Nil [simp]: "str_contains s []"
  by (cases s) auto

lemma str_contains_append: "str_contains s sub \<Longrightarrow> str_contains (a @ s @ b) sub"
proof -
  assume "str_contains s sub"
  then obtain x y where "s = x @ sub @ y" unfolding str_contains_iff by blast
  then have "a @ s @ b = (a @ x) @ sub @ (y @ b)" by simp
  then show ?thesis unfolding str_contains_iff by blast
qed

lemma replace_all_absent: "\<not> str_contains s old \<Longrightarrow> replace_all old new s = s"
  by (induction old new s rule: replace_all.induct) auto

definition no_space :: "string \<Rightarrow> bool" where
  "no_space x = list_all (\<lambda>c. \<not> is_space c) x"

lemma no_space_simps [simp]:
  "no_space []" "no_space (c # x) \<longleftrightarrow> \<not> is_space c \<and> no_space x"
  "no_space (rev x) = no_space x"
  by (simp_all add: no_space_def list_all_iff)

lemma fields_acc_no_space:
  "no_space acc \<Longrightarrow> x \<in> set (fields_acc acc s) \<Longrightarrow> x \<noteq> [] \<and> no_space x"
  by (induction acc s rule: fields_acc.induct) (auto split: if_splits)

lemma str_fields_no_space:
  "x \<in> set (str_fields s) \<Longrightarrow> x \<noteq> [] \<and> no_space x"
  using fields_acc_no_space [of "[]" x s] by (simp add: str_fields_def)

lemma fields_acc_word:
  "no_space x \<Longrightarrow> fields_acc acc (x @ s) = fields_acc (rev x @ acc) s"
  by (induction x arbitrary: acc) auto

lemma is_space_blank [simp]: "is_space (CHR '' '')"
  by (simp add: is_space_def)

lemma str_fields_join:
  "list_all (\<lambda>x. x \<noteq> [] \<and> no_space x) xs \<Longrightarrow> str_fields (str_join xs '' '') = xs"
proof (induction xs rule: induct_list012)
  case (2 x)
  then show ?case using fields_acc_word [of x "[]" "[]"] by (simp add: str_fields_def)
next
  case (3 x y zs)
  then show ?case
    using fields_acc_word [of x "[]" "'' '' @ str_join (y # zs) '' ''"]
    by (simp add: str_fields_def)
qed (simp add: str_fields_def)

subsection \<open>strconv and fmt\<close>

definition digit_char :: "int \<Rightarrow> char" where
  "digit_char d = char_of (48 + d)"

function nat_digits :: "int \<Rightarrow> string" where
  "nat_digits n = (if n < 10 then [digit_char n] else nat_digits (n div 10) @ [digit_char (n mod 10)])"
  by pat_completeness auto
termination
  by (relation "measure nat") auto

declare nat_digits.simps [simp del]

text \<open>\<^verbatim>\<open>strconv.Itoa\<close>.\<close>

definition itoa :: "int \<Rightarrow> string" where
  "itoa i = (if i < 0 then ''-'' @ nat_digits (- i) else nat_digits i)"

definition is_digit :: "char \<Rightarrow> bool" where
  "is_digit c \<longleftrightarrow> 48 \<le> (of_char c :: int) \<and> (of_char c :: int) \<le> 57"

definition digit_val :: "char \<Rightarrow> int" where
  "digit_val c = of_char c - 48"

definition digits_val :: "string \<Rightarrow> int" where
  "digits_val ds = foldl (\<lambda>n c. 10 * n + digit_val c) 0 ds"

lemma of_char_char_of_int: "0 \<le> (i::int) \<Longrightarrow> i < 256 \<Longrightarrow> of_char (char_of i :: char) = i"
  by simp

lemma digit_char_val [simp]: "0 \<le> d \<Longrightarrow> d < 10 \<Longrightarrow> digit_val (digit_char d) = d"
  by (simp add: digit_val_def digit_char_def)

lemma is_digit_char [simp]: "0 \<le> d \<Longrightarrow> d < 10 \<Longrightarrow> is_digit (digit_char d)"
  by (simp add: is_digit_def digit_char_def)

definition all_digits :: "string \<Rightarrow> bool" where
  "all_digits s = list_all is_digit s"

lemma all_digits_simps [simp]:
  "all_digits []" "all_digits (c # s) \<longleftrightarrow> is_digit c \<and> all_digits s"
  "all_digits (s @ t) \<longleftrightarrow> all_digits s \<and> all_digits t"
  by (simp_all add: all_digits_def)

lemma all_digits_hd: "all_digits s \<Longrightarrow> s \<noteq> [] \<Longrightarrow> is_digit (hd s)"
  by (cases s) auto

lemma nat_digits_digits [simp]: "0 \<le> n \<Longrightarrow> all_digits (nat_digits n)"
proof (induction n rule: nat_digits.induct)
  case (1 n)
  then show ?case by (subst nat_digits.simps) auto
qed

lemma nat_digits_not_Nil [simp]: "nat_digits n \<noteq> []"
  by (subst nat_digits.simps) simp

lemma digits_val_snoc [simp]: "digits_val (s @ [c]) = 10 * digits_val s + digit_val c"
  by (simp add: digits_val_def)

lemma digits_val_nat_digits [simp]: "0 \<le> n \<Longrightarrow> digits_val (nat_digits n) = n"
proof (induction n rule: nat_digits.induct)
  case (1 n)
  show ?case
  proof (cases "n < 10")
    case True
    with 1 show ?thesis by (subst nat_digits.simps) (simp add: digits_val_def)
  next
    case False
    with 1 show ?thesis by (subst nat_digits.simps) simp
  qed
qed

lemma digit_val_nonneg: "is_digit c \<Longrightarrow> 0 \<le> digit_val c"
  by (simp add: is_digit_def digit_val_def)

lemma digits_val_nonneg [simp]: "all_digits s \<Longrightarrow> 0 \<le> digits_val s"
proof (induction s rule: rev_induct)
  case (snoc c s)
  then show ?case using digit_val_nonneg [of c] by simp
qed (simp add: digits_val_def)

lemma itoa_not_Nil [simp]: "itoa i \<noteq> []"
  by (simp add: itoa_def)

definition hex_digit :: "int \<Rightarrow> char" where
  "hex_digit d = (if d < 10 then char_of (48 + d) else char_of (87 + d))"

text \<open>
  \<^verbatim>\<open>%q\<close> of a string: \<^verbatim>\<open>strconv.Quote\<close>. Bytes of 128 and more are kept (they are taken to belong to
  printable characters).
\<close>

definition quote_char :: "char \<Rightarrow> string" where
  "quote_char c =
     (if c = CHR 0x22 then [CHR 0x5C, CHR 0x22]
      else if c = CHR 0x5C then [CHR 0x5C, CHR 0x5C]
      else if c = CHR 0x07 then [CHR 0x5C, CHR ''a'']
      else if c = CHR 0x08 then [CHR 0x5C, CHR ''b'']
      else if c = CHR 0x0C then [CHR 0x5C, CHR ''f'']
      else if c = CHR 0x0A then [CHR 0x5C, CHR ''n'']
      else if c = CHR 0x0D then [CHR 0x5C, CHR ''r'']
      else if c = CHR 0x09 then [CHR 0x5C, CHR ''t'']
      else if c = CHR 0x0B then [CHR 0x5C, CHR ''v'']
      else if (of_char c :: int) < 32 \<or> c = CHR 0x7F
        then [CHR 0x5C, CHR ''x'', hex_digit (of_char c div 16), hex_digit (of_char c mod 16)]
      else [c])"

definition go_quote :: "string \<Rightarrow> string" where
  "go_quote s = [CHR 0x22] @ concat (map quote_char s) @ [CHR 0x22]"

lemma go_quote_not_Nil [simp]: "go_quote s \<noteq> []"
  by (simp add: go_quote_def)

end
