(* ===== verification/GoTime.thy ===== *)
theory GoTime
  imports GoText
begin

text \<open>
  Durations and instants (\<^verbatim>\<open>time\<close>): parsing and printing of durations, the RFC 3339 form of an
  instant, and the API's own \<open>ParseDuration\<close> with its default (\<^verbatim>\<open>apis/common/duration.go\<close>). An
  instant is the number of nanoseconds since 1970-01-01 UTC. The fraction of a duration is
  computed exactly; Go computes it in \<open>float64\<close> and truncates, which agrees for the lengths of
  fraction people write.
\<close>

abbreviation microsecond :: int where "microsecond \<equiv> 1000"
abbreviation millisecond :: int where "millisecond \<equiv> 1000000"
abbreviation second :: int where "second \<equiv> 1000000000"
abbreviation minute :: int where "minute \<equiv> 60000000000"
abbreviation hour :: int where "hour \<equiv> 3600000000000"

subsection \<open>time.ParseDuration\<close>

definition span :: "(char \<Rightarrow> bool) \<Rightarrow> string \<Rightarrow> string \<times> string" where
  "span p s = (takeWhile p s, dropWhile p s)"

definition unit_of :: "string \<Rightarrow> int option" where
  "unit_of u =
     (if u = ''ns'' then Some 1
      else if u = ''us'' then Some microsecond
      else if u = [CHR 0xC2, CHR 0xB5, CHR ''s''] then Some microsecond
      else if u = [CHR 0xCE, CHR 0xBC, CHR ''s''] then Some microsecond
      else if u = ''ms'' then Some millisecond
      else if u = ''s'' then Some second
      else if u = ''m'' then Some minute
      else if u = ''h'' then Some hour
      else None)"

definition frac_part :: "string \<Rightarrow> string \<times> string" where
  "frac_part s =
     (case s of [] \<Rightarrow> ([], []) | c # r \<Rightarrow> if c = CHR ''.'' then span is_digit r else ([], s))"

definition unit_char :: "char \<Rightarrow> bool" where
  "unit_char c \<longleftrightarrow> c \<noteq> CHR ''.'' \<and> \<not> is_digit c"

text \<open>One number with its unit: its value in nanoseconds and the rest of the text.\<close>

definition duration_part :: "string \<Rightarrow> (int \<times> string) option" where
  "duration_part s =
     (let (ds, r1) = span is_digit s;
          (fs, r2) = frac_part r1;
          (u, r3) = span unit_char r2
      in if (ds = [] \<and> fs = []) \<or> u = [] then None
         else case unit_of u of
           None \<Rightarrow> None
         | Some n \<Rightarrow>
             let v = digits_val ds * n + digits_val fs * n div 10 ^ length fs
             in if v > 2 ^ 63 then None else Some (v, r3))"

lemma dropWhile_length: "length (dropWhile p s) \<le> length s"
  by (induction s) auto

lemma span_length: "length (snd (span p s)) \<le> length s"
  by (simp add: span_def dropWhile_length)

lemma span_length_less: "fst (span p s) \<noteq> [] \<Longrightarrow> length (snd (span p s)) < length s"
  by (cases s) (auto simp: span_def dropWhile_length le_imp_less_Suc split: if_splits)

lemma frac_part_length: "length (snd (frac_part s)) \<le> length s"
  by (auto simp: frac_part_def span_length le_SucI split: list.splits)

lemma duration_part_shorter:
  assumes "duration_part s = Some (v, r)"
  shows "length r < length s"
proof -
  obtain ds r1 where r1: "span is_digit s = (ds, r1)" by fastforce
  obtain fs r2 where r2: "frac_part r1 = (fs, r2)" by fastforce
  obtain u r3 where r3: "span unit_char r2 = (u, r3)" by fastforce
  have "u \<noteq> [] \<and> r = r3"
    using assms unfolding duration_part_def r1 Let_def prod.case r2 r3
    by (auto split: if_splits option.splits)
  then have "length r < length r2"
    using span_length_less [of unit_char r2] r3 by simp
  moreover have "length r2 \<le> length r1" using frac_part_length [of r1] r2 by simp
  moreover have "length r1 \<le> length s" using span_length [of is_digit s] r1 by simp
  ultimately show ?thesis by simp
qed

lemma all_digits_takeWhile [simp]: "all_digits (takeWhile is_digit s)"
  by (induction s) auto

lemma duration_part_nonneg:
  assumes "duration_part s = Some (v, r)"
  shows "0 \<le> v"
proof -
  obtain ds r1 where r1: "span is_digit s = (ds, r1)" by fastforce
  obtain fs r2 where r2: "frac_part r1 = (fs, r2)" by fastforce
  obtain u r3 where r3: "span unit_char r2 = (u, r3)" by fastforce
  obtain n where n: "unit_of u = Some n"
    and v: "v = digits_val ds * n + digits_val fs * n div 10 ^ length fs"
    using assms unfolding duration_part_def r1 Let_def prod.case r2 r3
    by (auto split: if_splits option.splits)
  have "0 \<le> n" using n by (auto simp: unit_of_def split: if_splits)
  moreover have "all_digits ds" using r1 by (auto simp: span_def)
  moreover have "all_digits fs"
    using r2 by (auto simp: frac_part_def span_def split: list.splits if_splits)
  ultimately show ?thesis
    unfolding v by (intro add_nonneg_nonneg mult_nonneg_nonneg pos_imp_zdiv_nonneg_iff [THEN iffD2]) auto
qed

function duration_parts :: "int \<Rightarrow> string \<Rightarrow> int option" where
  "duration_parts d [] = Some d"
| "duration_parts d (c # cs) =
     (case duration_part (c # cs) of
        None \<Rightarrow> None
      | Some (v, r) \<Rightarrow> if d + v > 2 ^ 63 then None else duration_parts (d + v) r)"
  by pat_completeness auto
termination
  by (relation "measure (\<lambda>(d, s). length s)") (auto dest: duration_part_shorter)

definition go_parse_duration :: "string \<Rightarrow> int option" where
  "go_parse_duration s =
     (let neg = has_prefix ''-'' s;
          s' = (if neg \<or> has_prefix ''+'' s then drop 1 s else s)
      in if s' = ''0'' then Some 0
         else if s' = [] then None
         else case duration_parts 0 s' of
                None \<Rightarrow> None
              | Some d \<Rightarrow> if neg then Some (- d)
                          else if d > 2 ^ 63 - 1 then None else Some d)"

text \<open>\<^verbatim>\<open>common.ParseDuration\<close>: the default for an absent, empty or malformed text.\<close>

definition ParseDuration :: "string option \<Rightarrow> int \<Rightarrow> int" where
  "ParseDuration s dflt =
     (case s of
        None \<Rightarrow> dflt
      | Some t \<Rightarrow>
          if t = [] then dflt
          else (case go_parse_duration t of None \<Rightarrow> dflt | Some d \<Rightarrow> d))"

subsection \<open>Duration.String\<close>

text \<open>
  \<open>frac_digits v n\<close> prints \<open>v\<close> (below \<open>10 ^ n\<close>) as a fraction of \<open>n\<close> digits without its
  trailing zeros, with the leading point, or nothing when \<open>v\<close> is 0.
\<close>

definition pad_left :: "nat \<Rightarrow> string \<Rightarrow> string" where
  "pad_left n s = replicate (n - length s) (CHR ''0'') @ s"

definition frac_digits :: "int \<Rightarrow> nat \<Rightarrow> string" where
  "frac_digits v n =
     (if v = 0 then []
      else CHR ''.'' # rev (dropWhile (\<lambda>c. c = CHR ''0'') (rev (pad_left n (nat_digits v)))))"

definition duration_string :: "int \<Rightarrow> string" where
  "duration_string d =
     (let u = \<bar>d\<bar>; sign = (if d < 0 then ''-'' else [])
      in if u = 0 then ''0s''
         else if u < 1000 then sign @ nat_digits u @ ''ns''
         else if u < 1000000
           then sign @ nat_digits (u div 1000) @ frac_digits (u mod 1000) 3 @ [CHR 0xC2, CHR 0xB5, CHR ''s'']
         else if u < 1000000000
           then sign @ nat_digits (u div 1000000) @ frac_digits (u mod 1000000) 6 @ ''ms''
         else
           let secs = u div 1000000000; frac = frac_digits (u mod 1000000000) 9;
               mins = secs div 60; hrs = mins div 60
           in sign @ (if hrs > 0 then nat_digits hrs @ ''h'' else [])
                   @ (if mins > 0 then nat_digits (mins mod 60) @ ''m'' else [])
                   @ nat_digits (secs mod 60) @ frac @ ''s'')"

subsection \<open>RFC 3339\<close>

definition civil_from_days :: "int \<Rightarrow> int \<times> int \<times> int" where
  "civil_from_days z0 =
     (let z = z0 + 719468; era = z div 146097; doe = z mod 146097;
          yoe = (doe - doe div 1460 + doe div 36524 - doe div 146096) div 365;
          doy = doe - (365 * yoe + yoe div 4 - yoe div 100);
          mp = (5 * doy + 2) div 153;
          d = doy - (153 * mp + 2) div 5 + 1;
          m = (if mp < 10 then mp + 3 else mp - 9);
          y = yoe + era * 400 + (if m \<le> 2 then 1 else 0)
      in (y, m, d))"

definition pad2 :: "int \<Rightarrow> string" where
  "pad2 n = pad_left 2 (itoa n)"

definition rfc3339 :: "int \<Rightarrow> string" where
  "rfc3339 t =
     (let secs = t div second; days = secs div 86400; sod = secs mod 86400;
          (y, m, d) = civil_from_days days
      in pad_left 4 (itoa y) @ ''-'' @ pad2 m @ ''-'' @ pad2 d @ ''T'' @
         pad2 (sod div 3600) @ '':'' @ pad2 (sod mod 3600 div 60) @ '':'' @ pad2 (sod mod 60) @ ''Z'')"

subsection \<open>Facts\<close>

lemma ParseDuration_absent [simp]: "ParseDuration None d = d" "ParseDuration (Some []) d = d"
  by (simp_all add: ParseDuration_def)

lemma duration_parts_nonneg: "0 \<le> d \<Longrightarrow> duration_parts d s = Some r \<Longrightarrow> 0 \<le> r \<and> r \<le> 2 ^ 63 \<or> r = d"
proof (induction d s rule: duration_parts.induct)
  case (2 d c cs)
  then obtain v q where part: "duration_part (c # cs) = Some (v, q)"
    and small: "\<not> d + v > 2 ^ 63" and rest: "duration_parts (d + v) q = Some r"
    by (auto split: option.splits prod.splits if_splits)
  have "0 \<le> v" using part by (rule duration_part_nonneg)
  then have "0 \<le> r \<and> r \<le> 2 ^ 63 \<or> r = d + v"
    using "2.IH" [OF part refl small] rest "2.prems"(1) by simp
  then show ?case using small \<open>0 \<le> v\<close> "2.prems"(1) by auto
qed simp

text \<open>A parsed duration is a value of \<open>int64\<close>.\<close>

lemma go_parse_duration_int64:
  assumes "go_parse_duration s = Some d"
  shows "- (2 ^ 63) \<le> d \<and> d < 2 ^ 63"
proof -
  let ?s = "if has_prefix ''-'' s \<or> has_prefix ''+'' s then drop 1 s else s"
  show ?thesis
  proof (cases "?s = ''0''")
    case True
    with assms show ?thesis by (auto simp: go_parse_duration_def Let_def)
  next
    case False
    with assms obtain v where v: "duration_parts 0 ?s = Some v"
      and d: "d = (if has_prefix ''-'' s then - v else v)"
      and top: "has_prefix ''-'' s \<or> \<not> v > 2 ^ 63 - 1"
      unfolding go_parse_duration_def Let_def by (auto split: option.splits if_splits)
    from duration_parts_nonneg [OF _ v] have "0 \<le> v \<and> v \<le> 2 ^ 63" by auto
    with d top show ?thesis by auto
  qed
qed

end
