(* ===== verification/GoJson.thy ===== *)
theory GoJson
  imports GoText
begin

text \<open>
  The values of Go's \<^verbatim>\<open>interface{}\<close> that come from JSON, with the part of \<^verbatim>\<open>encoding/json\<close> and
  \<^verbatim>\<open>fmt\<close> the code uses on them: \<open>json_marshal\<close>, \<open>json_unmarshal\<close> and \<open>go_sprint\<close>.

  A \<open>float64\<close> is the exact decimal \<open>m * 10 ^ e\<close> (\<open>JNum m e\<close>, without trailing zeros in \<open>m\<close>),
  which is what Go prints back for a number of up to 15 significant digits; the rounding of
  longer literals and the negative zero are not modelled. \<open>JInt\<close> is a Go \<open>int\<close> or \<^verbatim>\<open>*big.Int\<close>,
  which only the jq engine produces, and \<open>JNilMap\<close> is a nil \<^verbatim>\<open>map[string]interface{}\<close> stored in an
  interface (what decoding the text \<^verbatim>\<open>null\<close> into a map gives). Text is UTF-8; Go's replacement
  of invalid bytes and its escapes for U+2028 and U+2029 are not modelled.
\<close>

datatype json =
    JNull
  | JBool bool
  | JNum int int
  | JInt int
  | JStr string
  | JArr "json list"
  | JObj "(string \<times> json) list"
  | JNilMap

subsection \<open>Numbers\<close>

function num_normal :: "int \<Rightarrow> int \<Rightarrow> int \<times> int" where
  "num_normal m e =
     (if m = 0 then (0, 0) else if m mod 10 = 0 then num_normal (m div 10) (e + 1) else (m, e))"
  by pat_completeness auto
termination
proof (relation "measure (\<lambda>(m, e). nat \<bar>m\<bar>)")
  fix m e :: int
  assume "m \<noteq> 0" "m mod 10 = 0"
  then have "m = 10 * (m div 10)" and "m div 10 \<noteq> 0" by auto
  then have "\<bar>m div 10\<bar> < \<bar>m\<bar>" by linarith
  then show "((m div 10, e + 1), (m, e)) \<in> measure (\<lambda>(m, e). nat \<bar>m\<bar>)" by simp
qed simp

declare num_normal.simps [simp del]

definition num_wf :: "int \<Rightarrow> int \<Rightarrow> bool" where
  "num_wf m e \<longleftrightarrow> num_normal m e = (m, e)"

definition mk_num :: "int \<Rightarrow> int \<Rightarrow> json" where
  "mk_num m e = (case num_normal m e of (m', e') \<Rightarrow> JNum m' e')"

text \<open>
  The digits of a number and the position of its point: \<open>0.d1d2... * 10 ^ dp\<close>.
  \<open>num_plain\<close> is \<^verbatim>\<open>strconv.FormatFloat(x, 'f', -1, 64)\<close>; \<open>num_json\<close> is the form \<^verbatim>\<open>encoding/json\<close>
  prints, with an exponent below 1e-6 and from 1e21 on; \<open>num_sprint\<close> is \<^verbatim>\<open>fmt.Sprint\<close>'s \<^verbatim>\<open>%v\<close>, with
  an exponent below 1e-4 and from 1e6 on.
\<close>

definition num_sign :: "int \<Rightarrow> string" where
  "num_sign m = (if m < 0 then ''-'' else [])"

definition num_plain :: "int \<Rightarrow> int \<Rightarrow> string" where
  "num_plain m e =
     (let ds = nat_digits \<bar>m\<bar>; dp = int (length ds) + e
      in num_sign m @
         (if dp \<le> 0 then ''0.'' @ replicate (nat (- dp)) (CHR ''0'') @ ds
          else if dp < int (length ds) then take (nat dp) ds @ ''.'' @ drop (nat dp) ds
          else ds @ replicate (nat e) (CHR ''0'')))"

definition num_mantissa :: "int \<Rightarrow> string" where
  "num_mantissa m =
     (case nat_digits \<bar>m\<bar> of [] \<Rightarrow> [] | [d] \<Rightarrow> [d] | d # ds \<Rightarrow> d # CHR ''.'' # ds)"

definition num_exp10 :: "int \<Rightarrow> int \<Rightarrow> int" where
  "num_exp10 m e = int (length (nat_digits \<bar>m\<bar>)) + e - 1"

definition num_json :: "int \<Rightarrow> int \<Rightarrow> string" where
  "num_json m e =
     (let x = num_exp10 m e
      in if m \<noteq> 0 \<and> (x < - 6 \<or> 21 \<le> x)
         then num_sign m @ num_mantissa m @ ''e'' @ (if x < 0 then ''-'' else ''+'') @ nat_digits \<bar>x\<bar>
         else num_plain m e)"

definition num_sprint :: "int \<Rightarrow> int \<Rightarrow> string" where
  "num_sprint m e =
     (let x = num_exp10 m e
      in if m \<noteq> 0 \<and> (x < - 4 \<or> 6 \<le> x)
         then num_sign m @ num_mantissa m @ ''e'' @ (if x < 0 then ''-'' else ''+'') @
              (if \<bar>x\<bar> < 10 then ''0'' else []) @ nat_digits \<bar>x\<bar>
         else num_plain m e)"

subsection \<open>json.Marshal\<close>

definition json_escape :: "char \<Rightarrow> string" where
  "json_escape c =
     (if c = CHR 0x22 then [CHR 0x5C, CHR 0x22]
      else if c = CHR 0x5C then [CHR 0x5C, CHR 0x5C]
      else if c = CHR 0x08 then [CHR 0x5C, CHR ''b'']
      else if c = CHR 0x0C then [CHR 0x5C, CHR ''f'']
      else if c = CHR 0x0A then [CHR 0x5C, CHR ''n'']
      else if c = CHR 0x0D then [CHR 0x5C, CHR ''r'']
      else if c = CHR 0x09 then [CHR 0x5C, CHR ''t'']
      else if (of_char c :: int) < 32 \<or> c \<in> {CHR ''<'', CHR ''>'', CHR ''&''}
        then [CHR 0x5C, CHR ''u'', CHR ''0'', CHR ''0'',
              hex_digit (of_char c div 16), hex_digit (of_char c mod 16)]
      else [c])"

definition json_quote :: "string \<Rightarrow> string" where
  "json_quote s = CHR 0x22 # concat (map json_escape s) @ [CHR 0x22]"

definition sort_fields :: "(string \<times> 'a) list \<Rightarrow> (string \<times> 'a) list" where
  "sort_fields = sort_key fst"

fun json_marshal :: "json \<Rightarrow> string" where
  "json_marshal JNull = ''null''"
| "json_marshal JNilMap = ''null''"
| "json_marshal (JBool b) = (if b then ''true'' else ''false'')"
| "json_marshal (JNum m e) = num_json m e"
| "json_marshal (JInt i) = itoa i"
| "json_marshal (JStr s) = json_quote s"
| "json_marshal (JArr xs) = ''['' @ str_join (map json_marshal xs) '','' @ '']''"
| "json_marshal (JObj fs) =
     ''{'' @ str_join (map (\<lambda>(k, t). json_quote k @ '':'' @ t)
                        (sort_fields (map (\<lambda>(k, v). (k, json_marshal v)) fs))) '','' @ ''}''"

subsection \<open>json.Unmarshal\<close>

definition is_json_space :: "char \<Rightarrow> bool" where
  "is_json_space c \<longleftrightarrow> c \<in> {CHR 0x20, CHR 0x09, CHR 0x0A, CHR 0x0D}"

definition skip_ws :: "string \<Rightarrow> string" where
  "skip_ws s = dropWhile is_json_space s"

definition hex_val :: "char \<Rightarrow> int option" where
  "hex_val c =
     (let n = (of_char c :: int)
      in if 48 \<le> n \<and> n \<le> 57 then Some (n - 48)
         else if 97 \<le> n \<and> n \<le> 102 then Some (n - 87)
         else if 65 \<le> n \<and> n \<le> 70 then Some (n - 55)
         else None)"

definition hex4 :: "char \<Rightarrow> char \<Rightarrow> char \<Rightarrow> char \<Rightarrow> int option" where
  "hex4 a b c d =
     (case (hex_val a, hex_val b, hex_val c, hex_val d) of
        (Some w, Some x, Some y, Some z) \<Rightarrow> Some (((w * 16 + x) * 16 + y) * 16 + z)
      | _ \<Rightarrow> None)"

definition utf8_encode :: "int \<Rightarrow> string" where
  "utf8_encode n =
     (if n < 128 then [char_of n]
      else if n < 2048 then [char_of (192 + n div 64), char_of (128 + n mod 64)]
      else if n < 65536 then
        [char_of (224 + n div 4096), char_of (128 + n div 64 mod 64), char_of (128 + n mod 64)]
      else
        [char_of (240 + n div 262144), char_of (128 + n div 4096 mod 64),
         char_of (128 + n div 64 mod 64), char_of (128 + n mod 64)])"

text \<open>
  \<open>parse_str s\<close> reads the inside of a string up to its closing quote. A lone surrogate becomes
  U+FFFD and a pair becomes the character it encodes, as Go does.
\<close>

definition is_high_surrogate :: "int \<Rightarrow> bool" where
  "is_high_surrogate n \<longleftrightarrow> 55296 \<le> n \<and> n \<le> 56319"

definition is_low_surrogate :: "int \<Rightarrow> bool" where
  "is_low_surrogate n \<longleftrightarrow> 56320 \<le> n \<and> n \<le> 57343"

definition low_surrogate_at :: "string \<Rightarrow> int option" where
  "low_surrogate_at s =
     (case s of
        p # q # a # b # c # d # _ \<Rightarrow>
          if p = CHR 0x5C \<and> q = CHR ''u'' then
            (case hex4 a b c d of
               Some n \<Rightarrow> if is_low_surrogate n then Some n else None
             | None \<Rightarrow> None)
          else None
      | _ \<Rightarrow> None)"

definition simple_escape :: "char \<Rightarrow> char option" where
  "simple_escape e =
     (if e = CHR 0x22 then Some (CHR 0x22)
      else if e = CHR 0x5C then Some (CHR 0x5C)
      else if e = CHR ''/'' then Some (CHR ''/'')
      else if e = CHR ''b'' then Some (CHR 0x08)
      else if e = CHR ''f'' then Some (CHR 0x0C)
      else if e = CHR ''n'' then Some (CHR 0x0A)
      else if e = CHR ''r'' then Some (CHR 0x0D)
      else if e = CHR ''t'' then Some (CHR 0x09)
      else None)"

function parse_str :: "string \<Rightarrow> (string \<times> string) option" where
  "parse_str [] = None"
| "parse_str (c # cs) =
     (if c = CHR 0x22 then Some ([], cs)
      else if (of_char c :: int) < 32 then None
      else if c \<noteq> CHR 0x5C then map_option (\<lambda>(t, r). (c # t, r)) (parse_str cs)
      else case cs of
        [] \<Rightarrow> None
      | e # r \<Rightarrow>
          if e = CHR ''u'' then
            (case r of
               x # y # z # w # r' \<Rightarrow>
                 (case hex4 x y z w of
                    None \<Rightarrow> None
                  | Some n \<Rightarrow>
                      if is_high_surrogate n \<and> low_surrogate_at r' \<noteq> None
                      then map_option
                             (\<lambda>(t, q). (utf8_encode (65536 + (n - 55296) * 1024 +
                                           (the (low_surrogate_at r') - 56320)) @ t, q))
                             (parse_str (drop 6 r'))
                      else map_option
                             (\<lambda>(t, q). (utf8_encode (if is_high_surrogate n \<or> is_low_surrogate n
                                                       then 65533 else n) @ t, q))
                             (parse_str r'))
             | _ \<Rightarrow> None)
          else
            (case simple_escape e of
               None \<Rightarrow> None
             | Some x \<Rightarrow> map_option (\<lambda>(t, q). (x # t, q)) (parse_str r)))"
  by pat_completeness auto
termination
  by (relation "measure length") auto

text \<open>
  A number literal: sign, integer part without leading zeros, fraction, exponent. A value that
  rounds to infinity is refused.
\<close>

definition num_overflows :: "int \<Rightarrow> int \<Rightarrow> bool" where
  "num_overflows m e \<longleftrightarrow>
     308 \<le> num_exp10 m e \<and>
     (309 \<le> num_exp10 m e \<or>
      (2 ^ 1024 - 2 ^ 970) * 10 ^ nat (- e) \<le> \<bar>m\<bar> * 10 ^ nat e)"

definition parse_sign :: "string \<Rightarrow> bool \<times> string" where
  "parse_sign s = (if has_prefix ''-'' s then (True, drop 1 s) else (False, s))"

definition parse_frac :: "string \<Rightarrow> (string \<times> string) option" where
  "parse_frac s =
     (if \<not> has_prefix ''.'' s then Some ([], s)
      else if takeWhile is_digit (drop 1 s) = [] then None
      else Some (takeWhile is_digit (drop 1 s), dropWhile is_digit (drop 1 s)))"

definition parse_exp :: "string \<Rightarrow> (int \<times> string) option" where
  "parse_exp s =
     (if \<not> (has_prefix ''e'' s \<or> has_prefix ''E'' s) then Some (0, s)
      else
        let (neg, s1) = (if has_prefix ''+'' (drop 1 s) then (False, drop 2 s) else parse_sign (drop 1 s))
        in if takeWhile is_digit s1 = [] then None
           else Some (if neg then - digits_val (takeWhile is_digit s1) else digits_val (takeWhile is_digit s1),
                      dropWhile is_digit s1))"

definition parse_num :: "string \<Rightarrow> (json \<times> string) option" where
  "parse_num s =
     (let (neg, s1) = parse_sign s; ip = takeWhile is_digit s1
      in if ip = [] \<or> (has_prefix ''0'' ip \<and> length ip \<noteq> 1) then None
         else case parse_frac (dropWhile is_digit s1) of
           None \<Rightarrow> None
         | Some (fp, s2) \<Rightarrow>
             (case parse_exp s2 of
                None \<Rightarrow> None
              | Some (x, s3) \<Rightarrow>
                  let v = digits_val (ip @ fp);
                      (m, e) = num_normal (if neg then - v else v) (x - int (length fp))
                  in if num_overflows m e then None else Some (JNum m e, s3)))"

definition parse_literal :: "string \<Rightarrow> (json \<times> string) option" where
  "parse_literal s =
     (if has_prefix ''null'' s then Some (JNull, drop 4 s)
      else if has_prefix ''true'' s then Some (JBool True, drop 4 s)
      else if has_prefix ''false'' s then Some (JBool False, drop 5 s)
      else parse_num s)"

definition fields_of_members :: "(string \<times> json) list \<Rightarrow> (string \<times> json) list" where
  "fields_of_members ms = foldl (\<lambda>m (k, v). map_put k v m) [] ms"

text \<open>
  The reader spends one unit of fuel per nested call; the number of characters is enough
  (\<open>json_roundtrip\<close> in \<open>JsonRoundtrip\<close>). The three functions read a value, the rest of an array after its
  opening bracket, the rest of an object after its opening brace.
\<close>

fun parse_value :: "nat \<Rightarrow> string \<Rightarrow> (json \<times> string) option"
  and parse_elems :: "nat \<Rightarrow> string \<Rightarrow> (json list \<times> string) option"
  and parse_members :: "nat \<Rightarrow> string \<Rightarrow> ((string \<times> json) list \<times> string) option" where
  "parse_value 0 s = None"
| "parse_value (Suc n) s =
     (case skip_ws s of
        [] \<Rightarrow> None
      | c # cs \<Rightarrow>
          if c = CHR 0x22 then map_option (\<lambda>(t, r). (JStr t, r)) (parse_str cs)
          else if c = CHR ''['' then
            (if has_prefix '']'' (skip_ws cs) then Some (JArr [], drop 1 (skip_ws cs))
             else map_option (\<lambda>(xs, r). (JArr xs, r)) (parse_elems n cs))
          else if c = CHR ''{'' then
            (if has_prefix ''}'' (skip_ws cs) then Some (JObj [], drop 1 (skip_ws cs))
             else map_option (\<lambda>(ms, r). (JObj (fields_of_members ms), r)) (parse_members n cs))
          else parse_literal (c # cs))"
| "parse_elems 0 s = None"
| "parse_elems (Suc n) s =
     (case parse_value n s of
        None \<Rightarrow> None
      | Some (v, r) \<Rightarrow>
          (case skip_ws r of
             [] \<Rightarrow> None
           | c # cs \<Rightarrow>
               if c = CHR '']'' then Some ([v], cs)
               else if c = CHR '','' then map_option (\<lambda>(xs, q). (v # xs, q)) (parse_elems n cs)
               else None))"
| "parse_members 0 s = None"
| "parse_members (Suc n) s =
     (case skip_ws s of
        [] \<Rightarrow> None
      | c # cs \<Rightarrow>
          if c \<noteq> CHR 0x22 then None
          else (case parse_str cs of
            None \<Rightarrow> None
          | Some (k, r) \<Rightarrow>
              (case skip_ws r of
                 [] \<Rightarrow> None
               | d # ds \<Rightarrow>
                   if d \<noteq> CHR '':'' then None
                   else (case parse_value n ds of
                     None \<Rightarrow> None
                   | Some (v, q) \<Rightarrow>
                       (case skip_ws q of
                          [] \<Rightarrow> None
                        | e # es \<Rightarrow>
                            if e = CHR ''}'' then Some ([(k, v)], es)
                            else if e = CHR '','' then
                              map_option (\<lambda>(ms, p). ((k, v) # ms, p)) (parse_members n es)
                            else None)))))"

definition json_unmarshal :: "string \<Rightarrow> json option" where
  "json_unmarshal s =
     (case parse_value (Suc (length s)) s of
        None \<Rightarrow> None
      | Some (v, r) \<Rightarrow> if skip_ws r = [] then Some v else None)"

text \<open>Decoding into a \<^verbatim>\<open>map[string]interface{}\<close>: an object, or null, which gives a nil map.\<close>

definition json_unmarshal_map :: "string \<Rightarrow> json option" where
  "json_unmarshal_map s =
     (case json_unmarshal s of
        Some (JObj fs) \<Rightarrow> Some (JObj fs)
      | Some JNull \<Rightarrow> Some JNilMap
      | _ \<Rightarrow> None)"

subsection \<open>fmt.Sprint\<close>

fun go_sprint :: "json \<Rightarrow> string" where
  "go_sprint JNull = ''<nil>''"
| "go_sprint JNilMap = ''map[]''"
| "go_sprint (JBool b) = (if b then ''true'' else ''false'')"
| "go_sprint (JNum m e) = num_sprint m e"
| "go_sprint (JInt i) = itoa i"
| "go_sprint (JStr s) = s"
| "go_sprint (JArr xs) = ''['' @ str_join (map go_sprint xs) '' '' @ '']''"
| "go_sprint (JObj fs) =
     ''map['' @ str_join (map (\<lambda>(k, t). k @ '':'' @ t)
                           (sort_fields (map (\<lambda>(k, v). (k, go_sprint v)) fs))) '' '' @ '']''"

subsection \<open>Reading back what was printed\<close>

lemma char_of_of_char_int [simp]: "char_of (of_char c :: int) = c"
  by simp

lemma of_char_bounds: "0 \<le> (of_char c :: int)" "(of_char c :: int) < 256"
  using pos_mod_sign [of 256 "of_char c :: int"] pos_mod_bound [of 256 "of_char c :: int"]
  unfolding of_char_mod_256 by simp_all

lemma hex_val_digit [simp]: "0 \<le> d \<Longrightarrow> d < 16 \<Longrightarrow> hex_val (hex_digit d) = Some d"
  by (simp add: hex_val_def hex_digit_def Let_def)

lemma hex4_byte:
  "hex4 (CHR ''0'') (CHR ''0'') (hex_digit (of_char c div 16)) (hex_digit (of_char c mod 16)) =
     Some (of_char c)"
proof -
  have "(of_char c :: int) div 16 < 16" using of_char_bounds(2) [of c] by linarith
  moreover have "0 \<le> (of_char c :: int) div 16"
    using of_char_bounds(1) [of c] by (simp add: pos_imp_zdiv_nonneg_iff)
  ultimately show ?thesis by (simp add: hex4_def hex_val_def [of "CHR ''0''"])
qed

lemma parse_str_escape:
  "parse_str (json_escape c @ t) = map_option (\<lambda>(u, q). (c # u, q)) (parse_str t)"
proof -
  define esc where "esc \<longleftrightarrow> (of_char c :: int) < 32 \<or> c \<in> {CHR ''<'', CHR ''>'', CHR ''&''}"
  have u: "utf8_encode (of_char c) = [c]" "\<not> is_high_surrogate (of_char c)"
    "\<not> is_low_surrogate (of_char c)" if "esc"
    using that by (auto simp: esc_def utf8_encode_def is_high_surrogate_def is_low_surrogate_def)
  consider "c \<in> {CHR 0x22, CHR 0x5C, CHR 0x08, CHR 0x0C, CHR 0x0A, CHR 0x0D, CHR 0x09}"
    | "c \<notin> {CHR 0x22, CHR 0x5C, CHR 0x08, CHR 0x0C, CHR 0x0A, CHR 0x0D, CHR 0x09}" "esc"
    | "c \<notin> {CHR 0x22, CHR 0x5C, CHR 0x08, CHR 0x0C, CHR 0x0A, CHR 0x0D, CHR 0x09}" "\<not> esc"
    by blast
  then show ?thesis
  proof cases
    case 1
    then show ?thesis by (auto simp: json_escape_def simple_escape_def)
  next
    case 2
    then have "json_escape c = [CHR 0x5C, CHR ''u'', CHR ''0'', CHR ''0'',
        hex_digit (of_char c div 16), hex_digit (of_char c mod 16)]"
      unfolding json_escape_def esc_def by auto
    with u [OF 2(2)] show ?thesis by (simp add: hex4_byte)
  next
    case 3
    then have "json_escape c = [c]" by (auto simp: json_escape_def esc_def)
    with 3 show ?thesis by (simp add: esc_def)
  qed
qed

lemma parse_str_quoted [simp]:
  "parse_str (concat (map json_escape s) @ CHR 0x22 # r) = Some (s, r)"
  by (induction s) (simp_all add: parse_str_escape)

lemma num_normal_zeros: "m \<noteq> 0 \<Longrightarrow> num_normal (m * 10 ^ k) e = num_normal m (e + int k)"
proof (induction k arbitrary: e)
  case (Suc k)
  have "num_normal (m * 10 ^ Suc k) e = num_normal (m * 10 ^ k) (e + 1)"
    using Suc.prems by (subst num_normal.simps) simp
  also have "\<dots> = num_normal m (e + 1 + int k)" using Suc by simp
  finally show ?case by (simp add: algebra_simps)
qed simp

end
