(* ===== verification/JsonUtil.thy ===== *)
theory JsonUtil
  imports GoJson
begin

text \<open>
  \<^verbatim>\<open>internal/json/util.go\<close>: containment of JSON objects, and the conversion of strings that hold
  JSON objects into those objects.

  A Go map of type \<^verbatim>\<open>map[string]interface{}\<close> is a value \<open>JObj fs\<close> or \<open>JNilMap\<close>. The code converts
  a struct to a map by \<^verbatim>\<open>json.Marshal\<close> and \<^verbatim>\<open>json.Unmarshal\<close>; the model writes the resulting object
  down directly, field by field (a value that is left out under \<^verbatim>\<open>omitempty\<close> is left out here).
\<close>

definition is_map :: "json \<Rightarrow> bool" where
  "is_map v = (case v of JObj _ \<Rightarrow> True | JNilMap \<Rightarrow> True | _ \<Rightarrow> False)"

definition entries :: "json \<Rightarrow> (string \<times> json) list" where
  "entries v = (case v of JObj fs \<Rightarrow> fs | _ \<Rightarrow> [])"

text \<open>\<open>m[k]\<close> with the comma-ok form, and \<open>m[k] = v\<close> on a map that is not nil.\<close>

definition entry :: "json \<Rightarrow> string \<Rightarrow> json option" where
  "entry v k = map_of (entries v) k"

definition with_entry :: "string \<Rightarrow> json \<Rightarrow> json \<Rightarrow> json" where
  "with_entry k x v = JObj (map_put k x (entries v))"

definition deepEqual :: "json \<Rightarrow> json \<Rightarrow> bool" where
  "deepEqual a b \<longleftrightarrow> json_marshal a = json_marshal b"

lemma size_field: "(k, v) \<in> set fs \<Longrightarrow> size v < size (JObj fs)"
  by (induction fs) auto

function Contains :: "json \<Rightarrow> json \<Rightarrow> bool" where
  "Contains container containee =
     list_all (\<lambda>(k, v).
       case entry container k of
         None \<Rightarrow> False
       | Some cv \<Rightarrow>
           if is_map v then is_map cv \<and> Contains cv v
           else deepEqual v cv) (entries containee)"
  by pat_completeness auto

termination
  by (relation "measure (\<lambda>(a, b). size b)")
     (auto simp: entries_def dest: size_field split: json.splits)

declare Contains.simps [simp del]

definition IsJSONString :: "string \<Rightarrow> bool" where
  "IsJSONString s \<longleftrightarrow> json_unmarshal_map s \<noteq> None"

text \<open>
  Decoding errors are dropped: the result is then what was decoded before the error, which for the
  texts the code passes here (tested with \<open>IsJSONString\<close> first) does not arise.
\<close>

definition JsonStringToMap :: "string \<Rightarrow> json" where
  "JsonStringToMap s = (case json_unmarshal_map s of Some m \<Rightarrow> m | None \<Rightarrow> JNilMap)"

text \<open>
  The conversion works in place on the map it is given. An element that is an array is converted
  through \<open>StructToMap\<close>, whose decoding into a map fails for an array: it is left alone.
\<close>

fun ConvertJSONStringsToMaps :: "json \<Rightarrow> json" where
  "ConvertJSONStringsToMaps (JObj fs) =
     JObj (map (\<lambda>(k, v). (k, case v of
         JStr s \<Rightarrow> if IsJSONString s then JsonStringToMap s else JStr s
       | JObj _ \<Rightarrow> ConvertJSONStringsToMaps v
       | _ \<Rightarrow> v)) fs)"
| "ConvertJSONStringsToMaps v = v"

subsection \<open>Facts\<close>

lemma entry_simps [simp]:
  "entry (JObj fs) k = map_of fs k" "entry JNilMap k = None" "entries (JObj fs) = fs"
  "entries JNilMap = []" "is_map (JObj fs)" "is_map JNilMap"
  by (simp_all add: entry_def entries_def is_map_def)

lemma entry_with_entry [simp]:
  "entry (with_entry k x v) j = (if j = k then Some x else entry v j)"
  by (simp add: with_entry_def entry_def)

lemma IsJSONString_map: "IsJSONString s \<Longrightarrow> is_map (JsonStringToMap s)"
  by (auto simp: IsJSONString_def JsonStringToMap_def json_unmarshal_map_def
           split: option.splits json.splits)

text \<open>The conversion keeps the keys of a map, and so the fields that are absent.\<close>

lemma map_fst_convert:
  "map fst (entries (ConvertJSONStringsToMaps v)) = map fst (entries v)"
  by (cases v) (auto simp: entries_def)

lemma is_map_convert [simp]: "is_map (ConvertJSONStringsToMaps v) = is_map v"
  by (cases v) (auto simp: is_map_def)

lemma map_of_map_key: "map_of (map (\<lambda>(k, v). (k, f v)) fs) k = map_option f (map_of fs k)"
  by (induction fs) auto

text \<open>
  \<open>Contains\<close> asks for every field of the second object in the first, and for nothing else: the
  first may have more.
\<close>

definition covered :: "json \<Rightarrow> string \<Rightarrow> json \<Rightarrow> bool" where
  "covered c k v \<longleftrightarrow>
     (\<exists>cv. entry c k = Some cv \<and> (if is_map v then is_map cv \<and> Contains cv v else deepEqual v cv))"

lemma Contains_iff: "Contains c d \<longleftrightarrow> (\<forall>(k, v) \<in> set (entries d). covered c k v)"
proof -
  have "(case entry c k of None \<Rightarrow> False
         | Some cv \<Rightarrow> if is_map v then is_map cv \<and> Contains cv v else deepEqual v cv) = covered c k v"
    for k v by (auto simp: covered_def split: option.splits)
  then show ?thesis by (subst Contains.simps) (simp add: list_all_iff)
qed

lemma Contains_empty [simp]: "Contains c (JObj [])" "Contains c JNilMap"
  by (simp_all add: Contains.simps [of _ "JObj []"] Contains.simps [of _ JNilMap])

text \<open>A well-formed object repeats no key, at any depth.\<close>

fun keys_ok :: "json \<Rightarrow> bool" where
  "keys_ok (JObj fs) \<longleftrightarrow> distinct (map fst fs) \<and> list_all (\<lambda>(k, v). keys_ok v) fs"
| "keys_ok (JArr xs) \<longleftrightarrow> list_all keys_ok xs"
| "keys_ok _ \<longleftrightarrow> True"

lemma keys_ok_field: "keys_ok (JObj fs) \<Longrightarrow> (k, v) \<in> set fs \<Longrightarrow> keys_ok v \<and> map_of fs k = Some v"
  by (auto simp: list_all_iff map_of_eq_Some_iff)

lemma Contains_refl: "keys_ok v \<Longrightarrow> Contains v v"
proof (induction v rule: keys_ok.induct)
  case (1 fs)
  have "covered (JObj fs) k v"
    if kv: "(k, v) \<in> set fs" for k v
  proof -
    have "keys_ok v" "map_of fs k = Some v" using keys_ok_field [OF "1.prems" kv] by auto
    moreover from this have "Contains v v" using "1.IH" [OF kv refl] by simp
    ultimately show ?thesis by (simp add: deepEqual_def covered_def)
  qed
  then show ?case by (subst Contains_iff) auto
qed (simp_all add: Contains.simps entries_def)

text \<open>
  The text of a value that is not a map differs from the text of any object: they begin with
  different characters. A nil map prints as null, so for transitivity nil maps are excluded; the
  values decoded from JSON have none below the root.
\<close>

fun no_nil_map :: "json \<Rightarrow> bool" where
  "no_nil_map JNilMap \<longleftrightarrow> False"
| "no_nil_map (JObj fs) \<longleftrightarrow> list_all (\<lambda>(k, v). no_nil_map v) fs"
| "no_nil_map (JArr xs) \<longleftrightarrow> list_all no_nil_map xs"
| "no_nil_map _ \<longleftrightarrow> True"

lemma digit_char_not_brace [simp]: "0 \<le> d \<Longrightarrow> d < 10 \<Longrightarrow> digit_char d \<noteq> CHR ''{''"
  using is_digit_char [of d] by (auto simp: is_digit_def simp del: is_digit_char)

lemma not_digit_brace: "\<not> is_digit (CHR ''{'')"
  by (simp add: is_digit_def)

lemma nat_digits_not_brace: "0 \<le> n \<Longrightarrow> hd (nat_digits n @ t) \<noteq> CHR ''{''"
  using all_digits_hd [of "nat_digits n"] not_digit_brace
  by (metis hd_append2 nat_digits_digits nat_digits_not_Nil)

lemma num_plain_not_brace: "hd (num_plain m e) \<noteq> CHR ''{''"
proof -
  have *: "nat_digits \<bar>m\<bar> \<noteq> []" "hd (nat_digits \<bar>m\<bar>) \<noteq> CHR ''{''"
    using nat_digits_not_brace [of "\<bar>m\<bar>" "[]"] by simp_all
  then have "n \<noteq> 0 \<Longrightarrow> hd (take n (nat_digits \<bar>m\<bar>) @ t) \<noteq> CHR ''{''" for n t
    by (cases "nat_digits \<bar>m\<bar>"; cases n) auto
  with * show ?thesis by (auto simp: num_plain_def num_sign_def Let_def)
qed

lemma num_json_not_brace: "hd (num_json m e) \<noteq> CHR ''{''"
  using num_plain_not_brace [of m e] nat_digits_not_brace [of "\<bar>m\<bar>" "[]"]
  by (auto simp: num_json_def num_sign_def num_mantissa_def Let_def split: list.splits)

lemma json_marshal_brace: "\<not> is_map v \<Longrightarrow> hd (json_marshal v) \<noteq> CHR ''{''"
  using num_json_not_brace nat_digits_not_brace [of _ "[]"]
  by (cases v) (auto simp: is_map_def json_quote_def itoa_def)

lemma deepEqual_map:
  assumes "deepEqual a b" "\<not> is_map a" "no_nil_map b"
  shows "\<not> is_map b"
proof
  assume "is_map b"
  with assms(3) have "hd (json_marshal b) = CHR ''{''"
    by (cases b) (auto simp: is_map_def)
  with assms(1) json_marshal_brace [OF assms(2)] show False by (simp add: deepEqual_def)
qed

lemma no_nil_map_field: "no_nil_map d \<Longrightarrow> entry d k = Some v \<Longrightarrow> no_nil_map v"
  by (cases d) (auto simp: entry_def entries_def list_all_iff dest: map_of_SomeD)

lemma Contains_trans:
  "Contains c d \<Longrightarrow> Contains d e \<Longrightarrow> keys_ok d \<Longrightarrow> no_nil_map d \<Longrightarrow> Contains c e"
proof (induction e arbitrary: c d rule: measure_induct_rule [of size])
  case (less e)
  have "covered c k v" if kv: "(k, v) \<in> set (entries e)" for k v
  proof -
    from less.prems(2) kv obtain dv where dv: "entry d k = Some dv"
      and dv': "if is_map v then is_map dv \<and> Contains dv v else deepEqual v dv"
      unfolding Contains_iff [of d e] covered_def by blast
    have nil: "no_nil_map dv" using no_nil_map_field [OF less.prems(4) dv] .
    have "(k, dv) \<in> set (entries d)" using dv by (auto simp: entry_def dest: map_of_SomeD)
    with less.prems(1) obtain cv where cv: "entry c k = Some cv"
      and cv': "if is_map dv then is_map cv \<and> Contains cv dv else deepEqual dv cv"
      unfolding Contains_iff [of c d] covered_def by blast
    show ?thesis
    proof (cases "is_map v")
      case True
      have "size v < size e" using kv by (cases e) (auto simp: entries_def dest: size_field)
      moreover have "keys_ok dv"
        using less.prems(3) \<open>(k, dv) \<in> set (entries d)\<close> by (cases d) (auto simp: entries_def list_all_iff)
      ultimately have "Contains cv v" using less.IH [of v cv dv] True dv' cv' nil by auto
      with True dv' cv cv' show ?thesis by (auto simp: covered_def)
    next
      case False
      with dv' have "deepEqual v dv" by simp
      moreover from this False nil have "\<not> is_map dv" by (rule deepEqual_map)
      ultimately show ?thesis using False cv cv' by (auto simp: deepEqual_def covered_def)
    qed
  qed
  then show ?case by (subst Contains_iff) auto
qed

end
