(* ===== verification/ApiTypes.thy ===== *)
theory ApiTypes
  imports GoTime JsonUtil "HOL-Library.Word"
begin

text \<open>
  The API objects (\<^verbatim>\<open>apis/common\<close>, \<^verbatim>\<open>apis/namespaced/request/v1alpha2\<close> and its copy under
  \<^verbatim>\<open>apis/cluster\<close>): the spec and status of an \<^verbatim>\<open>AsyncRequest\<close>, its status setters and readers, and
  the JSON form in which jq expressions see them.

  A Go struct is a record, a pointer or a slice or map that can be nil is an \<open>option\<close>, a Go map an
  association list. \<^verbatim>\<open>metadata.generation\<close> and status codes are \<open>int\<close> (the code only compares them);
  the failure counter, which the code increments, is a 32-bit word. The anchor
  \<^verbatim>\<open>status.polling.response\<close> is kept as the raw JSON text the API server stores.
\<close>

subsection \<open>Parts of the specification (apis/common)\<close>

type_synonym headers = "(string \<times> string list) list option"

record SecretKeySelector =
  SelName :: string
  SelNamespace :: string
  SelKey :: string

record TLSConfig =
  CABundle :: string
  CACertSecretRef :: "SecretKeySelector option"
  ClientCertSecretRef :: "SecretKeySelector option"
  ClientKeySecretRef :: "SecretKeySelector option"
  InsecureSkipVerify :: bool

record OIDCExchange =
  TokenEndpoint :: string
  Audience :: string
  ExtraParams :: "(string \<times> string) list option"

record OIDCInject =
  InjectType :: string
  InjectHeader :: string
  InjectPrefix :: string

record OIDCConfig =
  ServiceAccountTokenPath :: string
  Exchange :: "OIDCExchange option"
  Inject :: "OIDCInject option"
  RefreshBefore :: "string option"

record GCPAuth =
  ServiceAccount :: string
  Scopes :: "string list"

record Polling =
  PollURL :: string
  PollDone :: string
  PollError :: string
  PollTimeout :: "string option"
  PollInterval :: "string option"

definition DefaultPollTimeout :: int where "DefaultPollTimeout = 30 * minute"
definition DefaultPollInterval :: int where "DefaultPollInterval = 5 * second"
definition DefaultOIDCRefreshBefore :: int where "DefaultOIDCRefreshBefore = 5 * minute"

text \<open>\<^verbatim>\<open>PollingAdapter\<close>: the timeout and the interval with their defaults.\<close>

definition GetTimeout :: "Polling \<Rightarrow> int" where
  "GetTimeout p = ParseDuration (PollTimeout p) DefaultPollTimeout"

definition GetInterval :: "Polling \<Rightarrow> int" where
  "GetInterval p = ParseDuration (PollInterval p) DefaultPollInterval"

datatype MissingFieldStrategy = PreserveMissingField | SetEmptyMissingField | DeleteMissingField
  | OtherMissingField string

record KeyInjection =
  SecretKey :: string
  ResponseJQ :: string
  MissingStrategy :: MissingFieldStrategy

record SecretInjectionConfig =
  SecretRefName :: string
  SecretRefNamespace :: string
  OldSecretKey :: string
  ResponsePath :: string
  KeyMappings :: "KeyInjection list option"
  MetaLabels :: "(string \<times> string) list option"
  MetaAnnotations :: "(string \<times> string) list option"
  SetOwnerReference :: bool

abbreviation ActionCreate :: string where "ActionCreate \<equiv> ''CREATE''"
abbreviation ActionObserve :: string where "ActionObserve \<equiv> ''OBSERVE''"
abbreviation ActionUpdate :: string where "ActionUpdate \<equiv> ''UPDATE''"
abbreviation ActionRemove :: string where "ActionRemove \<equiv> ''REMOVE''"
abbreviation CheckTypeDefault :: string where "CheckTypeDefault \<equiv> ''DEFAULT''"
abbreviation CheckTypeCustom :: string where "CheckTypeCustom \<equiv> ''CUSTOM''"

subsection \<open>The AsyncRequest\<close>

record Response =
  StatusCode :: int
  Body :: string
  Headers :: headers

record HttpRequest =
  ReqMethod :: string
  ReqBody :: string
  ReqURL :: string
  ReqHeaders :: headers

record HttpDetails =
  HttpResponse :: Response
  HttpRequest :: HttpRequest

record Mapping =
  Method :: string
  Action :: string
  MapBody :: string
  URL :: string
  MapHeaders :: headers
  MapPolling :: "Polling option"

record ResponseCheck =
  CheckType :: string
  CheckLogic :: string

record AsyncRequestParameters =
  Mappings :: "Mapping list"
  BaseUrl :: string
  PayloadBody :: string
  DefaultHeaders :: headers
  WaitTimeout :: "string option"
  InsecureSkipTLSVerify :: bool
  TLS :: "TLSConfig option"
  SecretInjectionConfigs :: "SecretInjectionConfig list"
  ExpectedResponseCheck :: ResponseCheck
  ResourceExistsCheck :: ResponseCheck
  IsRemovedCheck :: ResponseCheck
  AllowedStatusCodes :: "int list"
  ExternalRefExpr :: string
  IsTerminalError :: string
  OIDC :: "OIDCConfig option"
  GCP :: "GCPAuth option"

text \<open>A condition of the managed resource, and the status it is part of.\<close>

record Condition =
  CondType :: string
  CondStatus :: string
  CondReason :: string
  CondMessage :: string
  CondTime :: int

text \<open>Crossplane's ready conditions.\<close>

definition ReadyCondition :: "string \<Rightarrow> string \<Rightarrow> string \<Rightarrow> int \<Rightarrow> Condition" where
  "ReadyCondition status reason msg now =
     \<lparr>CondType = ''Ready'', CondStatus = status, CondReason = reason, CondMessage = msg, CondTime = now\<rparr>"

definition Available :: "int \<Rightarrow> Condition" where "Available = ReadyCondition ''True'' ''Available'' []"
definition Creating :: "int \<Rightarrow> Condition" where "Creating = ReadyCondition ''False'' ''Creating'' []"
definition Unavailable :: "string \<Rightarrow> int \<Rightarrow> Condition" where
  "Unavailable msg = ReadyCondition ''False'' ''Unavailable'' msg"

record AsyncRequestStatus =
  Conditions :: "Condition list"
  ObservedGeneration :: int
  StatusResponse :: Response
  CacheLastUpdated :: string
  CacheResponse :: Response
  Failed :: "32 word"
  StatusError :: string
  RequestDetails :: Mapping
  ExternalRef :: string
  TerminalError :: string
  PollingResponse :: "string option"
  StartedAt :: "int option"

record ProviderConfigReference =
  RefKind :: string
  RefName :: string

record AsyncRequest =
  Name :: string
  Namespace :: string
  UID :: string
  Generation :: int
  DeletionTimestamp :: "int option"
  Annotations :: "(string \<times> string) list"
  ProviderConfigRef :: "ProviderConfigReference option"
  ForProvider :: AsyncRequestParameters
  Status :: AsyncRequestStatus

text \<open>\<^verbatim>\<open>meta.WasDeleted\<close> and \<^verbatim>\<open>meta.GetExternalName\<close>: both read the metadata.\<close>

definition WasDeleted :: "AsyncRequest \<Rightarrow> bool" where
  "WasDeleted cr \<longleftrightarrow> DeletionTimestamp cr \<noteq> None"

definition GetExternalName :: "AsyncRequest \<Rightarrow> string" where
  "GetExternalName cr =
     (case map_of (Annotations cr) ''crossplane.io/external-name'' of None \<Rightarrow> [] | Some n \<Rightarrow> n)"

definition emptyResponse :: Response where
  "emptyResponse = \<lparr>StatusCode = 0, Body = [], Headers = None\<rparr>"

definition emptyDetails :: HttpDetails where
  "emptyDetails = \<lparr>HttpResponse = emptyResponse,
     HttpRequest = \<lparr>ReqMethod = [], ReqBody = [], ReqURL = [], ReqHeaders = None\<rparr>\<rparr>"

definition emptyMapping :: Mapping where
  "emptyMapping = \<lparr>Method = [], Action = [], MapBody = [], URL = [], MapHeaders = None, MapPolling = None\<rparr>"

subsection \<open>Raw extensions (apis/common/polling.go)\<close>

text \<open>\<open>JNilMap\<close> is the nil map the callers test for.\<close>

definition RawExtensionToMap :: "string option \<Rightarrow> json" where
  "RawExtensionToMap ext =
     (case ext of
        None \<Rightarrow> JNilMap
      | Some raw \<Rightarrow>
          if raw = [] then JNilMap
          else (case json_unmarshal_map raw of None \<Rightarrow> JNilMap | Some m \<Rightarrow> m))"

definition MapToRawExtension :: "json \<Rightarrow> string option" where
  "MapToRawExtension m = (if m = JNilMap then None else Some (json_marshal m))"

subsection \<open>Status setters (status_setters.go)\<close>

definition SetStatusCode :: "int \<Rightarrow> AsyncRequest \<Rightarrow> AsyncRequest" where
  "SetStatusCode n cr = cr\<lparr>Status := (Status cr)\<lparr>StatusResponse := (StatusResponse (Status cr))\<lparr>StatusCode := n\<rparr>\<rparr>\<rparr>"

definition SetHeaders :: "headers \<Rightarrow> AsyncRequest \<Rightarrow> AsyncRequest" where
  "SetHeaders h cr = cr\<lparr>Status := (Status cr)\<lparr>StatusResponse := (StatusResponse (Status cr))\<lparr>Headers := h\<rparr>\<rparr>\<rparr>"

definition SetBody :: "string \<Rightarrow> AsyncRequest \<Rightarrow> AsyncRequest" where
  "SetBody b cr = cr\<lparr>Status := (Status cr)\<lparr>StatusResponse := (StatusResponse (Status cr))\<lparr>Body := b\<rparr>\<rparr>\<rparr>"

definition SetError :: "goerr option \<Rightarrow> AsyncRequest \<Rightarrow> AsyncRequest" where
  "SetError e cr =
     cr\<lparr>Status := (Status cr)\<lparr>Failed := Failed (Status cr) + 1,
        StatusError := (case e of None \<Rightarrow> StatusError (Status cr) | Some x \<Rightarrow> Error x)\<rparr>\<rparr>"

definition ResetFailures :: "AsyncRequest \<Rightarrow> AsyncRequest" where
  "ResetFailures cr = cr\<lparr>Status := (Status cr)\<lparr>Failed := 0, StatusError := []\<rparr>\<rparr>"

definition SetRequestDetails ::
  "string \<Rightarrow> string \<Rightarrow> string \<Rightarrow> headers \<Rightarrow> AsyncRequest \<Rightarrow> AsyncRequest" where
  "SetRequestDetails url meth body h cr =
     cr\<lparr>Status := (Status cr)\<lparr>RequestDetails := (RequestDetails (Status cr))
        \<lparr>MapBody := body, URL := url, MapHeaders := h, Method := meth\<rparr>\<rparr>\<rparr>"

text \<open>\<open>SetCache\<close> stamps the clock's reading \<open>now\<close>.\<close>

definition SetCache :: "int \<Rightarrow> int \<Rightarrow> headers \<Rightarrow> string \<Rightarrow> AsyncRequest \<Rightarrow> AsyncRequest" where
  "SetCache now n h b cr =
     cr\<lparr>Status := (Status cr)\<lparr>CacheResponse := \<lparr>StatusCode = n, Body = b, Headers = h\<rparr>,
        CacheLastUpdated := rfc3339 now\<rparr>\<rparr>"

definition SetExternalRef :: "string \<Rightarrow> AsyncRequest \<Rightarrow> AsyncRequest" where
  "SetExternalRef r cr = cr\<lparr>Status := (Status cr)\<lparr>ExternalRef := r\<rparr>\<rparr>"

definition SetPollingResponse :: "json \<Rightarrow> AsyncRequest \<Rightarrow> AsyncRequest" where
  "SetPollingResponse m cr =
     (if m = JNilMap then cr\<lparr>Status := (Status cr)\<lparr>PollingResponse := None\<rparr>\<rparr>
      else cr\<lparr>Status := (Status cr)\<lparr>PollingResponse := Some (json_marshal m)\<rparr>\<rparr>)"

definition SetTerminalError :: "string \<Rightarrow> AsyncRequest \<Rightarrow> AsyncRequest" where
  "SetTerminalError msg cr = cr\<lparr>Status := (Status cr)\<lparr>TerminalError := msg, StatusError := msg\<rparr>\<rparr>"

definition SetObservedGeneration :: "int \<Rightarrow> AsyncRequest \<Rightarrow> AsyncRequest" where
  "SetObservedGeneration g cr = cr\<lparr>Status := (Status cr)\<lparr>ObservedGeneration := g\<rparr>\<rparr>"

definition SetOperationStartedAt :: "int option \<Rightarrow> AsyncRequest \<Rightarrow> AsyncRequest" where
  "SetOperationStartedAt t cr = cr\<lparr>Status := (Status cr)\<lparr>StartedAt := t\<rparr>\<rparr>"

definition SetConditionList :: "Condition list \<Rightarrow> AsyncRequest \<Rightarrow> AsyncRequest" where
  "SetConditionList cs cr = cr\<lparr>Status := (Status cr)\<lparr>Conditions := cs\<rparr>\<rparr>"

subsection \<open>Status readers (spec_accessors.go)\<close>

definition GetCachedResponse :: "AsyncRequest \<Rightarrow> Response option" where
  "GetCachedResponse cr =
     (if StatusCode (CacheResponse (Status cr)) = 0 then None else Some (CacheResponse (Status cr)))"

definition GetPollingResponse :: "AsyncRequest \<Rightarrow> json" where
  "GetPollingResponse cr = RawExtensionToMap (PollingResponse (Status cr))"

subsection \<open>The JSON form\<close>

text \<open>
  What \<^verbatim>\<open>json.Marshal\<close> followed by \<^verbatim>\<open>json.Unmarshal\<close> into a map gives, by the struct tags: a field
  marked \<^verbatim>\<open>omitempty\<close> is left out when it is empty, a field whose type is a struct never is. Numbers
  become \<open>JNum\<close>. A header without values prints as an empty array.
\<close>

definition opt_str :: "string \<Rightarrow> string \<Rightarrow> (string \<times> json) list" where
  "opt_str k s = (if s = [] then [] else [(k, JStr s)])"

definition opt_ptr :: "string \<Rightarrow> string option \<Rightarrow> (string \<times> json) list" where
  "opt_ptr k s = (case s of None \<Rightarrow> [] | Some t \<Rightarrow> [(k, JStr t)])"

definition opt_num :: "string \<Rightarrow> int \<Rightarrow> (string \<times> json) list" where
  "opt_num k n = (if n = 0 then [] else [(k, mk_num n 0)])"

definition opt_bool :: "string \<Rightarrow> bool \<Rightarrow> (string \<times> json) list" where
  "opt_bool k b = (if b then [(k, JBool True)] else [])"

definition opt_obj :: "string \<Rightarrow> ('a \<Rightarrow> json) \<Rightarrow> 'a option \<Rightarrow> (string \<times> json) list" where
  "opt_obj k f x = (case x of None \<Rightarrow> [] | Some y \<Rightarrow> [(k, f y)])"

definition opt_list :: "string \<Rightarrow> ('a \<Rightarrow> json) \<Rightarrow> 'a list \<Rightarrow> (string \<times> json) list" where
  "opt_list k f xs = (if xs = [] then [] else [(k, JArr (map f xs))])"

definition header_map_json :: "(string \<times> string list) list \<Rightarrow> json" where
  "header_map_json h = JObj (map (\<lambda>(k, vs). (k, JArr (map JStr vs))) h)"

definition opt_headers :: "headers \<Rightarrow> (string \<times> json) list" where
  "opt_headers h =
     (case h of None \<Rightarrow> [] | Some m \<Rightarrow> if m = [] then [] else [(''headers'', header_map_json m)])"

definition opt_strmap :: "string \<Rightarrow> (string \<times> string) list option \<Rightarrow> (string \<times> json) list" where
  "opt_strmap k m =
     (case m of None \<Rightarrow> []
      | Some kv \<Rightarrow> if kv = [] then [] else [(k, JObj (map (\<lambda>(a, b). (a, JStr b)) kv))])"

definition polling_json :: "Polling \<Rightarrow> json" where
  "polling_json p =
     JObj ([(''url'', JStr (PollURL p)), (''done'', JStr (PollDone p))] @ opt_str ''error'' (PollError p) @
           opt_ptr ''timeout'' (PollTimeout p) @ opt_ptr ''interval'' (PollInterval p))"

definition mapping_json :: "Mapping \<Rightarrow> json" where
  "mapping_json m =
     JObj (opt_str ''method'' (Method m) @ opt_str ''action'' (Action m) @ opt_str ''body'' (MapBody m) @
           [(''url'', JStr (URL m))] @ opt_headers (MapHeaders m) @
           opt_obj ''polling'' polling_json (MapPolling m))"

definition selector_json :: "SecretKeySelector \<Rightarrow> json" where
  "selector_json r =
     JObj [(''name'', JStr (SelName r)), (''namespace'', JStr (SelNamespace r)), (''key'', JStr (SelKey r))]"

text \<open>\<open>b64\<close> is the text form of the CA bundle, a \<^verbatim>\<open>[]byte\<close>, which JSON carries in base 64.\<close>

definition tls_json :: "(string \<Rightarrow> string) \<Rightarrow> TLSConfig \<Rightarrow> json" where
  "tls_json b64 t =
     JObj (opt_str ''caBundle'' (if CABundle t = [] then [] else b64 (CABundle t)) @
           opt_obj ''caCertSecretRef'' selector_json (CACertSecretRef t) @
           opt_obj ''clientCertSecretRef'' selector_json (ClientCertSecretRef t) @
           opt_obj ''clientKeySecretRef'' selector_json (ClientKeySecretRef t) @
           opt_bool ''insecureSkipVerify'' (InsecureSkipVerify t))"

definition strategy_text :: "MissingFieldStrategy \<Rightarrow> string" where
  "strategy_text s =
     (case s of PreserveMissingField \<Rightarrow> ''preserve'' | SetEmptyMissingField \<Rightarrow> ''setEmpty''
      | DeleteMissingField \<Rightarrow> ''delete'' | OtherMissingField t \<Rightarrow> t)"

definition key_injection_json :: "KeyInjection \<Rightarrow> json" where
  "key_injection_json k =
     JObj ([(''secretKey'', JStr (SecretKey k)), (''responseJQ'', JStr (ResponseJQ k))] @
           opt_str ''missingFieldStrategy'' (strategy_text (MissingStrategy k)))"

definition secret_config_json :: "SecretInjectionConfig \<Rightarrow> json" where
  "secret_config_json c =
     JObj ([(''secretRef'', JObj [(''name'', JStr (SecretRefName c)),
                                  (''namespace'', JStr (SecretRefNamespace c))])] @
           opt_str ''secretKey'' (OldSecretKey c) @ opt_str ''responsePath'' (ResponsePath c) @
           opt_list ''keyMappings'' key_injection_json (case KeyMappings c of None \<Rightarrow> [] | Some ks \<Rightarrow> ks) @
           [(''metadata'', JObj (opt_strmap ''labels'' (MetaLabels c) @
                                 opt_strmap ''annotations'' (MetaAnnotations c)))] @
           opt_bool ''setOwnerReference'' (SetOwnerReference c))"

definition check_json :: "ResponseCheck \<Rightarrow> json" where
  "check_json c = JObj (opt_str ''type'' (CheckType c) @ opt_str ''logic'' (CheckLogic c))"

definition exchange_json :: "OIDCExchange \<Rightarrow> json" where
  "exchange_json e =
     JObj ([(''tokenEndpoint'', JStr (TokenEndpoint e)), (''audience'', JStr (Audience e))] @
           opt_strmap ''extraParams'' (ExtraParams e))"

definition inject_json :: "OIDCInject \<Rightarrow> json" where
  "inject_json i =
     JObj (opt_str ''type'' (InjectType i) @ opt_str ''header'' (InjectHeader i) @
           opt_str ''prefix'' (InjectPrefix i))"

definition oidc_json :: "OIDCConfig \<Rightarrow> json" where
  "oidc_json c =
     JObj (opt_str ''serviceAccountTokenPath'' (ServiceAccountTokenPath c) @
           opt_obj ''exchange'' exchange_json (Exchange c) @ opt_obj ''inject'' inject_json (Inject c) @
           opt_ptr ''refreshBefore'' (RefreshBefore c))"

definition gcp_json :: "GCPAuth \<Rightarrow> json" where
  "gcp_json g = JObj (opt_str ''serviceAccount'' (ServiceAccount g) @ opt_list ''scopes'' JStr (Scopes g))"

definition spec_map :: "(string \<Rightarrow> string) \<Rightarrow> AsyncRequestParameters \<Rightarrow> json" where
  "spec_map b64 p =
     JObj ([(''mappings'', JArr (map mapping_json (Mappings p))),
            (''payload'', JObj (opt_str ''baseUrl'' (BaseUrl p) @ opt_str ''body'' (PayloadBody p)))] @
           opt_headers (DefaultHeaders p) @ opt_ptr ''waitTimeout'' (WaitTimeout p) @
           opt_bool ''insecureSkipTLSVerify'' (InsecureSkipTLSVerify p) @
           opt_obj ''tlsConfig'' (tls_json b64) (TLS p) @
           opt_list ''secretInjectionConfigs'' secret_config_json (SecretInjectionConfigs p) @
           [(''expectedResponseCheck'', check_json (ExpectedResponseCheck p)),
            (''resourceExistsCheck'', check_json (ResourceExistsCheck p)),
            (''isRemovedCheck'', check_json (IsRemovedCheck p))] @
           opt_list ''allowedStatusCodes'' (\<lambda>n. mk_num n 0) (AllowedStatusCodes p) @
           opt_str ''externalRef'' (ExternalRefExpr p) @ opt_str ''isTerminalError'' (IsTerminalError p) @
           opt_obj ''oidc'' oidc_json (OIDC p) @ opt_obj ''gcp'' gcp_json (GCP p))"

text \<open>
  The client's \<^verbatim>\<open>HttpResponse\<close> prints all its fields; the API's \<^verbatim>\<open>Response\<close>, with the same contents,
  leaves the empty ones out.
\<close>

definition http_response_json :: "Response \<Rightarrow> json" where
  "http_response_json r =
     JObj [(''body'', JStr (Body r)),
           (''headers'', case Headers r of None \<Rightarrow> JNull | Some h \<Rightarrow> header_map_json h),
           (''statusCode'', mk_num (StatusCode r) 0)]"

definition response_json :: "Response \<Rightarrow> json" where
  "response_json r =
     JObj (opt_num ''statusCode'' (StatusCode r) @ opt_str ''body'' (Body r) @ opt_headers (Headers r))"

definition condition_json :: "Condition \<Rightarrow> json" where
  "condition_json c =
     JObj ([(''type'', JStr (CondType c)), (''status'', JStr (CondStatus c)),
            (''lastTransitionTime'', JStr (rfc3339 (CondTime c))), (''reason'', JStr (CondReason c))] @
           opt_str ''message'' (CondMessage c))"

text \<open>
  \<^verbatim>\<open>GetStatusMap\<close>. A raw extension prints as its text, which must be JSON: otherwise the whole status
  fails to print and the map is nil.
\<close>

definition status_map :: "AsyncRequestStatus \<Rightarrow> json" where
  "status_map s =
     (case (case PollingResponse s of None \<Rightarrow> Some []
            | Some raw \<Rightarrow> map_option (\<lambda>j. [(''response'', j)])
                 (if raw = [] then Some JNull else json_unmarshal raw)) of
        None \<Rightarrow> JNilMap
      | Some anchor \<Rightarrow>
          JObj (opt_list ''conditions'' condition_json (Conditions s) @
                opt_num ''observedGeneration'' (ObservedGeneration s) @
                [(''response'', response_json (StatusResponse s)),
                 (''cache'', JObj (opt_str ''lastUpdated'' (CacheLastUpdated s) @
                                   [(''response'', response_json (CacheResponse s))]))] @
                opt_num ''failed'' (sint (Failed s)) @ opt_str ''error'' (StatusError s) @
                [(''requestDetails'', mapping_json (RequestDetails s))] @
                opt_str ''externalRef'' (ExternalRef s) @ opt_str ''terminalError'' (TerminalError s) @
                [(''polling'', JObj (anchor @ opt_ptr ''startedAt'' (map_option rfc3339 (StartedAt s))))]))"

definition GetStatusMap :: "AsyncRequest \<Rightarrow> json" where
  "GetStatusMap cr = status_map (Status cr)"

subsection \<open>Facts about the setters\<close>

lemmas setter_defs =
  SetStatusCode_def SetHeaders_def SetBody_def SetError_def ResetFailures_def SetRequestDetails_def
  SetCache_def SetExternalRef_def SetPollingResponse_def SetTerminalError_def
  SetObservedGeneration_def SetOperationStartedAt_def SetConditionList_def

lemma GetPollingResponse_cleared [simp, api_simps]:
  "GetPollingResponse (SetPollingResponse JNilMap cr) = JNilMap"
  by (simp add: GetPollingResponse_def SetPollingResponse_def RawExtensionToMap_def)

text \<open>What identifies the object and its specification: no status setter touches it.\<close>

definition same_meta :: "AsyncRequest \<Rightarrow> AsyncRequest \<Rightarrow> bool" where
  "same_meta a b \<longleftrightarrow>
     Name a = Name b \<and> Namespace a = Namespace b \<and> UID a = UID b \<and> Generation a = Generation b \<and>
     DeletionTimestamp a = DeletionTimestamp b \<and> Annotations a = Annotations b \<and>
     ForProvider a = ForProvider b"

lemma same_meta_setters [simp, api_simps]:
  "same_meta cr (SetStatusCode n cr)" "same_meta cr (SetHeaders h cr)" "same_meta cr (SetBody b cr)"
  "same_meta cr (SetError e cr)" "same_meta cr (ResetFailures cr)"
  "same_meta cr (SetRequestDetails u m b h cr)" "same_meta cr (SetCache t n h b cr)"
  "same_meta cr (SetExternalRef r cr)" "same_meta cr (SetPollingResponse j cr)"
  "same_meta cr (SetTerminalError msg cr)" "same_meta cr (SetObservedGeneration g cr)"
  "same_meta cr (SetOperationStartedAt since cr)" "same_meta cr (SetConditionList cs cr)"
  by (simp_all add: same_meta_def setter_defs)

end
