(* ===== verification/World.thy ===== *)
theory World
  imports ApiTypes
begin

text \<open>
  What the code talks to. A run of a function works on a \<open>world\<close>: the custom resource in memory
  (the pointer every function of a reconcile shares) and the history of the calls made so far, the
  latest first. \<open>Captured\<close> holds the two maps that a retried closure captures and changes. What the
  outside answers is an \<open>env\<close>: functions of the history, so that an
  environment may answer the same call differently each time, fail, conflict, or return an object
  someone else has changed.

  The fields of \<open>env\<close> stand for code that is not part of the repository: the Kubernetes client
  (\<open>KubeRead\<close>, \<open>KubeStatusWrite\<close>, the secrets), \<^verbatim>\<open>client-go\<close>'s \<open>RetryOnConflict\<close>,
  \<^verbatim>\<open>controllerutil.SetOwnerReference\<close>, the jq engine \<^verbatim>\<open>gojq\<close>, crossplane's \<open>SetConditions\<close>, the clock,
  the context. \<open>SendHTTP\<close> is the \<^verbatim>\<open>httpClient.Client\<close> interface of the service layer; the client the
  repository provides for it is modelled in \<open>HttpClient\<close>.
\<close>

subsection \<open>Secrets\<close>

record Secret =
  SecretName :: string
  SecretNamespace :: string
  SecretData :: "(string \<times> string) list option"
  SecretLabels :: "(string \<times> string) list option"
  SecretAnnotations :: "(string \<times> string) list option"
  SecretOwners :: "string list"

subsection \<open>HTTP calls\<close>

text \<open>\<^verbatim>\<open>httpClient.Data\<close>: the form that is stored and the form that is sent.\<close>

record 'a Data =
  Encrypted :: 'a
  Decrypted :: 'a

record http_call =
  CallMethod :: string
  CallURL :: "string Data"
  CallBody :: "string Data"
  CallHeaders :: "headers Data"

subsection \<open>Events and the world\<close>

datatype 'cr event =
    KubeGet 'cr "goerr option"
  | StatusUpdate 'cr "goerr option"
  | HttpSent http_call HttpDetails "goerr option"
  | ClockRead int
  | Waited int
  | SecretRead string string
  | SecretWritten Secret "goerr option"
  | SecretCreated Secret "goerr option"

record 'cr world =
  Obj :: 'cr
  Hist :: "'cr event list"
  Captured :: "json \<times> json"

text \<open>What a jq program yields first: nothing, an error, a value.\<close>

datatype jq_next = JqNone | JqError string | JqValue json

record 'cr env =
  KubeRead :: "'cr event list \<Rightarrow> 'cr \<Rightarrow> goerr option \<times> 'cr"
  KubeStatusWrite :: "'cr event list \<Rightarrow> 'cr \<Rightarrow> goerr option \<times> 'cr"
  SendHTTP :: "'cr event list \<Rightarrow> http_call \<Rightarrow> HttpDetails \<times> goerr option"
  Clock :: "'cr event list \<Rightarrow> int"
  ContextDone :: "'cr event list \<Rightarrow> bool"
  ContextErr :: "goerr"
  ReadSecret :: "'cr event list \<Rightarrow> string \<Rightarrow> string \<Rightarrow> goerr + Secret"
  WriteSecret :: "'cr event list \<Rightarrow> Secret \<Rightarrow> goerr option \<times> Secret"
  CreateSecret :: "'cr event list \<Rightarrow> Secret \<Rightarrow> goerr option \<times> Secret"
  AddOwner :: "'cr \<Rightarrow> Secret \<Rightarrow> goerr + Secret"
  JqParse :: "string \<Rightarrow> goerr option"
  JqFirst :: "string \<Rightarrow> json \<Rightarrow> jq_next"
  RetryOnConflict :: "('cr world, goerr option) state \<Rightarrow> ('cr world, goerr option) state"
  SetConditions :: "Condition list \<Rightarrow> Condition list \<Rightarrow> Condition list"
  Base64 :: "string \<Rightarrow> string"

subsection \<open>The calls\<close>

definition emit :: "'cr event \<Rightarrow> ('cr world, unit) state" where
  "emit e = State_Monad.update (\<lambda>w. w\<lparr>Hist := e # Hist w\<rparr>)"

definition theObj :: "('cr world, 'cr) state" where
  "theObj = State_Monad.bind State_Monad.get (\<lambda>w. State_Monad.return (Obj w))"

definition modifyObj :: "('cr \<Rightarrow> 'cr) \<Rightarrow> ('cr world, unit) state" where
  "modifyObj f = State_Monad.update (\<lambda>w. w\<lparr>Obj := f (Obj w)\<rparr>)"

text \<open>The maps captured by a closure: set before it runs, read and changed by each of its runs.\<close>

definition capture :: "json \<times> json \<Rightarrow> ('cr world, unit) state" where
  "capture c = State_Monad.update (\<lambda>w. w\<lparr>Captured := c\<rparr>)"

definition captured :: "('cr world, json \<times> json) state" where
  "captured = State_Monad.bind State_Monad.get (\<lambda>w. State_Monad.return (Captured w))"

text \<open>
  \<^verbatim>\<open>LocalKube.Get(ctx, nn, resource)\<close>: reads the resource into the object in memory; the event records
  what was read.
\<close>

definition kubeGet :: "'cr env \<Rightarrow> ('cr world, goerr option) state" where
  "kubeGet E = do {
     w \<leftarrow> State_Monad.get;
     let (err, cr) = KubeRead E (Hist w) (Obj w);
     State_Monad.set (w\<lparr>Obj := cr, Hist := KubeGet cr err # Hist w\<rparr>);
     State_Monad.return err
   }"

text \<open>\<^verbatim>\<open>LocalKube.Status().Update(ctx, resource)\<close>: writes it, and refreshes the object in memory.\<close>

definition kubeStatusUpdate :: "'cr env \<Rightarrow> ('cr world, goerr option) state" where
  "kubeStatusUpdate E = do {
     w \<leftarrow> State_Monad.get;
     let (err, cr) = KubeStatusWrite E (Hist w) (Obj w);
     State_Monad.set (w\<lparr>Obj := cr, Hist := StatusUpdate (Obj w) err # Hist w\<rparr>);
     State_Monad.return err
   }"

definition sendRequest :: "'cr env \<Rightarrow> http_call \<Rightarrow> ('cr world, HttpDetails \<times> goerr option) state" where
  "sendRequest E c = do {
     w \<leftarrow> State_Monad.get;
     let (d, err) = SendHTTP E (Hist w) c;
     emit (HttpSent c d err);
     State_Monad.return (d, err)
   }"

definition timeNow :: "'cr env \<Rightarrow> ('cr world, int) state" where
  "timeNow E = do {
     w \<leftarrow> State_Monad.get;
     let t = Clock E (Hist w);
     emit (ClockRead t);
     State_Monad.return t
   }"

text \<open>
  The select on the context and a timer of duration \<open>d\<close>: true when the context was done first.
\<close>

definition waitFor :: "'cr env \<Rightarrow> int \<Rightarrow> ('cr world, bool) state" where
  "waitFor E d = do {
     w \<leftarrow> State_Monad.get;
     if ContextDone E (Hist w) then State_Monad.return True
     else do { emit (Waited d); State_Monad.return False }
   }"

text \<open>
  The documented behaviour of \<^verbatim>\<open>retry.RetryOnConflict\<close>: it runs the function again while it answers a
  conflict, up to a fixed number of times, and answers its last error.
\<close>

primrec retry_steps ::
  "nat \<Rightarrow> ('w, goerr option) state \<Rightarrow> ('w, goerr option) state" where
  "retry_steps 0 f = f"
| "retry_steps (Suc n) f = do {
     err \<leftarrow> f;
     if IsConflict err then retry_steps n f else State_Monad.return err
   }"

definition retry_contract :: "'cr env \<Rightarrow> bool" where
  "retry_contract E \<longleftrightarrow> (\<exists>n. \<forall>f. RetryOnConflict E f = retry_steps n f)"

text \<open>A test on an error: \<open>if err != nil { return f(err) }; m\<close>.\<close>

definition onError :: "goerr option \<Rightarrow> (goerr \<Rightarrow> ('w, 'a) state) \<Rightarrow> ('w, 'a) state \<Rightarrow> ('w, 'a) state" where
  "onError err f m = (case err of None \<Rightarrow> m | Some e \<Rightarrow> f e)"

subsection \<open>Facts\<close>

text \<open>What a call answers and leaves, as equations on its run.\<close>

lemma run_calls:
  "run_state (emit e) w = ((), w\<lparr>Hist := e # Hist w\<rparr>)"
  "run_state theObj w = (Obj w, w)"
  "run_state (modifyObj f) w = ((), w\<lparr>Obj := f (Obj w)\<rparr>)"
  "run_state (capture cs) w = ((), w\<lparr>Captured := cs\<rparr>)"
  "run_state captured w = (Captured w, w)"
  "run_state (kubeGet E) w =
     (fst (KubeRead E (Hist w) (Obj w)),
      w\<lparr>Obj := snd (KubeRead E (Hist w) (Obj w)),
        Hist := KubeGet (snd (KubeRead E (Hist w) (Obj w))) (fst (KubeRead E (Hist w) (Obj w))) # Hist w\<rparr>)"
  "run_state (kubeStatusUpdate E) w =
     (fst (KubeStatusWrite E (Hist w) (Obj w)),
      w\<lparr>Obj := snd (KubeStatusWrite E (Hist w) (Obj w)),
        Hist := StatusUpdate (Obj w) (fst (KubeStatusWrite E (Hist w) (Obj w))) # Hist w\<rparr>)"
  "run_state (sendRequest E c) w =
     (SendHTTP E (Hist w) c,
      w\<lparr>Hist := HttpSent c (fst (SendHTTP E (Hist w) c)) (snd (SendHTTP E (Hist w) c)) # Hist w\<rparr>)"
  "run_state (timeNow E) w = (Clock E (Hist w), w\<lparr>Hist := ClockRead (Clock E (Hist w)) # Hist w\<rparr>)"
  "run_state (waitFor E d) w =
     (if ContextDone E (Hist w) then (True, w) else (False, w\<lparr>Hist := Waited d # Hist w\<rparr>))"
  by (simp_all add: emit_def theObj_def modifyObj_def capture_def captured_def kubeGet_def kubeStatusUpdate_def sendRequest_def
        timeNow_def waitFor_def Let_def case_prod_beta)

lemma wp_emit [wp_simps]: "wp (emit e) Q w = Q () (w\<lparr>Hist := e # Hist w\<rparr>)"
  by (simp add: emit_def wp_simps)

lemma wp_theObj [wp_simps]: "wp theObj Q w = Q (Obj w) w"
  by (simp add: theObj_def wp_simps)

lemma wp_modifyObj [wp_simps]: "wp (modifyObj f) Q w = Q () (w\<lparr>Obj := f (Obj w)\<rparr>)"
  by (simp add: modifyObj_def wp_simps)

lemma wp_capture [wp_simps]: "wp (capture c) Q w = Q () (w\<lparr>Captured := c\<rparr>)"
  by (simp add: capture_def wp_simps)

lemma wp_captured [wp_simps]: "wp captured Q w = Q (Captured w) w"
  by (simp add: captured_def wp_simps)

lemma wp_kubeGet [wp_simps]:
  "wp (kubeGet E) Q w =
     (let r = KubeRead E (Hist w) (Obj w)
      in Q (fst r) (w\<lparr>Obj := snd r, Hist := KubeGet (snd r) (fst r) # Hist w\<rparr>))"
  by (simp add: kubeGet_def wp_simps Let_def split: prod.splits)

lemma wp_kubeStatusUpdate [wp_simps]:
  "wp (kubeStatusUpdate E) Q w =
     (let r = KubeStatusWrite E (Hist w) (Obj w)
      in Q (fst r) (w\<lparr>Obj := snd r, Hist := StatusUpdate (Obj w) (fst r) # Hist w\<rparr>))"
  by (simp add: kubeStatusUpdate_def wp_simps Let_def split: prod.splits)

lemma wp_sendRequest [wp_simps]:
  "wp (sendRequest E c) Q w =
     (let r = SendHTTP E (Hist w) c
      in Q r (w\<lparr>Hist := HttpSent c (fst r) (snd r) # Hist w\<rparr>))"
  by (simp add: sendRequest_def wp_simps Let_def split: prod.splits)

lemma wp_timeNow [wp_simps]:
  "wp (timeNow E) Q w = (let t = Clock E (Hist w) in Q t (w\<lparr>Hist := ClockRead t # Hist w\<rparr>))"
  by (simp add: timeNow_def wp_simps Let_def)

lemma wp_waitFor [wp_simps]:
  "wp (waitFor E d) Q w =
     (if ContextDone E (Hist w) then Q True w else Q False (w\<lparr>Hist := Waited d # Hist w\<rparr>))"
  by (simp add: waitFor_def wp_simps)

lemma wp_onError [wp_simps]:
  "wp (onError err f m) Q w = (case err of None \<Rightarrow> wp m Q w | Some e \<Rightarrow> wp (f e) Q w)"
  by (simp add: onError_def split: option.splits)

lemma keeps_onError [keeps_intros]:
  "(\<And>e. err = Some e \<Longrightarrow> keeps R (f e)) \<Longrightarrow> (err = None \<Longrightarrow> keeps R m) \<Longrightarrow> keeps R (onError err f m)"
  by (simp add: onError_def split: option.splits)

subsection \<open>Which events a function adds\<close>

text \<open>
  \<open>emits P m\<close>: running \<open>m\<close> only adds events that satisfy \<open>P\<close>. \<open>emits_same P m\<close>: and it leaves
  the object in memory alone.
\<close>

definition adds :: "('cr event \<Rightarrow> bool) \<Rightarrow> 'cr world \<Rightarrow> 'cr world \<Rightarrow> bool" where
  "adds P w w' \<longleftrightarrow> (\<exists>es. Hist w' = es @ Hist w \<and> list_all P es)"

definition adds_same :: "('cr event \<Rightarrow> bool) \<Rightarrow> 'cr world \<Rightarrow> 'cr world \<Rightarrow> bool" where
  "adds_same P w w' \<longleftrightarrow> adds P w w' \<and> Obj w' = Obj w"

abbreviation emits :: "('cr event \<Rightarrow> bool) \<Rightarrow> ('cr world, 'a) state \<Rightarrow> bool" where
  "emits P m \<equiv> keeps (adds P) m"

abbreviation emits_same :: "('cr event \<Rightarrow> bool) \<Rightarrow> ('cr world, 'a) state \<Rightarrow> bool" where
  "emits_same P m \<equiv> keeps (adds_same P) m"

lemma adds_refl [simp, intro]: "adds P w w"
  by (simp add: adds_def)

lemma adds_trans: "adds P u v \<Longrightarrow> adds P v w \<Longrightarrow> adds P u w"
  unfolding adds_def by (metis append.assoc list_all_append)

lemma preorder_adds [intro, simp]: "preorder_rel (adds P)"
  by (rule preorder_relI) (auto intro: adds_trans)

lemma preorder_adds_same [intro, simp]: "preorder_rel (adds_same P)"
  by (rule preorder_relI) (auto simp: adds_same_def intro: adds_trans)

lemma adds_one: "Hist w' = e # Hist w \<Longrightarrow> adds P w w' \<longleftrightarrow> P e"
proof
  assume h: "Hist w' = e # Hist w"
  { assume "P e"
    with h show "adds P w w'" unfolding adds_def by (intro exI [of _ "[e]"]) simp }
  assume "adds P w w'"
  then obtain es where "e # Hist w = es @ Hist w" "list_all P es" using h by (auto simp: adds_def)
  moreover from this(1) have "es = [e]" by (metis append_Cons append_Nil append_same_eq)
  ultimately show "P e" by simp
qed

lemma adds_simps [simp]:
  "adds P w (w\<lparr>Hist := e # Hist w\<rparr>) \<longleftrightarrow> P e"
  "adds P w (w\<lparr>Obj := x, Hist := e # Hist w\<rparr>) \<longleftrightarrow> P e"
  by (simp_all add: adds_one)

lemma adds_mono: "adds P w w' \<Longrightarrow> (\<And>e. P e \<Longrightarrow> Q e) \<Longrightarrow> adds Q w w'"
  unfolding adds_def by (metis list.pred_mono_strong)

lemma adds_same_mono: "adds_same P w w' \<Longrightarrow> (\<And>e. P e \<Longrightarrow> Q e) \<Longrightarrow> adds_same Q w w'"
  by (auto simp: adds_same_def intro: adds_mono)

lemma emits_same_emits: "emits_same P m \<Longrightarrow> emits P m"
  by (erule keeps_mono) (simp add: adds_same_def)

lemma emits_mono: "emits P m \<Longrightarrow> (\<And>e. P e \<Longrightarrow> Q e) \<Longrightarrow> emits Q m"
  by (erule keeps_mono) (auto intro: adds_mono)

lemma emits_same_mono: "emits_same P m \<Longrightarrow> (\<And>e. P e \<Longrightarrow> Q e) \<Longrightarrow> emits_same Q m"
  by (erule keeps_mono) (auto intro: adds_same_mono)

lemma keeps_return_world [keeps_intros]:
  "emits P (State_Monad.return x)" "emits_same P (State_Monad.return x)"
  by (auto intro: keeps_return)

lemma emits_emit [keeps_intros]: "P e \<Longrightarrow> emits P (emit e)"
  by (auto simp: keeps_wp wp_simps)

lemma emits_same_emit [keeps_intros]: "P e \<Longrightarrow> emits_same P (emit e)"
  by (auto simp: keeps_wp wp_simps adds_same_def)

lemma emits_theObj [keeps_intros]: "emits P theObj" "emits_same P theObj"
  by (auto simp: keeps_wp wp_simps adds_same_def)

lemma emits_modifyObj [keeps_intros]: "emits P (modifyObj f)"
  by (auto simp: keeps_wp wp_simps adds_def)

lemma emits_capture [keeps_intros]:
  "emits P (capture c)" "emits_same P (capture c)" "emits P captured" "emits_same P captured"
  by (auto simp: keeps_wp wp_simps adds_def adds_same_def)

lemma emits_kubeGet [keeps_intros]: "(\<And>cr err. P (KubeGet cr err)) \<Longrightarrow> emits P (kubeGet E)"
  by (auto simp: keeps_wp wp_simps Let_def)

lemma emits_kubeStatusUpdate [keeps_intros]:
  "(\<And>cr err. P (StatusUpdate cr err)) \<Longrightarrow> emits P (kubeStatusUpdate E)"
  by (auto simp: keeps_wp wp_simps Let_def)

lemma emits_sendRequest [keeps_intros]:
  "(\<And>d err. P (HttpSent c d err)) \<Longrightarrow> emits P (sendRequest E c)"
  "(\<And>d err. P (HttpSent c d err)) \<Longrightarrow> emits_same P (sendRequest E c)"
  by (auto simp: keeps_wp wp_simps Let_def adds_same_def)

lemma emits_timeNow [keeps_intros]:
  "(\<And>t. P (ClockRead t)) \<Longrightarrow> emits P (timeNow E)"
  "(\<And>t. P (ClockRead t)) \<Longrightarrow> emits_same P (timeNow E)"
  by (auto simp: keeps_wp wp_simps Let_def adds_same_def)

lemma emits_waitFor [keeps_intros]:
  "P (Waited d) \<Longrightarrow> emits P (waitFor E d)" "P (Waited d) \<Longrightarrow> emits_same P (waitFor E d)"
  by (auto simp: keeps_wp wp_simps adds_same_def)

lemma keeps_retry_steps: "preorder_rel R \<Longrightarrow> keeps R f \<Longrightarrow> keeps R (retry_steps n f)"
  by (induction n) (auto intro!: keeps_intros)

lemma keeps_RetryOnConflict [keeps_intros]:
  "retry_contract E \<Longrightarrow> preorder_rel R \<Longrightarrow> keeps R f \<Longrightarrow> keeps R (RetryOnConflict E f)"
  by (auto simp: retry_contract_def keeps_retry_steps)

text \<open>
  A retried function ends with a run of itself: what holds of every run from a reachable state,
  with a conflict as the only way to go on, holds of the whole.
\<close>

lemma wp_retry_steps:
  assumes inv: "I w"
    and step: "\<And>w. I w \<Longrightarrow> wp f (\<lambda>r w'. if IsConflict r then I w' \<and> Q r w' else Q r w') w"
  shows "wp (retry_steps n f) Q w"
  using inv
proof (induction n arbitrary: w)
  case 0
  then have "wp f (\<lambda>r w'. if IsConflict r then I w' \<and> Q r w' else Q r w') w" by (rule step)
  then show ?case by (auto elim!: wp_mono split: if_splits)
next
  case (Suc n)
  from step [OF Suc.prems] show ?case
    by (auto simp: wp_simps elim!: wp_mono split: if_splits intro: Suc.IH)
qed

lemma wp_RetryOnConflict:
  assumes "retry_contract E" "I w"
    and "\<And>w. I w \<Longrightarrow> wp f (\<lambda>r w'. if IsConflict r then I w' \<and> Q r w' else Q r w') w"
  shows "wp (RetryOnConflict E f) Q w"
  using assms wp_retry_steps [of I w f Q] by (auto simp: retry_contract_def)

subsection \<open>What the environment promises\<close>

text \<open>
  Time does not run backwards, and a timer of duration \<open>d\<close> takes at least \<open>d\<close>.
\<close>

definition clock_contract :: "'cr env \<Rightarrow> bool" where
  "clock_contract E \<longleftrightarrow>
     (\<forall>h e. Clock E h \<le> Clock E (e # h)) \<and> (\<forall>h d. Clock E h + d \<le> Clock E (Waited d # h))"

lemma clock_mono: "clock_contract E \<Longrightarrow> Clock E h \<le> Clock E (es @ h)"
proof (induction es)
  case (Cons e es)
  then have "Clock E h \<le> Clock E (es @ h)" by simp
  also have "\<dots> \<le> Clock E (e # es @ h)" using Cons.prems by (simp add: clock_contract_def)
  finally show ?case by simp
qed simp

text \<open>\<open>NotReturned\<close> is no error of Go: the calls to the outside do not answer it.\<close>

definition proper :: "goerr option \<Rightarrow> bool" where
  "proper r = (case r of None \<Rightarrow> True | Some e \<Rightarrow> \<not> has_not_returned e)"

definition proper_sum :: "goerr + 'a \<Rightarrow> bool" where
  "proper_sum r = (case r of Inl e \<Rightarrow> \<not> has_not_returned e | Inr _ \<Rightarrow> True)"

lemma proper_simps [simp]:
  "proper None" "proper (Some e) = (\<not> has_not_returned e)" "proper (Wrap r m) = proper r"
  "proper_sum (Inl e) = (\<not> has_not_returned e)" "proper_sum (Inr x)"
  "proper_sum (map_sum id f s) = proper_sum s"
  by (auto simp: proper_def proper_sum_def Wrap_def split: option.splits sum.splits)

definition calls_return :: "'cr env \<Rightarrow> bool" where
  "calls_return E \<longleftrightarrow>
     (\<forall>h cr. proper (fst (KubeRead E h cr))) \<and> (\<forall>h cr. proper (fst (KubeStatusWrite E h cr))) \<and>
     (\<forall>h c. proper (snd (SendHTTP E h c))) \<and> proper (Some (ContextErr E)) \<and>
     (\<forall>h n s. proper_sum (ReadSecret E h n s)) \<and> (\<forall>h s. proper (fst (WriteSecret E h s))) \<and>
     (\<forall>h s. proper (fst (CreateSecret E h s))) \<and> (\<forall>cr s. proper_sum (AddOwner E cr s)) \<and>
     (\<forall>q. proper (JqParse E q))"

end
