(* ===== verification/KubeHandler.thy ===== *)
theory KubeHandler
  imports World
begin

text \<open>
  \<^verbatim>\<open>internal/kube-handler/client.go\<close>: reading, creating and updating secrets. A secret in memory is a
  value that the functions return; the calls to the cluster go through the environment.
\<close>

definition kubeGetSecret :: "'cr env \<Rightarrow> string \<Rightarrow> string \<Rightarrow> ('cr world, goerr + Secret) state" where
  "kubeGetSecret E name ns = do {
     w \<leftarrow> State_Monad.get;
     emit (SecretRead name ns);
     State_Monad.return (ReadSecret E (Hist w) name ns)
   }"

definition kubeUpdate :: "'cr env \<Rightarrow> Secret \<Rightarrow> ('cr world, goerr option \<times> Secret) state" where
  "kubeUpdate E s = do {
     w \<leftarrow> State_Monad.get;
     let (err, s') = WriteSecret E (Hist w) s;
     emit (SecretWritten s err);
     State_Monad.return (err, s')
   }"

definition kubeCreate :: "'cr env \<Rightarrow> Secret \<Rightarrow> ('cr world, goerr option \<times> Secret) state" where
  "kubeCreate E s = do {
     w \<leftarrow> State_Monad.get;
     let (err, s') = CreateSecret E (Hist w) s;
     emit (SecretCreated s err);
     State_Monad.return (err, s')
   }"

definition GetSecret :: "'cr env \<Rightarrow> string \<Rightarrow> string \<Rightarrow> ('cr world, goerr + Secret) state" where
  "GetSecret E name ns = do {
     r \<leftarrow> kubeGetSecret E name ns;
     State_Monad.return
       (case r of
          Inl err \<Rightarrow> Inl (Wrapped err (''failed to get secret '' @ name @ '':'' @ ns))
        | Inr s \<Rightarrow> Inr s)
   }"

text \<open>\<^verbatim>\<open>UpdateSecret\<close>, with the secret as the call left it.\<close>

definition UpdateSecret :: "'cr env \<Rightarrow> Secret \<Rightarrow> ('cr world, goerr option \<times> Secret) state" where
  "UpdateSecret E s = do {
     r \<leftarrow> kubeUpdate E s;
     State_Monad.return (Wrap (fst r) ''update secret failed'', snd r)
   }"

text \<open>An owner is the resource with its UID, or absent.\<close>

definition hasOwnerReference :: "Secret \<Rightarrow> string \<Rightarrow> bool" where
  "hasOwnerReference s uid \<longleftrightarrow> uid \<in> set (SecretOwners s)"

definition createSecret ::
  "'cr env \<Rightarrow> string \<Rightarrow> string \<Rightarrow> ('cr \<times> string) option \<Rightarrow> ('cr world, goerr + Secret) state" where
  "createSecret E name ns owner =
     (let s = \<lparr>SecretName = name, SecretNamespace = ns, SecretData = None, SecretLabels = None,
               SecretAnnotations = None, SecretOwners = []\<rparr>
      in case (case owner of None \<Rightarrow> Inr s | Some (cr, _) \<Rightarrow> AddOwner E cr s) of
           Inl err \<Rightarrow> State_Monad.return (Inl (Wrapped err ''could not set owner reference to secret''))
         | Inr s1 \<Rightarrow> do {
             r \<leftarrow> kubeCreate E s1;
             State_Monad.return
               (case fst r of Some err \<Rightarrow> Inl (Wrapped err ''create secret failed'') | None \<Rightarrow> Inr (snd r))
           })"

definition GetOrCreateSecret ::
  "'cr env \<Rightarrow> string \<Rightarrow> string \<Rightarrow> ('cr \<times> string) option \<Rightarrow> ('cr world, goerr + Secret) state" where
  "GetOrCreateSecret E name ns owner = do {
     r \<leftarrow> GetSecret E name ns;
     case r of
       Inl err \<Rightarrow>
         if IsNotFound (Some err) then createSecret E name ns owner
         else State_Monad.return (Inl err)
     | Inr s \<Rightarrow>
         (case owner of
            None \<Rightarrow> State_Monad.return (Inr s)
          | Some (cr, uid) \<Rightarrow>
              if hasOwnerReference s uid then State_Monad.return (Inr s)
              else
                (case AddOwner E cr s of
                   Inl err \<Rightarrow>
                     State_Monad.return (Inl (Wrapped err ''could not set owner reference to secret''))
                 | Inr s1 \<Rightarrow> do {
                     u \<leftarrow> UpdateSecret E s1;
                     State_Monad.return (case fst u of Some err \<Rightarrow> Inl err | None \<Rightarrow> Inr (snd u))
                   }))
   }"

subsection \<open>Facts\<close>

text \<open>The secret operations leave the resource alone and make no other call.\<close>

definition is_secret_event :: "'cr event \<Rightarrow> bool" where
  "is_secret_event e \<longleftrightarrow>
     (case e of SecretRead _ _ \<Rightarrow> True | SecretWritten _ _ \<Rightarrow> True | SecretCreated _ _ \<Rightarrow> True | _ \<Rightarrow> False)"

definition is_secret_read :: "'cr event \<Rightarrow> bool" where
  "is_secret_read e \<longleftrightarrow> (case e of SecretRead _ _ \<Rightarrow> True | _ \<Rightarrow> False)"

lemma secret_event_simps [simp]:
  "is_secret_event (SecretRead n s)" "is_secret_event (SecretWritten x e)"
  "is_secret_event (SecretCreated x e)" "is_secret_read (SecretRead n s)"
  "\<not> is_secret_event (StatusUpdate cr e)" "\<not> is_secret_event (KubeGet cr e)"
  "\<not> is_secret_event (HttpSent c d e)" "\<not> is_secret_event (ClockRead t)" "\<not> is_secret_event (Waited delay)"
  "is_secret_read ev \<Longrightarrow> is_secret_event ev"
  by (simp_all add: is_secret_event_def is_secret_read_def split: event.splits)

lemma emits_kubeGetSecret [keeps_intros]:
  "(\<And>n s. P (SecretRead n s)) \<Longrightarrow> emits_same P (kubeGetSecret E name ns)"
  unfolding kubeGetSecret_def by (auto intro!: keeps_intros)

lemma emits_kubeUpdate [keeps_intros]:
  "(\<And>x e. P (SecretWritten x e)) \<Longrightarrow> emits_same P (kubeUpdate E s)"
  unfolding kubeUpdate_def by (auto intro!: keeps_intros)

lemma emits_kubeCreate [keeps_intros]:
  "(\<And>x e. P (SecretCreated x e)) \<Longrightarrow> emits_same P (kubeCreate E s)"
  unfolding kubeCreate_def by (auto intro!: keeps_intros)

lemma emits_GetSecret [keeps_intros]:
  "(\<And>n s. P (SecretRead n s)) \<Longrightarrow> emits_same P (GetSecret E name ns)"
  unfolding GetSecret_def by (auto intro!: keeps_intros)

lemma emits_UpdateSecret [keeps_intros]: "emits_same is_secret_event (UpdateSecret E s)"
  unfolding UpdateSecret_def by (auto intro!: keeps_intros)

lemma emits_createSecret [keeps_intros]: "emits_same is_secret_event (createSecret E name ns owner)"
  unfolding createSecret_def by (auto intro!: keeps_intros)

lemma emits_GetOrCreateSecret [keeps_intros]:
  "emits_same is_secret_event (GetOrCreateSecret E name ns owner)"
  unfolding GetOrCreateSecret_def by (auto intro!: keeps_intros)

end
