(* ===== verification/Jq.thy ===== *)
theory Jq
  imports World
begin

text \<open>
  \<^verbatim>\<open>internal/jq/parser.go\<close> and \<^verbatim>\<open>internal/service/request/requestprocessing\<close>: running a jq program and
  reading its first value at a type. The jq engine is the environment's \<open>JqParse\<close> (the error of
  \<^verbatim>\<open>gojq.Parse\<close>, if any) and \<open>JqFirst\<close> (what \<^verbatim>\<open>query.Run(obj).Next()\<close> gives first). The mutex around
  it serialises the runs and leaves no trace.
\<close>

definition runJQQuery :: "'cr env \<Rightarrow> string \<Rightarrow> json \<Rightarrow> goerr + json" where
  "runJQQuery E q obj =
     (case JqParse E q of
        Some err \<Rightarrow> Inl err
      | None \<Rightarrow>
          (case JqFirst E q obj of
             JqNone \<Rightarrow>
               Inl (ErrorString (''query should return at least one value, failed on: '' @ ''<nil>''))
           | JqError e \<Rightarrow>
               Inl (ErrorString (''failed to parse given mapping - '' @ q @ '' jq error: '' @ e))
           | JqValue v \<Rightarrow> Inr v))"

definition ParseAny :: "'cr env \<Rightarrow> string \<Rightarrow> json \<Rightarrow> goerr + json" where
  "ParseAny E q obj = runJQQuery E q obj"

definition ParseString :: "'cr env \<Rightarrow> string \<Rightarrow> json \<Rightarrow> goerr + string" where
  "ParseString E q obj =
     (case runJQQuery E q obj of
        Inl err \<Rightarrow> Inl err
      | Inr (JStr s) \<Rightarrow> Inr s
      | Inr v \<Rightarrow> Inl (ErrorString (''failed to parse string: '' @ go_sprint v)))"

definition ParseFloat :: "'cr env \<Rightarrow> string \<Rightarrow> json \<Rightarrow> goerr + (int \<times> int)" where
  "ParseFloat E q obj =
     (case runJQQuery E q obj of
        Inl err \<Rightarrow> Inl err
      | Inr (JNum m e) \<Rightarrow> Inr (m, e)
      | Inr v \<Rightarrow> Inl (ErrorString (''failed to parse float: '' @ go_sprint v)))"

definition ParseBool :: "'cr env \<Rightarrow> string \<Rightarrow> json \<Rightarrow> goerr + bool" where
  "ParseBool E q obj =
     (case runJQQuery E q obj of
        Inl err \<Rightarrow> Inl err
      | Inr (JBool b) \<Rightarrow> Inr b
      | Inr v \<Rightarrow> Inl (ErrorString (''failed to parse string: '' @ go_sprint v)))"

definition ParseMapInterface :: "'cr env \<Rightarrow> string \<Rightarrow> json \<Rightarrow> goerr + json" where
  "ParseMapInterface E q obj =
     (case runJQQuery E q obj of
        Inl err \<Rightarrow> Inl err
      | Inr v \<Rightarrow>
          if is_map v then Inr (JObj (entries v))
          else Inl (ErrorString (''failed to parse map: '' @ go_sprint v)))"

text \<open>
  The values of one header: a query that fails stands for itself, one that yields something other
  than a string is an error.
\<close>

fun parse_header_values :: "'cr env \<Rightarrow> json \<Rightarrow> string list \<Rightarrow> goerr + string list" where
  "parse_header_values E obj [] = Inr []"
| "parse_header_values E obj (q # qs) =
     (case runJQQuery E q obj of
        Inl _ \<Rightarrow> map_sum id (\<lambda>rs. q # rs) (parse_header_values E obj qs)
      | Inr (JStr s) \<Rightarrow> map_sum id (\<lambda>rs. s # rs) (parse_header_values E obj qs)
      | Inr v \<Rightarrow> Inl (ErrorString (''failed to parse result on jq query: '' @ go_sprint v)))"

fun parse_header_map ::
  "'cr env \<Rightarrow> json \<Rightarrow> (string \<times> string list) list \<Rightarrow> goerr + (string \<times> string list) list" where
  "parse_header_map E obj [] = Inr []"
| "parse_header_map E obj ((k, qs) # m) =
     (case parse_header_values E obj qs of
        Inl err \<Rightarrow> Inl err
      | Inr rs \<Rightarrow> map_sum id (\<lambda>m'. (k, rs) # m') (parse_header_map E obj m))"

definition ParseMapStrings :: "'cr env \<Rightarrow> headers \<Rightarrow> json \<Rightarrow> goerr + headers" where
  "ParseMapStrings E h obj =
     map_sum id Some (parse_header_map E obj (case h of None \<Rightarrow> [] | Some m \<Rightarrow> m))"

definition IsJQQuery :: "'cr env \<Rightarrow> string \<Rightarrow> bool" where
  "IsJQQuery E q \<longleftrightarrow> JqParse E q = None"

definition Exists :: "'cr env \<Rightarrow> string \<Rightarrow> json \<Rightarrow> goerr + bool" where
  "Exists E q obj =
     (case JqParse E q of
        Some err \<Rightarrow> Inl err
      | None \<Rightarrow>
          (case JqFirst E q obj of
             JqNone \<Rightarrow> Inr False
           | JqError e \<Rightarrow> Inl (ErrorString e)
           | JqValue v \<Rightarrow> Inr (v \<noteq> JNull)))"

subsection \<open>requestprocessing\<close>

definition ApplyJQOnStr :: "'cr env \<Rightarrow> string \<Rightarrow> json \<Rightarrow> goerr + string" where
  "ApplyJQOnStr E q baseMap =
     (case ParseMapInterface E q baseMap of
        Inr m \<Rightarrow> Inr (json_marshal m)
      | Inl _ \<Rightarrow> ParseString E q baseMap)"

definition ApplyJQOnMapStrings :: "'cr env \<Rightarrow> headers \<Rightarrow> json \<Rightarrow> goerr + headers" where
  "ApplyJQOnMapStrings E h baseMap = ParseMapStrings E h baseMap"

subsection \<open>Facts\<close>

text \<open>
  The readers agree on a value that exists: at most one of them succeeds, and one that succeeds
  means that \<open>Exists\<close> answers true.
\<close>

lemma parse_value_kinds:
  "ParseString E q obj = Inr s \<longleftrightarrow> runJQQuery E q obj = Inr (JStr s)"
  "ParseBool E q obj = Inr b \<longleftrightarrow> runJQQuery E q obj = Inr (JBool b)"
  "ParseFloat E q obj = Inr (m, e) \<longleftrightarrow> runJQQuery E q obj = Inr (JNum m e)"
  by (auto simp: ParseString_def ParseBool_def ParseFloat_def split: sum.splits json.splits)

lemma Exists_iff: "Exists E q obj = Inr True \<longleftrightarrow> (\<exists>v. runJQQuery E q obj = Inr v \<and> v \<noteq> JNull)"
  by (auto simp: Exists_def runJQQuery_def split: option.splits jq_next.splits)

text \<open>The number of values of each header is that of its queries, and the keys are kept.\<close>

lemma parse_header_values_length:
  "parse_header_values E obj qs = Inr rs \<Longrightarrow> length rs = length qs"
  by (induction qs arbitrary: rs) (auto split: sum.splits json.splits)

lemma jq_returns:
  assumes "calls_return E"
  shows "proper_sum (runJQQuery E q obj)" "proper_sum (ParseAny E q obj)" "proper_sum (ParseString E q obj)"
    "proper_sum (ParseBool E q obj)" "proper_sum (Exists E q obj)"
proof -
  have p: "proper (JqParse E q)" using assms by (simp add: calls_return_def)
  show r: "proper_sum (runJQQuery E q obj)"
    using p by (auto simp: runJQQuery_def split: option.splits jq_next.splits)
  then show "proper_sum (ParseAny E q obj)" by (simp add: ParseAny_def)
  show "proper_sum (ParseString E q obj)" "proper_sum (ParseBool E q obj)"
    using r by (auto simp: ParseString_def ParseBool_def split: sum.splits json.splits)
  show "proper_sum (Exists E q obj)"
    using p by (auto simp: Exists_def split: option.splits jq_next.splits)
qed

end
