(* ===== verification/GoUrl.thy ===== *)
theory GoUrl
  imports GoText
begin

text \<open>
  The part of \<^verbatim>\<open>net/url\<close> the code relies on: \<^verbatim>\<open>url.Parse\<close> and \<^verbatim>\<open>url.ParseRequestURI\<close> as functions to
  an error text or the scheme and host of the URL, which is all the code reads of it. The order
  of the tests is that of the library, since the code shows the error text to the user. The zone
  of an IPv6 address is read by the rules of the rest of the host.
\<close>

record gourl =
  Scheme :: string
  Host :: string

subsection \<open>Cutting strings\<close>

text \<open>\<open>str_cut c s\<close> is \<^verbatim>\<open>strings.Cut\<close> at the first \<open>c\<close>, \<open>cut_last\<close> at the last one.\<close>

definition str_cut :: "char \<Rightarrow> string \<Rightarrow> string \<times> string" where
  "str_cut c s = (takeWhile (\<lambda>x. x \<noteq> c) s, drop 1 (dropWhile (\<lambda>x. x \<noteq> c) s))"

definition cut_last :: "char \<Rightarrow> string \<Rightarrow> (string \<times> string) option" where
  "cut_last c s =
     (if c \<in> set s
      then Some (rev (drop 1 (dropWhile (\<lambda>x. x \<noteq> c) (rev s))),
                 rev (takeWhile (\<lambda>x. x \<noteq> c) (rev s)))
      else None)"

definition is_lower :: "char \<Rightarrow> bool" where
  "is_lower c \<longleftrightarrow> 97 \<le> (of_char c :: int) \<and> (of_char c :: int) \<le> 122"

definition is_upper :: "char \<Rightarrow> bool" where
  "is_upper c \<longleftrightarrow> 65 \<le> (of_char c :: int) \<and> (of_char c :: int) \<le> 90"

definition is_alpha :: "char \<Rightarrow> bool" where
  "is_alpha c \<longleftrightarrow> is_lower c \<or> is_upper c"

definition to_lower :: "string \<Rightarrow> string" where
  "to_lower s = map (\<lambda>c. if is_upper c then char_of ((of_char c :: int) + 32) else c) s"

definition is_ctl :: "char \<Rightarrow> bool" where
  "is_ctl c \<longleftrightarrow> (of_char c :: int) < 32 \<or> c = CHR 0x7F"

subsection \<open>Percent escapes\<close>

definition is_hex :: "char \<Rightarrow> bool" where
  "is_hex c \<longleftrightarrow> is_digit c \<or> c \<in> set ''abcdefABCDEF''"

definition host_char :: "char \<Rightarrow> bool" where
  "host_char c \<longleftrightarrow>
     is_alpha c \<or> is_digit c \<or> c \<in> set ''!$&()*+,;=:[]<>-_.~'' \<or> c \<in> {CHR 0x22, CHR 0x27} \<or>
     128 \<le> (of_char c :: int)"

definition escape_error :: "string \<Rightarrow> string" where
  "escape_error s = ''invalid URL escape '' @ go_quote (take 3 s)"

datatype url_part = UrlPath | UrlHost

text \<open>The error of \<open>unescape\<close> in a part of the URL, if any.\<close>

fun unescape_error :: "url_part \<Rightarrow> string \<Rightarrow> string option" where
  "unescape_error md [] = None"
| "unescape_error md (c # cs) =
     (if c = CHR ''%'' then
        (case cs of
           a # b # r \<Rightarrow>
             if \<not> (is_hex a \<and> is_hex b) then Some (escape_error (c # cs))
             else if md = UrlHost \<and> a \<in> set ''01234567'' \<and> [a, b] \<noteq> ''25''
               then Some (escape_error (c # cs))
             else unescape_error md r
         | _ \<Rightarrow> Some (escape_error (c # cs)))
      else if md \<noteq> UrlPath \<and> \<not> host_char c
        then Some (''invalid character '' @ go_quote [c] @ '' in host name'')
      else unescape_error md cs)"

fun unescape :: "string \<Rightarrow> string" where
  "unescape [] = []"
| "unescape (c # cs) =
     (if c = CHR ''%'' then
        (case cs of
           a # b # r \<Rightarrow>
             (let v = (\<lambda>x. if is_digit x then (of_char x :: int) - 48
                           else if 97 \<le> (of_char x :: int) then of_char x - 87 else of_char x - 55)
              in char_of (v a * 16 + v b) # unescape r)
         | _ \<Rightarrow> [])
      else c # unescape cs)"

subsection \<open>The parts of a URL\<close>

text \<open>\<open>getScheme\<close>: the scheme and the rest, or an error for a leading colon.\<close>

definition scheme_char :: "char \<Rightarrow> bool" where
  "scheme_char c \<longleftrightarrow> is_alpha c \<or> is_digit c \<or> c \<in> set ''+-.''"

definition get_scheme :: "string \<Rightarrow> (string \<times> string) option" where
  "get_scheme s =
     (case s of
        [] \<Rightarrow> Some ([], s)
      | c # _ \<Rightarrow>
          if c = CHR '':'' then None
          else if \<not> is_alpha c then Some ([], s)
          else (case dropWhile scheme_char s of
                  [] \<Rightarrow> Some ([], s)
                | d # r \<Rightarrow> if d = CHR '':'' then Some (takeWhile scheme_char s, r) else Some ([], s)))"

definition valid_optional_port :: "string \<Rightarrow> bool" where
  "valid_optional_port p \<longleftrightarrow>
     (case p of [] \<Rightarrow> True | c # r \<Rightarrow> c = CHR '':'' \<and> list_all is_digit r)"

definition port_error :: "string \<Rightarrow> string" where
  "port_error p = ''invalid port '' @ go_quote p @ '' after host''"

definition parse_host :: "string \<Rightarrow> string + string" where
  "parse_host h =
     (if has_prefix ''['' h then
        (case cut_last (CHR '']'') h of
           None \<Rightarrow> Inl (''missing '' @ [CHR 0x27] @ '']'' @ [CHR 0x27] @ '' in host'')
         | Some (_, p) \<Rightarrow>
             if \<not> valid_optional_port p then Inl (port_error p)
             else (case unescape_error UrlHost h of Some e \<Rightarrow> Inl e | None \<Rightarrow> Inr (unescape h)))
      else
        (case cut_last (CHR '':'') h of
           Some (_, p) \<Rightarrow>
             if \<not> valid_optional_port (CHR '':'' # p) then Inl (port_error (CHR '':'' # p))
             else (case unescape_error UrlHost h of Some e \<Rightarrow> Inl e | None \<Rightarrow> Inr (unescape h))
         | None \<Rightarrow> (case unescape_error UrlHost h of Some e \<Rightarrow> Inl e | None \<Rightarrow> Inr (unescape h))))"

definition userinfo_char :: "char \<Rightarrow> bool" where
  "userinfo_char c \<longleftrightarrow>
     is_alpha c \<or> is_digit c \<or> c \<in> set ''-._:~!$&()*+,;=%@'' \<or> c = CHR 0x27"

definition parse_authority :: "string \<Rightarrow> string + string" where
  "parse_authority a =
     (case cut_last (CHR ''@'') a of
        None \<Rightarrow> parse_host a
      | Some (u, h) \<Rightarrow>
          (case parse_host h of
             Inl e \<Rightarrow> Inl e
           | Inr h' \<Rightarrow>
               if \<not> list_all userinfo_char u then Inl ''net/url: invalid userinfo''
               else (case unescape_error UrlPath u of Some e \<Rightarrow> Inl e | None \<Rightarrow> Inr h')))"

definition url_parse_raw :: "bool \<Rightarrow> string \<Rightarrow> string + gourl" where
  "url_parse_raw via s =
     (if list_ex is_ctl s then Inl ''net/url: invalid control character in URL''
      else if s = [] \<and> via then Inl ''empty url''
      else if s = ''*'' then Inr \<lparr>Scheme = [], Host = []\<rparr>
      else case get_scheme s of
        None \<Rightarrow> Inl ''missing protocol scheme''
      | Some (sc0, r0) \<Rightarrow>
          let sc = to_lower sc0; r = fst (str_cut (CHR ''?'') r0)
          in if \<not> has_prefix ''/'' r \<and> sc \<noteq> [] then Inr \<lparr>Scheme = sc, Host = []\<rparr>
             else if \<not> has_prefix ''/'' r \<and> via then Inl ''invalid URI for request''
             else if \<not> has_prefix ''/'' r \<and> CHR '':'' \<in> set (fst (str_cut (CHR ''/'') r))
               then Inl ''first path segment in URL cannot contain colon''
             else if (sc \<noteq> [] \<or> (\<not> via \<and> \<not> has_prefix ''///'' r)) \<and> has_prefix ''//'' r then
               (case parse_authority (fst (str_cut (CHR ''/'') (drop 2 r))) of
                  Inl e \<Rightarrow> Inl e
                | Inr h \<Rightarrow>
                    (case unescape_error UrlPath (dropWhile (\<lambda>x. x \<noteq> CHR ''/'') (drop 2 r)) of
                       Some e \<Rightarrow> Inl e
                     | None \<Rightarrow> Inr \<lparr>Scheme = sc, Host = h\<rparr>))
             else (case unescape_error UrlPath r of
                     Some e \<Rightarrow> Inl e
                   | None \<Rightarrow> Inr \<lparr>Scheme = sc, Host = []\<rparr>))"

definition url_error :: "string \<Rightarrow> string \<Rightarrow> string" where
  "url_error s e = ''parse '' @ go_quote s @ '': '' @ e"

definition url_parse :: "string \<Rightarrow> string + gourl" where
  "url_parse s =
     (let (u, frag) = str_cut (CHR ''#'') s
      in case url_parse_raw False u of
           Inl e \<Rightarrow> Inl (url_error u e)
         | Inr g \<Rightarrow>
             (case unescape_error UrlPath frag of
                Some e \<Rightarrow> Inl (url_error s e)
              | None \<Rightarrow> Inr g))"

definition url_parse_request_uri :: "string \<Rightarrow> string + gourl" where
  "url_parse_request_uri s =
     (case url_parse_raw True s of Inl e \<Rightarrow> Inl (url_error s e) | Inr g \<Rightarrow> Inr g)"

subsection \<open>Facts\<close>

text \<open>A scheme other than the empty one is always followed by a colon in the text.\<close>

lemma get_scheme_colon:
  assumes "get_scheme s = Some (sc, r)" "sc \<noteq> []"
  shows "s = sc @ CHR '':'' # r"
proof (cases "dropWhile scheme_char s")
  case Nil
  with assms show ?thesis
    by (cases s) (simp_all add: get_scheme_def split: if_splits
                       del: dropWhile.simps dropWhile_eq_Nil_conv)
next
  case (Cons d q)
  have "s = takeWhile scheme_char s @ dropWhile scheme_char s" by simp
  with Cons assms show ?thesis
    by (cases s) (auto simp: get_scheme_def split: if_splits list.splits)
qed

lemma to_lower_Nil [simp]: "to_lower s = [] \<longleftrightarrow> s = []"
  by (simp add: to_lower_def)

lemma url_parse_raw_scheme:
  assumes "url_parse_raw via s = Inr g" "Scheme g \<noteq> []"
  shows "\<exists>sc r. s = sc @ CHR '':'' # r \<and> Scheme g = to_lower sc"
proof -
  from assms obtain sc r where sc: "get_scheme s = Some (sc, r)"
    by (auto simp: url_parse_raw_def split: if_splits option.splits)
  have "Scheme g = to_lower sc"
    using assms sc by (auto simp: url_parse_raw_def Let_def split: if_splits option.splits sum.splits)
  with assms(2) get_scheme_colon [OF sc] show ?thesis by auto
qed

end
