(* ===== verification/DataPatcher.thy ===== *)
theory DataPatcher
  imports KubeHandler Jq GoUrl
begin

text \<open>
  \<^verbatim>\<open>internal/data-patcher\<close>: secret placeholders \<^verbatim>\<open>{{name:namespace:key}}\<close> in strings, headers and
  responses (parser.go, patch.go), and the injection of response data into secrets
  (secret_patcher.go).

  The regular expression of a placeholder matches deterministically: its three names exclude the
  separators and white space, so greedy matching has one way to succeed. Where the code walks over
  a Go map the model follows the order of the list that stands for it.
\<close>

subsection \<open>Placeholders (parser.go)\<close>

text \<open>\<^verbatim>\<open>\s\<close> of a Go regular expression.\<close>

definition re_space :: "char \<Rightarrow> bool" where
  "re_space c \<longleftrightarrow> c \<in> {CHR 0x20, CHR 0x09, CHR 0x0A, CHR 0x0C, CHR 0x0D}"

definition name_char :: "char \<Rightarrow> bool" where
  "name_char c \<longleftrightarrow> c \<notin> {CHR '':'', CHR ''{'', CHR ''}''} \<and> \<not> re_space c"

record placeholder_match =
  MatchName :: string
  MatchNamespace :: string
  MatchKey :: string
  MatchText :: string
  MatchRest :: string

definition match_name :: "string \<Rightarrow> (string \<times> string) option" where
  "match_name s =
     (if takeWhile name_char s = [] then None
      else Some (takeWhile name_char s, dropWhile name_char s))"

definition expect :: "string \<Rightarrow> string \<Rightarrow> string option" where
  "expect p s = (if has_prefix p s then Some (drop (length p) s) else None)"

text \<open>A match of the whole pattern at the beginning of the string.\<close>

definition match_at :: "string \<Rightarrow> placeholder_match option" where
  "match_at s = do {
     s1 \<leftarrow> expect ''{{'' s;
     (n, s2) \<leftarrow> match_name (dropWhile re_space s1);
     s3 \<leftarrow> expect '':'' s2;
     (ns, s4) \<leftarrow> match_name s3;
     s5 \<leftarrow> expect '':'' s4;
     (k, s6) \<leftarrow> match_name s5;
     r \<leftarrow> expect ''}}'' (dropWhile re_space s6);
     Some \<lparr>MatchName = n, MatchNamespace = ns, MatchKey = k,
           MatchText = take (length s - length r) s, MatchRest = r\<rparr>
   }"

text \<open>\<^verbatim>\<open>re.FindAllString(value, -1)\<close>: leftmost matches that do not overlap.\<close>

lemma expect_length: "expect p s = Some r \<Longrightarrow> length r + length p = length s"
  by (auto simp: expect_def has_prefix_iff split: if_splits)

lemma match_name_length: "match_name s = Some (n, r) \<Longrightarrow> length r < length s"
proof -
  assume "match_name s = Some (n, r)"
  then have "s = n @ r" "n \<noteq> []" by (auto simp: match_name_def split: if_splits)
  then show ?thesis by (cases n) auto
qed

lemma match_at_rest: "match_at s = Some m \<Longrightarrow> length (MatchRest m) < length s"
proof -
  assume "match_at s = Some m"
  then obtain s1 n s2 s3 ns s4 s5 k s6 r where
      1: "expect ''{{'' s = Some s1" and 2: "match_name (dropWhile re_space s1) = Some (n, s2)"
      and 3: "expect '':'' s2 = Some s3" and 4: "match_name s3 = Some (ns, s4)"
      and 5: "expect '':'' s4 = Some s5" and 6: "match_name s5 = Some (k, s6)"
      and 7: "expect ''}}'' (dropWhile re_space s6) = Some r" and m: "MatchRest m = r"
    by (auto simp: match_at_def Option.bind_eq_Some_conv)
  have "length (dropWhile re_space s1) \<le> length s1" "length (dropWhile re_space s6) \<le> length s6"
    by (simp_all add: length_dropWhile_le)
  then show ?thesis
    using expect_length [OF 1] match_name_length [OF 2] expect_length [OF 3] match_name_length [OF 4]
      expect_length [OF 5] match_name_length [OF 6] expect_length [OF 7] m
    by simp
qed

function findPlaceholders :: "string \<Rightarrow> string list" where
  "findPlaceholders [] = []"
| "findPlaceholders (c # cs) =
     (case match_at (c # cs) of
        Some m \<Rightarrow> MatchText m # findPlaceholders (MatchRest m)
      | None \<Rightarrow> findPlaceholders cs)"
  by pat_completeness auto
termination
  by (relation "measure length") (auto dest: match_at_rest)

text \<open>\<open>removeDuplicates\<close> keeps the first of equal strings.\<close>

fun remove_seen :: "string list \<Rightarrow> string list \<Rightarrow> string list" where
  "remove_seen seen [] = []"
| "remove_seen seen (s # ss) =
     (if s \<in> set seen then remove_seen seen ss else s # remove_seen (s # seen) ss)"

definition removeDuplicates :: "string list \<Rightarrow> string list" where
  "removeDuplicates ss = remove_seen [] ss"

text \<open>\<^verbatim>\<open>re.FindStringSubmatch\<close>: the leftmost match.\<close>

fun parsePlaceholder :: "string \<Rightarrow> (string \<times> string \<times> string) option" where
  "parsePlaceholder [] = None"
| "parsePlaceholder (c # cs) =
     (case match_at (c # cs) of
        Some m \<Rightarrow> Some (MatchName m, MatchNamespace m, MatchKey m)
      | None \<Rightarrow> parsePlaceholder cs)"

definition data_value :: "Secret \<Rightarrow> string \<Rightarrow> string" where
  "data_value s k =
     (case SecretData s of
        None \<Rightarrow> []
      | Some m \<Rightarrow> (case map_of m k of None \<Rightarrow> [] | Some v \<Rightarrow> v))"

definition replacePlaceholderWithSecretValue :: "string \<Rightarrow> string \<Rightarrow> Secret \<Rightarrow> string \<Rightarrow> string" where
  "replacePlaceholderWithSecretValue s old secret key = replace_all old (data_value secret key) s"

fun patch_placeholders ::
  "'cr env \<Rightarrow> string list \<Rightarrow> string \<Rightarrow> ('cr world, goerr + string) state" where
  "patch_placeholders E [] v = State_Monad.return (Inr v)"
| "patch_placeholders E (p # ps) v =
     (case parsePlaceholder p of
        None \<Rightarrow> State_Monad.return (Inr v)
      | Some (name, ns, key) \<Rightarrow> do {
          r \<leftarrow> GetSecret E name ns;
          case r of
            Inl err \<Rightarrow> State_Monad.return (Inl err)
          | Inr secret \<Rightarrow> patch_placeholders E ps (replacePlaceholderWithSecretValue v p secret key)
        })"

definition patchSecretsToValue :: "'cr env \<Rightarrow> string \<Rightarrow> ('cr world, goerr + string) state" where
  "patchSecretsToValue E v = patch_placeholders E (removeDuplicates (findPlaceholders v)) v"

subsection \<open>Responses and headers (patch.go)\<close>

definition PatchSecretsIntoString :: "'cr env \<Rightarrow> string \<Rightarrow> ('cr world, goerr + string) state" where
  "PatchSecretsIntoString E s = patchSecretsToValue E s"

definition copyHeaders :: "headers \<Rightarrow> headers" where
  "copyHeaders h = Some (case h of None \<Rightarrow> [] | Some m \<Rightarrow> m)"

fun patch_values :: "'cr env \<Rightarrow> string list \<Rightarrow> ('cr world, goerr + string list) state" where
  "patch_values E [] = State_Monad.return (Inr [])"
| "patch_values E (v # vs) = do {
     r \<leftarrow> patchSecretsToValue E v;
     case r of
       Inl err \<Rightarrow> State_Monad.return (Inl err)
     | Inr v' \<Rightarrow> do { rs \<leftarrow> patch_values E vs; State_Monad.return (map_sum id (\<lambda>vs'. v' # vs') rs) }
   }"

fun patch_header_map ::
  "'cr env \<Rightarrow> (string \<times> string list) list \<Rightarrow> ('cr world, goerr + (string \<times> string list) list) state" where
  "patch_header_map E [] = State_Monad.return (Inr [])"
| "patch_header_map E ((k, vs) # m) = do {
     r \<leftarrow> patch_values E vs;
     case r of
       Inl err \<Rightarrow> State_Monad.return (Inl err)
     | Inr vs' \<Rightarrow> do { rs \<leftarrow> patch_header_map E m; State_Monad.return (map_sum id (\<lambda>m'. (k, vs') # m') rs) }
   }"

definition PatchSecretsIntoHeaders :: "'cr env \<Rightarrow> headers \<Rightarrow> ('cr world, goerr + headers) state" where
  "PatchSecretsIntoHeaders E h = do {
     r \<leftarrow> patch_header_map E (case copyHeaders h of None \<Rightarrow> [] | Some m \<Rightarrow> m);
     State_Monad.return (map_sum id Some r)
   }"

definition PatchSecretsIntoResponse ::
  "'cr env \<Rightarrow> Response option \<Rightarrow> ('cr world, goerr + Response option) state" where
  "PatchSecretsIntoResponse E response =
     (case response of
        None \<Rightarrow> State_Monad.return (Inr None)
      | Some resp \<Rightarrow> do {
          b \<leftarrow> PatchSecretsIntoString E (Body resp);
          case b of
            Inl err \<Rightarrow> State_Monad.return (Inl err)
          | Inr body \<Rightarrow> do {
              h \<leftarrow> PatchSecretsIntoHeaders E (Headers resp);
              case h of
                Inl err \<Rightarrow> State_Monad.return (Inl err)
              | Inr hdrs \<Rightarrow>
                  State_Monad.return (Inr (Some \<lparr>StatusCode = StatusCode resp, Body = body, Headers = hdrs\<rparr>))
            }
        })"

subsection \<open>Injecting response data into secrets (secret_patcher.go)\<close>

definition secretPlaceholder :: "Secret \<Rightarrow> string \<Rightarrow> string" where
  "secretPlaceholder s key =
     ''{{'' @ SecretName s @ '':'' @ SecretNamespace s @ '':'' @ key @ ''}}''"

definition prepareDataMap :: "Response \<Rightarrow> json" where
  "prepareDataMap r = ConvertJSONStringsToMaps (http_response_json r)"

definition extractValueToPatch :: "'cr env \<Rightarrow> json \<Rightarrow> string \<Rightarrow> string option" where
  "extractValueToPatch E dataMap path =
     (case Exists E path dataMap of
        Inl _ \<Rightarrow> None
      | Inr False \<Rightarrow> None
      | Inr True \<Rightarrow>
          (case ParseString E path dataMap of
             Inr v \<Rightarrow> Some v
           | Inl _ \<Rightarrow>
               (case ParseBool E path dataMap of
                  Inr b \<Rightarrow> Some (if b then ''true'' else ''false'')
                | Inl _ \<Rightarrow>
                    (case ParseFloat E path dataMap of
                       Inr (m, e) \<Rightarrow> Some (num_plain m e)
                     | Inl _ \<Rightarrow>
                         (case ParseMapInterface E path dataMap of
                            Inr obj \<Rightarrow> Some (json_marshal obj)
                          | Inl _ \<Rightarrow> None)))))"

definition updateSecretData :: "Secret \<Rightarrow> string \<Rightarrow> string option \<Rightarrow> MissingFieldStrategy \<Rightarrow> Secret" where
  "updateSecretData s key v strategy =
     (let d = (case SecretData s of None \<Rightarrow> [] | Some m \<Rightarrow> m)
      in s\<lparr>SecretData := Some
           (case v of
              Some x \<Rightarrow> map_put key x d
            | None \<Rightarrow>
                (case strategy of
                   PreserveMissingField \<Rightarrow> d
                 | SetEmptyMissingField \<Rightarrow> map_put key [] d
                 | DeleteMissingField \<Rightarrow> map_del key d
                 | OtherMissingField _ \<Rightarrow> d))\<rparr>)"

definition isJSONObject :: "string \<Rightarrow> bool" where
  "isJSONObject s =
     (let t = trim_space s in 2 \<le> length t \<and> hd t = CHR ''{'' \<and> last t = CHR ''}'')"

text \<open>
  \<open>walkAndReplace\<close> replaces the first subtree whose text is the target; \<open>walk_fields\<close> and \<open>walk_list\<close>
  are its loops over the children. \<open>None\<close> is the answer with \<open>false\<close>, the tree unchanged.
\<close>

fun walkAndReplace :: "string \<Rightarrow> string \<Rightarrow> json \<Rightarrow> json option"
  and walk_fields :: "string \<Rightarrow> string \<Rightarrow> (string \<times> json) list \<Rightarrow> (string \<times> json) list option"
  and walk_list :: "string \<Rightarrow> string \<Rightarrow> json list \<Rightarrow> json list option" where
  "walkAndReplace target ph (JObj fs) =
     (if json_marshal (JObj fs) = target then Some (JStr ph)
      else map_option JObj (walk_fields target ph fs))"
| "walkAndReplace target ph (JArr xs) = map_option JArr (walk_list target ph xs)"
| "walkAndReplace target ph v = None"
| "walk_fields target ph [] = None"
| "walk_fields target ph ((k, v) # fs) =
     (case walkAndReplace target ph v of
        Some v' \<Rightarrow> Some ((k, v') # fs)
      | None \<Rightarrow> map_option (\<lambda>fs'. (k, v) # fs') (walk_fields target ph fs))"
| "walk_list target ph [] = None"
| "walk_list target ph (x # xs) =
     (case walkAndReplace target ph x of
        Some x' \<Rightarrow> Some (x' # xs)
      | None \<Rightarrow> map_option (\<lambda>xs'. x # xs') (walk_list target ph xs))"

definition replaceJSONObjectInBody :: "string \<Rightarrow> string \<Rightarrow> string \<Rightarrow> string option" where
  "replaceJSONObjectInBody body canonical ph =
     (case json_unmarshal body of
        None \<Rightarrow> None
      | Some v \<Rightarrow> map_option json_marshal (walkAndReplace canonical ph v))"

definition dquote :: "string \<Rightarrow> string" where
  "dquote s = CHR 0x22 # s @ [CHR 0x22]"

definition replaceSensitiveValues :: "Response \<Rightarrow> Secret \<Rightarrow> string \<Rightarrow> string option \<Rightarrow> Response" where
  "replaceSensitiveValues d s key v =
     (case v of
        None \<Rightarrow> d
      | Some x \<Rightarrow>
          if x = [] then d
          else
            let ph = secretPlaceholder s key
            in d\<lparr>Body :=
                   (if isJSONObject x then
                      (case replaceJSONObjectInBody (Body d) x ph of
                         Some b \<Rightarrow> b
                       | None \<Rightarrow> replace_all x (dquote ph) (Body d))
                    else replace_all (dquote x) (dquote ph) (Body d)),
                 Headers := map_option (map (\<lambda>(k, vs). (k, map (replace_all x ph) vs))) (Headers d)\<rparr>)"

text \<open>
  \<open>updateSecretWithPatchedValue\<close> answers the error, the secret and the response as it left them.
\<close>

definition updateSecretWithPatchedValue ::
  "'cr env \<Rightarrow> Response \<Rightarrow> Response \<Rightarrow> Secret \<Rightarrow> KeyInjection \<Rightarrow>
   ('cr world, goerr option \<times> Secret \<times> Response) state" where
  "updateSecretWithPatchedValue E d orig s m =
     (let v = extractValueToPatch E (prepareDataMap orig) (ResponseJQ m)
      in if v = Some (secretPlaceholder s (SecretKey m)) then State_Monad.return (None, s, d)
         else do {
           r \<leftarrow> UpdateSecret E (updateSecretData s (SecretKey m) v (MissingStrategy m));
           State_Monad.return (fst r, snd r,
             replaceSensitiveValues d (updateSecretData s (SecretKey m) v (MissingStrategy m))
               (SecretKey m) v)
         })"

subsubsection \<open>Labels and annotations\<close>

definition isAlphanumeric :: "char \<Rightarrow> bool" where
  "isAlphanumeric c \<longleftrightarrow> is_alpha c \<or> is_digit c"

definition isValidMiddleChar :: "char \<Rightarrow> bool" where
  "isValidMiddleChar c \<longleftrightarrow> isAlphanumeric c \<or> c = CHR ''-'' \<or> c = CHR ''_'' \<or> c = CHR ''.''"

definition isFirstOrLastChar :: "nat \<Rightarrow> nat \<Rightarrow> bool" where
  "isFirstOrLastChar i n \<longleftrightarrow> i = 0 \<or> Suc i = n"

definition isValidLabelPattern :: "string \<Rightarrow> bool" where
  "isValidLabelPattern s =
     list_all (\<lambda>(i, c). if isFirstOrLastChar i (length s) then isAlphanumeric c else isValidMiddleChar c)
       (zip [0..<length s] s)"

definition isValidLabelValue :: "string \<Rightarrow> bool" where
  "isValidLabelValue s = (if s = [] then True else if 63 < length s then False else isValidLabelPattern s)"

definition desired_value :: "'cr env \<Rightarrow> json \<Rightarrow> string \<Rightarrow> string" where
  "desired_value E dataMap v =
     (if IsJQQuery E v then (case extractValueToPatch E dataMap v of Some x \<Rightarrow> x | None \<Rightarrow> v) else v)"

fun sync_put ::
  "'cr env \<Rightarrow> json \<Rightarrow> (string \<times> string) list \<Rightarrow> (string \<times> string) list \<times> bool \<Rightarrow>
   (string \<times> string) list \<times> bool" where
  "sync_put E dataMap [] acc = acc"
| "sync_put E dataMap ((k, v) # desired) (m, changed) =
     (let x = desired_value E dataMap v
      in if \<not> isValidLabelValue x then sync_put E dataMap desired (m, changed)
         else if (case map_of m k of None \<Rightarrow> [] | Some y \<Rightarrow> y) \<noteq> x
           then sync_put E dataMap desired (map_put k x m, True)
         else sync_put E dataMap desired (m, changed))"

text \<open>\<open>syncMap\<close>: the synchronised map and whether anything changed.\<close>

definition syncMap ::
  "'cr env \<Rightarrow> (string \<times> string) list \<Rightarrow> (string \<times> string) list \<Rightarrow> json \<Rightarrow>
   (string \<times> string) list \<times> bool" where
  "syncMap E existing desired dataMap =
     (let (m, changed) = sync_put E dataMap desired (existing, False);
          m' = filter (\<lambda>(k, v). k \<in> fst ` set desired) m
      in (m', changed \<or> m' \<noteq> m))"

definition sync_option ::
  "'cr env \<Rightarrow> (string \<times> string) list option \<Rightarrow> (string \<times> string) list option \<Rightarrow> json \<Rightarrow>
   (string \<times> string) list option \<times> bool" where
  "sync_option E existing desired dataMap =
     (let start = (case existing of None \<Rightarrow> (if desired = None then None else Some []) | Some m \<Rightarrow> Some m);
          (m, changed) = syncMap E (case start of None \<Rightarrow> [] | Some x \<Rightarrow> x)
                           (case desired of None \<Rightarrow> [] | Some x \<Rightarrow> x) dataMap
      in (map_option (\<lambda>_. m) start, changed))"

definition updateSecretLabelsAndAnnotations ::
  "'cr env \<Rightarrow> Response \<Rightarrow> Secret \<Rightarrow> (string \<times> string) list option \<Rightarrow>
   (string \<times> string) list option \<Rightarrow> ('cr world, goerr option) state" where
  "updateSecretLabelsAndAnnotations E d s labels annots =
     (let dataMap = prepareDataMap d;
          (l, c1) = sync_option E (SecretLabels s) labels dataMap;
          (a, c2) = sync_option E (SecretAnnotations s) annots dataMap
      in if c1 \<or> c2
         then do { r \<leftarrow> UpdateSecret E (s\<lparr>SecretLabels := l, SecretAnnotations := a\<rparr>);
                   State_Monad.return (fst r) }
         else State_Monad.return None)"

subsubsection \<open>The configurations of a resource (patch.go)\<close>

fun apply_mappings ::
  "'cr env \<Rightarrow> Response \<Rightarrow> KeyInjection list \<Rightarrow> Response \<Rightarrow> Secret \<Rightarrow>
   ('cr world, goerr option \<times> Secret \<times> Response) state" where
  "apply_mappings E orig [] d s = State_Monad.return (None, s, d)"
| "apply_mappings E orig (m # ms) d s = do {
     (err, s', d') \<leftarrow> updateSecretWithPatchedValue E d orig s m;
     case err of
       Some e \<Rightarrow> State_Monad.return (Some e, s', d')
     | None \<Rightarrow> apply_mappings E orig ms d' s'
   }"

definition applySecretConfig ::
  "'cr env \<Rightarrow> Response \<Rightarrow> Response \<Rightarrow> SecretInjectionConfig \<Rightarrow> Secret \<Rightarrow>
   ('cr world, goerr option \<times> Response) state" where
  "applySecretConfig E d orig cfg s = do {
     (err, s', d') \<leftarrow> apply_mappings E orig
        (case KeyMappings cfg of
           Some ms \<Rightarrow> ms
         | None \<Rightarrow> [\<lparr>SecretKey = OldSecretKey cfg, ResponseJQ = ResponsePath cfg,
                     MissingStrategy = DeleteMissingField\<rparr>]) d s;
     case err of
       Some e \<Rightarrow> State_Monad.return (Some (Wrapped e ''cannot patch to referenced secret''), d')
     | None \<Rightarrow> do {
         err2 \<leftarrow> updateSecretLabelsAndAnnotations E d' s' (MetaLabels cfg) (MetaAnnotations cfg);
         State_Monad.return (Wrap err2 ''cannot patch to referenced secret'', d')
       }
   }"

definition patchResponseDataToSecret ::
  "'cr env \<Rightarrow> Response \<Rightarrow> Response \<Rightarrow> ('cr \<times> string) option \<Rightarrow> SecretInjectionConfig \<Rightarrow>
   ('cr world, goerr option \<times> Response) state" where
  "patchResponseDataToSecret E d orig owner cfg = do {
     r \<leftarrow> GetOrCreateSecret E (SecretRefName cfg) (SecretRefNamespace cfg) owner;
     case r of
       Inl err \<Rightarrow> State_Monad.return (Some err, d)
     | Inr s \<Rightarrow> applySecretConfig E d orig cfg s
   }"

text \<open>The owner is the resource, given by the object, its namespace and its UID.\<close>

definition secret_owner ::
  "'cr \<Rightarrow> string \<Rightarrow> string \<Rightarrow> SecretInjectionConfig \<Rightarrow> ('cr \<times> string) option" where
  "secret_owner cr ns uid cfg =
     (if SetOwnerReference cfg \<and> (ns = [] \<or> ns = SecretRefNamespace cfg) then Some (cr, uid) else None)"

fun apply_configs ::
  "'cr env \<Rightarrow> Response \<Rightarrow> 'cr \<Rightarrow> string \<Rightarrow> string \<Rightarrow> SecretInjectionConfig list \<Rightarrow> Response \<Rightarrow>
   ('cr world, Response) state" where
  "apply_configs E orig cr ns uid [] d = State_Monad.return d"
| "apply_configs E orig cr ns uid (cfg # cfgs) d = do {
     (err, d') \<leftarrow> patchResponseDataToSecret E d orig (secret_owner cr ns uid cfg) cfg;
     apply_configs E orig cr ns uid cfgs d'
   }"

definition ApplyResponseDataToSecrets ::
  "'cr env \<Rightarrow> 'cr \<Rightarrow> string \<Rightarrow> string \<Rightarrow> Response \<Rightarrow> SecretInjectionConfig list \<Rightarrow>
   ('cr world, Response) state" where
  "ApplyResponseDataToSecrets E cr ns uid d cfgs =
     apply_configs E (d\<lparr>Headers := copyHeaders (Headers d)\<rparr>) cr ns uid cfgs d"

subsection \<open>Only secrets are touched\<close>

lemma emits_patch_placeholders: "emits_same is_secret_read (patch_placeholders E ps v)"
  by (induction E ps v rule: patch_placeholders.induct) (auto intro!: keeps_intros)

lemma emits_patchSecretsToValue [keeps_intros]: "emits_same is_secret_read (patchSecretsToValue E v)"
  unfolding patchSecretsToValue_def by (rule emits_patch_placeholders)

lemma emits_PatchSecretsIntoString [keeps_intros]:
  "emits_same is_secret_read (PatchSecretsIntoString E v)"
  unfolding PatchSecretsIntoString_def by (auto intro!: keeps_intros)

lemma emits_patch_values: "emits_same is_secret_read (patch_values E vs)"
  by (induction E vs rule: patch_values.induct) (auto intro!: keeps_intros)

lemma emits_patch_header_map: "emits_same is_secret_read (patch_header_map E m)"
  by (induction E m rule: patch_header_map.induct)
     (auto intro!: keeps_intros emits_patch_values)

lemma emits_PatchSecretsIntoHeaders [keeps_intros]:
  "emits_same is_secret_read (PatchSecretsIntoHeaders E h)"
  unfolding PatchSecretsIntoHeaders_def by (auto intro!: keeps_intros emits_patch_header_map)

lemma emits_PatchSecretsIntoResponse [keeps_intros]:
  "emits_same is_secret_read (PatchSecretsIntoResponse E r)"
  unfolding PatchSecretsIntoResponse_def by (auto intro!: keeps_intros)

lemma emits_updateSecretWithPatchedValue [keeps_intros]:
  "emits_same is_secret_event (updateSecretWithPatchedValue E d orig s m)"
  unfolding updateSecretWithPatchedValue_def by (auto intro!: keeps_intros)

lemma emits_updateSecretLabelsAndAnnotations [keeps_intros]:
  "emits_same is_secret_event (updateSecretLabelsAndAnnotations E d s l a)"
  unfolding updateSecretLabelsAndAnnotations_def by (auto intro!: keeps_intros split: prod.splits)

lemma emits_apply_mappings: "emits_same is_secret_event (apply_mappings E orig ms d s)"
  by (induction E orig ms d s rule: apply_mappings.induct) (auto intro!: keeps_intros)

lemma emits_applySecretConfig [keeps_intros]:
  "emits_same is_secret_event (applySecretConfig E d orig cfg s)"
  unfolding applySecretConfig_def by (auto intro!: keeps_intros emits_apply_mappings)

lemma emits_patchResponseDataToSecret [keeps_intros]:
  "emits_same is_secret_event (patchResponseDataToSecret E d orig owner cfg)"
  unfolding patchResponseDataToSecret_def by (auto intro!: keeps_intros)

lemma emits_apply_configs: "emits_same is_secret_event (apply_configs E orig cr ns uid cfgs d)"
  by (induction E orig cr ns uid cfgs d rule: apply_configs.induct) (auto intro!: keeps_intros)

lemma emits_ApplyResponseDataToSecrets [keeps_intros]:
  "emits_same is_secret_event (ApplyResponseDataToSecrets E cr ns uid d cfgs)"
  unfolding ApplyResponseDataToSecrets_def by (rule emits_apply_configs)

subsection \<open>Placeholders\<close>

text \<open>The names of a placeholder: not empty, without separators and white space.\<close>

definition placeholder_name :: "string \<Rightarrow> bool" where
  "placeholder_name n \<longleftrightarrow> n \<noteq> [] \<and> list_all name_char n"

definition no_brace :: "string \<Rightarrow> bool" where
  "no_brace s \<longleftrightarrow> CHR ''{'' \<notin> set s"

lemma no_brace_simps [simp]:
  "no_brace []" "no_brace (c # s) \<longleftrightarrow> c \<noteq> CHR ''{'' \<and> no_brace s"
  "no_brace (s @ t) \<longleftrightarrow> no_brace s \<and> no_brace t"
  by (auto simp: no_brace_def)

lemma name_char_simps [simp]:
  "\<not> name_char (CHR '':'')" "\<not> name_char (CHR ''{'')" "\<not> name_char (CHR ''}'')"
  by (simp_all add: name_char_def)

lemma match_name_here:
  assumes "placeholder_name n" "\<not> name_char c"
  shows "match_name (n @ c # r) = Some (n, c # r)"
proof -
  have "\<forall>x \<in> set n. name_char x" "n \<noteq> []"
    using assms(1) by (auto simp: placeholder_name_def list_all_iff)
  then have "takeWhile name_char (n @ c # r) = n" "dropWhile name_char (n @ c # r) = c # r"
    using assms(2) by (simp_all add: takeWhile_append2 dropWhile_append2)
  then show ?thesis using \<open>n \<noteq> []\<close> by (simp add: match_name_def)
qed

lemma name_not_space:
  assumes "placeholder_name n"
  shows "dropWhile re_space (n @ r) = n @ r"
proof -
  from assms have "n \<noteq> []" "name_char (hd n)" by (cases n; simp add: placeholder_name_def)+
  then show ?thesis by (cases n) (auto simp: name_char_def)
qed

lemma match_at_placeholder:
  assumes "placeholder_name n" "placeholder_name ns" "placeholder_name k"
  shows "match_at (''{{'' @ n @ '':'' @ ns @ '':'' @ k @ ''}}'' @ r) =
    Some \<lparr>MatchName = n, MatchNamespace = ns, MatchKey = k,
          MatchText = ''{{'' @ n @ '':'' @ ns @ '':'' @ k @ ''}}'', MatchRest = r\<rparr>"
proof -
  define ph where "ph = ''{{'' @ n @ '':'' @ ns @ '':'' @ k @ ''}}''"
  define s where "s = ph @ r"
  have "expect ''{{'' s = Some (n @ '':'' @ ns @ '':'' @ k @ ''}}'' @ r)"
    by (simp add: s_def ph_def expect_def)
  then have "match_at s = Some \<lparr>MatchName = n, MatchNamespace = ns, MatchKey = k,
      MatchText = take (length s - length r) s, MatchRest = r\<rparr>"
    using assms by (simp add: match_at_def name_not_space match_name_here expect_def re_space_def)
  moreover have "take (length s - length r) s = ph" by (simp add: s_def)
  moreover have "''{{'' @ n @ '':'' @ ns @ '':'' @ k @ ''}}'' @ r = s" by (simp add: s_def ph_def)
  ultimately show ?thesis by (simp only: ph_def [symmetric])
qed

lemma match_at_no_brace: "c \<noteq> CHR ''{'' \<Longrightarrow> match_at (c # s) = None"
  by (simp add: match_at_def expect_def)

lemma findPlaceholders_skip: "no_brace s \<Longrightarrow> findPlaceholders (s @ t) = findPlaceholders t"
  by (induction s) (auto simp: match_at_no_brace)

lemma findPlaceholders_none [simp]: "no_brace s \<Longrightarrow> findPlaceholders s = []"
  using findPlaceholders_skip [of s "[]"] by simp

lemma replace_all_skip:
  "no_brace s \<Longrightarrow> hd old = CHR ''{'' \<Longrightarrow> old \<noteq> [] \<Longrightarrow> replace_all old new (s @ t) = s @ replace_all old new t"
  by (induction s) (auto simp: neq_Nil_conv)

lemma replace_all_here:
  "old \<noteq> [] \<Longrightarrow> replace_all old new (old @ t) = new @ replace_all old new t"
  by (cases old) auto

text \<open>A text without an opening brace is left alone, and no secret is read for it.\<close>

lemma PatchSecretsIntoString_plain:
  "no_brace s \<Longrightarrow> run_state (PatchSecretsIntoString E s) w = (Inr s, w)"
  by (simp add: PatchSecretsIntoString_def patchSecretsToValue_def removeDuplicates_def)

lemma wp_PatchSecretsIntoString_placeholder:
  assumes names: "placeholder_name (SecretName s)" "placeholder_name (SecretNamespace s)"
      "placeholder_name k"
    and plain: "no_brace pre" "no_brace post"
    and read: "ReadSecret E (Hist w) (SecretName s) (SecretNamespace s) = Inr s'"
  shows "run_state (PatchSecretsIntoString E (pre @ secretPlaceholder s k @ post)) w =
    (Inr (pre @ data_value s' k @ post),
     w\<lparr>Hist := SecretRead (SecretName s) (SecretNamespace s) # Hist w\<rparr>)"
proof -
  let ?p = "secretPlaceholder s k"
  obtain cs where p: "?p = CHR ''{'' # cs" by (simp add: secretPlaceholder_def)
  have m: "match_at (?p @ r) = Some \<lparr>MatchName = SecretName s, MatchNamespace = SecretNamespace s,
      MatchKey = k, MatchText = ?p, MatchRest = r\<rparr>" for r
    using match_at_placeholder [OF names, of r] by (simp add: secretPlaceholder_def)
  have "findPlaceholders (?p @ post) = [?p]"
    using m [of post] plain(2) by (simp add: p)
  then have "removeDuplicates (findPlaceholders (pre @ ?p @ post)) = [?p]"
    using plain(1) by (simp add: findPlaceholders_skip removeDuplicates_def)
  moreover have "parsePlaceholder ?p = Some (SecretName s, SecretNamespace s, k)"
    using m [of "[]"] by (simp add: p)
  moreover have "replace_all ?p v (pre @ ?p @ post) = pre @ v @ post" for v
  proof -
    have "replace_all ?p v post = post"
      using plain(2) replace_all_skip [of post ?p v "[]"] by (simp add: p)
    then show ?thesis
      using plain(1) replace_all_here [of ?p v post] by (simp add: replace_all_skip p)
  qed
  ultimately show ?thesis
    using read by (simp add: PatchSecretsIntoString_def patchSecretsToValue_def GetSecret_def
        kubeGetSecret_def emit_def replacePlaceholderWithSecretValue_def)
qed

subsection \<open>Labels\<close>

lemma list_all_zip_upt:
  "list_all (\<lambda>(i, c). P i c) (zip [0..<length s] s) \<longleftrightarrow> (\<forall>i < length s. P i (s ! i))"
  by (auto simp: list_all_length)

text \<open>
  A valid label value is empty, or at most 63 characters long, begins and ends with a letter or a
  digit and has only letters, digits, dashes, underscores and dots in between.
\<close>

lemma isValidLabelValue_iff:
  "isValidLabelValue s \<longleftrightarrow>
     s = [] \<or> (length s \<le> 63 \<and> isAlphanumeric (hd s) \<and> isAlphanumeric (last s) \<and>
              list_all isValidMiddleChar s)"
proof (cases "s = []")
  case False
  have "isValidLabelPattern s \<longleftrightarrow>
      isAlphanumeric (s ! 0) \<and> isAlphanumeric (s ! (length s - 1)) \<and> (\<forall>i < length s. isValidMiddleChar (s ! i))"
    (is "?l \<longleftrightarrow> ?r")
  proof
    assume l: ?l
    then have "\<forall>i < length s. if isFirstOrLastChar i (length s) then isAlphanumeric (s ! i)
        else isValidMiddleChar (s ! i)"
      unfolding isValidLabelPattern_def list_all_zip_upt .
    moreover have "0 < length s" using False by simp
    ultimately show ?r
      unfolding isFirstOrLastChar_def isValidMiddleChar_def
      by (metis One_nat_def Suc_pred diff_less zero_less_one)
  next
    assume r: ?r
    show ?l
      unfolding isValidLabelPattern_def list_all_zip_upt isFirstOrLastChar_def
    proof (intro allI impI)
      fix i assume i: "i < length s"
      have "Suc i = length s \<Longrightarrow> i = length s - 1" by simp
      with r i show "if i = 0 \<or> Suc i = length s then isAlphanumeric (s ! i) else isValidMiddleChar (s ! i)"
        by auto
    qed
  qed
  with False show ?thesis
    by (auto simp: isValidLabelValue_def hd_conv_nth last_conv_nth list_all_length)
qed (simp add: isValidLabelValue_def)

end
