(* ===== verification/Utils.thy ===== *)
theory Utils
  imports GoUrl ApiTypes
begin

text \<open>
  \<^verbatim>\<open>internal/utils\<close>: validity of a request (validate.go), the retry limits of a disposable request
  (retry.go) and the normalisation of white space (strings.go).
\<close>

subsection \<open>validate.go\<close>

definition IsUrlValid :: "string \<Rightarrow> bool" where
  "IsUrlValid s =
     (case url_parse_request_uri s of Inl _ \<Rightarrow> False | Inr u \<Rightarrow> Scheme u \<noteq> [] \<and> Host u \<noteq> [])"

definition IsRequestValid :: "string \<Rightarrow> string \<Rightarrow> goerr option" where
  "IsRequestValid meth url =
     (if meth = [] then Some (ErrorString ''no method is specified'')
      else if \<not> IsUrlValid url then Some (ErrorString (''invalid url '' @ url))
      else None)"

definition IsHTTPSuccess :: "int \<Rightarrow> bool" where
  "IsHTTPSuccess n \<longleftrightarrow> 200 \<le> n \<and> n < 300"

definition IsHTTPError :: "int \<Rightarrow> int list \<Rightarrow> bool" where
  "IsHTTPError n allowed \<longleftrightarrow> \<not> (n < 400 \<or> 600 \<le> n) \<and> n \<notin> set allowed"

definition ErrStatusCode :: "string \<Rightarrow> int \<Rightarrow> goerr" where
  "ErrStatusCode meth n =
     ErrorString (''HTTP '' @ meth @ '' request failed with status code: '' @ itoa n)"

subsection \<open>retry.go\<close>

definition defaultWaitTimeout :: int where "defaultWaitTimeout = 5 * minute"

definition RollBackEnabled :: "32 word option \<Rightarrow> bool" where
  "RollBackEnabled limit \<longleftrightarrow> limit \<noteq> None"

definition ShouldRetry :: "32 word option \<Rightarrow> 32 word \<Rightarrow> bool" where
  "ShouldRetry limit failed \<longleftrightarrow> RollBackEnabled limit \<and> failed \<noteq> 0"

definition RetriesLimitReached :: "32 word \<Rightarrow> 32 word option \<Rightarrow> bool" where
  "RetriesLimitReached failed limit =
     (case limit of None \<Rightarrow> False | Some n \<Rightarrow> sint failed \<ge> sint n)"

definition WaitTimeoutOf :: "string option \<Rightarrow> int" where
  "WaitTimeoutOf t = ParseDuration t defaultWaitTimeout"

definition GetRollbackRetriesLimit :: "32 word option \<Rightarrow> 32 word" where
  "GetRollbackRetriesLimit limit = (case limit of None \<Rightarrow> 1 | Some n \<Rightarrow> n)"

subsection \<open>strings.go\<close>

definition NormalizeWhitespace :: "string \<Rightarrow> string" where
  "NormalizeWhitespace s = str_join (str_fields s) '' ''"

subsection \<open>Facts\<close>

lemma success_not_error: "IsHTTPSuccess n \<Longrightarrow> \<not> IsHTTPError n allowed"
  by (simp add: IsHTTPSuccess_def IsHTTPError_def)

lemma IsHTTPError_zero [simp]: "\<not> IsHTTPError 0 allowed" "\<not> IsHTTPSuccess 0"
  by (simp_all add: IsHTTPError_def IsHTTPSuccess_def)

text \<open>Normalising a text twice is normalising it once.\<close>

lemma NormalizeWhitespace_idem: "NormalizeWhitespace (NormalizeWhitespace s) = NormalizeWhitespace s"
proof -
  have "list_all (\<lambda>x. x \<noteq> [] \<and> no_space x) (str_fields s)"
    using str_fields_no_space by (auto simp: list_all_iff)
  then show ?thesis by (simp add: NormalizeWhitespace_def str_fields_join)
qed

lemma IsUrlValid_absolute:
  assumes "IsUrlValid s"
  shows "\<exists>sc r. s = sc @ CHR '':'' # r \<and> sc \<noteq> []"
proof -
  from assms obtain u where "url_parse_raw True s = Inr u" "Scheme u \<noteq> []"
    by (auto simp: IsUrlValid_def url_parse_request_uri_def split: sum.splits)
  from url_parse_raw_scheme [OF this] this(2) show ?thesis by fastforce
qed

lemma IsRequestValid_ok:
  "IsRequestValid meth url = None \<longleftrightarrow> meth \<noteq> [] \<and> IsUrlValid url"
  by (simp add: IsRequestValid_def)

end
