(* ===== verification/RequestMapping.thy ===== *)
theory RequestMapping
  imports World Utils
begin

text \<open>
  \<^verbatim>\<open>internal/service/request/requestmapping/mapping.go\<close>: which mapping of the spec serves an action.

  \<open>GetMapping\<close> returns a pointer into the spec and sets the method there when it is empty; the model
  returns the mapping together with the spec so changed, and \<open>getMapping\<close> stores it back in the
  resource in memory. A later read of the resource replaces the spec as a whole, so the mapping a
  caller holds is a value.
\<close>

definition getDefaultMethodByAction :: "string \<Rightarrow> string" where
  "getDefaultMethodByAction action =
     (if action = ActionCreate then ''POST''
      else if action = ActionObserve then ''GET''
      else if action = ActionUpdate then ''PUT''
      else if action = ActionRemove then ''DELETE''
      else ''GET'')"

definition getMappingByMethod :: "AsyncRequestParameters \<Rightarrow> string \<Rightarrow> Mapping option" where
  "getMappingByMethod p meth = find (\<lambda>m. Method m = meth) (Mappings p)"

definition getMappingByAction :: "AsyncRequestParameters \<Rightarrow> string \<Rightarrow> Mapping option" where
  "getMappingByAction p action = find (\<lambda>m. Action m = action) (Mappings p)"

text \<open>\<open>SetMethod\<close> on the first mapping of an action.\<close>

fun set_method :: "string \<Rightarrow> string \<Rightarrow> Mapping list \<Rightarrow> Mapping list" where
  "set_method action meth [] = []"
| "set_method action meth (m # ms) =
     (if Action m = action then m\<lparr>Method := meth\<rparr> # ms else m # set_method action meth ms)"

definition ErrMappingNotFound :: "string \<Rightarrow> string \<Rightarrow> string" where
  "ErrMappingNotFound action meth =
     ''no '' @ action @ '' mapping defined for method '' @ meth @
     '' - skipping this operation (expected for read-only AsyncRequests that only define an OBSERVE mapping)''"

definition GetMapping ::
  "AsyncRequestParameters \<Rightarrow> string \<Rightarrow> (goerr + Mapping) \<times> AsyncRequestParameters" where
  "GetMapping p action =
     (let meth = getDefaultMethodByAction action
      in case getMappingByAction p action of
           Some m \<Rightarrow>
             if Method m = []
             then (Inr (m\<lparr>Method := meth\<rparr>), p\<lparr>Mappings := set_method action meth (Mappings p)\<rparr>)
             else (Inr m, p)
         | None \<Rightarrow>
             (case getMappingByMethod p meth of
                Some m \<Rightarrow> (Inr m, p)
              | None \<Rightarrow> (Inl (ErrorString (ErrMappingNotFound action meth)), p)))"

definition GetEffectiveMethod :: "Mapping \<Rightarrow> string" where
  "GetEffectiveMethod m = (if Method m \<noteq> [] then Method m else getDefaultMethodByAction (Action m))"

definition getMapping :: "string \<Rightarrow> (AsyncRequest world, goerr + Mapping) state" where
  "getMapping action = do {
     cr \<leftarrow> theObj;
     let (r, p) = GetMapping (ForProvider cr) action;
     modifyObj (\<lambda>cr. cr\<lparr>ForProvider := p\<rparr>);
     State_Monad.return r
   }"

subsection \<open>Facts\<close>

lemma getDefaultMethodByAction_not_Nil [simp]: "getDefaultMethodByAction a \<noteq> []"
  by (simp add: getDefaultMethodByAction_def)

lemma GetEffectiveMethod_not_Nil [simp]: "GetEffectiveMethod m \<noteq> []"
  by (simp add: GetEffectiveMethod_def)

lemma find_set: "find P xs = Some x \<Longrightarrow> x \<in> set xs \<and> P x"
  by (induction xs) (auto split: if_splits)

text \<open>A mapping found has a method, so its effective method is that method.\<close>

lemma GetMapping_method:
  assumes "GetMapping p action = (Inr m, p')"
  shows "Method m \<noteq> [] \<and> GetEffectiveMethod m = Method m"
  using assms
  by (auto simp: GetMapping_def Let_def getMappingByMethod_def GetEffectiveMethod_def
           split: option.splits if_splits dest: find_set)

text \<open>
  There is a mapping for an action exactly if one names the action, or its default method.
\<close>

lemma GetMapping_error_iff:
  "(\<exists>e p'. GetMapping p action = (Inl e, p')) \<longleftrightarrow>
     list_all (\<lambda>m. Action m \<noteq> action \<and> Method m \<noteq> getDefaultMethodByAction action) (Mappings p)"
  by (auto simp: GetMapping_def Let_def getMappingByMethod_def getMappingByAction_def list_all_iff
           find_None_iff split: option.splits if_splits dest: find_set)

text \<open>The change to the spec is invisible to a second lookup.\<close>

lemma find_set_method:
  "find (\<lambda>m. Action m = action) (set_method action meth ms) =
     map_option (\<lambda>m. m\<lparr>Method := meth\<rparr>) (find (\<lambda>m. Action m = action) ms)"
  by (induction ms) auto

lemma GetMapping_stable:
  assumes "GetMapping p action = (r, p')"
  shows "GetMapping p' action = (r, p')"
  using assms
  by (auto simp: GetMapping_def Let_def getMappingByAction_def find_set_method
           split: option.splits if_splits)

lemma wp_getMapping [wp_simps]:
  "wp (getMapping a) Q w =
     (let r = GetMapping (ForProvider (Obj w)) a
      in Q (fst r) (w\<lparr>Obj := (Obj w)\<lparr>ForProvider := snd r\<rparr>\<rparr>))"
  by (simp add: getMapping_def wp_simps Let_def split: prod.splits)

lemma emits_getMapping [keeps_intros]: "emits P (getMapping a)"
  unfolding getMapping_def by (auto intro!: keeps_intros split: prod.splits)

end
