(* ===== verification/RequestGen.thy ===== *)
theory RequestGen
  imports DataPatcher RequestMapping
begin

text \<open>
  \<^verbatim>\<open>internal/service/request/requestgen/request_generator.go\<close>: the jq context of a request, and the
  URL, body and headers generated from a mapping's templates.

  Converting a context works in place on the maps put into it. The functions that take a response
  as a map hence also change that map: \<open>context_response\<close> and \<open>context_poll_response\<close> read the changed
  maps back from the context.
\<close>

record RequestDetails =
  DetUrl :: "string Data"
  DetBody :: "string Data"
  DetHeaders :: "headers Data"

subsection \<open>The jq context\<close>

text \<open>The field \<^verbatim>\<open>.response.headers\<close> always exists, as null when there is none.\<close>

definition default_headers :: "json \<Rightarrow> json" where
  "default_headers ctx =
     (case entry ctx ''response'' of
        Some r \<Rightarrow>
          if is_map r \<and> entry r ''headers'' = None
          then with_entry ''response'' (with_entry ''headers'' JNull r) ctx
          else ctx
      | None \<Rightarrow> ctx)"

definition GenerateRequestContextForPoll ::
  "'cr env \<Rightarrow> AsyncRequest \<Rightarrow> Response option \<Rightarrow> json \<Rightarrow> json" where
  "GenerateRequestContextForPoll E cr patched pollResponse =
     (let base = with_entry ''response''
                   (case patched of None \<Rightarrow> JNull | Some r \<Rightarrow> response_json r)
                   (spec_map (Base64 E) (ForProvider cr));
          base1 = with_entry ''status'' (GetStatusMap cr) base;
          base2 = (if pollResponse = JNilMap then base1
                   else with_entry ''poll'' (JObj [(''response'', pollResponse)]) base1)
      in default_headers (ConvertJSONStringsToMaps base2))"

definition GenerateRequestContext :: "'cr env \<Rightarrow> AsyncRequest \<Rightarrow> Response option \<Rightarrow> json" where
  "GenerateRequestContext E cr patched = GenerateRequestContextForPoll E cr patched JNilMap"

definition GenerateRequestContextFromMap :: "'cr env \<Rightarrow> AsyncRequest \<Rightarrow> json \<Rightarrow> json \<Rightarrow> json" where
  "GenerateRequestContextFromMap E cr responseMap pollResponse =
     (let base = with_entry ''response'' (if responseMap = JNilMap then JObj [] else responseMap)
                   (spec_map (Base64 E) (ForProvider cr));
          base1 = with_entry ''status'' (GetStatusMap cr) base;
          base2 = (if pollResponse = JNilMap then base1
                   else with_entry ''poll'' (JObj [(''response'', pollResponse)]) base1)
      in default_headers (ConvertJSONStringsToMaps base2))"

definition context_response :: "json \<Rightarrow> json \<Rightarrow> json" where
  "context_response responseMap ctx =
     (if responseMap = JNilMap then JNilMap
      else case entry ctx ''response'' of Some r \<Rightarrow> r | None \<Rightarrow> responseMap)"

definition context_poll_response :: "json \<Rightarrow> json \<Rightarrow> json" where
  "context_poll_response pollResponse ctx =
     (if pollResponse = JNilMap then JNilMap
      else case entry ctx ''poll'' of
        Some p \<Rightarrow> (case entry p ''response'' of Some r \<Rightarrow> r | None \<Rightarrow> pollResponse)
      | None \<Rightarrow> pollResponse)"

subsection \<open>Validity\<close>

text \<open>\<^verbatim>\<open>fmt.Sprint\<close> of the details: the two forms of each part, maps in the order of their keys.\<close>

definition sprint_headers :: "headers \<Rightarrow> string" where
  "sprint_headers h =
     ''map['' @
     str_join (map (\<lambda>(k, vs). k @ '':['' @ str_join vs '' '' @ '']'')
                (sort_key fst (case h of None \<Rightarrow> [] | Some m \<Rightarrow> m))) '' '' @ '']''"

definition sprint_data :: "('a \<Rightarrow> string) \<Rightarrow> 'a Data \<Rightarrow> string" where
  "sprint_data f d = ''{'' @ f (Encrypted d) @ '' '' @ f (Decrypted d) @ ''}''"

definition sprint_details :: "RequestDetails \<Rightarrow> string" where
  "sprint_details d =
     ''{'' @ sprint_data id (DetUrl d) @ '' '' @ sprint_data id (DetBody d) @ '' '' @
     sprint_data sprint_headers (DetHeaders d) @ ''}''"

definition IsRequestValid :: "RequestDetails \<Rightarrow> bool" where
  "IsRequestValid d \<longleftrightarrow> \<not> str_contains (sprint_details d) ''null'' \<and> Decrypted (DetUrl d) \<noteq> []"

subsection \<open>Generation\<close>

definition coalesceHeaders :: "Mapping \<Rightarrow> AsyncRequestParameters \<Rightarrow> headers" where
  "coalesceHeaders m p = (case MapHeaders m of Some h \<Rightarrow> Some h | None \<Rightarrow> DefaultHeaders p)"

definition generateURL :: "'cr env \<Rightarrow> string \<Rightarrow> json \<Rightarrow> ('cr world, goerr + string Data) state" where
  "generateURL E filt ctx =
     (case ApplyJQOnStr E filt ctx of
        Inl err \<Rightarrow> State_Monad.return (Inl err)
      | Inr u \<Rightarrow> do {
          r \<leftarrow> PatchSecretsIntoString E u;
          State_Monad.return (map_sum id (\<lambda>v. \<lparr>Encrypted = u, Decrypted = v\<rparr>) r)
        })"

definition generateBody :: "'cr env \<Rightarrow> string \<Rightarrow> json \<Rightarrow> ('cr world, goerr + string Data) state" where
  "generateBody E body ctx =
     (if body = [] then State_Monad.return (Inr \<lparr>Encrypted = [], Decrypted = []\<rparr>)
      else case ApplyJQOnStr E (NormalizeWhitespace body) ctx of
        Inl err \<Rightarrow> State_Monad.return (Inl err)
      | Inr b \<Rightarrow> do {
          r \<leftarrow> PatchSecretsIntoString E b;
          State_Monad.return (map_sum id (\<lambda>v. \<lparr>Encrypted = b, Decrypted = v\<rparr>) r)
        })"

definition generateHeaders :: "'cr env \<Rightarrow> headers \<Rightarrow> json \<Rightarrow> ('cr world, goerr + headers Data) state" where
  "generateHeaders E h ctx =
     (case ApplyJQOnMapStrings E h ctx of
        Inl err \<Rightarrow> State_Monad.return (Inl err)
      | Inr g \<Rightarrow> do {
          r \<leftarrow> PatchSecretsIntoHeaders E g;
          State_Monad.return (map_sum id (\<lambda>v. \<lparr>Encrypted = g, Decrypted = v\<rparr>) r)
        })"

text \<open>
  \<open>GenerateRequestDetails\<close> for the resource as it is in memory and a response. Its third result is
  true exactly when there is no error.
\<close>

definition GenerateRequestDetails ::
  "AsyncRequest env \<Rightarrow> Mapping \<Rightarrow> Response option \<Rightarrow> (AsyncRequest world, goerr + RequestDetails) state" where
  "GenerateRequestDetails E m response = do {
     cr \<leftarrow> theObj;
     p \<leftarrow> PatchSecretsIntoResponse E response;
     case p of
       Inl err \<Rightarrow> State_Monad.return (Inl err)
     | Inr patched \<Rightarrow> do {
         let ctx = GenerateRequestContext E cr patched;
         u \<leftarrow> generateURL E (URL m) ctx;
         case u of
           Inl err \<Rightarrow> State_Monad.return (Inl err)
         | Inr url \<Rightarrow>
             if \<not> IsUrlValid (Decrypted url)
             then State_Monad.return (Inl (ErrorString (''invalid url '' @ Decrypted url)))
             else do {
               b \<leftarrow> generateBody E (MapBody m) ctx;
               case b of
                 Inl err \<Rightarrow> State_Monad.return (Inl err)
               | Inr body \<Rightarrow> do {
                   h \<leftarrow> generateHeaders E (coalesceHeaders m (ForProvider cr)) ctx;
                   State_Monad.return
                     (map_sum id (\<lambda>hd. \<lparr>DetUrl = url, DetBody = body, DetHeaders = hd\<rparr>) h)
                 }
             }
       }
   }"

definition details_ok :: "goerr + RequestDetails \<Rightarrow> bool" where
  "details_ok r = (case r of Inl _ \<Rightarrow> False | Inr d \<Rightarrow> IsRequestValid d)"

definition GenerateValidRequestDetails ::
  "AsyncRequest env \<Rightarrow> Mapping \<Rightarrow> (AsyncRequest world, goerr + RequestDetails) state" where
  "GenerateValidRequestDetails E m = do {
     cr \<leftarrow> theObj;
     r \<leftarrow> GenerateRequestDetails E m (Some (StatusResponse (Status cr)));
     if details_ok r then State_Monad.return r
     else GenerateRequestDetails E m (GetCachedResponse cr)
   }"

text \<open>The call made with generated details.\<close>

definition details_call :: "string \<Rightarrow> RequestDetails \<Rightarrow> http_call" where
  "details_call meth d =
     \<lparr>CallMethod = meth, CallURL = DetUrl d, CallBody = DetBody d, CallHeaders = DetHeaders d\<rparr>"

subsection \<open>Facts\<close>

lemma emits_generate [keeps_intros]:
  "emits_same is_secret_read (generateURL E f ctx)"
  "emits_same is_secret_read (generateBody E b ctx)"
  "emits_same is_secret_read (generateHeaders E h ctx)"
  unfolding generateURL_def generateBody_def generateHeaders_def by (auto intro!: keeps_intros)

lemma emits_GenerateRequestDetails [keeps_intros]:
  "emits_same is_secret_read (GenerateRequestDetails E m r)"
  unfolding GenerateRequestDetails_def by (auto intro!: keeps_intros)

lemma emits_GenerateValidRequestDetails [keeps_intros]:
  "emits_same is_secret_read (GenerateValidRequestDetails E m)"
  unfolding GenerateValidRequestDetails_def by (auto intro!: keeps_intros)

text \<open>Details that were generated name a valid URL.\<close>

lemma GenerateRequestDetails_url:
  "wp (GenerateRequestDetails E m r) (\<lambda>x _. \<forall>d. x = Inr d \<longrightarrow> IsUrlValid (Decrypted (DetUrl d))) w"
  unfolding GenerateRequestDetails_def
  by (auto simp: wp_simps wp_def Let_def split: sum.splits prod.splits if_splits)

lemma GenerateValidRequestDetails_url:
  "wp (GenerateValidRequestDetails E m) (\<lambda>x _. \<forall>d. x = Inr d \<longrightarrow> IsUrlValid (Decrypted (DetUrl d))) w"
  unfolding GenerateValidRequestDetails_def wp_bind wp_theObj wp_if wp_return
  by (rule wp_mono [OF GenerateRequestDetails_url]) (auto intro: wp_mono [OF GenerateRequestDetails_url])

lemma default_headers_response:
  "entry ctx ''response'' = Some r \<Longrightarrow>
   entry (default_headers ctx) ''response'' =
     Some (if is_map r \<and> entry r ''headers'' = None then with_entry ''headers'' JNull r else r)"
  by (simp add: default_headers_def)

end
