(* ===== verification/ObserveChecks.thy ===== *)
theory ObserveChecks
  imports RequestGen
begin

text \<open>
  \<^verbatim>\<open>internal/service/request/observe\<close>: the checks on an OBSERVE response. Is it up to date, does the
  resource exist, was it removed; each by default logic or by a jq expression of the spec.
\<close>

definition ErrObjectNotFound :: string where "ErrObjectNotFound = ''object wasn'' @ [CHR 0x27] @ ''t found''"

definition errExpectedFormat :: "string \<Rightarrow> goerr \<Rightarrow> goerr" where
  "errExpectedFormat what e =
     ErrorString (what @ ''.Logic JQ filter should return a boolean, but returned error: '' @ Error e)"

definition errNotValidJSON :: "string \<Rightarrow> string \<Rightarrow> goerr" where
  "errNotValidJSON what s = ErrorString (what @ '' is not a valid JSON string: '' @ s)"

subsection \<open>jq_check.go\<close>

definition customCheck ::
  "AsyncRequest env \<Rightarrow> HttpDetails \<Rightarrow> string \<Rightarrow> (AsyncRequest world, goerr + bool) state" where
  "customCheck E details logic = do {
     cr \<leftarrow> theObj;
     p \<leftarrow> PatchSecretsIntoResponse E (Some (HttpResponse details));
     case p of
       Inl err \<Rightarrow> State_Monad.return (Inl err)
     | Inr resp \<Rightarrow> do {
         q \<leftarrow> PatchSecretsIntoString E (NormalizeWhitespace logic);
         State_Monad.return
           (case q of
              Inl err \<Rightarrow> Inl err
            | Inr query \<Rightarrow> ParseBool E query (GenerateRequestContext E cr resp))
       }
   }"

subsection \<open>is_synced_check.go\<close>

definition compareJSON :: "string \<Rightarrow> string \<Rightarrow> int \<Rightarrow> bool" where
  "compareJSON body desired code \<longleftrightarrow>
     Contains (JsonStringToMap body) (JsonStringToMap desired) \<and> IsHTTPSuccess code"

definition comparePatchedResults :: "string \<Rightarrow> string \<Rightarrow> int \<Rightarrow> goerr + bool" where
  "comparePatchedResults body desired code =
     (if IsJSONString body \<and> IsJSONString desired then Inr (compareJSON body desired code)
      else if \<not> IsJSONString body \<and> IsJSONString desired
        then Inl (errNotValidJSON ''response body'' body)
      else if IsJSONString body \<and> \<not> IsJSONString desired
        then Inl (errNotValidJSON ''PUT mapping result'' desired)
      else Inr (str_contains body desired \<and> IsHTTPSuccess code))"

definition compareResponseAndDesiredState ::
  "'cr env \<Rightarrow> HttpDetails \<Rightarrow> string \<Rightarrow> ('cr world, goerr + bool) state" where
  "compareResponseAndDesiredState E details desired = do {
     b \<leftarrow> PatchSecretsIntoString E (Body (HttpResponse details));
     case b of
       Inl err \<Rightarrow> State_Monad.return (Inl err)
     | Inr body \<Rightarrow> do {
         d \<leftarrow> PatchSecretsIntoString E desired;
         State_Monad.return
           (case d of
              Inl err \<Rightarrow> Inl err
            | Inr want \<Rightarrow> comparePatchedResults body want (StatusCode (HttpResponse details)))
       }
   }"

definition updateRequestDetails ::
  "AsyncRequest env \<Rightarrow> string \<Rightarrow> (AsyncRequest world, goerr + RequestDetails) state" where
  "updateRequestDetails E action = do {
     m \<leftarrow> getMapping action;
     case m of
       Inl err \<Rightarrow> State_Monad.return (Inl err)
     | Inr mapping \<Rightarrow> GenerateValidRequestDetails E mapping
   }"

definition desiredState :: "AsyncRequest env \<Rightarrow> (AsyncRequest world, goerr + string) state" where
  "desiredState E = do {
     d \<leftarrow> updateRequestDetails E ActionUpdate;
     State_Monad.return (map_sum id (\<lambda>x. Decrypted (DetBody x)) d)
   }"

definition isErrorMappingNotFound :: "goerr \<Rightarrow> bool" where
  "isErrorMappingNotFound err \<longleftrightarrow> Error (Cause err) = ErrMappingNotFound ActionUpdate ''PUT''"

definition defaultIsUpToDateCheck ::
  "AsyncRequest env \<Rightarrow> HttpDetails \<Rightarrow> (AsyncRequest world, goerr + bool) state" where
  "defaultIsUpToDateCheck E details = do {
     d \<leftarrow> desiredState E;
     case d of
       Inl err \<Rightarrow> State_Monad.return (if isErrorMappingNotFound err then Inr True else Inl err)
     | Inr want \<Rightarrow> compareResponseAndDesiredState E details want
   }"

definition relabel :: "string \<Rightarrow> goerr + bool \<Rightarrow> goerr + bool" where
  "relabel what r = (case r of Inl err \<Rightarrow> Inl (errExpectedFormat what err) | Inr b \<Rightarrow> Inr b)"

definition customIsUpToDateCheck ::
  "AsyncRequest env \<Rightarrow> HttpDetails \<Rightarrow> (AsyncRequest world, goerr + bool) state" where
  "customIsUpToDateCheck E details = do {
     cr \<leftarrow> theObj;
     r \<leftarrow> customCheck E details (CheckLogic (ExpectedResponseCheck (ForProvider cr)));
     State_Monad.return (relabel ''ExpectedResponseCheck'' r)
   }"

text \<open>\<open>GetIsUpToDateResponseCheck\<close> and the call of the check it selects: any type but CUSTOM is the default.\<close>

definition IsUpToDateCheck ::
  "AsyncRequest env \<Rightarrow> HttpDetails \<Rightarrow> (AsyncRequest world, goerr + bool) state" where
  "IsUpToDateCheck E details = do {
     cr \<leftarrow> theObj;
     if CheckType (ExpectedResponseCheck (ForProvider cr)) = CheckTypeCustom
     then customIsUpToDateCheck E details
     else defaultIsUpToDateCheck E details
   }"

text \<open>\<open>GetResourceExistsResponseCheck\<close>: the check is configured only as CUSTOM with an expression.\<close>

definition has_exists_check :: "AsyncRequestParameters \<Rightarrow> bool" where
  "has_exists_check p \<longleftrightarrow>
     CheckType (ResourceExistsCheck p) = CheckTypeCustom \<and> CheckLogic (ResourceExistsCheck p) \<noteq> []"

definition customResourceExistsCheck ::
  "AsyncRequest env \<Rightarrow> HttpDetails \<Rightarrow> (AsyncRequest world, goerr + bool) state" where
  "customResourceExistsCheck E details = do {
     cr \<leftarrow> theObj;
     r \<leftarrow> customCheck E details (CheckLogic (ResourceExistsCheck (ForProvider cr)));
     State_Monad.return (relabel ''ResourceExistsCheck'' r)
   }"

subsection \<open>is_deleted_check.go\<close>

definition defaultIsRemovedCheck :: "HttpDetails \<Rightarrow> goerr option" where
  "defaultIsRemovedCheck details =
     (if StatusCode (HttpResponse details) = 404 then Some (ErrorString ErrObjectNotFound) else None)"

definition customIsRemovedCheck ::
  "AsyncRequest env \<Rightarrow> HttpDetails \<Rightarrow> (AsyncRequest world, goerr option) state" where
  "customIsRemovedCheck E details = do {
     cr \<leftarrow> theObj;
     r \<leftarrow> customCheck E details (CheckLogic (IsRemovedCheck (ForProvider cr)));
     State_Monad.return
       (case r of
          Inl err \<Rightarrow> Some (errExpectedFormat ''isRemovedCheck'' err)
        | Inr removed \<Rightarrow> if removed then Some (ErrorString ErrObjectNotFound) else None)
   }"

definition IsRemovedResponseCheck ::
  "AsyncRequest env \<Rightarrow> HttpDetails \<Rightarrow> (AsyncRequest world, goerr option) state" where
  "IsRemovedResponseCheck E details = do {
     cr \<leftarrow> theObj;
     if CheckType (IsRemovedCheck (ForProvider cr)) = CheckTypeCustom
     then customIsRemovedCheck E details
     else State_Monad.return (defaultIsRemovedCheck details)
   }"

subsection \<open>Facts\<close>

lemma emits_customCheck [keeps_intros]: "emits_same is_secret_read (customCheck E d l)"
  unfolding customCheck_def by (auto intro!: keeps_intros)

lemma emits_exists_removed [keeps_intros]:
  "emits_same is_secret_read (customResourceExistsCheck E d)"
  "emits_same is_secret_read (IsRemovedResponseCheck E d)"
  "emits_same is_secret_read (customIsUpToDateCheck E d)"
  unfolding customResourceExistsCheck_def IsRemovedResponseCheck_def customIsRemovedCheck_def
    customIsUpToDateCheck_def
  by (auto intro!: keeps_intros)

lemma emits_compare [keeps_intros]:
  "emits_same is_secret_read (compareResponseAndDesiredState E d s)"
  unfolding compareResponseAndDesiredState_def by (auto intro!: keeps_intros)

lemma emits_IsUpToDateCheck [keeps_intros]: "emits is_secret_read (IsUpToDateCheck E d)"
  unfolding IsUpToDateCheck_def defaultIsUpToDateCheck_def desiredState_def updateRequestDetails_def
  by (auto intro!: keeps_intros emits_same_emits [OF emits_GenerateValidRequestDetails]
        emits_same_emits [OF emits_compare] emits_same_emits [OF emits_exists_removed(3)])

text \<open>
  What the default comparison answers: containment for two JSON objects, a substring for two texts
  that are not, and an error for a mixture; and never in sync on a status other than 2xx.
\<close>

lemma comparePatchedResults_success:
  "comparePatchedResults body desired code = Inr True \<Longrightarrow> IsHTTPSuccess code"
  by (auto simp: comparePatchedResults_def compareJSON_def split: if_splits)

lemma comparePatchedResults_error_iff:
  "(\<exists>e. comparePatchedResults body desired code = Inl e) \<longleftrightarrow> IsJSONString body \<noteq> IsJSONString desired"
  by (auto simp: comparePatchedResults_def)

end
