(* ===== verification/DriftOrder.thy ===== *)
theory DriftOrder
  imports ObserveChecks
begin

text \<open>
  The drift check as a relation between texts: being in sync with a desired state is reflexive and
  transitive, for objects and for other texts alike; for objects it is agreement at every path of the desired state. It rests on what the decoder guarantees: no object
  it reads repeats a key, and none holds a nil map.
\<close>

subsection \<open>What the decoder yields\<close>

definition decoded :: "json \<Rightarrow> bool" where
  "decoded v \<longleftrightarrow> keys_ok v \<and> no_nil_map v"

lemma decoded_simps [simp]:
  "decoded JNull" "decoded (JBool b)" "decoded (JNum m e)" "decoded (JStr s)"
  "decoded (JArr xs) \<longleftrightarrow> list_all decoded xs"
  "decoded (JObj fs) \<longleftrightarrow> distinct (map fst fs) \<and> list_all (\<lambda>p. decoded (snd p)) fs"
  by (auto simp: decoded_def list_all_iff)

lemma decoded_empty: "decoded (JObj [])"
  by simp

lemma set_map_put_subset: "set (map_put k v m) \<subseteq> insert (k, v) (set m)"
  by (induction k v m rule: map_put.induct) (auto split: if_splits)

lemma decoded_fields:
  assumes "list_all (\<lambda>p. decoded (snd p)) ms"
  shows "decoded (JObj (fields_of_members ms))"
proof -
  have "decoded (JObj (foldl (\<lambda>m (k, v). map_put k v m) fs ms))" if "decoded (JObj fs)" for fs
    using assms that
  proof (induction ms arbitrary: fs)
    case (Cons p ms)
    obtain k v where p: "p = (k, v)" by (cases p)
    have "decoded (JObj (map_put k v fs))"
      using Cons.prems p set_map_put_subset [of k v fs] by (auto simp: list_all_iff)
    with Cons p show ?case by simp
  qed simp
  then show ?thesis by (simp add: fields_of_members_def)
qed

lemma parse_literal_decoded: "parse_literal s = Some (v, r) \<Longrightarrow> decoded v"
  by (auto simp: parse_literal_def parse_num_def Let_def split: if_splits option.splits prod.splits)

lemma parse_decoded:
  "parse_value n s = Some (v, r) \<Longrightarrow> decoded v"
  "parse_elems n s = Some (vs, r') \<Longrightarrow> list_all decoded vs"
  "parse_members n s = Some (ms, r'') \<Longrightarrow> list_all (\<lambda>p. decoded (snd p)) ms"
proof (induction n s and n s and n s arbitrary: v r and vs r' and ms r''
    rule: parse_value_parse_elems_parse_members.induct)
  case (2 n s)
  then show ?case
    by (auto simp del: decoded_simps(6) simp: decoded_empty split: list.splits if_splits
        intro: parse_literal_decoded decoded_fields)
next
  case (4 n s)
  then show ?case by (fastforce split: option.splits list.splits if_splits)
next
  case (6 n s)
  then show ?case by (fastforce split: option.splits list.splits if_splits)
qed simp_all

lemma json_unmarshal_decoded: "json_unmarshal s = Some v \<Longrightarrow> decoded v"
  unfolding json_unmarshal_def
  by (auto simp del: parse_value.simps split: option.splits if_splits dest: parse_decoded(1))

lemma unmarshal_decoded:
  assumes "IsJSONString s"
  shows "JsonStringToMap s = JNilMap \<or> decoded (JsonStringToMap s)"
  using assms json_unmarshal_decoded [of s]
  by (auto simp: IsJSONString_def JsonStringToMap_def json_unmarshal_map_def simp del: decoded_simps
      split: option.splits json.splits)

subsection \<open>The order\<close>

lemma Contains_decoded_refl: "v = JNilMap \<or> decoded v \<Longrightarrow> Contains v v"
  by (auto simp: decoded_def intro: Contains_refl)

lemma Contains_decoded_trans:
  assumes "Contains c d" "Contains d e" "d = JNilMap \<or> decoded d"
  shows "Contains c e"
proof (cases "d = JNilMap")
  case True
  with assms(2) have "entries e = []"
    unfolding Contains_iff [of d e] by (cases "entries e") (auto simp: covered_def entry_def entries_def [of JNilMap])
  then show ?thesis unfolding Contains_iff [of c e] by simp
next
  case False
  with assms show ?thesis by (auto simp: decoded_def intro: Contains_trans)
qed

lemma in_sync_refl: "comparePatchedResults s s code = Inr (IsHTTPSuccess code)"
proof -
  have "str_contains s s" using str_contains_iff [of s s] by (metis append_Nil append_Nil2)
  then show ?thesis
    using Contains_decoded_refl [OF unmarshal_decoded, of s]
    by (auto simp: comparePatchedResults_def compareJSON_def)
qed

lemma in_sync_trans:
  assumes "comparePatchedResults a b code = Inr True" "comparePatchedResults b c code' = Inr True"
  shows "comparePatchedResults a c code = Inr True"
proof (cases "IsJSONString b")
  case True
  with assms Contains_decoded_trans [OF _ _ unmarshal_decoded [OF True]] show ?thesis
    by (auto simp: comparePatchedResults_def compareJSON_def split: if_splits)
next
  case False
  with assms have "str_contains a b" "str_contains b c" "\<not> IsJSONString a" "\<not> IsJSONString c" "IsHTTPSuccess code"
    by (auto simp: comparePatchedResults_def split: if_splits)
  then show ?thesis
    by (simp add: comparePatchedResults_def) (metis append.assoc str_contains_iff)
qed

subsection \<open>The fields of the desired state\<close>

text \<open>What is found at a path of keys.\<close>

fun at_path :: "json \<Rightarrow> string list \<Rightarrow> json option" where
  "at_path v [] = Some v"
| "at_path v (k # ks) = Option.bind (entry v k) (\<lambda>x. at_path x ks)"

definition agrees :: "json \<Rightarrow> json \<Rightarrow> bool" where
  "agrees x y \<longleftrightarrow> (if is_map x then is_map y else json_marshal x = json_marshal y)"

lemma entry_leaf: "\<not> is_map v \<Longrightarrow> entry v k = None"
  by (cases v) (simp_all add: entry_def entries_def is_map_def)

lemma Contains_at_path:
  "Contains c d \<Longrightarrow> at_path d (k # ks) = Some x \<Longrightarrow> \<exists>y. at_path c (k # ks) = Some y \<and> agrees x y"
proof (induction ks arbitrary: c d k)
  case Nil
  then have "(k, x) \<in> set (entries d)" by (auto simp: entry_def dest: map_of_SomeD split: bind_splits)
  with Nil(1) have "covered c k x" by (auto simp: Contains_iff [of c d])
  then show ?case by (auto simp: covered_def agrees_def deepEqual_def)
next
  case (Cons k' ks)
  then obtain v where v: "entry d k = Some v" "at_path v (k' # ks) = Some x" by (auto split: bind_splits)
  then have "is_map v" using entry_leaf [of v k'] by (cases "is_map v") auto
  moreover have "(k, v) \<in> set (entries d)" using v(1) by (auto simp: entry_def dest: map_of_SomeD)
  with Cons.prems(1) have "covered c k v" by (auto simp: Contains_iff [of c d])
  ultimately obtain u where "entry c k = Some u" "Contains u v" by (auto simp: covered_def)
  with Cons.IH [OF _ v(2), of u] show ?case by auto
qed

lemma at_path_Contains:
  assumes "d = JNilMap \<or> decoded d" "\<And>k ks x. at_path d (k # ks) = Some x \<Longrightarrow> \<exists>y. at_path c (k # ks) = Some y \<and> agrees x y"
  shows "Contains c d"
  using assms
proof (induction "size d" arbitrary: c d rule: less_induct)
  case less
  have "covered c k v" if kv: "(k, v) \<in> set (entries d)" for k v
  proof -
    obtain fs where d: "d = JObj fs" using kv by (cases d) (auto simp: entries_def)
    with less.prems(1) kv have e: "entry d k = Some v" and dec: "decoded v" and small: "size v < size d"
      by (auto simp: list_all_iff dest: size_field)
    obtain u where u: "entry c k = Some u" "agrees v u" using less.prems(2) [of k "[]" v] e by (auto split: bind_splits)
    have "Contains u v" if "is_map v"
    proof (rule less.hyps [OF small])
      fix k' ks x assume "at_path v (k' # ks) = Some x"
      with less.prems(2) [of k "k' # ks" x] e u(1) show "\<exists>y. at_path u (k' # ks) = Some y \<and> agrees x y" by simp
    qed (use dec in simp)
    with u show ?thesis by (auto simp: covered_def agrees_def deepEqual_def)
  qed
  then show ?case unfolding Contains_iff [of c d] by blast
qed

lemma Contains_paths:
  assumes "d = JNilMap \<or> decoded d"
  shows "Contains c d \<longleftrightarrow> (\<forall>k ks x. at_path d (k # ks) = Some x \<longrightarrow> (\<exists>y. at_path c (k # ks) = Some y \<and> agrees x y))"
  using Contains_at_path at_path_Contains [OF assms] by blast

lemma in_sync_paths:
  "comparePatchedResults body desired code = Inr True \<longleftrightarrow> IsHTTPSuccess code \<and>
     (if IsJSONString desired
      then IsJSONString body \<and> (\<forall>k ks x. at_path (JsonStringToMap desired) (k # ks) = Some x \<longrightarrow>
        (\<exists>y. at_path (JsonStringToMap body) (k # ks) = Some y \<and> agrees x y))
      else \<not> IsJSONString body \<and> (\<exists>before after. body = before @ desired @ after))"
  using Contains_paths [OF unmarshal_decoded, of desired "JsonStringToMap body"] str_contains_iff [of body desired]
  by (auto simp: comparePatchedResults_def compareJSON_def)

end
