(* ===== verification/JsonRoundtrip.thy ===== *)
theory JsonRoundtrip
  imports GoJson
begin

text \<open>
  Reading back what \<open>json_marshal\<close> printed: \<open>json_unmarshal (json_marshal j) = Some (jcanon j)\<close> for
  every value whose numbers are normal and finite and whose objects repeat no key. \<open>jcanon\<close> is the
  value as Go reads it back: objects sorted by key, a nil map as null. The persisted anchor of a
  long-running operation relies on it.
\<close>

subsection \<open>Numbers\<close>

lemma digits_val_append: "digits_val (s @ t) = digits_val s * 10 ^ length t + digits_val t"
proof (induction t rule: rev_induct)
  case (snoc c t)
  then show ?case by (simp add: append_assoc [symmetric] algebra_simps del: append_assoc)
qed (simp add: digits_val_def)

lemma digits_val_zeros [simp]: "digits_val (replicate n (CHR ''0'')) = 0"
  by (induction n) (auto simp: digits_val_def digit_val_def)

lemma digits_val_zero_Cons [simp]: "digits_val (CHR ''0'' # s) = digits_val s"
  by (simp add: digits_val_def digit_val_def)

lemma all_digits_zeros [simp]: "all_digits (replicate n (CHR ''0''))"
  by (induction n) (auto simp: is_digit_def)

lemma is_digit_zero [simp]: "is_digit (CHR ''0'')"
  by (simp add: is_digit_def)

lemma not_is_digit [simp]:
  "\<not> is_digit (CHR ''-'')" "\<not> is_digit (CHR ''+'')" "\<not> is_digit (CHR ''.'')" "\<not> is_digit (CHR ''e'')"
  "\<not> is_digit (CHR ''E'')" "\<not> is_digit (CHR '','')" "\<not> is_digit (CHR '']'')" "\<not> is_digit (CHR ''}'')"
  by (simp_all add: is_digit_def)

text \<open>The first digit of a number is not 0, unless it is the number 0.\<close>

lemma nat_digits_hd:
  "0 < n \<Longrightarrow> hd (nat_digits n) \<noteq> CHR ''0''"
proof (induction n rule: nat_digits.induct)
  case (1 n)
  show ?case
  proof (cases "n < 10")
    case True
    have "digit_char n \<noteq> CHR ''0''"
    proof
      assume "digit_char n = CHR ''0''"
      then have "digit_val (digit_char n) = digit_val (CHR ''0'')" by simp
      with True 1 show False by (simp add: digit_val_def digit_char_def)
    qed
    with True show ?thesis by (subst nat_digits.simps) simp
  next
    case False
    with 1 show ?thesis by (subst nat_digits.simps) simp
  qed
qed

definition lead_ok :: "string \<Rightarrow> bool" where
  "lead_ok ip \<longleftrightarrow> ip \<noteq> [] \<and> \<not> (has_prefix ''0'' ip \<and> length ip \<noteq> 1)"

lemma has_prefix_single: "has_prefix [c] s \<longleftrightarrow> s \<noteq> [] \<and> hd s = c"
  by (cases s) auto

lemma lead_ok_nat_digits: "0 < n \<Longrightarrow> lead_ok (nat_digits n @ t)"
  using nat_digits_hd [of n] by (simp add: lead_ok_def has_prefix_single)

text \<open>What may follow a value: the end, a comma or a closing bracket.\<close>

definition delim :: "string \<Rightarrow> bool" where
  "delim r \<longleftrightarrow> r = [] \<or> hd r \<in> {CHR '','', CHR '']'', CHR ''}''}"

lemma delim_simps [simp]:
  "delim []" "delim (CHR '','' # r)" "delim (CHR '']'' # r)" "delim (CHR ''}'' # r)"
  by (simp_all add: delim_def)

definition ends_digits :: "string \<Rightarrow> bool" where
  "ends_digits r \<longleftrightarrow> r = [] \<or> \<not> is_digit (hd r)"

lemma split_digits:
  assumes "all_digits ds" "ends_digits r"
  shows "takeWhile is_digit (ds @ r) = ds" "dropWhile is_digit (ds @ r) = r"
proof -
  have "\<forall>x \<in> set ds. is_digit x" using assms(1) by (simp add: all_digits_def list_all_iff)
  moreover have "takeWhile is_digit r = []" "dropWhile is_digit r = r"
    using assms(2) by (cases r; simp add: ends_digits_def)+
  ultimately show "takeWhile is_digit (ds @ r) = ds" "dropWhile is_digit (ds @ r) = r"
    by (simp_all add: takeWhile_append2 dropWhile_append2)
qed

lemma delim_ends: "delim r \<Longrightarrow> ends_digits r"
  by (auto simp: delim_def ends_digits_def)

definition frac_text :: "string \<Rightarrow> string" where
  "frac_text fp = (if fp = [] then [] else CHR ''.'' # fp)"

definition exp_text :: "(bool \<times> string) option \<Rightarrow> string" where
  "exp_text x = (case x of None \<Rightarrow> [] | Some (neg, xp) \<Rightarrow> CHR ''e'' # (if neg then CHR ''-'' else CHR ''+'') # xp)"

definition exp_val :: "(bool \<times> string) option \<Rightarrow> int" where
  "exp_val x = (case x of None \<Rightarrow> 0 | Some (neg, xp) \<Rightarrow> if neg then - digits_val xp else digits_val xp)"

lemma parse_num_parts:
  assumes ip: "all_digits ip" "lead_ok ip" and fp: "all_digits fp"
    and x: "\<And>neg xp. x = Some (neg, xp) \<Longrightarrow> all_digits xp \<and> xp \<noteq> []"
    and r: "delim r"
    and nrm: "num_normal (if neg then - digits_val (ip @ fp) else digits_val (ip @ fp))
               (exp_val x - int (length fp)) = (m, e)"
    and fin: "\<not> num_overflows m e"
  shows "parse_num ((if neg then ''-'' else []) @ ip @ frac_text fp @ exp_text x @ r) = Some (JNum m e, r)"
proof -
  have hd_ip: "ip \<noteq> []" "is_digit (hd ip)" using ip by (auto simp: lead_ok_def all_digits_hd)
  have dash: "hd ip \<noteq> CHR ''-''" using hd_ip(2) not_is_digit(1) by metis
  have sign: "parse_sign ((if neg then ''-'' else []) @ ip @ t) = (neg, ip @ t)" for t
    using hd_ip(1) dash by (simp add: parse_sign_def has_prefix_single)
  have e_r: "\<not> has_prefix ''.'' r" "\<not> has_prefix ''e'' r" "\<not> has_prefix ''E'' r"
    using r by (auto simp: delim_def has_prefix_single)
  have ends1: "ends_digits (frac_text fp @ exp_text x @ r)"
    using delim_ends [OF r] by (auto simp: frac_text_def exp_text_def ends_digits_def split: option.splits)
  have ends2: "ends_digits (exp_text x @ r)"
    using delim_ends [OF r] by (auto simp: exp_text_def ends_digits_def split: option.splits)
  have frac: "parse_frac (frac_text fp @ exp_text x @ r) = Some (fp, exp_text x @ r)"
    using e_r split_digits [OF fp ends2]
    by (auto simp: parse_frac_def frac_text_def exp_text_def split: option.splits)
  have exp: "parse_exp (exp_text x @ r) = Some (exp_val x, r)"
  proof (cases x)
    case None
    with e_r show ?thesis by (simp add: parse_exp_def exp_text_def exp_val_def)
  next
    case (Some p)
    obtain xneg xp where p: "p = (xneg, xp)" by (cases p)
    from x [of xneg xp] Some p have xp: "all_digits xp" "xp \<noteq> []" by auto
    show ?thesis
      using split_digits [OF xp(1) delim_ends [OF r]] xp(2) Some p
      by (cases xneg) (simp_all add: parse_exp_def parse_sign_def exp_text_def exp_val_def)
  qed
  show ?thesis
    using split_digits [OF ip(1) ends1] ip(2) nrm fin
    unfolding parse_num_def sign Let_def prod.case
    by (cases neg) (simp_all add: frac exp lead_ok_def)
qed

lemma num_normal_shift: "m \<noteq> 0 \<Longrightarrow> num_normal (m * 10 ^ k) x = num_normal m (x + int k)"
proof (induction k arbitrary: x)
  case (Suc k)
  have "num_normal (m * 10 ^ Suc k) x = num_normal (m * 10 ^ k) (x + 1)"
    using Suc.prems by (subst num_normal.simps) simp
  with Suc show ?case by (simp add: algebra_simps)
qed simp

lemma digit_char_zero: "digit_char 0 = CHR ''0''"
  by (simp add: digit_char_def char_of_def)

lemma num_wf_zero: "num_wf 0 e \<Longrightarrow> e = 0"
  by (simp add: num_wf_def num_normal.simps)

definition signed :: "int \<Rightarrow> int \<Rightarrow> int" where
  "signed m v = (if m < 0 then - v else v)"

lemma signed_abs [simp]: "signed m \<bar>m\<bar> = m" "signed m (\<bar>m\<bar> * k) = m * k"
  by (auto simp: signed_def)

lemma parse_num_plain:
  assumes wf: "num_wf m e" and fin: "\<not> num_overflows m e" and r: "delim r"
  shows "parse_num (num_plain m e @ r) = Some (JNum m e, r)"
proof (cases "m = 0")
  case True
  then have "e = 0" using wf num_wf_zero by simp
  with True show ?thesis
    using parse_num_parts [of "''0''" "[]" None r False 0 0] r fin
    by (simp add: num_plain_def num_sign_def nat_digits.simps [of 0] digit_char_zero lead_ok_def
          frac_text_def exp_text_def exp_val_def num_normal.simps [of 0] digits_val_def digit_val_def)
next
  case False
  define ds where "ds = nat_digits \<bar>m\<bar>"
  define dp where "dp = int (length ds) + e"
  have ds: "all_digits ds" "digits_val ds = \<bar>m\<bar>" "ds \<noteq> []" by (simp_all add: ds_def)
  have lead: "lead_ok (ds @ t)" for t using False lead_ok_nat_digits [of "\<bar>m\<bar>" t] by (simp add: ds_def)
  note parts = parse_num_parts [where x = None and neg = "m < 0" and m = m and e = e and r = r, OF _ _ _ _ r _ fin]
  consider "dp \<le> 0" | "0 < dp" "dp < int (length ds)" | "0 < dp" "int (length ds) \<le> dp" by linarith
  then show ?thesis
  proof cases
    case 1
    let ?fp = "replicate (nat (- dp)) (CHR ''0'') @ ds"
    have "num_normal (if m < 0 then - digits_val (''0'' @ ?fp) else digits_val (''0'' @ ?fp))
            (exp_val None - int (length ?fp)) = (m, e)"
      using 1 ds wf by (simp add: digits_val_append exp_val_def dp_def num_wf_def)
    then show ?thesis
      using parts [of "''0''" ?fp] 1 ds
      by (simp add: num_plain_def Let_def num_sign_def frac_text_def exp_text_def lead_ok_def
            flip: ds_def dp_def)
  next
    case 2
    let ?n = "nat dp"
    have n: "0 < ?n" "?n < length ds" using 2 by auto
    have "all_digits (take ?n ds)" "all_digits (drop ?n ds)"
      using ds(1) by (metis all_digits_simps(3) append_take_drop_id)+
    moreover have "lead_ok (take ?n ds)"
    proof -
      have "hd ds \<noteq> CHR ''0''" using nat_digits_hd [of "\<bar>m\<bar>"] False by (simp add: ds_def)
      then show ?thesis using n ds by (cases ds) (auto simp: lead_ok_def has_prefix_single)
    qed
    moreover have "num_normal (if m < 0 then - digits_val (take ?n ds @ drop ?n ds)
             else digits_val (take ?n ds @ drop ?n ds)) (exp_val None - int (length (drop ?n ds))) = (m, e)"
      using n ds wf by (simp add: exp_val_def num_wf_def dp_def)
    ultimately show ?thesis
      using parts [of "take ?n ds" "drop ?n ds"] 2 n
      by (simp add: num_plain_def Let_def num_sign_def frac_text_def exp_text_def flip: ds_def dp_def)
  next
    case 3
    let ?z = "replicate (nat e) (CHR ''0'')"
    have e: "0 \<le> e" using 3 by (simp add: dp_def)
    have "num_normal (if m < 0 then - digits_val ((ds @ ?z) @ []) else digits_val ((ds @ ?z) @ []))
            (exp_val None - int (length [])) = (m, e)"
      using ds e False wf num_normal_shift [of m "nat e" 0]
      by (simp add: digits_val_append exp_val_def num_wf_def)
    then show ?thesis
      using parts [of "ds @ ?z" "[]"] 3 ds lead e
      by (simp add: num_plain_def Let_def num_sign_def frac_text_def exp_text_def flip: ds_def dp_def)
  qed
qed

lemma parse_num_json:
  assumes wf: "num_wf m e" and fin: "\<not> num_overflows m e" and r: "delim r"
  shows "parse_num (num_json m e @ r) = Some (JNum m e, r)"
proof -
  define x where "x = num_exp10 m e"
  show ?thesis
  proof (cases "m \<noteq> 0 \<and> (x < - 6 \<or> 21 \<le> x)")
    case False
    then have "num_json m e = num_plain m e" by (auto simp: num_json_def Let_def x_def)
    then show ?thesis using parse_num_plain [OF assms] by simp
  next
    case True
    define ds where "ds = nat_digits \<bar>m\<bar>"
    have ds: "all_digits ds" "digits_val ds = \<bar>m\<bar>" "ds \<noteq> []" by (simp_all add: ds_def)
    then obtain d fp where d: "ds = d # fp" by (cases ds) auto
    have "hd ds \<noteq> CHR ''0''" using nat_digits_hd [of "\<bar>m\<bar>"] True by (simp add: ds_def)
    then have lead: "lead_ok [d]" using d by (simp add: lead_ok_def)
    have dig: "all_digits [d]" "all_digits fp" using ds(1) d by auto
    let ?x = "Some (x < 0, nat_digits \<bar>x\<bar>)"
    have "num_normal (if m < 0 then - digits_val ([d] @ fp) else digits_val ([d] @ fp))
            (exp_val ?x - int (length fp)) = (m, e)"
      using ds d wf by (simp add: exp_val_def num_wf_def x_def num_exp10_def flip: ds_def)
    moreover have "num_json m e =
        (if m < 0 then ''-'' else []) @ [d] @ frac_text fp @ exp_text ?x"
      using True d by (simp add: num_json_def num_mantissa_def Let_def num_sign_def frac_text_def
          exp_text_def split: list.splits flip: x_def ds_def)
    ultimately show ?thesis
      using parse_num_parts [of "[d]" fp ?x r "m < 0" m e] lead dig r fin by simp
  qed
qed

subsection \<open>Values\<close>

fun json_wf :: "json \<Rightarrow> bool" where
  "json_wf (JNum m e) \<longleftrightarrow> num_wf m e \<and> \<not> num_overflows m e"
| "json_wf (JInt i) \<longleftrightarrow> False"
| "json_wf (JArr xs) \<longleftrightarrow> list_all json_wf xs"
| "json_wf (JObj fs) \<longleftrightarrow> distinct (map fst fs) \<and> list_all (\<lambda>(k, v). json_wf v) fs"
| "json_wf _ \<longleftrightarrow> True"

fun jcanon :: "json \<Rightarrow> json" where
  "jcanon JNilMap = JNull"
| "jcanon (JArr xs) = JArr (map jcanon xs)"
| "jcanon (JObj fs) = JObj (sort_fields (map (\<lambda>(k, v). (k, jcanon v)) fs))"
| "jcanon v = v"

text \<open>The fuel reading a list of values takes, from what each of them takes.\<close>

fun list_fuel :: "nat list \<Rightarrow> nat" where
  "list_fuel [] = 0"
| "list_fuel (n # ns) = Suc (max n (list_fuel ns))"

lemma sort_fields_map:
  "sort_fields (map (\<lambda>(k, v). (k, f v)) fs) = map (\<lambda>(k, v). (k, f v)) (sort_fields fs)"
proof -
  have "insort_key fst (k, f v) (map (\<lambda>(k, v). (k, f v)) gs) =
      map (\<lambda>(k, v). (k, f v)) (insort_key fst (k, v) gs)" for k v gs
    by (induction gs) auto
  note ins = this
  show ?thesis by (induction fs) (auto simp: sort_fields_def ins)
qed

lemma set_sort_fields [simp]: "set (sort_fields fs) = set fs"
  by (simp add: sort_fields_def)

lemma sort_fields_Nil [simp]: "sort_fields fs = [] \<longleftrightarrow> fs = []"
  by (metis set_sort_fields set_empty)

lemma sort_fields_empty [simp]: "sort_fields [] = []"
  by (simp add: sort_fields_def)

lemma distinct_sort_fields [simp]: "distinct (map fst (sort_fields fs)) = distinct (map fst fs)"
proof -
  have "distinct ks \<longleftrightarrow> card (set ks) = length ks" for ks :: "string list"
    by (metis card_distinct distinct_card)
  then show ?thesis by (simp add: sort_fields_def)
qed

definition reads_back :: "nat \<Rightarrow> json \<Rightarrow> bool" where
  "reads_back n v \<longleftrightarrow>
     (\<forall>m r. n \<le> m \<longrightarrow> delim r \<longrightarrow> parse_value m (json_marshal v @ r) = Some (jcanon v, r))"

lemma reads_backD:
  "reads_back n v \<Longrightarrow> n \<le> m \<Longrightarrow> delim r \<Longrightarrow> parse_value m (json_marshal v @ r) = Some (jcanon v, r)"
  by (simp add: reads_back_def)

lemma skip_ws_simps [simp]:
  "skip_ws [] = []" "\<not> is_json_space c \<Longrightarrow> skip_ws (c # s) = c # s"
  by (simp_all add: skip_ws_def)

lemma not_json_space [simp]:
  "\<not> is_json_space (CHR '','')" "\<not> is_json_space (CHR '']'')" "\<not> is_json_space (CHR ''}'')"
  "\<not> is_json_space (CHR 0x22)" "\<not> is_json_space (CHR ''['')" "\<not> is_json_space (CHR ''{'')"
  "\<not> is_json_space (CHR '':'')" "\<not> is_json_space (CHR ''n'')" "\<not> is_json_space (CHR ''t'')"
  "\<not> is_json_space (CHR ''f'')" "\<not> is_json_space (CHR ''-'')"
  by (simp_all add: is_json_space_def)

lemma parse_elems_join:
  assumes "list_all2 reads_back ns vs" "vs \<noteq> []" "list_fuel ns \<le> m"
  shows "parse_elems m (str_join (map json_marshal vs) '','' @ CHR '']'' # r) = Some (map jcanon vs, r)"
  using assms
proof (induction ns vs arbitrary: m rule: list_all2_induct)
  case (Cons n ns v vs)
  from Cons.prems obtain m' where m: "m = Suc m'" "n \<le> m'" "list_fuel ns \<le> m'"
    by (cases m) auto
  note v = reads_backD [OF Cons.hyps(1) m(2)]
  show ?case
  proof (cases vs)
    case Nil
    then show ?thesis using v [of "CHR '']'' # r"] m(1) by simp
  next
    case (Cons w ws)
    then have "str_join (map json_marshal (v # vs)) '','' @ CHR '']'' # r =
        json_marshal v @ CHR '','' # (str_join (map json_marshal vs) '','' @ CHR '']'' # r)" by simp
    moreover have "parse_elems m' (str_join (map json_marshal vs) '','' @ CHR '']'' # r) =
        Some (map jcanon vs, r)"
      using Cons.IH m(3) Cons by simp
    ultimately show ?thesis using v [of "CHR '','' # (str_join (map json_marshal vs) '','' @ CHR '']'' # r)"] m(1)
      by simp
  qed
qed simp

definition member_text :: "string \<times> json \<Rightarrow> string" where
  "member_text p = json_quote (fst p) @ '':'' @ json_marshal (snd p)"

lemma parse_members_join:
  assumes "list_all2 (\<lambda>n p. reads_back n (snd p)) ns ps" "ps \<noteq> []" "list_fuel ns \<le> m"
  shows "parse_members m (str_join (map member_text ps) '','' @ CHR ''}'' # r) =
    Some (map (\<lambda>(k, v). (k, jcanon v)) ps, r)"
  using assms
proof (induction ns ps arbitrary: m rule: list_all2_induct)
  case (Cons n ns p ps)
  from Cons.prems obtain m' where m: "m = Suc m'" "n \<le> m'" "list_fuel ns \<le> m'"
    by (cases m) auto
  obtain k v where p: "p = (k, v)" by (cases p)
  note v = reads_backD [OF Cons.hyps(1) m(2), unfolded p snd_conv]
  show ?case
  proof (cases ps)
    case Nil
    then show ?thesis using v [of "CHR ''}'' # r"] m(1)
      by (simp add: p member_text_def json_quote_def)
  next
    case (Cons q qs)
    let ?t = "str_join (map member_text ps) '','' @ CHR ''}'' # r"
    have "str_join (map member_text (p # ps)) '','' @ CHR ''}'' # r =
        CHR 0x22 # concat (map json_escape k) @ CHR 0x22 # CHR '':'' # (json_marshal v @ CHR '','' # ?t)"
      using Cons by (simp add: p member_text_def json_quote_def)
    moreover have "parse_members m' ?t = Some (map (\<lambda>(k, v). (k, jcanon v)) ps, r)"
      using Cons.IH m(3) Cons by simp
    ultimately show ?thesis using v [of "CHR '','' # ?t"] m(1) by (simp add: p)
  qed
qed simp

lemma map_put_fresh: "k \<notin> fst ` set m \<Longrightarrow> map_put k v m = m @ [(k, v)]"
  by (induction k v m rule: map_put.induct) auto

lemma fields_of_members_distinct: "distinct (map fst ms) \<Longrightarrow> fields_of_members ms = ms"
proof (induction ms rule: rev_induct)
  case (snoc p ms)
  then show ?case
    by (cases p) (auto simp: fields_of_members_def map_put_fresh image_iff)
qed (simp add: fields_of_members_def)

lemma json_marshal_obj:
  "json_marshal (JObj fs) = ''{'' @ str_join (map member_text (sort_fields fs)) '','' @ ''}''"
proof -
  have "(\<lambda>(k, t). json_quote k @ '':'' @ t) \<circ> (\<lambda>(k, v). (k, json_marshal v)) = member_text"
    by (auto simp: member_text_def fun_eq_iff)
  then show ?thesis by (simp only: json_marshal.simps sort_fields_map map_map)
qed

lemma list_all2_exists:
  "(\<And>x. x \<in> set xs \<Longrightarrow> \<exists>n. P n x) \<Longrightarrow> \<exists>ns. list_all2 P ns xs"
proof (induction xs)
  case (Cons x xs)
  then obtain n ns where "P n x" "list_all2 P ns xs" by (meson list.set_intros)
  then show ?case by (meson list.rel_intros(2))
qed auto

text \<open>A value is at least one character long, and its fuel is bounded by its length.\<close>

definition reads :: "json \<Rightarrow> bool" where
  "reads v \<longleftrightarrow> (\<exists>n. n \<le> length (json_marshal v) \<and> reads_back n v)"

lemma list_fuel_le:
  "list_all2 (\<lambda>n t. n \<le> length t) ns ts \<Longrightarrow> ts \<noteq> [] \<Longrightarrow> s \<noteq> [] \<Longrightarrow>
   list_fuel ns \<le> Suc (length (str_join ts s))"
proof (induction ns ts rule: list_all2_induct)
  case (Cons n ns t ts)
  show ?case
  proof (cases ts)
    case Nil
    with Cons show ?thesis by simp
  next
    case (Cons u us)
    then have "list_fuel ns \<le> Suc (length (str_join ts s))" using Cons.IH Cons.prems by simp
    moreover obtain c q where "s = c # q" using Cons.prems(2) by (cases s) auto
    ultimately show ?thesis using Cons Cons.hyps by simp
  qed
qed simp

lemma skip_ws_nonspace: "s \<noteq> [] \<Longrightarrow> \<not> is_json_space (hd s) \<Longrightarrow> skip_ws (s @ t) = s @ t"
  by (cases s) auto

text \<open>How the text of a value begins.\<close>

lemma hd_num_plain: "num_plain m e \<noteq> [] \<and> (hd (num_plain m e) = CHR ''-'' \<or> is_digit (hd (num_plain m e)))"
proof -
  have *: "nat_digits \<bar>m\<bar> \<noteq> []" "is_digit (hd (nat_digits \<bar>m\<bar>))"
    by (simp_all add: all_digits_hd)
  then have "0 < n \<Longrightarrow> take n (nat_digits \<bar>m\<bar>) \<noteq> [] \<and> is_digit (hd (take n (nat_digits \<bar>m\<bar>)))" for n
    by (cases "nat_digits \<bar>m\<bar>"; cases n) auto
  with * show ?thesis by (auto simp: num_plain_def num_sign_def Let_def)
qed

lemma hd_num_json: "num_json m e \<noteq> [] \<and> (hd (num_json m e) = CHR ''-'' \<or> is_digit (hd (num_json m e)))"
proof -
  have "nat_digits \<bar>m\<bar> \<noteq> []" "is_digit (hd (nat_digits \<bar>m\<bar>))"
    by (simp_all add: all_digits_hd)
  then have "num_mantissa m \<noteq> [] \<and> is_digit (hd (num_mantissa m))"
    by (auto simp: num_mantissa_def split: list.splits)
  then show ?thesis using hd_num_plain [of m e]
    by (auto simp: num_json_def num_sign_def Let_def)
qed

lemma digit_not_special:
  "is_digit c \<Longrightarrow> \<not> is_json_space c \<and> c \<noteq> CHR 0x22 \<and> c \<noteq> CHR ''['' \<and> c \<noteq> CHR ''{'' \<and> c \<noteq> CHR '']''
     \<and> c \<noteq> CHR ''}'' \<and> c \<noteq> CHR ''n'' \<and> c \<noteq> CHR ''t'' \<and> c \<noteq> CHR ''f''"
  by (auto simp: is_digit_def is_json_space_def)

lemma hd_json_marshal:
  assumes "json_wf v"
  shows "json_marshal v \<noteq> [] \<and> \<not> is_json_space (hd (json_marshal v)) \<and>
    hd (json_marshal v) \<noteq> CHR '']'' \<and> hd (json_marshal v) \<noteq> CHR ''}''"
proof (cases v)
  case (JNum m e)
  then show ?thesis using hd_num_json [of m e] digit_not_special by auto
qed (use assms in \<open>auto simp: json_quote_def is_json_space_def\<close>)

lemma hd_join: "xs \<noteq> [] \<Longrightarrow> hd xs \<noteq> [] \<Longrightarrow> str_join xs s \<noteq> [] \<and> hd (str_join xs s) = hd (hd xs)"
  by (cases xs; cases "tl xs") auto

lemma reads_back_arr:
  assumes ns: "list_all2 reads_back ns vs" and wf: "json_wf (JArr vs)"
  shows "reads_back (Suc (list_fuel ns)) (JArr vs)"
  unfolding reads_back_def
proof (intro allI impI)
  fix m r
  assume m: "Suc (list_fuel ns) \<le> m" and "delim r"
  then obtain k where k: "m = Suc k" "list_fuel ns \<le> k" by (cases m) auto
  show "parse_value m (json_marshal (JArr vs) @ r) = Some (jcanon (JArr vs), r)"
  proof (cases "vs = []")
    case True
    then show ?thesis by (simp add: k)
  next
    case False
    let ?t = "str_join (map json_marshal vs) '',''"
    have "json_wf (hd vs)" using wf False by (cases vs) auto
    then have hd: "?t \<noteq> []" "\<not> is_json_space (hd ?t)" "hd ?t \<noteq> CHR '']''"
      using False hd_json_marshal [of "hd vs"] hd_join [of "map json_marshal vs" "'',''"]
      by (simp_all add: list.map_sel)
    then have "\<not> has_prefix '']'' (skip_ws (?t @ CHR '']'' # r))"
      by (simp add: skip_ws_nonspace has_prefix_single)
    then show ?thesis using parse_elems_join [OF ns False k(2), of r] k(1) by simp
  qed
qed

lemma reads_back_obj:
  assumes ns: "list_all2 (\<lambda>n p. reads_back n (snd p)) ns (sort_fields fs)" and wf: "json_wf (JObj fs)"
  shows "reads_back (Suc (list_fuel ns)) (JObj fs)"
  unfolding reads_back_def
proof (intro allI impI)
  fix m r
  assume m: "Suc (list_fuel ns) \<le> m" and "delim r"
  then obtain k where k: "m = Suc k" "list_fuel ns \<le> k" by (cases m) auto
  show "parse_value m (json_marshal (JObj fs) @ r) = Some (jcanon (JObj fs), r)"
  proof (cases "fs = []")
    case True
    then show ?thesis by (simp add: k json_marshal_obj sort_fields_def)
  next
    case False
    then have False': "sort_fields fs \<noteq> []" by simp
    let ?t = "str_join (map member_text (sort_fields fs)) '',''"
    have "hd (map member_text (sort_fields fs)) \<noteq> []"
      "hd (hd (map member_text (sort_fields fs))) = CHR 0x22"
      using False' by (simp_all add: list.map_sel member_text_def json_quote_def)
    then have hd: "?t \<noteq> []" "hd ?t = CHR 0x22"
      using False' hd_join [of "map member_text (sort_fields fs)" "'',''"] by simp_all
    then have "\<not> has_prefix ''}'' (skip_ws (?t @ CHR ''}'' # r))"
      by (simp add: skip_ws_nonspace has_prefix_single)
    moreover have "fields_of_members (map (\<lambda>(k, v). (k, jcanon v)) (sort_fields fs)) =
        map (\<lambda>(k, v). (k, jcanon v)) (sort_fields fs)"
    proof (rule fields_of_members_distinct)
      have eq: "map fst (map (\<lambda>(k, v). (k, jcanon v)) (sort_fields fs)) = map fst (sort_fields fs)"
        by auto
      show "distinct (map fst (map (\<lambda>(k, v). (k, jcanon v)) (sort_fields fs)))"
        unfolding eq using wf by simp
    qed
    ultimately show ?thesis
      using parse_members_join [OF ns False' k(2), of r] k(1)
      by (simp add: json_marshal_obj sort_fields_map del: json_marshal.simps(8))
  qed
qed

lemma list_all2_reads:
  "list_all (\<lambda>x. reads (f x)) xs \<Longrightarrow>
   \<exists>ns. list_all2 (\<lambda>n x. reads_back n (f x)) ns xs \<and>
        list_all2 (\<lambda>n x. n \<le> length (json_marshal (f x))) ns xs"
proof (induction xs)
  case (Cons x xs)
  then obtain n ns where "n \<le> length (json_marshal (f x))" "reads_back n (f x)"
    "list_all2 (\<lambda>n x. reads_back n (f x)) ns xs"
    "list_all2 (\<lambda>n x. n \<le> length (json_marshal (f x))) ns xs"
    by (auto simp: reads_def)
  then show ?case by (intro exI [of _ "n # ns"]) simp
qed auto

lemma list_all2_map_length:
  "list_all2 (\<lambda>n x. n \<le> length (json_marshal (f x))) ns xs \<Longrightarrow>
   (\<And>x. length (json_marshal (f x)) \<le> length (g x)) \<Longrightarrow>
   list_all2 (\<lambda>n t. n \<le> length t) ns (map g xs)"
  by (induction ns xs rule: list_all2_induct) (auto intro: le_trans)

lemma reads_plain: "reads JNull" "reads JNilMap" "reads (JBool b)" "reads (JStr s)"
proof -
  show "reads JNull" "reads JNilMap" "reads (JBool b)"
    by (auto simp: reads_def reads_back_def Suc_le_eq gr0_conv_Suc parse_literal_def intro!: exI [of _ "1::nat"])
  have "reads_back 1 (JStr s)"
    by (auto simp: reads_back_def json_quote_def Suc_le_eq gr0_conv_Suc)
  then show "reads (JStr s)" unfolding reads_def by (intro exI [of _ 1]) (simp add: json_quote_def)
qed

lemma reads_json: "json_wf v \<Longrightarrow> reads v"
proof (induction v rule: json_wf.induct)
  case (1 m e)
  have "reads_back 1 (JNum m e)"
    unfolding reads_back_def
  proof (intro allI impI)
    fix k :: nat and r
    assume "1 \<le> k" and r: "delim r"
    then obtain k' where k: "k = Suc k'" by (cases k) auto
    obtain c t where c: "num_json m e = c # t" "c = CHR ''-'' \<or> is_digit c"
      using hd_num_json [of m e] by (cases "num_json m e") auto
    then have "\<not> is_json_space c \<and> c \<noteq> CHR 0x22 \<and> c \<noteq> CHR ''['' \<and> c \<noteq> CHR ''{'' \<and> CHR ''n'' \<noteq> c \<and>
        CHR ''t'' \<noteq> c \<and> CHR ''f'' \<noteq> c"
      using digit_not_special [of c] by auto
    moreover have "parse_num (c # (t @ r)) = Some (JNum m e, r)"
      using parse_num_json [of m e r] 1 r c by simp
    ultimately show "parse_value k (json_marshal (JNum m e) @ r) = Some (jcanon (JNum m e), r)"
      using c by (simp add: k parse_literal_def)
  qed
  moreover have "1 \<le> length (json_marshal (JNum m e))" using hd_num_json [of m e] by (simp add: Suc_leI)
  ultimately show ?case unfolding reads_def by blast
next
  case (3 xs)
  then have "list_all reads xs" by (auto simp: list_all_iff)
  then obtain ns where ns: "list_all2 reads_back ns xs"
    "list_all2 (\<lambda>n x. n \<le> length (json_marshal x)) ns xs"
    using list_all2_reads [of "\<lambda>x. x" xs] by auto
  have "xs = [] \<or> list_fuel ns \<le> Suc (length (str_join (map json_marshal xs) '',''))"
    using list_fuel_le [OF list_all2_map_length [where g = json_marshal and f = "\<lambda>x. x", OF ns(2)], of "'',''"]
    by auto
  then have "Suc (list_fuel ns) \<le> length (json_marshal (JArr xs))" using ns(1) by auto
  with reads_back_arr [OF ns(1) "3.prems"] show ?case unfolding reads_def by blast
next
  case (4 fs)
  have "list_all (\<lambda>p. reads (snd p)) (sort_fields fs)"
    using "4.IH" "4.prems" by (auto simp: list_all_iff)
  then obtain ns where ns: "list_all2 (\<lambda>n p. reads_back n (snd p)) ns (sort_fields fs)"
    "list_all2 (\<lambda>n p. n \<le> length (json_marshal (snd p))) ns (sort_fields fs)"
    using list_all2_reads by blast
  have "sort_fields fs = [] \<or>
      list_fuel ns \<le> Suc (length (str_join (map member_text (sort_fields fs)) '',''))"
    using list_fuel_le [OF list_all2_map_length [where g = member_text and f = snd, OF ns(2)], of "'',''"]
    by (auto simp: member_text_def)
  then have "Suc (list_fuel ns) \<le> length (json_marshal (JObj fs))"
    using ns(1) unfolding json_marshal_obj by auto
  with reads_back_obj [OF ns(1) "4.prems"] show ?case unfolding reads_def by blast
qed (auto simp: reads_plain)

theorem json_roundtrip: "json_wf v \<Longrightarrow> json_unmarshal (json_marshal v) = Some (jcanon v)"
proof -
  assume "json_wf v"
  then obtain n where "n \<le> length (json_marshal v)" "reads_back n v"
    using reads_json reads_def by blast
  then have "parse_value (Suc (length (json_marshal v))) (json_marshal v @ []) = Some (jcanon v, [])"
    by (intro reads_backD) auto
  then show ?thesis by (simp add: json_unmarshal_def)
qed

subsection \<open>What is read is well-formed\<close>

lemma num_normal_wf: "num_normal m e = (m', e') \<Longrightarrow> num_wf m' e'"
proof (induction m e rule: num_normal.induct)
  case (1 m e)
  show ?case
  proof (cases "m = 0")
    case True
    with "1.prems" show ?thesis by (simp add: num_wf_def num_normal.simps)
  next
    case False
    show ?thesis
    proof (cases "m mod 10 = 0")
      case True
      with False "1.prems" have "num_normal (m div 10) (e + 1) = (m', e')"
        by (simp add: num_normal.simps [of m e])
      with "1.IH" False True show ?thesis by simp
    next
      case mod: False
      with False "1.prems" have "m' = m" "e' = e" by (simp_all add: num_normal.simps [of m e])
      with False mod show ?thesis by (simp add: num_wf_def num_normal.simps [of m e])
    qed
  qed
qed

lemma parse_num_wf: "parse_num s = Some (v, r) \<Longrightarrow> json_wf v"
  by (auto simp: parse_num_def Let_def split: prod.splits option.splits if_splits dest: num_normal_wf)

lemma parse_literal_wf: "parse_literal s = Some (v, r) \<Longrightarrow> json_wf v"
  by (auto simp: parse_literal_def split: if_splits dest: parse_num_wf)

lemma list_all_map_put: "list_all P m \<Longrightarrow> P (k, v) \<Longrightarrow> list_all P (map_put k v m)"
  by (induction k v m rule: map_put.induct) auto

lemma fields_of_members_wf:
  assumes "list_all (\<lambda>(k, v). json_wf v) ms"
  shows "json_wf (JObj (fields_of_members ms))"
  using assms unfolding fields_of_members_def
  by (induction ms rule: rev_induct) (auto intro: list_all_map_put)

lemma json_wf_empty [simp]: "json_wf (JObj [])"
  by simp

lemma parse_wf:
  "parse_value n s = Some (v, r) \<Longrightarrow> json_wf v"
  "parse_elems n s = Some (xs, r) \<Longrightarrow> list_all json_wf xs"
  "parse_members n s = Some (ms, r) \<Longrightarrow> list_all (\<lambda>(k, v). json_wf v) ms"
proof (induction n s and n s and n s arbitrary: v r and xs r and ms r
       rule: parse_value_parse_elems_parse_members.induct)
  case (2 n s)
  then show ?case
    by (auto split: list.splits if_splits dest: parse_literal_wf intro: fields_of_members_wf
             simp del: json_wf.simps(4))
next
  case (4 n s)
  then show ?case by (auto split: list.splits if_splits option.splits)
next
  case (6 n s)
  then show ?case by (auto split: list.splits if_splits option.splits)
qed simp_all

lemma json_unmarshal_wf: "json_unmarshal s = Some v \<Longrightarrow> json_wf v"
  by (auto simp: json_unmarshal_def simp del: parse_value.simps
           split: option.splits if_splits dest: parse_wf(1))

lemma json_unmarshal_map_wf: "json_unmarshal_map s = Some v \<Longrightarrow> json_wf v"
  by (auto simp: json_unmarshal_map_def split: option.splits json.splits dest: json_unmarshal_wf)

text \<open>A map printed and read back is a map again.\<close>

lemma json_map_roundtrip:
  "json_wf (JObj fs) \<Longrightarrow> json_unmarshal_map (json_marshal (JObj fs)) = Some (jcanon (JObj fs))"
  using json_roundtrip [of "JObj fs"] by (simp add: json_unmarshal_map_def del: json_marshal.simps)

end
