(* ===== verification/SecretMap.thy ===== *)
theory SecretMap
  imports DriftOrder JsonRoundtrip
begin

text \<open>
  The rest of \<^verbatim>\<open>internal/data-patcher\<close>: secrets put into the strings of a nested map
  (\<^verbatim>\<open>PatchSecretsIntoMap\<close> in patch.go, \<^verbatim>\<open>patchSecretsInMap\<close> in parser.go).

  The code changes a deep copy of the map in place; the model answers the changed copy. After an error the
  copy is dropped, so that its state does not matter. Two helpers of the same packages follow. Like the
  walk, the code exports them for its callers but does not use them itself.
\<close>

subsection \<open>The copy\<close>

text \<open>A nil map is copied to an empty one.\<close>

fun deepCopy :: "json \<Rightarrow> json"
  and copyMap :: "(string \<times> json) list \<Rightarrow> (string \<times> json) list"
  and copySlice :: "json list \<Rightarrow> json list" where
  "deepCopy (JObj fs) = JObj (copyMap fs)"
| "deepCopy JNilMap = JObj []"
| "deepCopy (JArr xs) = JArr (copySlice xs)"
| "deepCopy v = v"
| "copyMap [] = []"
| "copyMap ((k, v) # fs) = (k, deepCopy v) # copyMap fs"
| "copySlice [] = []"
| "copySlice (x # xs) = deepCopy x # copySlice xs"

subsection \<open>The walk\<close>

fun patch_item :: "'cr env \<Rightarrow> json \<Rightarrow> ('cr world, goerr + json) state"
  and patchSecretsInMap :: "'cr env \<Rightarrow> (string \<times> json) list \<Rightarrow> ('cr world, goerr + (string \<times> json) list) state"
  and patchSecretsInSlice :: "'cr env \<Rightarrow> json list \<Rightarrow> ('cr world, goerr + json list) state" where
  "patch_item E (JStr s) = do { r \<leftarrow> patchSecretsToValue E s; State_Monad.return (map_sum id JStr r) }"
| "patch_item E (JObj fs) = do { r \<leftarrow> patchSecretsInMap E fs; State_Monad.return (map_sum id JObj r) }"
| "patch_item E (JArr xs) = do { r \<leftarrow> patchSecretsInSlice E xs; State_Monad.return (map_sum id JArr r) }"
| "patch_item E v = State_Monad.return (Inr v)"
| "patchSecretsInMap E [] = State_Monad.return (Inr [])"
| "patchSecretsInMap E ((k, v) # fs) = do {
     r \<leftarrow> patch_item E v;
     case r of
       Inl err \<Rightarrow> State_Monad.return (Inl err)
     | Inr v' \<Rightarrow> do { rs \<leftarrow> patchSecretsInMap E fs; State_Monad.return (map_sum id (Cons (k, v')) rs) }
   }"
| "patchSecretsInSlice E [] = State_Monad.return (Inr [])"
| "patchSecretsInSlice E (x # xs) = do {
     r \<leftarrow> patch_item E x;
     case r of
       Inl err \<Rightarrow> State_Monad.return (Inl err)
     | Inr x' \<Rightarrow> do { rs \<leftarrow> patchSecretsInSlice E xs; State_Monad.return (map_sum id (Cons x') rs) }
   }"

definition PatchSecretsIntoMap ::
  "'cr env \<Rightarrow> (string \<times> json) list \<Rightarrow> ('cr world, goerr + (string \<times> json) list) state" where
  "PatchSecretsIntoMap E fs = patchSecretsInMap E (copyMap fs)"

subsection \<open>Facts\<close>

lemma deepCopy_id:
  "no_nil_map v \<Longrightarrow> deepCopy v = v"
  "list_all (\<lambda>(k, v). no_nil_map v) fs \<Longrightarrow> copyMap fs = fs"
  "list_all no_nil_map xs \<Longrightarrow> copySlice xs = xs"
  by (induction v and fs and xs rule: deepCopy_copyMap_copySlice.induct) auto

text \<open>What is read are secrets; what has no placeholder in it stays as it is, and nothing is read for it.\<close>

lemma emits_patchSecretsInMap:
  "emits_same is_secret_read (patch_item E v)"
  "emits_same is_secret_read (patchSecretsInMap E fs)"
  "emits_same is_secret_read (patchSecretsInSlice E xs)"
  by (induction E v and E fs and E xs rule: patch_item_patchSecretsInMap_patchSecretsInSlice.induct)
    (auto intro!: keeps_intros)

fun plain_text :: "json \<Rightarrow> bool" where
  "plain_text (JStr s) \<longleftrightarrow> no_brace s"
| "plain_text (JObj fs) \<longleftrightarrow> list_all (\<lambda>(k, v). plain_text v) fs"
| "plain_text (JArr xs) \<longleftrightarrow> list_all plain_text xs"
| "plain_text _ \<longleftrightarrow> True"

lemma patch_plain:
  "plain_text v \<Longrightarrow> run_state (patch_item E v) w = (Inr v, w)"
  "list_all (\<lambda>(k, v). plain_text v) fs \<Longrightarrow> run_state (patchSecretsInMap E fs) w = (Inr fs, w)"
  "list_all plain_text xs \<Longrightarrow> run_state (patchSecretsInSlice E xs) w = (Inr xs, w)"
  by (induction E v and E fs and E xs rule: patch_item_patchSecretsInMap_patchSecretsInSlice.induct)
    (auto simp: PatchSecretsIntoString_plain [unfolded PatchSecretsIntoString_def])

lemma PatchSecretsIntoMap_plain:
  assumes "decoded (JObj fs)" "plain_text (JObj fs)"
  shows "run_state (PatchSecretsIntoMap E fs) w = (Inr fs, w)"
  using assms patch_plain(2) [of fs] deepCopy_id(2) [of fs] by (simp add: PatchSecretsIntoMap_def decoded_def)

subsection \<open>isSecretDataUpToDate (secret_patcher.go), ConvertMapToJson (internal/json/util.go)\<close>

definition isSecretDataUpToDate :: "Secret \<Rightarrow> string \<Rightarrow> string \<Rightarrow> bool" where
  "isSecretDataUpToDate s key v \<longleftrightarrow> Option.bind (SecretData s) (\<lambda>m. map_of m key) = Some v"

lemma updateSecretData_up_to_date: "isSecretDataUpToDate (updateSecretData s key (Some v) strategy) key v"
  by (simp add: isSecretDataUpToDate_def updateSecretData_def Let_def)

definition ConvertMapToJson :: "json \<Rightarrow> goerr + string" where
  "ConvertMapToJson m = Inr (json_marshal m)"

lemma JsonStringToMap_ConvertMapToJson:
  "json_wf (JObj fs) \<Longrightarrow> map_sum id JsonStringToMap (ConvertMapToJson (JObj fs)) = Inr (jcanon (JObj fs))"
  by (simp add: ConvertMapToJson_def JsonStringToMap_def json_map_roundtrip del: json_marshal.simps)

end
