(* ===== verification/Auth.thy ===== *)
theory Auth
  imports KubeHandler
begin

text \<open>
  Which credentials and which TLS settings a request uses: the merge of a resource's settings over
  those of its provider configuration (\<^verbatim>\<open>apis/common/oidc.go\<close>, \<^verbatim>\<open>gcp.go\<close>,
  \<^verbatim>\<open>internal/clients/http/tls_loader.go\<close>), and the rules that reject a selection
  (\<^verbatim>\<open>internal/clients/http/auth.go\<close>).
\<close>

text \<open>A field of the override wins when it is not empty.\<close>

definition pick :: "string \<Rightarrow> string \<Rightarrow> string" where
  "pick override base = (if override \<noteq> [] then override else base)"

definition pick_ref :: "'a option \<Rightarrow> 'a option \<Rightarrow> 'a option" where
  "pick_ref override base = (case override of Some _ \<Rightarrow> override | None \<Rightarrow> base)"

subsection \<open>OIDC\<close>

fun put_all :: "('k \<times> 'v) list \<Rightarrow> ('k \<times> 'v) list \<Rightarrow> ('k \<times> 'v) list" where
  "put_all [] m = m"
| "put_all ((k, v) # kvs) m = put_all kvs (map_put k v m)"

definition mergeOIDCExchange :: "OIDCExchange option \<Rightarrow> OIDCExchange option \<Rightarrow> OIDCExchange option" where
  "mergeOIDCExchange override base =
     (case (override, base) of
        (None, _) \<Rightarrow> base
      | (Some o1, None) \<Rightarrow> Some o1
      | (Some o1, Some b) \<Rightarrow> Some (b\<lparr>TokenEndpoint := pick (TokenEndpoint o1) (TokenEndpoint b),
          Audience := pick (Audience o1) (Audience b),
          ExtraParams := (case ExtraParams o1 of
              None \<Rightarrow> ExtraParams b
            | Some kvs \<Rightarrow> Some (put_all kvs (case ExtraParams b of None \<Rightarrow> [] | Some m \<Rightarrow> m)))\<rparr>))"

definition mergeOIDCInject :: "OIDCInject option \<Rightarrow> OIDCInject option \<Rightarrow> OIDCInject option" where
  "mergeOIDCInject override base =
     (case (override, base) of
        (None, _) \<Rightarrow> base
      | (Some o1, None) \<Rightarrow> Some o1
      | (Some o1, Some b) \<Rightarrow> Some (b\<lparr>InjectType := pick (InjectType o1) (InjectType b),
          InjectHeader := pick (InjectHeader o1) (InjectHeader b),
          InjectPrefix := pick (InjectPrefix o1) (InjectPrefix b)\<rparr>))"

definition MergeOIDCConfigs :: "OIDCConfig option \<Rightarrow> OIDCConfig option \<Rightarrow> OIDCConfig option" where
  "MergeOIDCConfigs override base =
     (case (override, base) of
        (None, None) \<Rightarrow> None
      | (Some o1, None) \<Rightarrow> Some o1
      | (None, Some b) \<Rightarrow> Some b
      | (Some o1, Some b) \<Rightarrow> Some (b\<lparr>
          ServiceAccountTokenPath := pick (ServiceAccountTokenPath o1) (ServiceAccountTokenPath b),
          Exchange := mergeOIDCExchange (Exchange o1) (Exchange b),
          Inject := mergeOIDCInject (Inject o1) (Inject b),
          RefreshBefore := pick_ref (RefreshBefore o1) (RefreshBefore b)\<rparr>))"

subsection \<open>GCP\<close>

definition MergeGCPConfigs :: "GCPAuth option \<Rightarrow> GCPAuth option \<Rightarrow> GCPAuth option" where
  "MergeGCPConfigs override base =
     (case (override, base) of
        (None, None) \<Rightarrow> None
      | (Some o1, None) \<Rightarrow> Some o1
      | (None, Some b) \<Rightarrow> Some b
      | (Some o1, Some b) \<Rightarrow> Some (b\<lparr>ServiceAccount := pick (ServiceAccount o1) (ServiceAccount b),
          Scopes := (if Scopes o1 \<noteq> [] then Scopes o1 else Scopes b)\<rparr>))"

subsection \<open>The selection of a mechanism (auth.go)\<close>

record AuthSelection =
  CredentialsSet :: bool
  SelGCP :: "GCPAuth option"
  SelOIDC :: "OIDCConfig option"

definition errNoAuthMechanism :: string where
  "errNoAuthMechanism = ''no auth mechanism configured: set one of credentials, gcp, or oidc''"
definition errGCPAndOIDCMutual :: string where
  "errGCPAndOIDCMutual = ''gcp and oidc are mutually exclusive on a single config''"
definition errCredAndIdentity :: string where
  "errCredAndIdentity = ''credentials cannot be combined with an identity block (gcp or oidc); drop the now-optional credentials block and use the identity block alone''"

definition ValidateAuthSelection :: "AuthSelection \<Rightarrow> goerr option" where
  "ValidateAuthSelection s =
     (let identitySet = (SelGCP s \<noteq> None \<or> SelOIDC s \<noteq> None)
      in if \<not> CredentialsSet s \<and> \<not> identitySet then Some (AuthSelectionError errNoAuthMechanism)
         else if SelGCP s \<noteq> None \<and> SelOIDC s \<noteq> None then Some (AuthSelectionError errGCPAndOIDCMutual)
         else if CredentialsSet s \<and> identitySet then Some (AuthSelectionError errCredAndIdentity)
         else None)"

subsection \<open>TLS (tls_loader.go)\<close>

record TLSConfigData =
  DataCABundle :: string
  DataClientCert :: string
  DataClientKey :: string
  DataInsecure :: bool

definition emptyTLS :: TLSConfig where
  "emptyTLS = \<lparr>CABundle = [], CACertSecretRef = None, ClientCertSecretRef = None,
     ClientKeySecretRef = None, InsecureSkipVerify = False\<rparr>"

definition mergeCABundle :: "TLSConfig \<Rightarrow> TLSConfig \<Rightarrow> TLSConfig \<Rightarrow> TLSConfig" where
  "mergeCABundle merged resourceTLS providerTLS =
     merged\<lparr>CABundle := (if CABundle resourceTLS \<noteq> [] then CABundle resourceTLS
                         else if CABundle providerTLS \<noteq> [] then CABundle providerTLS else CABundle merged),
       CACertSecretRef := (if CACertSecretRef resourceTLS \<noteq> None then CACertSecretRef resourceTLS
                           else if CACertSecretRef providerTLS \<noteq> None then CACertSecretRef providerTLS
                           else CACertSecretRef merged)\<rparr>"

definition mergeSecretRefs :: "TLSConfig \<Rightarrow> TLSConfig \<Rightarrow> TLSConfig \<Rightarrow> TLSConfig" where
  "mergeSecretRefs merged resourceTLS providerTLS =
     merged\<lparr>ClientCertSecretRef :=
         (if ClientCertSecretRef resourceTLS \<noteq> None then ClientCertSecretRef resourceTLS
          else if ClientCertSecretRef providerTLS \<noteq> None then ClientCertSecretRef providerTLS
          else ClientCertSecretRef merged),
       ClientKeySecretRef :=
         (if ClientKeySecretRef resourceTLS \<noteq> None then ClientKeySecretRef resourceTLS
          else if ClientKeySecretRef providerTLS \<noteq> None then ClientKeySecretRef providerTLS
          else ClientKeySecretRef merged)\<rparr>"

definition MergeTLSConfigs :: "TLSConfig option \<Rightarrow> TLSConfig option \<Rightarrow> TLSConfig option" where
  "MergeTLSConfigs resourceTLS providerTLS =
     (case (resourceTLS, providerTLS) of
        (None, None) \<Rightarrow> None
      | (None, Some p) \<Rightarrow> Some p
      | (Some r, None) \<Rightarrow> Some r
      | (Some r, Some p) \<Rightarrow>
          Some (mergeSecretRefs (mergeCABundle (emptyTLS\<lparr>InsecureSkipVerify := InsecureSkipVerify r\<rparr>) r p) r p))"

definition loadSecretData ::
  "'cr env \<Rightarrow> SecretKeySelector option \<Rightarrow> ('cr world, goerr + string) state" where
  "loadSecretData E ref =
     (case ref of
        None \<Rightarrow> State_Monad.return (Inr [])
      | Some r \<Rightarrow> do {
          s \<leftarrow> kubeGetSecret E (SelName r) (SelNamespace r);
          State_Monad.return
            (case s of
               Inl err \<Rightarrow> Inl (Wrapped err (''cannot get secret '' @ SelNamespace r @ ''/'' @ SelName r))
             | Inr secret \<Rightarrow>
                 (case map_of (case SecretData secret of None \<Rightarrow> [] | Some m \<Rightarrow> m) (SelKey r) of
                    None \<Rightarrow> Inl (ErrorString (''secret '' @ SelNamespace r @ ''/'' @ SelName r @
                              '' does not contain key '' @ SelKey r))
                  | Some v \<Rightarrow> Inr v))
        })"

definition load_ref ::
  "'cr env \<Rightarrow> string \<Rightarrow> SecretKeySelector option \<Rightarrow> ('cr world, goerr + string) state" where
  "load_ref E what ref = do {
     r \<leftarrow> loadSecretData E ref;
     State_Monad.return
       (case r of
          Inl err \<Rightarrow> Inl (Wrapped err (''failed to load '' @ what @ '' from secret''))
        | Inr v \<Rightarrow> Inr v)
   }"

text \<open>An inline bundle is taken before a reference; a client certificate and its key are loaded apart.\<close>

definition LoadTLSConfig ::
  "'cr env \<Rightarrow> TLSConfig option \<Rightarrow> ('cr world, goerr + TLSConfigData) state" where
  "LoadTLSConfig E tls =
     (case tls of
        None \<Rightarrow> State_Monad.return (Inr \<lparr>DataCABundle = [], DataClientCert = [], DataClientKey = [],
                  DataInsecure = False\<rparr>)
      | Some t \<Rightarrow> do {
          ca \<leftarrow> (if CABundle t \<noteq> [] then State_Monad.return (Inr (CABundle t))
                 else load_ref E ''CA certificate'' (CACertSecretRef t));
          case ca of
            Inl err \<Rightarrow> State_Monad.return (Inl err)
          | Inr bundle \<Rightarrow> do {
              c \<leftarrow> load_ref E ''client certificate'' (ClientCertSecretRef t);
              case c of
                Inl err \<Rightarrow> State_Monad.return (Inl err)
              | Inr cert \<Rightarrow> do {
                  k \<leftarrow> load_ref E ''client key'' (ClientKeySecretRef t);
                  State_Monad.return (map_sum id (\<lambda>key. \<lparr>DataCABundle = bundle, DataClientCert = cert,
                    DataClientKey = key, DataInsecure = InsecureSkipVerify t\<rparr>) k)
                }
            }
        })"

text \<open>\<open>buildTLSConfigData\<close> of the controllers: the skip flag of the resource is added to the merge.\<close>

definition effectiveTLS :: "TLSConfig option \<Rightarrow> bool \<Rightarrow> TLSConfig option \<Rightarrow> TLSConfig option" where
  "effectiveTLS resourceTLS skip providerTLS =
     (let merged = MergeTLSConfigs resourceTLS providerTLS
      in if skip
         then Some ((case merged of None \<Rightarrow> emptyTLS | Some t \<Rightarrow> t)\<lparr>InsecureSkipVerify := True\<rparr>)
         else merged)"

definition buildTLSConfigData ::
  "'cr env \<Rightarrow> TLSConfig option \<Rightarrow> bool \<Rightarrow> TLSConfig option \<Rightarrow> ('cr world, goerr + TLSConfigData) state" where
  "buildTLSConfigData E resourceTLS skip providerTLS = LoadTLSConfig E (effectiveTLS resourceTLS skip providerTLS)"

subsection \<open>Facts\<close>

lemma ValidateAuthSelection_iff:
  "ValidateAuthSelection s = None \<longleftrightarrow>
     (CredentialsSet s \<and> SelGCP s = None \<and> SelOIDC s = None) \<or>
     (\<not> CredentialsSet s \<and> (SelGCP s = None) \<noteq> (SelOIDC s = None))"
  by (auto simp: ValidateAuthSelection_def Let_def)

lemma map_of_put_all: "map_of (put_all kvs m) k =
    (case map_of (rev kvs) k of Some v \<Rightarrow> Some v | None \<Rightarrow> map_of m k)"
  by (induction kvs m rule: put_all.induct) (auto simp: map_add_def split: option.splits)

text \<open>Merging a configuration over itself, or over nothing, changes nothing.\<close>

lemma pick_simps [simp]: "pick x x = x" "pick [] x = x" "pick x [] = x" "pick_ref y y = y"
  "pick_ref None y = y" "pick_ref y None = y"
  by (auto simp: pick_def pick_ref_def split: option.splits)

lemma pick_assoc: "pick (pick a b) c = pick a (pick b c)"
  by (simp add: pick_def)

lemma MergeGCP_unit:
  "MergeGCPConfigs g None = g" "MergeGCPConfigs None g = g" "MergeGCPConfigs g g = g"
  by (auto simp: MergeGCPConfigs_def split: option.splits)

lemma MergeGCP_assoc:
  "MergeGCPConfigs (MergeGCPConfigs a b) c = MergeGCPConfigs a (MergeGCPConfigs b c)"
  by (auto simp: MergeGCPConfigs_def pick_assoc split: option.splits)

lemma MergeTLS_skip:
  "MergeTLSConfigs (Some r) p = Some t \<Longrightarrow> InsecureSkipVerify t = InsecureSkipVerify r"
  by (auto simp: MergeTLSConfigs_def mergeSecretRefs_def mergeCABundle_def split: option.splits)

text \<open>The loader prefers an inline bundle.\<close>

lemma LoadTLSConfig_bundle:
  assumes "CABundle t \<noteq> []"
  shows "wp (LoadTLSConfig E (Some t)) (\<lambda>x _. \<forall>d. x = Inr d \<longrightarrow> DataCABundle d = CABundle t) w"
proof -
  have key: "wp (do { k \<leftarrow> load_ref E what ref; State_Monad.return (map_sum id (\<lambda>key. f key) k) })
      (\<lambda>x _. \<forall>d. x = Inr d \<longrightarrow> DataCABundle d = CABundle t) v"
    if "\<And>key. DataCABundle (f key) = CABundle t" for what ref v and f :: "string \<Rightarrow> TLSConfigData"
    unfolding wp_bind wp_return_eta by (rule wp_any) (use that in auto)
  show ?thesis
    using assms
    by (simp add: LoadTLSConfig_def wp_bind [of "State_Monad.return _"] wp_return wp_bind [of "load_ref E ''client certificate'' _"])
       (rule wp_any, auto simp: wp_return key split: sum.split)
qed

text \<open>
  So an inline bundle of the provider is loaded even where the resource names a CA secret of its own:
  the merge keeps both.
\<close>

lemma MergeTLS_bundle:
  "CABundle r = [] \<Longrightarrow> MergeTLSConfigs (Some r) (Some p) = Some t \<Longrightarrow> CABundle t = CABundle p"
  by (auto simp: MergeTLSConfigs_def mergeSecretRefs_def mergeCABundle_def emptyTLS_def)

lemma provider_bundle_wins:
  assumes "CABundle r = []" "CABundle p \<noteq> []"
    and "run_state (LoadTLSConfig E (MergeTLSConfigs (Some r) (Some p))) w = (Inr d, w')"
  shows "DataCABundle d = CABundle p"
proof -
  obtain t where t: "MergeTLSConfigs (Some r) (Some p) = Some t" by (simp add: MergeTLSConfigs_def)
  from MergeTLS_bundle [OF assms(1) t] assms(2) have "CABundle t = CABundle p" "CABundle t \<noteq> []" by simp_all
  with wp_run [OF LoadTLSConfig_bundle assms(3) [unfolded t]] show ?thesis by simp
qed

end
