(* ===== verification/HttpClient.thy ===== *)
theory HttpClient
  imports Auth Utils
begin

text \<open>
  The HTTP client (\<^verbatim>\<open>internal/clients/http/client.go\<close>) and its two decorators that add an identity
  (\<^verbatim>\<open>gcp_client.go\<close>, \<^verbatim>\<open>oidc_client.go\<close>), and how a controller chooses among them
  (\<^verbatim>\<open>buildHTTPClient\<close>).

  The network, the certificate parsers of \<^verbatim>\<open>crypto\<close>, the token sources and crossplane's credential
  extractor are the record \<open>transport\<close>; its functions take a history \<open>'h\<close>, so that the same call may
  be answered differently at another time. An assignment to a nil map panics: \<open>Panicked\<close>.
\<close>

subsection \<open>net/http\<close>

definition token_char :: "char \<Rightarrow> bool" where
  "token_char c \<longleftrightarrow> is_alpha c \<or> is_digit c \<or> c \<in> set ''!#$%&*+-.^_|~'' \<or> c = CHR 0x27 \<or> c = CHR 0x60"

definition validMethod :: "string \<Rightarrow> bool" where
  "validMethod m \<longleftrightarrow> m \<noteq> [] \<and> list_all token_char m"

definition to_upper_char :: "char \<Rightarrow> char" where
  "to_upper_char c = (if is_lower c then char_of (of_char c - (32::nat)) else c)"

definition to_lower_char :: "char \<Rightarrow> char" where
  "to_lower_char c = (if is_upper c then char_of (of_char c + (32::nat)) else c)"

fun canonical :: "bool \<Rightarrow> string \<Rightarrow> string" where
  "canonical up [] = []"
| "canonical up (c # s) =
     (if up then to_upper_char c else to_lower_char c) # canonical (c = CHR ''-'') s"

definition CanonicalHeaderKey :: "string \<Rightarrow> string" where
  "CanonicalHeaderKey k = (if list_all token_char k then canonical True k else k)"

text \<open>\<^verbatim>\<open>http.NewRequest\<close>: the empty method is GET; the method and the URL are checked.\<close>

definition NewRequest :: "string \<Rightarrow> string \<Rightarrow> goerr + string" where
  "NewRequest meth url =
     (let m = (if meth = [] then ''GET'' else meth)
      in if \<not> validMethod m then Inl (ErrorString (''net/http: invalid method '' @ go_quote m))
         else case url_parse url of Inl e \<Rightarrow> Inl (ErrorString e) | Inr _ \<Rightarrow> Inr m)"

definition header_add :: "string \<Rightarrow> string \<Rightarrow> (string \<times> string list) list \<Rightarrow> (string \<times> string list) list" where
  "header_add k v h =
     (let ck = CanonicalHeaderKey k
      in map_put ck ((case map_of h ck of None \<Rightarrow> [] | Some vs \<Rightarrow> vs) @ [v]) h)"

fun add_values :: "string \<Rightarrow> string list \<Rightarrow> (string \<times> string list) list \<Rightarrow> (string \<times> string list) list" where
  "add_values k [] h = h"
| "add_values k (v # vs) h = add_values k vs (header_add k v h)"

fun add_headers ::
  "(string \<times> string list) list \<Rightarrow> (string \<times> string list) list \<Rightarrow> (string \<times> string list) list" where
  "add_headers [] h = h"
| "add_headers ((k, vs) # m) h = add_headers m (add_values k vs h)"

subsection \<open>The outside\<close>

record tls_settings =
  Roots :: "string option"
  Certificate :: "(string \<times> string) option"
  SkipVerify :: bool

record wire_request =
  WireMethod :: string
  WireURL :: string
  WireHeaders :: "(string \<times> string list) list"
  WireBody :: string

record wire_response =
  RespStatus :: int
  RespHeaders :: "(string \<times> string list) list"
  RespBody :: "goerr + string"
  RespClose :: "goerr option"

record 'h transport =
  RoundTrip :: "'h \<Rightarrow> wire_request \<Rightarrow> tls_settings \<Rightarrow> int \<Rightarrow> goerr + wire_response"
  PemParses :: "string \<Rightarrow> bool"
  KeyPairError :: "string \<Rightarrow> string \<Rightarrow> goerr option"
  GCPSource :: "GCPAuth \<Rightarrow> goerr option"
  GCPToken :: "GCPAuth \<Rightarrow> 'h \<Rightarrow> goerr + string"
  OIDCToken :: "OIDCConfig \<Rightarrow> 'h \<Rightarrow> goerr + string"

datatype 'a outcome = Returned 'a | Panicked string

subsection \<open>client.go\<close>

definition authKey :: string where "authKey = ''Authorization''"

definition buildTLSConfig :: "'h transport \<Rightarrow> TLSConfigData option \<Rightarrow> goerr + tls_settings" where
  "buildTLSConfig T tls =
     (case tls of
        None \<Rightarrow> Inr \<lparr>Roots = None, Certificate = None, SkipVerify = False\<rparr>
      | Some d \<Rightarrow>
          if DataCABundle d \<noteq> [] \<and> \<not> PemParses T (DataCABundle d)
          then Inl (ErrorString ''failed to parse CA bundle'')
          else
            let base = \<lparr>Roots = (if DataCABundle d \<noteq> [] then Some (DataCABundle d) else None),
                        Certificate = None, SkipVerify = DataInsecure d\<rparr>
            in if DataClientCert d \<noteq> [] \<and> DataClientKey d \<noteq> []
               then (case KeyPairError T (DataClientCert d) (DataClientKey d) of
                   Some e \<Rightarrow> Inl (Wrapped e ''failed to load client certificate'')
                 | None \<Rightarrow> Inr (base\<lparr>Certificate := Some (DataClientCert d, DataClientKey d)\<rparr>))
               else Inr base)"

text \<open>The details keep the form of the call that has no secrets in it.\<close>

definition logged_request :: "http_call \<Rightarrow> HttpRequest" where
  "logged_request c =
     \<lparr>ReqMethod = CallMethod c, ReqBody = Encrypted (CallBody c), ReqURL = Encrypted (CallURL c),
      ReqHeaders = Encrypted (CallHeaders c)\<rparr>"

definition wire_headers :: "string \<Rightarrow> http_call \<Rightarrow> (string \<times> string list) list" where
  "wire_headers token c =
     (let h = add_headers (case Decrypted (CallHeaders c) of None \<Rightarrow> [] | Some m \<Rightarrow> m) []
      in if map_of h authKey = None \<and> token \<noteq> [] then map_put authKey [token] h else h)"

definition failed_details :: "http_call \<Rightarrow> HttpDetails" where
  "failed_details c = \<lparr>HttpResponse = emptyResponse, HttpRequest = logged_request c\<rparr>"

definition client_send ::
  "'h transport \<Rightarrow> int \<Rightarrow> string \<Rightarrow> TLSConfigData option \<Rightarrow> 'h \<Rightarrow> http_call \<Rightarrow> HttpDetails \<times> goerr option" where
  "client_send T timeout token tls h c =
     (case NewRequest (CallMethod c) (Decrypted (CallURL c)) of
        Inl err \<Rightarrow> (failed_details c, Some err)
      | Inr meth \<Rightarrow>
          (case buildTLSConfig T tls of
             Inl err \<Rightarrow> (failed_details c, Some (Wrapped err ''failed to build TLS config''))
           | Inr settings \<Rightarrow>
               (case RoundTrip T h \<lparr>WireMethod = meth, WireURL = Decrypted (CallURL c),
                     WireHeaders = wire_headers token c, WireBody = Decrypted (CallBody c)\<rparr> settings timeout of
                  Inl err \<Rightarrow> (failed_details c, Some err)
                | Inr resp \<Rightarrow>
                    (case RespBody resp of
                       Inl err \<Rightarrow> (failed_details c, Some err)
                     | Inr body \<Rightarrow>
                         (case RespClose resp of
                            Some err \<Rightarrow> (failed_details c, Some err)
                          | None \<Rightarrow>
                              (\<lparr>HttpResponse = \<lparr>StatusCode = RespStatus resp, Body = body,
                                   Headers = Some (RespHeaders resp)\<rparr>,
                                 HttpRequest = logged_request c\<rparr>, None))))))"

subsection \<open>The identity decorators\<close>

text \<open>
  The token goes into the header map that is sent, a mask into the one that is logged, unless the map
  that is sent has the header already. Both maps are changed in place.
\<close>

definition inject_identity :: "string \<Rightarrow> string \<Rightarrow> string \<Rightarrow> headers Data \<Rightarrow> headers Data outcome" where
  "inject_identity name value masked dat =
     (case Decrypted dat of
        None \<Rightarrow> Panicked ''assignment to entry in nil map''
      | Some dec \<Rightarrow>
          if map_of dec name \<noteq> None then Returned dat
          else (case Encrypted dat of
             None \<Rightarrow> Panicked ''assignment to entry in nil map''
           | Some enc \<Rightarrow> Returned \<lparr>Encrypted = Some (map_put name [masked] enc),
                                    Decrypted = Some (map_put name [value] dec)\<rparr>))"

definition with_identity ::
  "(http_call \<Rightarrow> (HttpDetails \<times> goerr option) outcome) \<Rightarrow> http_call \<Rightarrow> headers Data outcome \<Rightarrow>
   (HttpDetails \<times> goerr option) outcome" where
  "with_identity inner c dat =
     (case dat of Panicked p \<Rightarrow> Panicked p | Returned h \<Rightarrow> inner (c\<lparr>CallHeaders := h\<rparr>))"

definition gcp_send ::
  "goerr + string \<Rightarrow> (http_call \<Rightarrow> (HttpDetails \<times> goerr option) outcome) \<Rightarrow> http_call \<Rightarrow>
   (HttpDetails \<times> goerr option) outcome" where
  "gcp_send tok inner c =
     (case tok of
        Inl err \<Rightarrow> Returned (emptyDetails, Some (Wrapped err ''failed to obtain GCP token''))
      | Inr t \<Rightarrow> with_identity inner c
          (inject_identity authKey (''Bearer '' @ t) ''Bearer [GCP-TOKEN]'' (CallHeaders c)))"

definition oidc_header :: "OIDCInject option \<Rightarrow> string" where
  "oidc_header place = (case place of None \<Rightarrow> authKey | Some i \<Rightarrow> if InjectHeader i \<noteq> [] then InjectHeader i else authKey)"

definition oidc_prefix :: "OIDCInject option \<Rightarrow> string" where
  "oidc_prefix place = (case place of None \<Rightarrow> ''Bearer '' | Some i \<Rightarrow> InjectPrefix i)"

definition oidc_send ::
  "OIDCInject option \<Rightarrow> goerr + string \<Rightarrow> (http_call \<Rightarrow> (HttpDetails \<times> goerr option) outcome) \<Rightarrow> http_call \<Rightarrow>
   (HttpDetails \<times> goerr option) outcome" where
  "oidc_send place tok inner c =
     (case tok of
        Inl err \<Rightarrow> Returned (emptyDetails, Some (Wrapped err ''failed to obtain OIDC token''))
      | Inr t \<Rightarrow> with_identity inner c
          (inject_identity (oidc_header place) (oidc_prefix place @ t) (oidc_prefix place @ ''[OIDC-TOKEN]'')
             (CallHeaders c)))"

subsection \<open>The client of a resource (buildHTTPClient)\<close>

datatype http_client =
    PlainClient int string
  | GCPClient http_client GCPAuth
  | OIDCClient http_client OIDCConfig

fun http_send ::
  "'h transport \<Rightarrow> http_client \<Rightarrow> TLSConfigData option \<Rightarrow> 'h \<Rightarrow> http_call \<Rightarrow>
   (HttpDetails \<times> goerr option) outcome" where
  "http_send T (PlainClient timeout token) tls h c = Returned (client_send T timeout token tls h c)"
| "http_send T (GCPClient inner cfg) tls h c = gcp_send (GCPToken T cfg h) (http_send T inner tls h) c"
| "http_send T (OIDCClient inner cfg) tls h c =
     oidc_send (Inject cfg) (OIDCToken T cfg h) (http_send T inner tls h) c"

text \<open>
  A credentials block: its source and what the extractor answers for it. The namespaced AsyncRequest
  controller extracts any source; the other controllers only a Secret.
\<close>

record ProviderCredentials =
  Source :: string
  Extracted :: "goerr + string"

definition errExtractCredentials :: string where "errExtractCredentials = ''cannot extract credentials''"

text \<open>The message differs between the two kinds of request.\<close>

definition errNewHttpClient :: string where "errNewHttpClient = ''cannot create new HTTP client''"
definition errNewDisposableClient :: string where "errNewDisposableClient = ''cannot create new Http client''"

definition extract_any :: "ProviderCredentials option \<Rightarrow> goerr + string" where
  "extract_any cd =
     (case cd of
        None \<Rightarrow> Inr []
      | Some c \<Rightarrow>
          (case Extracted c of Inl err \<Rightarrow> Inl (Wrapped err errExtractCredentials) | Inr s \<Rightarrow> Inr s))"

definition extract_secret_only :: "ProviderCredentials option \<Rightarrow> goerr + string" where
  "extract_secret_only cd =
     (case cd of
        None \<Rightarrow> Inr []
      | Some c \<Rightarrow> if Source c = ''Secret'' then extract_any cd else Inr [])"

definition buildHTTPClient ::
  "'h transport \<Rightarrow> string \<Rightarrow> (ProviderCredentials option \<Rightarrow> goerr + string) \<Rightarrow> GCPAuth option \<Rightarrow>
   OIDCConfig option \<Rightarrow> string option \<Rightarrow> ProviderCredentials option \<Rightarrow> OIDCConfig option \<Rightarrow> GCPAuth option \<Rightarrow> goerr + http_client" where
  "buildHTTPClient T errNew extract gcp oidc waitTimeout cd providerOIDC providerGCP =
     (let effectiveGCP = MergeGCPConfigs gcp providerGCP;
          effectiveOIDC = MergeOIDCConfigs oidc providerOIDC
      in case ValidateAuthSelection \<lparr>CredentialsSet = cd \<noteq> None, SelGCP = effectiveGCP, SelOIDC = effectiveOIDC\<rparr> of
           Some err \<Rightarrow> Inl err
         | None \<Rightarrow>
             (case extract cd of
                Inl err \<Rightarrow> Inl err
              | Inr creds \<Rightarrow>
                  let h = PlainClient (WaitTimeoutOf waitTimeout) creds
                  in case effectiveGCP of
                       Some g \<Rightarrow>
                         (case GCPSource T g of
                            Some err \<Rightarrow> Inl (Wrapped (Wrapped err ''failed to build GCP token source'') errNew)
                          | None \<Rightarrow> Inr (GCPClient h g))
                     | None \<Rightarrow>
                         (case effectiveOIDC of
                            Some cfg \<Rightarrow> Inr (OIDCClient h cfg)
                          | None \<Rightarrow> Inr h)))"

subsection \<open>Facts\<close>

definition returned :: "'a outcome \<Rightarrow> bool" where
  "returned r = (case r of Returned _ \<Rightarrow> True | Panicked _ \<Rightarrow> False)"

lemma returned_simps [simp]: "returned (Returned x)" "\<not> returned (Panicked p)"
  by (simp_all add: returned_def)

text \<open>A header map that exists takes the identity; without one the assignment panics.\<close>

lemma inject_identity_nil:
  "Decrypted dat = None \<Longrightarrow> \<not> returned (inject_identity n v m dat)"
  by (simp add: inject_identity_def)

lemma inject_identity_some:
  assumes "Decrypted dat \<noteq> None" "Encrypted dat \<noteq> None"
  shows "\<exists>dat'. inject_identity n v m dat = Returned dat' \<and> Decrypted dat' \<noteq> None \<and> Encrypted dat' \<noteq> None"
  using assms by (auto simp: inject_identity_def)

lemma http_send_returns:
  "Decrypted (CallHeaders c) \<noteq> None \<Longrightarrow> Encrypted (CallHeaders c) \<noteq> None \<Longrightarrow>
   returned (http_send T cl tls h c)"
proof (induction T cl tls h c rule: http_send.induct)
  case (2 T inner cfg tls h c)
  show ?case
  proof (cases "GCPToken T cfg h")
    case (Inr t)
    obtain dat' where dat': "inject_identity authKey (''Bearer '' @ t) ''Bearer [GCP-TOKEN]'' (CallHeaders c) = Returned dat'"
        "Decrypted dat' \<noteq> None" "Encrypted dat' \<noteq> None"
      using inject_identity_some [OF 2(2,3)] by metis
    then show ?thesis using 2(1) Inr by (auto simp: gcp_send_def with_identity_def)
  qed (simp add: gcp_send_def)
next
  case (3 T inner cfg tls h c)
  show ?case
  proof (cases "OIDCToken T cfg h")
    case (Inr t)
    obtain dat' where dat': "inject_identity (oidc_header (Inject cfg)) (oidc_prefix (Inject cfg) @ t)
          (oidc_prefix (Inject cfg) @ ''[OIDC-TOKEN]'') (CallHeaders c) = Returned dat'"
        "Decrypted dat' \<noteq> None" "Encrypted dat' \<noteq> None"
      using inject_identity_some [OF 3(2,3)] by metis
    then show ?thesis using 3(1) Inr by (auto simp: oidc_send_def with_identity_def)
  qed (simp add: oidc_send_def)
qed simp

text \<open>The details of a call never carry its secrets.\<close>

lemma client_send_logged:
  "HttpRequest (fst (client_send T timeout token tls h c)) = logged_request c"
  by (simp add: client_send_def failed_details_def split: sum.splits option.splits)


text \<open>The masks a client may put into the headers it logs.\<close>

fun masks :: "http_client \<Rightarrow> (string \<times> string list) set" where
  "masks (PlainClient timeout token) = {}"
| "masks (GCPClient inner cfg) = insert (authKey, [''Bearer [GCP-TOKEN]'']) (masks inner)"
| "masks (OIDCClient inner cfg) =
     insert (oidc_header (Inject cfg), [oidc_prefix (Inject cfg) @ ''[OIDC-TOKEN]'']) (masks inner)"

definition header_set :: "headers \<Rightarrow> (string \<times> string list) set" where
  "header_set dat = (case dat of None \<Rightarrow> {} | Some m \<Rightarrow> set m)"

definition logs_only :: "(string \<times> string list) set \<Rightarrow> http_call \<Rightarrow> HttpRequest \<Rightarrow> bool" where
  "logs_only extra c q \<longleftrightarrow>
     q = HttpRequest emptyDetails \<or>
     ReqMethod q = CallMethod c \<and> ReqBody q = Encrypted (CallBody c) \<and> ReqURL q = Encrypted (CallURL c) \<and>
     header_set (ReqHeaders q) \<subseteq> header_set (Encrypted (CallHeaders c)) \<union> extra"

lemma set_map_put: "set (map_put k v m) \<subseteq> insert (k, v) (set m)"
  by (induction k v m rule: map_put.induct) (auto split: if_splits)

lemma inject_identity_logged:
  "inject_identity n v masked dat = Returned dat' \<Longrightarrow>
   header_set (Encrypted dat') \<subseteq> insert (n, [masked]) (header_set (Encrypted dat))"
  by (auto simp: inject_identity_def header_set_def split: option.splits if_splits
           dest: subsetD [OF set_map_put])

lemma http_send_logs:
  "http_send T cl tls h c = Returned (d, err) \<Longrightarrow> logs_only (masks cl) c (HttpRequest d)"
proof (induction T cl tls h c arbitrary: d err rule: http_send.induct)
  case (1 T timeout token tls h c)
  then have "HttpRequest d = logged_request c" using client_send_logged by (metis fst_conv http_send.simps(1) outcome.inject(1))
  then show ?case by (simp add: logs_only_def logged_request_def)
next
  case (2 T inner cfg tls h c)
  show ?case
  proof (cases "GCPToken T cfg h")
    case (Inl e)
    then show ?thesis using 2(2) by (simp add: gcp_send_def logs_only_def)
  next
    case (Inr t)
    then obtain dat' where dat': "inject_identity authKey (''Bearer '' @ t) ''Bearer [GCP-TOKEN]'' (CallHeaders c) = Returned dat'"
        "http_send T inner tls h (c\<lparr>CallHeaders := dat'\<rparr>) = Returned (d, err)"
      using 2(2) by (auto simp: gcp_send_def with_identity_def split: outcome.splits)
    from 2(1) [OF this(2)] inject_identity_logged [OF this(1)] show ?thesis
      by (auto simp: logs_only_def)
  qed
next
  case (3 T inner cfg tls h c)
  show ?case
  proof (cases "OIDCToken T cfg h")
    case (Inl e)
    then show ?thesis using 3(2) by (simp add: oidc_send_def logs_only_def)
  next
    case (Inr t)
    then obtain dat' where dat': "inject_identity (oidc_header (Inject cfg)) (oidc_prefix (Inject cfg) @ t)
          (oidc_prefix (Inject cfg) @ ''[OIDC-TOKEN]'') (CallHeaders c) = Returned dat'"
        "http_send T inner tls h (c\<lparr>CallHeaders := dat'\<rparr>) = Returned (d, err)"
      using 3(2) by (auto simp: oidc_send_def with_identity_def split: outcome.splits)
    from 3(1) [OF this(2)] inject_identity_logged [OF this(1)] show ?thesis
      by (auto simp: logs_only_def)
  qed
qed

end
