(* ===== verification/GoCodec.thy ===== *)
theory GoCodec
  imports GoJson GoUrl GoTime "HOL-Library.Monad_Syntax"
begin

text \<open>
  The text formats of the token exchanges: form bodies (\<^verbatim>\<open>url.Values.Encode\<close>), base64 without padding
  (\<^verbatim>\<open>base64.RawURLEncoding\<close>), the decoding of a JSON object into a struct, and reading an instant in the
  form of RFC 3339 (\<^verbatim>\<open>time.Parse\<close>). \<open>form_decode\<close> and \<open>RawURLEncode\<close> are not in the code: they are the
  other side of two of these formats, what a server reads and an issuer writes.
\<close>

subsection \<open>strings.Split\<close>

fun split_on :: "char \<Rightarrow> string \<Rightarrow> string list" where
  "split_on c [] = [[]]"
| "split_on c (x # xs) =
     (if x = c then [] # split_on c xs
      else (case split_on c xs of [] \<Rightarrow> [[x]] | y # ys \<Rightarrow> (x # y) # ys))"

lemma split_on_not_Nil [simp]: "split_on c s \<noteq> []"
  by (induction s) (auto split: list.splits)

lemma split_on_absent: "c \<notin> set s \<Longrightarrow> split_on c s = [s]"
  by (induction s) auto

lemma split_on_append: "c \<notin> set s \<Longrightarrow> split_on c (s @ c # t) = s # split_on c t"
  by (induction s) auto

lemma split_on_join:
  "xs \<noteq> [] \<Longrightarrow> (\<forall>x\<in>set xs. c \<notin> set x) \<Longrightarrow> split_on c (str_join xs [c]) = xs"
  by (induction xs rule: induct_list012) (auto simp: split_on_absent split_on_append)

subsection \<open>Form bodies\<close>

definition unreserved :: "char \<Rightarrow> bool" where
  "unreserved c \<longleftrightarrow> is_alpha c \<or> is_digit c \<or> c \<in> set ''-_.~''"

definition upper_hex :: "int \<Rightarrow> char" where
  "upper_hex d = (if d < 10 then char_of (48 + d) else char_of (55 + d))"

definition query_escape_char :: "char \<Rightarrow> string" where
  "query_escape_char c =
     (if unreserved c then [c]
      else if c = CHR '' '' then ''+''
      else [CHR ''%'', upper_hex (of_char c div 16), upper_hex (of_char c mod 16)])"

definition QueryEscape :: "string \<Rightarrow> string" where
  "QueryEscape s = concat (map query_escape_char s)"

definition form_encode :: "(string \<times> string) list \<Rightarrow> string" where
  "form_encode m = str_join (map (\<lambda>(k, v). QueryEscape k @ ''='' @ QueryEscape v) (sort_fields m)) ''&''"

function query_unescape :: "string \<Rightarrow> string option" where
  "query_unescape [] = Some []"
| "query_unescape (c # s) =
     (if c = CHR ''+'' then map_option (Cons (CHR '' '')) (query_unescape s)
      else if c = CHR ''%'' then
        (case s of
           a # b # r \<Rightarrow>
             (case (hex_val a, hex_val b) of
                (Some x, Some y) \<Rightarrow> map_option (Cons (char_of (x * 16 + y))) (query_unescape r)
              | _ \<Rightarrow> None)
         | _ \<Rightarrow> None)
      else map_option (Cons c) (query_unescape s))"
  by pat_completeness auto
termination
  by (relation "measure length") auto

definition form_pair :: "string \<Rightarrow> (string \<times> string) option" where
  "form_pair s = do {
     k \<leftarrow> query_unescape (fst (str_cut (CHR ''='') s));
     v \<leftarrow> query_unescape (snd (str_cut (CHR ''='') s));
     Some (k, v)
   }"

definition form_decode :: "string \<Rightarrow> (string \<times> string) list option" where
  "form_decode s = (if s = [] then Some [] else those (map form_pair (split_on (CHR ''&'') s)))"

lemma hex_val_upper [simp]: "0 \<le> d \<Longrightarrow> d < 16 \<Longrightarrow> hex_val (upper_hex d) = Some d"
  by (simp add: hex_val_def upper_hex_def Let_def)

lemma query_unescape_char:
  "query_unescape (query_escape_char c @ s) = map_option (Cons c) (query_unescape s)"
proof -
  have b: "0 \<le> (of_char c :: int) div 16" "(of_char c :: int) div 16 < 16"
    using of_char_bounds [of c] by (simp_all add: pos_imp_zdiv_nonneg_iff)
  have "c \<noteq> CHR ''+'' \<and> c \<noteq> CHR ''%''" if "unreserved c"
    using that by (auto simp: unreserved_def is_alpha_def is_lower_def is_upper_def is_digit_def)
  then show ?thesis using b by (simp add: query_escape_char_def)
qed

lemma query_unescape_QueryEscape [simp]: "query_unescape (QueryEscape s) = Some s"
  by (induction s) (simp_all add: QueryEscape_def query_unescape_char)

lemma query_escape_char_safe: "c \<in> {CHR ''='', CHR ''&''} \<Longrightarrow> c \<notin> set (query_escape_char x)"
proof -
  assume c: "c \<in> {CHR ''='', CHR ''&''}"
  have h: "upper_hex d \<noteq> c" if "0 \<le> d" "d < 16" for d
    using hex_val_upper [OF that] c by (auto simp: hex_val_def)
  have b: "0 \<le> (of_char x :: int) div 16" "(of_char x :: int) div 16 < 16"
    using of_char_bounds [of x] by (simp_all add: pos_imp_zdiv_nonneg_iff)
  have "\<not> unreserved c"
    using c by (auto simp: unreserved_def is_alpha_def is_lower_def is_upper_def is_digit_def)
  with c b h [of "of_char x div 16"] h [of "of_char x mod 16"] show ?thesis
    by (auto simp: query_escape_char_def)
qed

lemma QueryEscape_safe: "c \<in> {CHR ''='', CHR ''&''} \<Longrightarrow> c \<notin> set (QueryEscape s)"
  using query_escape_char_safe by (auto simp: QueryEscape_def)

lemma form_pair_escaped: "form_pair (QueryEscape k @ CHR ''='' # QueryEscape v) = Some (k, v)"
proof -
  have "\<forall>x\<in>set (QueryEscape k). x \<noteq> CHR ''=''" using QueryEscape_safe [of "CHR ''=''" k] by auto
  then show ?thesis by (simp add: form_pair_def str_cut_def takeWhile_append2 dropWhile_append2)
qed

text \<open>A server reads a form body back as the parameters put into it, sorted by their names.\<close>

lemma form_decode_encode: "form_decode (form_encode m) = Some (sort_fields m)"
proof (cases "sort_fields m = []")
  case False
  let ?e = "\<lambda>(k, v). QueryEscape k @ CHR ''='' # QueryEscape v"
  have e: "form_encode m = str_join (map ?e (sort_fields m)) ''&''" by (simp add: form_encode_def)
  have "CHR ''&'' \<notin> set (?e p)" for p
    using QueryEscape_safe [of "CHR ''&''"] by (cases p) auto
  then have s: "split_on (CHR ''&'') (form_encode m) = map ?e (sort_fields m)"
    unfolding e using False by (intro split_on_join) auto
  have "those (map form_pair (map ?e ps)) = Some ps" for ps
    by (induction ps) (auto simp: form_pair_escaped)
  moreover have "form_encode m \<noteq> []"
  proof
    assume "form_encode m = []"
    with s have "map ?e (sort_fields m) = [[]]" by simp
    then show False by auto
  qed
  ultimately show ?thesis by (simp add: form_decode_def s del: map_map)
qed (simp add: form_encode_def form_decode_def)

subsection \<open>base64.RawURLEncoding\<close>

text \<open>Line ends are skipped; the bits left over in the last character are not checked.\<close>

definition b64_val :: "char \<Rightarrow> int option" where
  "b64_val c =
     (if is_upper c then Some (of_char c - 65)
      else if is_lower c then Some (of_char c - 71)
      else if is_digit c then Some (of_char c + 4)
      else if c = CHR ''-'' then Some 62
      else if c = CHR ''_'' then Some 63
      else None)"

fun b64_groups :: "int list \<Rightarrow> string option" where
  "b64_groups [] = Some []"
| "b64_groups [a] = None"
| "b64_groups [a, b] = Some [char_of (a * 4 + b div 16)]"
| "b64_groups [a, b, c] = Some [char_of (a * 4 + b div 16), char_of (b mod 16 * 16 + c div 4)]"
| "b64_groups (a # b # c # d # r) =
     map_option (\<lambda>t. char_of (a * 4 + b div 16) # char_of (b mod 16 * 16 + c div 4) #
                      char_of (c mod 4 * 64 + d) # t) (b64_groups r)"

definition RawURLDecode :: "string \<Rightarrow> string option" where
  "RawURLDecode s =
     (case those (map b64_val (filter (\<lambda>c. c \<notin> {CHR 0x0A, CHR 0x0D}) s)) of
        None \<Rightarrow> None
      | Some vs \<Rightarrow> b64_groups vs)"

definition b64_char :: "int \<Rightarrow> char" where
  "b64_char n =
     (if n < 26 then char_of (n + 65) else if n < 52 then char_of (n + 71)
      else if n < 62 then char_of (n - 4) else if n = 62 then CHR ''-'' else CHR ''_'')"

fun b64_sextets :: "int list \<Rightarrow> int list" where
  "b64_sextets [] = []"
| "b64_sextets [x] = [x div 4, x mod 4 * 16]"
| "b64_sextets [x, y] = [x div 4, x mod 4 * 16 + y div 16, y mod 16 * 4]"
| "b64_sextets (x # y # z # r) =
     x div 4 # (x mod 4 * 16 + y div 16) # (y mod 16 * 4 + z div 64) # z mod 64 # b64_sextets r"

definition RawURLEncode :: "string \<Rightarrow> string" where
  "RawURLEncode s = map b64_char (b64_sextets (map of_char s))"

lemma b64_val_char [simp]: "0 \<le> n \<Longrightarrow> n < 64 \<Longrightarrow> b64_val (b64_char n) = Some n"
  by (auto simp: b64_val_def b64_char_def is_upper_def is_lower_def is_digit_def)

lemma b64_char_not_newline: "0 \<le> n \<Longrightarrow> n < 64 \<Longrightarrow> b64_char n \<notin> {CHR 0x0A, CHR 0x0D}"
  using b64_val_char [of n] by (auto simp: b64_val_def is_upper_def is_lower_def is_digit_def)

definition byte :: "int \<Rightarrow> bool" where
  "byte x \<longleftrightarrow> 0 \<le> x \<and> x < 256"

lemma b64_sextets_bounds: "list_all byte xs \<Longrightarrow> list_all (\<lambda>n. 0 \<le> n \<and> n < 64) (b64_sextets xs)"
  by (induction xs rule: b64_sextets.induct) (auto simp: byte_def)

lemma div_mod_join:
  fixes j k n :: int
  assumes "0 \<le> j" "j < n"
  shows "(k * n + j) div n = k" "(k * n + j) mod n = j"
  using assms by simp_all

lemma b64_join:
  assumes "byte x" "byte y" "byte z"
  shows "x div 4 * 4 + (x mod 4 * 16 + y div 16) div 16 = x"
    "(x mod 4 * 16 + y div 16) mod 16 * 16 + (y mod 16 * 4 + z div 64) div 4 = y"
    "(y mod 16 * 4 + z div 64) mod 4 * 64 + z mod 64 = z"
proof -
  have "0 \<le> y div 16" "y div 16 < 16" "0 \<le> z div 64" "z div 64 < 4"
    using assms by (auto simp: byte_def pos_imp_zdiv_nonneg_iff)
  then show "x div 4 * 4 + (x mod 4 * 16 + y div 16) div 16 = x"
    "(x mod 4 * 16 + y div 16) mod 16 * 16 + (y mod 16 * 4 + z div 64) div 4 = y"
    "(y mod 16 * 4 + z div 64) mod 4 * 64 + z mod 64 = z"
    using div_mod_join [of "y div 16" 16 "x mod 4"] div_mod_join [of "z div 64" 4 "y mod 16"] by simp_all
qed

lemma b64_groups_sextets:
  "list_all byte xs \<Longrightarrow> b64_groups (b64_sextets xs) = Some (map char_of xs)"
proof (induction xs rule: b64_sextets.induct)
  case (2 x)
  then show ?case using b64_join [of x 0 0] by (simp add: byte_def)
next
  case (3 x y)
  then show ?case using b64_join [of x y 0] by (simp add: byte_def)
next
  case (4 x y z r)
  then show ?case using b64_join [of x y z] by simp
qed simp

lemma those_map_Some: "(\<And>x. x \<in> set xs \<Longrightarrow> f x = Some (g x)) \<Longrightarrow> those (map f xs) = Some (map g xs)"
  by (induction xs) auto

lemma RawURLDecode_encode: "RawURLDecode (RawURLEncode s) = Some s"
proof -
  let ?n = "b64_sextets (map of_char s)"
  have byte: "list_all byte (map of_char s)" by (simp add: list_all_iff byte_def of_char_bounds)
  have n: "0 \<le> x \<and> x < 64" if "x \<in> set ?n" for x
    using b64_sextets_bounds [OF byte] that by (simp add: list_all_iff)
  have "filter (\<lambda>c. c \<notin> {CHR 0x0A, CHR 0x0D}) (RawURLEncode s) = RawURLEncode s"
    unfolding RawURLEncode_def filter_id_conv using b64_char_not_newline n by fastforce
  moreover have "those (map b64_val (map b64_char ?n)) = Some ?n"
    using those_map_Some [of ?n "b64_val \<circ> b64_char" id] n by simp
  ultimately show ?thesis
    using b64_groups_sextets [OF byte] by (simp add: RawURLDecode_def RawURLEncode_def o_def)
qed

subsection \<open>A JSON object into a struct\<close>

text \<open>
  The members of the object in the order of the text, each with the text of its value, which decides
  whether a number is an integer literal. null decodes into a struct that stays as it is. A key names
  a field up to the case of its letters; the two letters outside ASCII that fold into it are not
  modelled, and a number that overflows a \<open>float64\<close> is refused in ignored members, too.
\<close>

fun raw_members :: "nat \<Rightarrow> string \<Rightarrow> ((string \<times> string \<times> json) list \<times> string) option" where
  "raw_members 0 s = None"
| "raw_members (Suc n) s =
     (case skip_ws s of
        [] \<Rightarrow> None
      | c # cs \<Rightarrow>
          if c \<noteq> CHR 0x22 then None
          else (case parse_str cs of
            None \<Rightarrow> None
          | Some (k, r) \<Rightarrow>
              (case skip_ws r of
                 [] \<Rightarrow> None
               | d # ds \<Rightarrow>
                   if d \<noteq> CHR '':'' then None
                   else (case parse_value n ds of
                     None \<Rightarrow> None
                   | Some (v, q) \<Rightarrow>
                       let t = take (length (skip_ws ds) - length q) (skip_ws ds)
                       in case skip_ws q of
                          [] \<Rightarrow> None
                        | e # es \<Rightarrow>
                            if e = CHR ''}'' then Some ([(k, t, v)], es)
                            else if e = CHR '','' then
                              map_option (\<lambda>(ms, p). ((k, t, v) # ms, p)) (raw_members n es)
                            else None))))"

definition struct_members :: "string \<Rightarrow> (string \<times> string \<times> json) list option" where
  "struct_members s =
     (case json_unmarshal s of
        Some JNull \<Rightarrow> Some []
      | Some (JObj []) \<Rightarrow> Some []
      | Some (JObj (f # fs)) \<Rightarrow> map_option fst (raw_members (length s) (drop 1 (skip_ws s)))
      | _ \<Rightarrow> None)"

text \<open>The members that set a field, the last of which counts: null leaves the field as it is.\<close>

definition members_of :: "string \<Rightarrow> (string \<times> string \<times> json) list \<Rightarrow> (string \<times> json) list" where
  "members_of name ms = map snd (filter (\<lambda>(k, t, v). to_lower k = to_lower name \<and> v \<noteq> JNull) ms)"

definition string_value :: "string \<times> json \<Rightarrow> string option" where
  "string_value m = (case snd m of JStr s \<Rightarrow> Some s | _ \<Rightarrow> None)"

definition int64_value :: "string \<times> json \<Rightarrow> int option" where
  "int64_value m =
     (case snd m of
        JNum _ _ \<Rightarrow>
          let (neg, ds) = parse_sign (fst m); n = (if neg then - digits_val ds else digits_val ds)
          in if all_digits ds \<and> - (2 ^ 63) \<le> n \<and> n < 2 ^ 63 then Some n else None
      | _ \<Rightarrow> None)"

definition struct_field :: "(string \<times> json \<Rightarrow> 'a option) \<Rightarrow> 'a \<Rightarrow> string \<Rightarrow> (string \<times> string \<times> json) list \<Rightarrow> 'a option" where
  "struct_field read zero name ms =
     map_option (\<lambda>vs. if vs = [] then zero else last vs) (those (map read (members_of name ms)))"

subsection \<open>time.Parse of RFC 3339\<close>

definition two_digits :: "string \<Rightarrow> (int \<times> string) option" where
  "two_digits s =
     (case s of
        a # b # r \<Rightarrow> if is_digit a \<and> is_digit b then Some (digits_val [a, b], r) else None
      | _ \<Rightarrow> None)"

text \<open>The hour may have one digit, the fraction a comma, as in Go.\<close>

definition hour_digits :: "string \<Rightarrow> (int \<times> string) option" where
  "hour_digits s =
     (case two_digits s of
        Some x \<Rightarrow> Some x
      | None \<Rightarrow> (case s of a # r \<Rightarrow> if is_digit a then Some (digit_val a, r) else None | [] \<Rightarrow> None))"

definition after :: "char \<Rightarrow> string \<Rightarrow> string option" where
  "after c s = (case s of [] \<Rightarrow> None | x # r \<Rightarrow> if x = c then Some r else None)"

definition four_digits :: "string \<Rightarrow> (int \<times> string) option" where
  "four_digits s =
     (if length (take 4 s) = 4 \<and> all_digits (take 4 s) then Some (digits_val (take 4 s), drop 4 s) else None)"

definition nanoseconds :: "string \<Rightarrow> int \<times> string" where
  "nanoseconds s =
     (case s of
        p # r \<Rightarrow>
          if p \<in> {CHR ''.'', CHR '',''} \<and> takeWhile is_digit r \<noteq> [] then
            let ds = take 9 (takeWhile is_digit r)
            in (digits_val ds * 10 ^ (9 - length ds), dropWhile is_digit r)
          else (0, s)
      | [] \<Rightarrow> (0, s))"

text \<open>The offset in seconds; Go lets an offset have 24 hours and 60 minutes.\<close>

definition zone_offset :: "string \<Rightarrow> (int \<times> string) option" where
  "zone_offset s =
     (case s of
        [] \<Rightarrow> None
      | c # r \<Rightarrow>
          if c = CHR ''Z'' then Some (0, r)
          else if c = CHR ''+'' \<or> c = CHR ''-'' then do {
            (h, r) \<leftarrow> two_digits r;
            r \<leftarrow> after (CHR '':'') r;
            (m, r) \<leftarrow> two_digits r;
            if h \<le> 24 \<and> m \<le> 60
            then Some ((if c = CHR ''-'' then - 1 else 1) * (h * 3600 + m * 60), r) else None
          }
          else None)"

definition leap_year :: "int \<Rightarrow> bool" where
  "leap_year y \<longleftrightarrow> 4 dvd y \<and> (\<not> 100 dvd y \<or> 400 dvd y)"

definition days_in :: "int \<Rightarrow> int \<Rightarrow> int" where
  "days_in m y =
     (if m = 2 then (if leap_year y then 29 else 28) else if m \<in> {4, 6, 9, 11} then 30 else 31)"

definition days_from_civil :: "int \<Rightarrow> int \<Rightarrow> int \<Rightarrow> int" where
  "days_from_civil y0 m d =
     (let y = (if m \<le> 2 then y0 - 1 else y0); era = y div 400; yoe = y mod 400;
          doy = (153 * (if m > 2 then m - 3 else m + 9) + 2) div 5 + d - 1
      in era * 146097 + yoe * 365 + yoe div 4 - yoe div 100 + doy - 719468)"

definition parse_date :: "string \<Rightarrow> (int \<times> string) option" where
  "parse_date s = do {
     (y, s) \<leftarrow> four_digits s; s \<leftarrow> after (CHR ''-'') s;
     (m, s) \<leftarrow> two_digits s; s \<leftarrow> after (CHR ''-'') s;
     (d, s) \<leftarrow> two_digits s;
     if 1 \<le> m \<and> m \<le> 12 \<and> 1 \<le> d \<and> d \<le> days_in m y then Some (days_from_civil y m d, s) else None
   }"

definition parse_clock :: "string \<Rightarrow> (int \<times> string) option" where
  "parse_clock s = do {
     (h, s) \<leftarrow> hour_digits s; s \<leftarrow> after (CHR '':'') s;
     (m, s) \<leftarrow> two_digits s; s \<leftarrow> after (CHR '':'') s;
     (x, s) \<leftarrow> two_digits s;
     if h < 24 \<and> m < 60 \<and> x < 60 then Some (h * 3600 + m * 60 + x, s) else None
   }"

definition parse_rfc3339 :: "string \<Rightarrow> int option" where
  "parse_rfc3339 s = do {
     (days, s) \<leftarrow> parse_date s; s \<leftarrow> after (CHR ''T'') s;
     (secs, s) \<leftarrow> parse_clock s;
     let (ns, s) = nanoseconds s;
     (off, s) \<leftarrow> zone_offset s;
     if s = [] then Some ((days * 86400 + secs - off) * second + ns) else None
   }"

end
