(* ===== verification/Tokens.thy ===== *)
theory Tokens
  imports HttpClient GoCodec JsonRoundtrip
begin

text \<open>
  The token sources of the two identities: the impersonation of a Google service account
  (\<^verbatim>\<open>internal/clients/gcp/token_source.go\<close>) and the exchange of the pod's service account token
  (\<^verbatim>\<open>internal/clients/oidc/token_source.go\<close>).

  The file system, the clock, Google's Application Default Credentials and the wording of the errors of
  \<^verbatim>\<open>encoding/json\<close> are the record \<open>token_world\<close>, next to the network of \<open>transport\<close>. So is what
  \<^verbatim>\<open>oauth2.ReuseTokenSource\<close> has cached for a client; \<open>reuse_contract\<close> says what it documents. An instant
  is a number of nanoseconds, \<open>zero_time\<close> the zero \<^verbatim>\<open>time.Time\<close>; a \<^verbatim>\<open>time.Duration\<close> wraps around at 64 bits.
\<close>

record Token =
  AccessToken :: string
  Expiry :: int

definition zero_time :: int where "zero_time = - 62135596800 * second"

definition wrap64 :: "int \<Rightarrow> int" where "wrap64 n = (n + 2 ^ 63) mod 2 ^ 64 - 2 ^ 63"

record 'h token_world =
  TokenFile :: "'h \<Rightarrow> string \<Rightarrow> goerr + string"
  TimeNow :: "'h \<Rightarrow> int"
  ADCError :: "string list \<Rightarrow> goerr option"
  ADCToken :: "string list \<Rightarrow> 'h \<Rightarrow> goerr + Token"
  JSONError :: "string \<Rightarrow> goerr"
  CachedGCP :: "GCPAuth \<Rightarrow> 'h \<Rightarrow> Token option"
  CachedOIDC :: "OIDCConfig \<Rightarrow> 'h \<Rightarrow> Token option"

subsection \<open>One request for a token\<close>

definition no_tls :: tls_settings where
  "no_tls = \<lparr>Roots = None, Certificate = None, SkipVerify = False\<rparr>"

definition tokenHTTPTimeout :: int where "tokenHTTPTimeout = 10 * second"

definition post_for_token ::
  "'h transport \<Rightarrow> string \<Rightarrow> 'h \<Rightarrow> string \<Rightarrow> (string \<times> string list) list \<Rightarrow> string \<Rightarrow> goerr + string" where
  "post_for_token T what h endpoint hdrs body =
     (case NewRequest ''POST'' endpoint of
        Inl err \<Rightarrow> Inl (Wrapped err (''failed to build '' @ what @ '' request''))
      | Inr meth \<Rightarrow>
          (case RoundTrip T h \<lparr>WireMethod = meth, WireURL = endpoint, WireHeaders = hdrs, WireBody = body\<rparr>
                  no_tls tokenHTTPTimeout of
             Inl err \<Rightarrow> Inl (Wrapped err (what @ '' request failed''))
           | Inr resp \<Rightarrow>
               (case RespBody resp of
                  Inl err \<Rightarrow> Inl (Wrapped err (''failed to read '' @ what @ '' response''))
                | Inr text \<Rightarrow>
                    if RespStatus resp < 200 \<or> 300 \<le> RespStatus resp
                    then Inl (ErrorString (what @ '' failed with status '' @ itoa (RespStatus resp) @ '': '' @ text))
                    else Inr text)))"

text \<open>The access token and a second field of the response; an empty access token is an error.\<close>

definition decode_token ::
  "'h token_world \<Rightarrow> string \<Rightarrow> string \<Rightarrow> ((string \<times> string \<times> json) list \<Rightarrow> 'a option) \<Rightarrow> string \<Rightarrow>
   goerr + string \<times> 'a" where
  "decode_token X what name lifetime body =
     (case Option.bind (struct_members body)
             (\<lambda>ms. Option.bind (struct_field string_value [] name ms)
               (\<lambda>a. map_option (Pair a) (lifetime ms))) of
        None \<Rightarrow> Inl (Wrapped (JSONError X body) (''failed to parse '' @ what @ '' response''))
      | Some (a, x) \<Rightarrow>
          if a = [] then Inl (ErrorString (what @ '' response missing '' @ name)) else Inr (a, x))"

subsection \<open>gcp/token_source.go\<close>

definition DefaultGCPScope :: string where
  "DefaultGCPScope = ''https://www.googleapis.com/auth/cloud-platform''"

definition gcp_scopes :: "GCPAuth \<Rightarrow> string list" where
  "gcp_scopes cfg = (if Scopes cfg = [] then [DefaultGCPScope] else Scopes cfg)"

text \<open>The error of \<open>New\<close>, if any.\<close>

definition gcp_new :: "'h token_world \<Rightarrow> GCPAuth \<Rightarrow> goerr option" where
  "gcp_new X cfg =
     map_option (\<lambda>e. Wrapped e ''failed to resolve Google Application Default Credentials'')
       (ADCError X (gcp_scopes cfg))"

definition impersonation_endpoint :: "string \<Rightarrow> string" where
  "impersonation_endpoint sa =
     ''https://iamcredentials.googleapis.com/v1/projects/-/serviceAccounts/'' @ sa @ '':generateAccessToken''"

definition impersonation_answer ::
  "'h token_world \<Rightarrow> 'h transport \<Rightarrow> GCPAuth \<Rightarrow> 'h \<Rightarrow> goerr + string \<times> string" where
  "impersonation_answer X T cfg h =
     (case ADCToken X (gcp_scopes cfg) h of
        Inl err \<Rightarrow> Inl (Wrapped err ''failed to obtain base ADC token for impersonation'')
      | Inr base \<Rightarrow>
          (case post_for_token T ''impersonation'' h (impersonation_endpoint (ServiceAccount cfg))
                  [(''Authorization'', [''Bearer '' @ AccessToken base]), (''Content-Type'', [''application/json''])]
                  (json_marshal (JObj [(''scope'', JArr (map JStr (gcp_scopes cfg)))])) of
             Inl err \<Rightarrow> Inl err
           | Inr body \<Rightarrow>
               decode_token X ''impersonation'' ''accessToken'' (struct_field string_value [] ''expireTime'') body))"

text \<open>A minute before the stated end; 55 minutes from now when none is stated.\<close>

definition impersonateRefreshSlack :: int where "impersonateRefreshSlack = minute"

definition impersonation_expiry :: "int \<Rightarrow> string \<Rightarrow> int" where
  "impersonation_expiry now expireTime =
     (let stated = (if expireTime = [] then zero_time
                    else case parse_rfc3339 expireTime of
                      None \<Rightarrow> zero_time
                    | Some e \<Rightarrow> e - impersonateRefreshSlack)
      in if stated = zero_time then now + 55 * minute else stated)"

definition generateAccessToken ::
  "'h token_world \<Rightarrow> 'h transport \<Rightarrow> GCPAuth \<Rightarrow> 'h \<Rightarrow> goerr + Token" where
  "generateAccessToken X T cfg h =
     map_sum id (\<lambda>(a, t). \<lparr>AccessToken = a, Expiry = impersonation_expiry (TimeNow X h) t\<rparr>)
       (impersonation_answer X T cfg h)"

definition gcp_mint :: "'h token_world \<Rightarrow> 'h transport \<Rightarrow> GCPAuth \<Rightarrow> 'h \<Rightarrow> goerr + Token" where
  "gcp_mint X T cfg h =
     (if ServiceAccount cfg = [] then ADCToken X (gcp_scopes cfg) h else generateAccessToken X T cfg h)"

subsection \<open>oidc/token_source.go\<close>

definition DefaultServiceAccountTokenPath :: string where
  "DefaultServiceAccountTokenPath = ''/var/run/secrets/kubernetes.io/serviceaccount/token''"

definition refresh_before :: "OIDCConfig \<Rightarrow> int" where
  "refresh_before cfg = ParseDuration (RefreshBefore cfg) DefaultOIDCRefreshBefore"

definition extra_params :: "OIDCExchange \<Rightarrow> (string \<times> string) list" where
  "extra_params ex = (case ExtraParams ex of None \<Rightarrow> [] | Some m \<Rightarrow> m)"

definition put_default ::
  "(string \<times> string) list \<Rightarrow> string \<Rightarrow> string \<Rightarrow> (string \<times> string) list \<Rightarrow> (string \<times> string) list" where
  "put_default extra k v m = (if map_of extra k = None then map_put k v m else m)"

definition exchange_form :: "OIDCExchange \<Rightarrow> string \<Rightarrow> (string \<times> string) list" where
  "exchange_form ex saToken =
     (let extra = extra_params ex;
          base = map_put ''subject_token'' saToken (map_put ''audience'' (Audience ex) [])
      in put_all extra
           (put_default extra ''grant_type'' ''urn:ietf:params:oauth:grant-type:token-exchange''
             (put_default extra ''subject_token_type'' ''urn:ietf:params:oauth:token-type:jwt'' base)))"

definition exchange_answer ::
  "'h token_world \<Rightarrow> 'h transport \<Rightarrow> OIDCConfig \<Rightarrow> 'h \<Rightarrow> goerr + string \<times> int" where
  "exchange_answer X T cfg h =
     (case TokenFile X h (if ServiceAccountTokenPath cfg = [] then DefaultServiceAccountTokenPath
                          else ServiceAccountTokenPath cfg) of
        Inl err \<Rightarrow> Inl (Wrapped err ''failed to read service account token'')
      | Inr saToken \<Rightarrow>
          (case Exchange cfg of
             None \<Rightarrow> Inl (ErrorString ''oidc.exchange is required'')
           | Some ex \<Rightarrow>
               (case post_for_token T ''token exchange'' h (TokenEndpoint ex)
                       [(''Content-Type'', [''application/x-www-form-urlencoded''])]
                       (form_encode (exchange_form ex saToken)) of
                  Inl err \<Rightarrow> Inl err
                | Inr body \<Rightarrow>
                    decode_token X ''token exchange'' ''access_token'' (struct_field int64_value 0 ''expires_in'')
                      body)))"

definition parseJWTExp :: "string \<Rightarrow> int option" where
  "parseJWTExp token =
     (case split_on (CHR ''.'') token of
        [hdr, payload, sig] \<Rightarrow>
          Option.bind (Option.bind (RawURLDecode payload) struct_members)
            (\<lambda>ms. Option.bind (struct_field int64_value 0 ''exp'' ms)
              (\<lambda>e. if e = 0 then None else Some e))
      | _ \<Rightarrow> None)"

definition exchange_expiry :: "int \<Rightarrow> int \<Rightarrow> string \<Rightarrow> int \<Rightarrow> int" where
  "exchange_expiry refresh now token expires_in =
     (if 0 < expires_in then now + wrap64 (wrap64 (expires_in * second) - refresh)
      else case parseJWTExp token of
        Some e \<Rightarrow> e * second + wrap64 (- refresh)
      | None \<Rightarrow> now + refresh)"

definition exchange :: "'h token_world \<Rightarrow> 'h transport \<Rightarrow> OIDCConfig \<Rightarrow> 'h \<Rightarrow> goerr + Token" where
  "exchange X T cfg h =
     map_sum id (\<lambda>(a, n). \<lparr>AccessToken = a, Expiry = exchange_expiry (refresh_before cfg) (TimeNow X h) a n\<rparr>)
       (exchange_answer X T cfg h)"

subsection \<open>The sources behind a client\<close>

definition reused :: "Token option \<Rightarrow> goerr + Token \<Rightarrow> goerr + Token" where
  "reused cached minted = (case cached of Some t \<Rightarrow> Inr t | None \<Rightarrow> minted)"

definition gcp_token :: "'h token_world \<Rightarrow> 'h transport \<Rightarrow> GCPAuth \<Rightarrow> 'h \<Rightarrow> goerr + Token" where
  "gcp_token X T cfg h = reused (CachedGCP X cfg h) (gcp_mint X T cfg h)"

definition oidc_token :: "'h token_world \<Rightarrow> 'h transport \<Rightarrow> OIDCConfig \<Rightarrow> 'h \<Rightarrow> goerr + Token" where
  "oidc_token X T cfg h = reused (CachedOIDC X cfg h) (exchange X T cfg h)"

text \<open>The transport whose tokens come from these sources.\<close>

definition token_transport :: "'h token_world \<Rightarrow> 'h transport \<Rightarrow> 'h transport" where
  "token_transport X T =
     T\<lparr>GCPSource := gcp_new X,
       GCPToken := (\<lambda>cfg h. map_sum id AccessToken (gcp_token X T cfg h)),
       OIDCToken := (\<lambda>cfg h. map_sum id AccessToken (oidc_token X T cfg h))\<rparr>"

subsection \<open>What a source hands out\<close>

text \<open>
  \<^verbatim>\<open>ReuseTokenSource\<close> answers a token it was given before while it is valid (not empty, and not past its
  expiry, where the zero time means none), else it takes a new one.
\<close>

definition reuse_contract ::
  "('h \<Rightarrow> Token option) \<Rightarrow> ('h \<Rightarrow> goerr + Token) \<Rightarrow> ('h \<Rightarrow> int) \<Rightarrow> bool" where
  "reuse_contract cached mint now \<longleftrightarrow>
     (\<forall>h t. cached h = Some t \<longrightarrow>
        AccessToken t \<noteq> [] \<and> (Expiry t = zero_time \<or> now h < Expiry t) \<and> (\<exists>g. mint g = Inr t))"

text \<open>
  A source of tokens: each names the issuer's answer, and expires \<open>slack\<close> before the end of the lifetime
  the answer states.
\<close>

locale token_source =
  fixes mint :: "'h \<Rightarrow> goerr + Token"
    and named :: "'h \<Rightarrow> string \<Rightarrow> bool"
    and stated_end :: "'h \<Rightarrow> int option"
    and slack :: int
  assumes mint_named: "mint h = Inr t \<Longrightarrow> named h (AccessToken t)"
    and mint_expiry: "mint h = Inr t \<Longrightarrow> stated_end h = Some e \<Longrightarrow> Expiry t = e - slack \<and> Expiry t \<noteq> zero_time"
begin

lemma handed_out:
  assumes "reuse_contract cached mint now" "reused (cached h) (mint h) = Inr t"
  shows "\<exists>g. named g (AccessToken t) \<and> (g = h \<or> (\<forall>e. stated_end g = Some e \<longrightarrow> now h < e - slack))"
proof (cases "cached h")
  case None
  with assms(2) mint_named show ?thesis by (auto simp: reused_def)
next
  case (Some t')
  with assms(2) have "t' = t" by (simp add: reused_def)
  with Some assms(1) obtain g where g: "mint g = Inr t" "Expiry t = zero_time \<or> now h < Expiry t"
    unfolding reuse_contract_def by blast
  have "now h < e - slack" if "stated_end g = Some e" for e
    using mint_expiry [OF g(1) that] g(2) by auto
  with mint_named [OF g(1)] show ?thesis by blast
qed

end

text \<open>
  The end of the lifetime an answer states. A lifetime that overflows a \<^verbatim>\<open>time.Duration\<close>, a negative
  \<open>refreshBefore\<close> and a clock before 1970 are left out: there is no bound then.
\<close>

definition exchange_end :: "int \<Rightarrow> int \<Rightarrow> int \<Rightarrow> int option" where
  "exchange_end refresh now expires_in =
     (if 0 < expires_in \<and> expires_in * second < 2 ^ 63 \<and> 0 \<le> refresh \<and> 0 \<le> now
      then Some (now + expires_in * second) else None)"

definition impersonation_end :: "string \<Rightarrow> int option" where
  "impersonation_end expireTime =
     Option.bind (parse_rfc3339 expireTime)
       (\<lambda>e. if zero_time < e - impersonateRefreshSlack then Some e else None)"

lemma wrap64_id: "- (2 ^ 63) \<le> n \<Longrightarrow> n < 2 ^ 63 \<Longrightarrow> wrap64 n = n"
  by (simp add: wrap64_def)

lemma refresh_before_bound: "refresh_before cfg < 2 ^ 63"
  using go_parse_duration_int64
  by (auto simp: refresh_before_def ParseDuration_def DefaultOIDCRefreshBefore_def split: option.split)

lemma exchange_expiry_stated:
  assumes "exchange_end refresh now n = Some e" "refresh < 2 ^ 63"
  shows "exchange_expiry refresh now a n = e - refresh \<and> e - refresh \<noteq> zero_time"
proof -
  have n: "0 < n" "n * second < 2 ^ 63" "0 \<le> refresh" "0 \<le> now" "e = now + n * second"
    using assms(1) by (auto simp: exchange_end_def split: if_splits)
  have "wrap64 (n * second) = n * second" "wrap64 (n * second - refresh) = n * second - refresh"
    using n assms(2) by (auto intro!: wrap64_id)
  then show ?thesis using n assms(2) by (auto simp: exchange_expiry_def zero_time_def)
qed

lemma impersonation_expiry_stated:
  assumes "impersonation_end t = Some e"
  shows "impersonation_expiry now t = e - impersonateRefreshSlack \<and> e - impersonateRefreshSlack \<noteq> zero_time"
proof -
  have "parse_rfc3339 t = Some e" "zero_time < e - impersonateRefreshSlack"
    using assms by (auto simp: impersonation_end_def split: Option.bind_splits if_splits)
  moreover have "t \<noteq> []"
    using calculation(1) by (auto simp: parse_rfc3339_def parse_date_def four_digits_def)
  ultimately show ?thesis by (simp add: impersonation_expiry_def)
qed

interpretation oidc_source: token_source "exchange X T cfg" "\<lambda>h a. \<exists>n. exchange_answer X T cfg h = Inr (a, n)"
    "\<lambda>h. case exchange_answer X T cfg h of Inl _ \<Rightarrow> None
       | Inr (a, n) \<Rightarrow> exchange_end (refresh_before cfg) (TimeNow X h) n"
    "refresh_before cfg" for X T cfg
  using exchange_expiry_stated [OF _ refresh_before_bound]
  by unfold_locales (auto simp: exchange_def split: sum.splits prod.splits)

interpretation gcp_source: token_source "generateAccessToken X T cfg"
    "\<lambda>h a. \<exists>t. impersonation_answer X T cfg h = Inr (a, t)"
    "\<lambda>h. case impersonation_answer X T cfg h of Inl _ \<Rightarrow> None | Inr (a, t) \<Rightarrow> impersonation_end t"
    impersonateRefreshSlack for X T cfg
  using impersonation_expiry_stated
  by unfold_locales (auto simp: generateAccessToken_def split: sum.splits prod.splits)

lemma token_transport_tokens:
  "GCPToken (token_transport X T) cfg h = map_sum id AccessToken (gcp_token X T cfg h)"
  "OIDCToken (token_transport X T) cfg' h = map_sum id AccessToken (oidc_token X T cfg' h)"
  by (simp_all add: token_transport_def)

text \<open>A sent token came from an answer of the issuer, and there was time left when it was sent again.\<close>

lemma oidc_token_fresh:
  assumes "reuse_contract (CachedOIDC X cfg) (exchange X T cfg) (TimeNow X)"
    and "OIDCToken (token_transport X T) cfg h = Inr a"
  shows "\<exists>g n. exchange_answer X T cfg g = Inr (a, n) \<and>
    (g = h \<or> (\<forall>e. exchange_end (refresh_before cfg) (TimeNow X g) n = Some e \<longrightarrow>
                 TimeNow X h < e - refresh_before cfg))"
proof -
  obtain t where "reused (CachedOIDC X cfg h) (exchange X T cfg h) = Inr t" "AccessToken t = a"
    using assms(2) by (auto simp: token_transport_tokens oidc_token_def map_sum_def split: sum.splits)
  then show ?thesis using oidc_source.handed_out [OF assms(1)] by (fastforce split: sum.splits)
qed

lemma gcp_token_fresh:
  assumes "reuse_contract (CachedGCP X cfg) (generateAccessToken X T cfg) (TimeNow X)" "ServiceAccount cfg \<noteq> []"
    and "GCPToken (token_transport X T) cfg h = Inr a"
  shows "\<exists>g t. impersonation_answer X T cfg g = Inr (a, t) \<and>
    (g = h \<or> (\<forall>e. impersonation_end t = Some e \<longrightarrow> TimeNow X h < e - impersonateRefreshSlack))"
proof -
  obtain t where "reused (CachedGCP X cfg h) (generateAccessToken X T cfg h) = Inr t" "AccessToken t = a"
    using assms(2,3) by (auto simp: token_transport_tokens gcp_token_def gcp_mint_def map_sum_def split: sum.splits)
  then show ?thesis using gcp_source.handed_out [OF assms(1)] by (fastforce split: sum.splits)
qed

subsection \<open>The form of an exchange\<close>

lemma distinct_put_all: "distinct (map fst m) \<Longrightarrow> distinct (map fst (put_all ps m))"
  by (induction ps m rule: put_all.induct) auto

lemma map_of_put_distinct:
  assumes "distinct (map fst ps)"
  shows "map_of (put_all ps m) = map_of m ++ map_of ps"
proof -
  have "map_of (rev ps) = map_of ps"
    using assms by (intro map_of_eqI) (auto simp: map_of_eq_Some_iff rev_map [symmetric])
  then show ?thesis by (simp add: fun_eq_iff map_of_put_all map_add_def)
qed

lemma map_of_sort_fields: "distinct (map fst m) \<Longrightarrow> map_of (sort_fields m) = map_of m"
  by (intro map_of_eqI) (auto simp: map_of_eq_Some_iff)

lemma distinct_exchange_form: "distinct (map fst (exchange_form ex sa))"
  by (simp add: exchange_form_def Let_def distinct_put_all put_default_def)

lemma map_of_exchange_form:
  assumes "distinct (map fst (extra_params ex))"
  shows "map_of (exchange_form ex sa) =
    [''audience'' \<mapsto> Audience ex, ''subject_token'' \<mapsto> sa,
     ''subject_token_type'' \<mapsto> ''urn:ietf:params:oauth:token-type:jwt'',
     ''grant_type'' \<mapsto> ''urn:ietf:params:oauth:grant-type:token-exchange''] ++ map_of (extra_params ex)"
  unfolding exchange_form_def Let_def map_of_put_distinct [OF assms]
  by (auto simp: put_default_def map_add_def fun_eq_iff split: option.splits)

end
