(* ===== verification/TokenExample.thy ===== *)
theory TokenExample
  imports Tokens
begin

text \<open>
  A concrete world of the token sources: a history is the number of seconds gone by, both issuers state a
  lifetime of an hour, and the token of second 0 is reused until its source calls it stale.
\<close>

definition tx_quote :: "string \<Rightarrow> string" where
  "tx_quote s = [CHR 0x22] @ s @ [CHR 0x22]"

definition tx_exchanged :: string where
  "tx_exchanged = ''{'' @ tx_quote ''access_token'' @ '':'' @ tx_quote ''abc'' @ '','' @ tx_quote ''expires_in'' @ '':3600}''"

definition tx_impersonated :: string where
  "tx_impersonated = ''{'' @ tx_quote ''accessToken'' @ '':'' @ tx_quote ''xyz'' @ '','' @
     tx_quote ''expireTime'' @ '':'' @ tx_quote ''1970-01-01T01:00:00Z'' @ ''}''"

definition tx_transport :: "nat transport" where
  "tx_transport = \<lparr>RoundTrip = (\<lambda>h q s t. Inr \<lparr>RespStatus = 200, RespHeaders = [],
       RespBody = Inr (if WireURL q = ''https://sts'' then tx_exchanged else tx_impersonated), RespClose = None\<rparr>),
     PemParses = (\<lambda>_. True), KeyPairError = (\<lambda>_ _. None), GCPSource = (\<lambda>_. None), GCPToken = (\<lambda>_ _. Inr []),
     OIDCToken = (\<lambda>_ _. Inr [])\<rparr>"

definition tx_world :: "nat token_world" where
  "tx_world = \<lparr>TokenFile = (\<lambda>h p. Inr ''sa''), TimeNow = (\<lambda>h. int h * second), ADCError = (\<lambda>_. None),
     ADCToken = (\<lambda>_ _. Inr \<lparr>AccessToken = ''adc'', Expiry = zero_time\<rparr>), JSONError = ErrorString,
     CachedGCP = (\<lambda>_ h. if 0 < h \<and> h < 3540 then Some \<lparr>AccessToken = ''xyz'', Expiry = 3540 * second\<rparr> else None),
     CachedOIDC = (\<lambda>_ h. if 0 < h \<and> h < 3300 then Some \<lparr>AccessToken = ''abc'', Expiry = 3300 * second\<rparr> else None)\<rparr>"

definition tx_exchange :: OIDCExchange where
  "tx_exchange = \<lparr>TokenEndpoint = ''https://sts'', Audience = ''a&b'',
     ExtraParams = Some [(''grant_type'', ''g''), (''audience'', ''c d'')]\<rparr>"

definition tx_oidc :: OIDCConfig where
  "tx_oidc = \<lparr>ServiceAccountTokenPath = [], Exchange = Some tx_exchange, Inject = None, RefreshBefore = None\<rparr>"

definition tx_gcp :: GCPAuth where
  "tx_gcp = \<lparr>ServiceAccount = ''sa'', Scopes = []\<rparr>"

lemma tx_minted:
  "exchange tx_world tx_transport tx_oidc 0 = Inr \<lparr>AccessToken = ''abc'', Expiry = 3300 * second\<rparr>"
  "generateAccessToken tx_world tx_transport tx_gcp 0 = Inr \<lparr>AccessToken = ''xyz'', Expiry = 3540 * second\<rparr>"
  by code_simp+

lemma tx_reuse:
  "reuse_contract (CachedOIDC tx_world tx_oidc) (exchange tx_world tx_transport tx_oidc) (TimeNow tx_world)"
  "reuse_contract (CachedGCP tx_world tx_gcp) (generateAccessToken tx_world tx_transport tx_gcp) (TimeNow tx_world)"
  using tx_minted unfolding reuse_contract_def by (auto simp: tx_world_def)

lemma tx_tokens:
  "OIDCToken (token_transport tx_world tx_transport) tx_oidc 100 = Inr ''abc''"
  "GCPToken (token_transport tx_world tx_transport) tx_gcp 100 = Inr ''xyz''"
  by (simp_all add: token_transport_tokens oidc_token_def gcp_token_def reused_def tx_world_def)

end
