(* ===== verification/SetStatus.thy ===== *)
theory SetStatus
  imports World Utils
begin

text \<open>
  \<^verbatim>\<open>internal/utils/set_status.go\<close>: writing the outcome of a call to the status of a resource, with
  retries on conflicts. It works for any resource whose type has the five operations of
  \<^verbatim>\<open>interfaces.BaseStatusWriter\<close>: the record \<open>StatusWriter\<close>. The locale \<open>status_writer\<close> states what the
  operations promise; it is interpreted for both kinds of resource.
\<close>

record 'cr StatusWriter =
  WriteStatusCode :: "int \<Rightarrow> 'cr \<Rightarrow> 'cr"
  WriteHeaders :: "headers \<Rightarrow> 'cr \<Rightarrow> 'cr"
  WriteBody :: "string \<Rightarrow> 'cr \<Rightarrow> 'cr"
  WriteError :: "goerr option \<Rightarrow> 'cr \<Rightarrow> 'cr"
  WriteRequestDetails :: "string \<Rightarrow> string \<Rightarrow> string \<Rightarrow> headers \<Rightarrow> 'cr \<Rightarrow> 'cr"

text \<open>A setter is a function without arguments or result that changes the resource in memory.\<close>

type_synonym 'cr setter = "('cr world, unit) state"

definition setterStatusCode :: "'cr StatusWriter \<Rightarrow> HttpDetails \<Rightarrow> 'cr setter" where
  "setterStatusCode W d = modifyObj
     (if StatusCode (HttpResponse d) \<noteq> 0 then WriteStatusCode W (StatusCode (HttpResponse d)) else id)"

definition setterHeaders :: "'cr StatusWriter \<Rightarrow> HttpDetails \<Rightarrow> 'cr setter" where
  "setterHeaders W d = modifyObj
     (if Headers (HttpResponse d) \<noteq> None then WriteHeaders W (Headers (HttpResponse d)) else id)"

definition setterBody :: "'cr StatusWriter \<Rightarrow> HttpDetails \<Rightarrow> 'cr setter" where
  "setterBody W d = modifyObj
     (if Body (HttpResponse d) \<noteq> [] then WriteBody W (Body (HttpResponse d)) else id)"

definition setterRequestDetails :: "'cr StatusWriter \<Rightarrow> HttpDetails \<Rightarrow> 'cr setter" where
  "setterRequestDetails W d =
     (let q = HttpRequest d
      in modifyObj (if ReqMethod q \<noteq> []
                    then WriteRequestDetails W (ReqURL q) (ReqMethod q) (ReqBody q) (ReqHeaders q) else id))"

definition setterError :: "'cr StatusWriter \<Rightarrow> goerr option \<Rightarrow> 'cr setter" where
  "setterError W e = modifyObj (WriteError W e)"

fun run_setters :: "'cr setter list \<Rightarrow> 'cr setter" where
  "run_setters [] = State_Monad.return ()"
| "run_setters (f # fs) = do { f; run_setters fs }"

text \<open>One attempt, and the retried whole.\<close>

definition set_status_attempt ::
  "'cr env \<Rightarrow> 'cr setter list \<Rightarrow> ('cr world, goerr option) state" where
  "set_status_attempt E setters = do {
     run_setters setters;
     err \<leftarrow> kubeStatusUpdate E;
     if \<not> IsConflict err then State_Monad.return err
     else do {
       g \<leftarrow> kubeGet E;
       onError g (\<lambda>e. State_Monad.return
           (Some (Wrapped e ''failed to re-get resource after status update conflict'')))
         (State_Monad.return err)
     }
   }"

definition SetRequestResourceStatus ::
  "'cr env \<Rightarrow> 'cr setter list \<Rightarrow> ('cr world, goerr option) state" where
  "SetRequestResourceStatus E setters = RetryOnConflict E (set_status_attempt E setters)"

definition basic_setters :: "'cr StatusWriter \<Rightarrow> HttpDetails \<Rightarrow> 'cr setter list" where
  "basic_setters W d =
     [setterStatusCode W d, setterHeaders W d, setterBody W d, setterRequestDetails W d]"

text \<open>The response stored after the setters ran: the parts of the new one that are not empty.\<close>

definition merge_response :: "Response \<Rightarrow> Response \<Rightarrow> Response" where
  "merge_response old new =
     \<lparr>StatusCode = (if StatusCode new \<noteq> 0 then StatusCode new else StatusCode old),
      Body = (if Body new \<noteq> [] then Body new else Body old),
      Headers = (if Headers new \<noteq> None then Headers new else Headers old)\<rparr>"

subsection \<open>What a status writer promises\<close>

locale status_writer =
  fixes W :: "'cr StatusWriter"
    and stored :: "'cr \<Rightarrow> Response"
    and failures :: "'cr \<Rightarrow> 32 word"
  assumes stored_code [simp]: "stored (WriteStatusCode W n cr) = (stored cr)\<lparr>StatusCode := n\<rparr>"
    and stored_headers [simp]: "stored (WriteHeaders W h cr) = (stored cr)\<lparr>Headers := h\<rparr>"
    and stored_body [simp]: "stored (WriteBody W b cr) = (stored cr)\<lparr>Body := b\<rparr>"
    and stored_error [simp]: "stored (WriteError W e cr) = stored cr"
    and stored_details [simp]: "stored (WriteRequestDetails W u m b h cr) = stored cr"
    and failures_error [simp]: "failures (WriteError W e cr) = failures cr + 1"
    and failures_kept [simp]: "failures (WriteStatusCode W n cr) = failures cr"
      "failures (WriteHeaders W h cr) = failures cr" "failures (WriteBody W b cr) = failures cr"
      "failures (WriteRequestDetails W u m b h cr) = failures cr"
begin

lemma basic_setters_stored:
  "run_state (run_setters (basic_setters W d)) w = ((), w') \<Longrightarrow>
   stored (Obj w') = merge_response (stored (Obj w)) (HttpResponse d) \<and>
   failures (Obj w') = failures (Obj w) \<and> Hist w' = Hist w"
  by (auto simp: basic_setters_def setterStatusCode_def setterHeaders_def setterBody_def
        setterRequestDetails_def modifyObj_def merge_response_def Let_def)

text \<open>The setters of a failed call: the basic ones, and one failure more.\<close>

lemma failure_setters_stored:
  "run_state (run_setters (basic_setters W d @ [setterError W e])) w = ((), w') \<Longrightarrow>
   stored (Obj w') = merge_response (stored (Obj w)) (HttpResponse d) \<and>
   failures (Obj w') = failures (Obj w) + 1 \<and> Hist w' = Hist w"
  by (auto simp: basic_setters_def setterStatusCode_def setterHeaders_def setterBody_def
        setterRequestDetails_def setterError_def modifyObj_def merge_response_def Let_def)

lemma error_setter_stored:
  "run_state (run_setters [setterError W e]) w = ((), w') \<Longrightarrow>
   stored (Obj w') = stored (Obj w) \<and> failures (Obj w') = failures (Obj w) + 1 \<and> Hist w' = Hist w"
  by (auto simp: setterError_def modifyObj_def)

end

subsection \<open>Retried writes do not stack\<close>

text \<open>
  The objects a call writes to the status, each with the object its setters started from: the one in
  memory at first, after that the one read last.
\<close>

fun writes_from :: "'cr \<Rightarrow> 'cr event list \<Rightarrow> ('cr \<times> 'cr \<times> goerr option) list" where
  "writes_from base [] = []"
| "writes_from base (StatusUpdate cr err # es) = (base, cr, err) # writes_from base es"
| "writes_from base (KubeGet cr err # es) = writes_from (if err = None then cr else base) es"
| "writes_from base (_ # es) = writes_from base es"

fun last_read :: "'cr \<Rightarrow> 'cr event list \<Rightarrow> 'cr" where
  "last_read base [] = base"
| "last_read base (KubeGet cr err # es) = last_read (if err = None then cr else base) es"
| "last_read base (_ # es) = last_read base es"

lemma writes_from_append:
  "writes_from b (xs @ ys) = writes_from b xs @ writes_from (last_read b xs) ys"
  by (induction b xs rule: writes_from.induct) auto

lemma last_read_append: "last_read b (xs @ ys) = last_read (last_read b xs) ys"
  by (induction b xs rule: last_read.induct) auto

text \<open>
  \<open>fresh_writes F w w'\<close>: every write made between \<open>w\<close> and \<open>w'\<close> is related by \<open>F\<close> to what it started
  from. \<open>fresh_run\<close> adds that the resource in memory is then the one read last.
\<close>

definition fresh_writes :: "('cr \<Rightarrow> 'cr \<Rightarrow> bool) \<Rightarrow> 'cr world \<Rightarrow> 'cr world \<Rightarrow> bool" where
  "fresh_writes F w w' \<longleftrightarrow>
     (\<exists>es. Hist w' = es @ Hist w \<and> list_all (\<lambda>(b, cr, err). F b cr) (writes_from (Obj w) (rev es)))"

definition fresh_run :: "('cr \<Rightarrow> 'cr \<Rightarrow> bool) \<Rightarrow> 'cr world \<Rightarrow> 'cr world \<Rightarrow> bool" where
  "fresh_run F w w' \<longleftrightarrow>
     (\<exists>es. Hist w' = es @ Hist w \<and> list_all (\<lambda>(b, cr, err). F b cr) (writes_from (Obj w) (rev es)) \<and>
           Obj w' = last_read (Obj w) (rev es))"

lemma fresh_run_refl: "fresh_run F w w"
  by (simp add: fresh_run_def)

lemma fresh_run_writes:
  assumes "fresh_run F u v" "fresh_writes F v w"
  shows "fresh_writes F u w"
proof -
  from assms obtain es ds where "Hist v = es @ Hist u" "Obj v = last_read (Obj u) (rev es)"
      "list_all (\<lambda>(b, cr, err). F b cr) (writes_from (Obj u) (rev es))"
      "Hist w = ds @ Hist v" "list_all (\<lambda>(b, cr, err). F b cr) (writes_from (Obj v) (rev ds))"
    by (auto simp: fresh_run_def fresh_writes_def)
  then show ?thesis
    unfolding fresh_writes_def by (intro exI [of _ "ds @ es"]) (simp add: writes_from_append)
qed

lemma fresh_run_trans:
  assumes "fresh_run F u v" "fresh_run F v w"
  shows "fresh_run F u w"
proof -
  from assms obtain es ds where "Hist v = es @ Hist u" "Obj v = last_read (Obj u) (rev es)"
      "list_all (\<lambda>(b, cr, err). F b cr) (writes_from (Obj u) (rev es))"
      "Hist w = ds @ Hist v" "list_all (\<lambda>(b, cr, err). F b cr) (writes_from (Obj v) (rev ds))"
      "Obj w = last_read (Obj v) (rev ds)"
    by (auto simp: fresh_run_def)
  then show ?thesis
    unfolding fresh_run_def
    by (intro exI [of _ "ds @ es"]) (simp add: writes_from_append last_read_append)
qed

text \<open>A read does not answer a conflict: the API server uses that reason for writes.\<close>

definition reads_not_conflict :: "'cr env \<Rightarrow> bool" where
  "reads_not_conflict E \<longleftrightarrow> (\<forall>h cr. \<not> IsConflict (fst (KubeRead E h cr)))"

text \<open>The other events: what setters may add.\<close>

definition is_kube_event :: "'cr event \<Rightarrow> bool" where
  "is_kube_event e \<longleftrightarrow> (case e of KubeGet _ _ \<Rightarrow> True | StatusUpdate _ _ \<Rightarrow> True | _ \<Rightarrow> False)"

lemma kube_event_simps [simp]:
  "is_kube_event (KubeGet cr e)" "is_kube_event (StatusUpdate cr e)" "\<not> is_kube_event (HttpSent c d e)"
  "\<not> is_kube_event (ClockRead t)" "\<not> is_kube_event (Waited n)"
  by (simp_all add: is_kube_event_def)

lemma unchanged_adds [simp]: "Hist w' = Hist w \<Longrightarrow> adds P w w'"
  unfolding adds_def by (intro exI [of _ "[]"]) simp

lemma quiet_writes:
  "list_all (\<lambda>e. \<not> is_kube_event e) es \<Longrightarrow> writes_from b es = [] \<and> last_read b es = b"
proof (induction es)
  case (Cons e es)
  then show ?case by (cases e) (auto simp: is_kube_event_def)
qed simp

text \<open>A success ends with a write that was accepted.\<close>

definition ends_written ::
  "('cr \<Rightarrow> 'cr \<Rightarrow> bool) \<Rightarrow> 'cr world \<Rightarrow> goerr option \<Rightarrow> 'cr world \<Rightarrow> bool" where
  "ends_written F w r w' \<longleftrightarrow>
     (r = None \<longrightarrow> (\<exists>base cr es. Hist w' = StatusUpdate cr None # es @ Hist w \<and> F base cr))"

lemma set_status_attempt_spec:
  assumes reads: "reads_not_conflict E"
    and setters: "\<And>w w'. run_state (run_setters fs) w = ((), w') \<Longrightarrow>
      F (Obj w) (Obj w') \<and> adds (\<lambda>e. \<not> is_kube_event e) w w'"
  shows "wp (set_status_attempt E fs)
     (\<lambda>r w'. fresh_writes F w w' \<and> ends_written F w r w' \<and> (IsConflict r \<longrightarrow> fresh_run F w w')) w"
proof -
  obtain w1 where w1: "run_state (run_setters fs) w = ((), w1)" by (metis prod.collapse unit.exhaust)
  from setters [OF w1] obtain ds where F: "F (Obj w) (Obj w1)" and h: "Hist w1 = ds @ Hist w"
    and ds: "list_all (\<lambda>e. \<not> is_kube_event e) ds" by (auto simp: adds_def)
  define u where "u = KubeStatusWrite E (Hist w1) (Obj w1)"
  define w2 where "w2 = w1\<lparr>Obj := snd u, Hist := StatusUpdate (Obj w1) (fst u) # Hist w1\<rparr>"
  define g where "g = KubeRead E (Hist w2) (Obj w2)"
  define w3 where "w3 = w2\<lparr>Obj := snd g, Hist := KubeGet (snd g) (fst g) # Hist w2\<rparr>"
  have run: "run_state (set_status_attempt E fs) w =
      (if \<not> IsConflict (fst u) then (fst u, w2)
       else (case fst g of None \<Rightarrow> (fst u, w3)
             | Some e \<Rightarrow> (Some (Wrapped e ''failed to re-get resource after status update conflict''), w3)))"
    by (simp add: set_status_attempt_def w1 run_calls onError_def u_def w2_def g_def w3_def
          split: option.splits)
  have q: "writes_from b (rev ds) = []" "last_read b (rev ds) = b" for b
    using quiet_writes [of "rev ds"] ds by simp_all
  have h2: "Hist w2 = (StatusUpdate (Obj w1) (fst u) # ds) @ Hist w" by (simp add: w2_def h)
  have h3: "Hist w3 = (KubeGet (snd g) (fst g) # StatusUpdate (Obj w1) (fst u) # ds) @ Hist w"
    by (simp add: w3_def h2)
  have writes2: "fresh_writes F w w2"
    unfolding fresh_writes_def using F h2 q
    by (intro exI [of _ "StatusUpdate (Obj w1) (fst u) # ds"]) (simp add: writes_from_append)
  have written: "ends_written F w (fst u) w2"
    unfolding ends_written_def using F h2 by auto
  have writes3: "fresh_writes F w w3"
    unfolding fresh_writes_def using F h3 q
    by (intro exI [of _ "KubeGet (snd g) (fst g) # StatusUpdate (Obj w1) (fst u) # ds"])
       (simp add: writes_from_append last_read_append)
  have run3: "fst g = None \<Longrightarrow> fresh_run F w w3"
    unfolding fresh_run_def using F h3 q
    by (intro exI [of _ "KubeGet (snd g) (fst g) # StatusUpdate (Obj w1) (fst u) # ds"])
       (simp add: writes_from_append last_read_append w3_def)
  have none: "IsConflict (fst u) \<Longrightarrow> ends_written F w (fst u) w3"
    by (auto simp: ends_written_def)
  have some: "ends_written F w (Some e) v" for e v by (simp add: ends_written_def)
  have "\<not> IsConflict (fst g)" using reads by (simp add: reads_not_conflict_def g_def)
  then show ?thesis
    unfolding wp_def run using writes2 written writes3 run3 none some by (auto split: option.splits)
qed

lemma fresh_run_written: "fresh_run F u v \<Longrightarrow> ends_written F v r w \<Longrightarrow> ends_written F u r w"
  unfolding fresh_run_def ends_written_def by (metis append.assoc)

lemma SetRequestResourceStatus_spec:
  assumes "retry_contract E" "reads_not_conflict E"
    and setters: "\<And>w w'. run_state (run_setters fs) w = ((), w') \<Longrightarrow>
      F (Obj w) (Obj w') \<and> adds (\<lambda>e. \<not> is_kube_event e) w w'"
  shows "wp (SetRequestResourceStatus E fs) (\<lambda>r w'. fresh_writes F w w' \<and> ends_written F w r w') w"
  unfolding SetRequestResourceStatus_def
proof (rule wp_RetryOnConflict [OF assms(1), where I = "fresh_run F w"])
  show "fresh_run F w w" by (rule fresh_run_refl)
  fix w1
  assume w1: "fresh_run F w w1"
  show "wp (set_status_attempt E fs) (\<lambda>r w'. if IsConflict r
      then fresh_run F w w' \<and> fresh_writes F w w' \<and> ends_written F w r w'
      else fresh_writes F w w' \<and> ends_written F w r w') w1"
    by (rule wp_mono [OF set_status_attempt_spec [OF assms(2) setters]])
       (use w1 in \<open>auto intro: fresh_run_trans fresh_run_writes fresh_run_written\<close>)
qed

text \<open>\<open>SetRequestResourceStatus\<close> reads and writes the resource, and does nothing else.\<close>

lemma emits_run_setters:
  "list_all (emits P) fs \<Longrightarrow> emits P (run_setters fs)"
  by (induction fs) (auto intro!: keeps_intros)

lemma emits_SetRequestResourceStatus:
  assumes "retry_contract E" "list_all (emits P) fs"
    and "\<And>cr e. P (KubeGet cr e)" "\<And>cr e. P (StatusUpdate cr e)"
  shows "emits P (SetRequestResourceStatus E fs)"
  unfolding SetRequestResourceStatus_def set_status_attempt_def
  using assms by (auto intro!: keeps_intros emits_run_setters)

lemma emits_setters [keeps_intros]:
  "emits P (setterStatusCode W d)" "emits P (setterHeaders W d)" "emits P (setterBody W d)"
  "emits P (setterRequestDetails W d)" "emits P (setterError W e)"
  unfolding setterStatusCode_def setterHeaders_def setterBody_def setterRequestDetails_def setterError_def
  by (auto simp: Let_def intro!: keeps_intros)

subsection \<open>Read, change, write\<close>

text \<open>
  Several functions of the service layer have one form: retried on conflicts, read the latest resource
  (or fail with a message), change its status in memory, write it.
\<close>

definition update_attempt ::
  "'cr env \<Rightarrow> string \<Rightarrow> 'cr setter \<Rightarrow> ('cr world, goerr option) state" where
  "update_attempt E msg change = do {
     g \<leftarrow> kubeGet E;
     onError g (\<lambda>e. State_Monad.return (Some (Wrapped e msg)))
       (do { change; kubeStatusUpdate E })
   }"

definition update_status ::
  "'cr env \<Rightarrow> string \<Rightarrow> 'cr setter \<Rightarrow> ('cr world, goerr option) state" where
  "update_status E msg change = RetryOnConflict E (update_attempt E msg change)"

lemma update_attempt_spec:
  assumes change: "\<And>w. wp change (\<lambda>_ w'. F (Obj w) (Obj w') \<and> adds (\<lambda>e. \<not> is_kube_event e) w w') w"
  shows "wp (update_attempt E msg change) (\<lambda>r w'.
     \<forall>u. (\<exists>es. Hist w = es @ Hist u \<and> list_all (\<lambda>(b, cr, err). F b cr) (writes_from (Obj u) (rev es))) \<longrightarrow>
        fresh_writes F u w' \<and> ends_written F u r w') w"
proof -
  define g where "g = KubeRead E (Hist w) (Obj w)"
  define w1 where "w1 = w\<lparr>Obj := snd g, Hist := KubeGet (snd g) (fst g) # Hist w\<rparr>"
  show ?thesis
  proof (cases "fst g")
    case (Some e)
    then have "run_state (update_attempt E msg change) w = (Some (Wrapped e msg), w1)"
      by (simp add: update_attempt_def run_calls onError_def g_def w1_def)
    moreover have "fresh_writes F u w1"
      if "Hist w = es @ Hist u" "list_all (\<lambda>(b, cr, err). F b cr) (writes_from (Obj u) (rev es))" for u es
      unfolding fresh_writes_def using that Some
      by (intro exI [of _ "KubeGet (snd g) (fst g) # es"]) (simp add: w1_def writes_from_append)
    ultimately show ?thesis
      unfolding wp_def by (auto simp: ends_written_def)
  next
    case None
    obtain w2 where w2: "run_state change w1 = ((), w2)" by (metis prod.collapse unit.exhaust)
    from wp_run [OF change w2] obtain ds where ds: "F (Obj w1) (Obj w2)" "Hist w2 = ds @ Hist w1"
        "list_all (\<lambda>e. \<not> is_kube_event e) ds"
      by (auto simp: adds_def)
    define s where "s = KubeStatusWrite E (Hist w2) (Obj w2)"
    define w3 where "w3 = w2\<lparr>Obj := snd s, Hist := StatusUpdate (Obj w2) (fst s) # Hist w2\<rparr>"
    have run: "run_state (update_attempt E msg change) w = (fst s, w3)"
      using None w2 by (simp add: update_attempt_def run_calls onError_def g_def w1_def s_def w3_def)
    have q: "writes_from b (rev ds) = []" "last_read b (rev ds) = b" for b
      using quiet_writes [of "rev ds"] ds(3) by simp_all
    have "fresh_writes F u w3 \<and> ends_written F u (fst s) w3"
      if u: "Hist w = es @ Hist u" "list_all (\<lambda>(b, cr, err). F b cr) (writes_from (Obj u) (rev es))" for u es
    proof
      show "fresh_writes F u w3"
        unfolding fresh_writes_def
        using u ds(1,2) None q
        by (intro exI [of _ "StatusUpdate (Obj w2) (fst s) # ds @ KubeGet (snd g) (fst g) # es"])
           (simp add: w3_def w1_def writes_from_append last_read_append)
      show "ends_written F u (fst s) w3"
        unfolding ends_written_def using u(1) ds(1,2)
        by (auto simp: w3_def w1_def intro!: exI [of _ "ds @ KubeGet (snd g) (fst g) # es"])
    qed
    then show ?thesis
      unfolding wp_def run by auto
  qed
qed

lemma update_status_spec:
  assumes "retry_contract E"
    and change: "\<And>w. wp change (\<lambda>_ w'. F (Obj w) (Obj w') \<and> adds (\<lambda>e. \<not> is_kube_event e) w w') w"
  shows "wp (update_status E msg change) (\<lambda>r w'. fresh_writes F w w' \<and> ends_written F w r w') w"
proof -
  let ?I = "\<lambda>w1. \<exists>es. Hist w1 = es @ Hist w \<and>
      list_all (\<lambda>(b, cr, err). F b cr) (writes_from (Obj w) (rev es))"
  show ?thesis
    unfolding update_status_def
  proof (rule wp_RetryOnConflict [OF assms(1), where I = ?I])
    show "?I w" by (intro exI [of _ "[]"]) simp
    fix w1 :: "'a world" assume I: "?I w1"
    show "wp (update_attempt E msg change) (\<lambda>r w'. if IsConflict r
        then ?I w' \<and> fresh_writes F w w' \<and> ends_written F w r w'
        else fresh_writes F w w' \<and> ends_written F w r w') w1"
      by (rule wp_mono [OF update_attempt_spec [OF change]]) (use I in \<open>auto simp: fresh_writes_def\<close>)
  qed
qed

lemma emits_update_status:
  assumes "retry_contract E" "emits P change" "\<And>cr e. P (KubeGet cr e)" "\<And>cr e. P (StatusUpdate cr e)"
  shows "emits P (update_status E msg change)"
  unfolding update_status_def update_attempt_def using assms by (auto intro!: keeps_intros)

lemma quiet_change [simp]:
  "wp (modifyObj f) (\<lambda>_ w'. F (Obj w) (Obj w') \<and> adds (\<lambda>e. \<not> is_kube_event e) w w') w \<longleftrightarrow>
   F (Obj w) (f (Obj w))"
  by (auto simp: wp_simps adds_def)

lemma update_status_modify:
  assumes "retry_contract E" "\<And>cr. F cr (f cr)"
  shows "wp (update_status E msg (modifyObj f))
     (\<lambda>r w'. fresh_writes F w w' \<and> ends_written F w r w') w"
  by (rule update_status_spec [OF assms(1)]) (simp add: assms(2))

subsection \<open>A single write\<close>

text \<open>
  The write of a resource as it is in memory, not retried: whatever came before was no call to the API
  server for it, and what is written is related by \<open>F\<close> to the resource at the start.
\<close>

definition one_write :: "('cr \<Rightarrow> 'cr \<Rightarrow> bool) \<Rightarrow> 'cr world \<Rightarrow> goerr option \<Rightarrow> 'cr world \<Rightarrow> bool" where
  "one_write F w x w' \<longleftrightarrow>
     (\<exists>cr es. Hist w' = StatusUpdate cr x # es @ Hist w \<and> list_all (\<lambda>e. \<not> is_kube_event e) es \<and> F (Obj w) cr)"

lemma kubeStatusUpdate_one_write:
  "adds (\<lambda>e. \<not> is_kube_event e) w v \<Longrightarrow> F (Obj w) (Obj v) \<Longrightarrow>
   wp (kubeStatusUpdate E) (\<lambda>x w'. one_write F w x w') v"
  by (auto simp: wp_simps Let_def adds_def one_write_def)

lemma one_write_ends: "one_write F w r w' \<Longrightarrow> ends_written F w r w'"
  by (auto simp: one_write_def ends_written_def)

end
