(* ===== verification/StatusHandler.thy ===== *)
theory StatusHandler
  imports SetStatus RequestGen
begin

text \<open>
  \<^verbatim>\<open>internal/service/request/statushandler/status.go\<close>: the status of an AsyncRequest after a call. An
  error counts as a failure, an error status too; a success resets the failures (unless the call
  was a GET) and fills the cache when every mapping can be rendered from the response.
\<close>

definition requestWriter :: "AsyncRequest StatusWriter" where
  "requestWriter =
     \<lparr>WriteStatusCode = SetStatusCode, WriteHeaders = SetHeaders, WriteBody = SetBody,
      WriteError = SetError, WriteRequestDetails = SetRequestDetails\<rparr>"

interpretation request_writer: status_writer requestWriter "\<lambda>cr. StatusResponse (Status cr)"
    "\<lambda>cr. Failed (Status cr)"
  by unfold_locales (simp_all add: requestWriter_def setter_defs)

definition setterResetFailures :: "AsyncRequest setter" where
  "setterResetFailures = modifyObj ResetFailures"

definition setterCache :: "AsyncRequest env \<Rightarrow> HttpDetails \<Rightarrow> AsyncRequest setter" where
  "setterCache E d = do {
     now \<leftarrow> timeNow E;
     modifyObj (SetCache now (StatusCode (HttpResponse d)) (Headers (HttpResponse d)) (Body (HttpResponse d)))
   }"

record requestStatusHandler =
  HandlerDetails :: HttpDetails
  HandlerError :: "goerr option"
  ExtraSetters :: "AsyncRequest setter list"

definition handlerResetFailures :: "requestStatusHandler \<Rightarrow> requestStatusHandler" where
  "handlerResetFailures h = h\<lparr>ExtraSetters := ExtraSetters h @ [setterResetFailures]\<rparr>"

definition NewStatusHandler ::
  "AsyncRequest env \<Rightarrow> HttpDetails \<Rightarrow> goerr option \<Rightarrow>
   (AsyncRequest world, goerr + requestStatusHandler) state" where
  "NewStatusHandler E details err = do {
     g \<leftarrow> kubeGet E;
     State_Monad.return
       (case g of
          Some e \<Rightarrow> Inl (Wrapped e ''failed to get the latest version of the resource'')
        | None \<Rightarrow> Inr \<lparr>HandlerDetails = details, HandlerError = err, ExtraSetters = []\<rparr>)
   }"

definition ErrFailedToSetStatus :: string where "ErrFailedToSetStatus = ''failed to update status''"

definition setErrorAndReturn ::
  "AsyncRequest env \<Rightarrow> goerr \<Rightarrow> (AsyncRequest world, goerr option) state" where
  "setErrorAndReturn E err = do {
     r \<leftarrow> SetRequestResourceStatus E [setterError requestWriter (Some err)];
     State_Monad.return (case r of Some e \<Rightarrow> Some (Wrapped e ErrFailedToSetStatus) | None \<Rightarrow> Some err)
   }"

definition incrementFailures ::
  "AsyncRequest env \<Rightarrow> AsyncRequest setter list \<Rightarrow> (AsyncRequest world, goerr option) state" where
  "incrementFailures E setters = do {
     r \<leftarrow> SetRequestResourceStatus E (setters @ [setterError requestWriter None]);
     State_Monad.return (Wrap r ErrFailedToSetStatus)
   }"

fun all_mappings_valid ::
  "AsyncRequest env \<Rightarrow> Response \<Rightarrow> Mapping list \<Rightarrow> (AsyncRequest world, bool) state" where
  "all_mappings_valid E r [] = State_Monad.return True"
| "all_mappings_valid E r (m # ms) = do {
     d \<leftarrow> GenerateRequestDetails E m (Some r);
     if details_ok d then all_mappings_valid E r ms else State_Monad.return False
   }"

definition shouldSetCache :: "AsyncRequest env \<Rightarrow> HttpDetails \<Rightarrow> (AsyncRequest world, bool) state" where
  "shouldSetCache E d = do {
     cr \<leftarrow> theObj;
     all_mappings_valid E (HttpResponse d) (Mappings (ForProvider cr))
   }"

definition appendExtraSetters ::
  "AsyncRequest env \<Rightarrow> HttpDetails \<Rightarrow> AsyncRequest setter list \<Rightarrow>
   (AsyncRequest world, AsyncRequest setter list) state" where
  "appendExtraSetters E d setters = do {
     let reset = (if ReqMethod (HttpRequest d) \<noteq> ''GET'' then [setterResetFailures] else []);
     c \<leftarrow> shouldSetCache E d;
     State_Monad.return (setters @ reset @ (if c then [setterCache E d] else []))
   }"

definition SetRequestStatus ::
  "AsyncRequest env \<Rightarrow> requestStatusHandler \<Rightarrow> (AsyncRequest world, goerr option) state" where
  "SetRequestStatus E h =
     (case HandlerError h of
        Some err \<Rightarrow> setErrorAndReturn E err
      | None \<Rightarrow> do {
          let d = HandlerDetails h;
          let setters = basic_setters requestWriter d @ ExtraSetters h;
          cr \<leftarrow> theObj;
          if IsHTTPError (StatusCode (HttpResponse d)) (AllowedStatusCodes (ForProvider cr))
          then incrementFailures E setters
          else do {
            all \<leftarrow> (if IsHTTPSuccess (StatusCode (HttpResponse d))
                    then appendExtraSetters E d setters else State_Monad.return setters);
            r \<leftarrow> SetRequestResourceStatus E all;
            State_Monad.return (Wrap r ErrFailedToSetStatus)
          }
        })"

subsection \<open>Facts\<close>

definition is_status_event :: "'cr event \<Rightarrow> bool" where
  "is_status_event e \<longleftrightarrow> is_kube_event e \<or> is_secret_read e \<or> (case e of ClockRead _ \<Rightarrow> True | _ \<Rightarrow> False)"

lemma status_event_simps [simp]:
  "is_status_event (KubeGet cr e)" "is_status_event (StatusUpdate cr e)" "is_status_event (ClockRead t)"
  "is_status_event (SecretRead n s)" "\<not> is_status_event (HttpSent c d e)" "\<not> is_status_event (Waited k)"
  "is_secret_read ev \<Longrightarrow> is_status_event ev" "is_kube_event ev \<Longrightarrow> is_status_event ev"
  by (auto simp: is_status_event_def is_kube_event_def is_secret_read_def)

lemma emits_all_mappings_valid: "emits is_secret_read (all_mappings_valid E r ms)"
  by (induction E r ms rule: all_mappings_valid.induct)
     (auto intro!: keeps_intros emits_same_emits [OF emits_GenerateRequestDetails])

lemma emits_shouldSetCache [keeps_intros]: "emits is_status_event (shouldSetCache E d)"
  unfolding shouldSetCache_def
  by (auto intro!: keeps_intros emits_mono [OF emits_all_mappings_valid])

lemma emits_status_setters [keeps_intros]:
  "emits is_status_event (setterCache E d)" "emits P setterResetFailures"
  unfolding setterCache_def setterResetFailures_def by (auto intro!: keeps_intros)

lemma emits_basic_setters: "list_all (emits P) (basic_setters W d)"
  by (auto simp: basic_setters_def intro!: keeps_intros)

lemma emits_NewStatusHandler [keeps_intros]: "emits is_status_event (NewStatusHandler E d err)"
  unfolding NewStatusHandler_def by (auto intro!: keeps_intros)

text \<open>The handler of a call has no extra setters but resets of the failure counter.\<close>

definition handler_ok :: "requestStatusHandler \<Rightarrow> bool" where
  "handler_ok h \<longleftrightarrow> set (ExtraSetters h) \<subseteq> {setterResetFailures}"

lemma handler_ok_reset [simp]: "handler_ok h \<Longrightarrow> handler_ok (handlerResetFailures h)"
  by (auto simp: handler_ok_def handlerResetFailures_def)

lemma NewStatusHandler_ok:
  "wp (NewStatusHandler E d err) (\<lambda>r w'. \<forall>h. r = Inr h \<longrightarrow> handler_ok h \<and> HandlerDetails h = d \<and>
     HandlerError h = err \<and> ExtraSetters h = []) w"
  by (auto simp: NewStatusHandler_def wp_simps Let_def handler_ok_def split: option.splits)

lemma emits_SetRequestStatus:
  assumes "retry_contract E" "handler_ok h"
  shows "emits is_status_event (SetRequestStatus E h)"
proof -
  have extra: "list_all (emits is_status_event) (ExtraSetters h)"
    using assms(2) by (auto simp: handler_ok_def list_all_iff intro!: keeps_intros)
  let ?all = "list_all (emits is_status_event)"
  let ?setters = "basic_setters requestWriter (HandlerDetails h) @ ExtraSetters h"
  have all: "wp (if b then appendExtraSetters E (HandlerDetails h) ?setters
      else State_Monad.return ?setters) (\<lambda>fs _. ?all fs) w" for b w
  proof -
    have "wp (shouldSetCache E (HandlerDetails h)) (\<lambda>c _. True) w" by (simp add: wp_def split: prod.splits)
    then show ?thesis
      using extra unfolding appendExtraSetters_def
      by (auto simp: wp_simps emits_basic_setters elim!: wp_mono intro!: keeps_intros)
  qed
  have err: "emits is_status_event (SetRequestResourceStatus E fs)" if "?all fs" for fs
    using emits_SetRequestResourceStatus [OF assms(1) that] by simp
  have app: "emits is_status_event (appendExtraSetters E d fs)" for d fs
    unfolding appendExtraSetters_def Let_def by (auto intro!: keeps_intros)
  have success: "emits is_status_event (do {
      fs \<leftarrow> (if b then appendExtraSetters E (HandlerDetails h) ?setters else State_Monad.return ?setters);
      r \<leftarrow> SetRequestResourceStatus E fs;
      State_Monad.return (Wrap r ErrFailedToSetStatus) })" for b
    by (rule keeps_bind_result [OF _ _ all]) (auto intro!: keeps_intros err app)
  have failure: "emits is_status_event (incrementFailures E ?setters)"
    "emits is_status_event (setErrorAndReturn E e)" for e
    unfolding incrementFailures_def setErrorAndReturn_def
    by (auto intro!: keeps_intros err extra simp: emits_basic_setters)
  show ?thesis
    unfolding SetRequestStatus_def Let_def
    by (intro keeps_option keeps_bind keeps_if success failure emits_theObj preorder_adds)
qed

end
