(* ===== verification/Poller.thy ===== *)
theory Poller
  imports SetStatus RequestGen
begin

text \<open>
  \<^verbatim>\<open>internal/service/request/polling/poller.go\<close>: the loop that polls a long-running operation within
  the budget of one reconcile, and the write that records a terminal failure.

  The loop spends one unit of fuel per poll and answers \<open>NotReturned\<close> when it has none left;
  \<open>Poll_returns\<close> shows how much is enough. The jq contexts change the map of the mutate response
  they are given, so \<open>Poll\<close> returns that map next to its result.
\<close>

record PollResult =
  Done :: bool
  OperationURL :: string
  PollResponse :: json
  TerminalErr :: string
  FailingPollResponse :: "Response option"
  OperationErrorMessage :: string
  ClearAnchor :: bool

definition emptyResult :: PollResult where
  "emptyResult = \<lparr>Done = False, OperationURL = [], PollResponse = JNilMap, TerminalErr = [],
     FailingPollResponse = None, OperationErrorMessage = [], ClearAnchor = False\<rparr>"

definition defaultReconcileBudget :: int where "defaultReconcileBudget = 2 * minute"

definition ResponseToMap :: "Response \<Rightarrow> json" where
  "ResponseToMap r = ConvertJSONStringsToMaps (http_response_json r)"

definition terminalMessageFromValue :: "json \<Rightarrow> string" where
  "terminalMessageFromValue v =
     (case v of
        JStr s \<Rightarrow> s
      | JObj _ \<Rightarrow> json_marshal v
      | JNilMap \<Rightarrow> json_marshal v
      | JArr _ \<Rightarrow> json_marshal v
      | _ \<Rightarrow> go_sprint v)"

text \<open>Empty for a usable absolute URL, else the reason.\<close>

definition validateOperationURL :: "string \<Rightarrow> string" where
  "validateOperationURL raw =
     (case url_parse raw of
        Inl err \<Rightarrow> err
      | Inr u \<Rightarrow>
          if Scheme u \<noteq> ''http'' \<and> Scheme u \<noteq> ''https'' then
            (if Scheme u = [] then ''missing scheme (expected http:// or https://)''
             else ''unsupported scheme '' @ go_quote (Scheme u) @ '' (expected http or https)'')
          else if Host u = [] then ''missing host''
          else [])"

definition emptyURLMessage :: "string \<Rightarrow> string" where
  "emptyURLMessage expr =
     ''polling.url '' @ go_quote expr @ '' resolved to an empty value. This mapping'' @ [CHR 0x27] @
     ''s operation appears to be synchronous (no long-running-operation identifier in the response). Remove the `polling` block from this mapping if the operation completes synchronously.''"

definition badURLMessage :: "string \<Rightarrow> string \<Rightarrow> string \<Rightarrow> string" where
  "badURLMessage expr url reason =
     ''polling.url '' @ go_quote expr @ '' resolved to '' @ go_quote url @
     '', which is not a valid absolute URL: '' @ reason @
     ''. Many GCP LRO APIs return a bare resource path in .response.body.name; prepend the base URL, e.g. '' @
     [CHR 0x27, CHR 0x22] @ ''https://<host>/<version>/'' @ [CHR 0x22] @ '' + .response.body.name'' @
     [CHR 0x27] @ ''.''"

definition timeoutMessage :: "int \<Rightarrow> string \<Rightarrow> string" where
  "timeoutMessage t url =
     ''polling timeout after '' @ duration_string t @ '' for operation '' @ url"

definition buildPollJQCtx :: "AsyncRequest env \<Rightarrow> AsyncRequest \<Rightarrow> json \<Rightarrow> json \<Rightarrow> json" where
  "buildPollJQCtx E cr mutateResponse pollResponse =
     GenerateRequestContextFromMap E cr mutateResponse pollResponse"

text \<open>The poll GET: no body, no headers, the operation URL as it is.\<close>

definition poll_call :: "string \<Rightarrow> http_call" where
  "poll_call url =
     \<lparr>CallMethod = ''GET'', CallURL = \<lparr>Encrypted = url, Decrypted = url\<rparr>,
      CallBody = \<lparr>Encrypted = [], Decrypted = []\<rparr>,
      CallHeaders = \<lparr>Encrypted = Some [], Decrypted = Some []\<rparr>\<rparr>"

text \<open>
  What a poll response says: \<open>None\<close> when the operation is still running. The maps are those the jq
  context was built from, as it left them.
\<close>

definition poll_outcome ::
  "AsyncRequest env \<Rightarrow> Polling \<Rightarrow> string \<Rightarrow> Response \<Rightarrow> json \<Rightarrow> json \<Rightarrow> (goerr + PollResult) option" where
  "poll_outcome E p url resp pollMap ctx =
     (case ParseBool E (PollDone p) ctx of
        Inl err \<Rightarrow> Some (Inl (Wrapped err ''failed to evaluate polling.done''))
      | Inr False \<Rightarrow> None
      | Inr True \<Rightarrow>
          let finished = Some (Inr (emptyResult\<lparr>Done := True, OperationURL := url, PollResponse := pollMap\<rparr>))
          in if PollError p = [] then finished
             else case Exists E (PollError p) ctx of
               Inl err \<Rightarrow> Some (Inl (Wrapped err ''failed to evaluate polling.error''))
             | Inr False \<Rightarrow> finished
             | Inr True \<Rightarrow>
                 (case ParseAny E (PollError p) ctx of
                    Inl err \<Rightarrow> Some (Inl (Wrapped err ''failed to evaluate polling.error''))
                  | Inr v \<Rightarrow> Some (Inr (emptyResult\<lparr>OperationURL := url, ClearAnchor := True,
                      FailingPollResponse := Some resp,
                      OperationErrorMessage := terminalMessageFromValue v\<rparr>))))"

text \<open>
  One iteration: it leaves the loop (\<open>Inl\<close> with the answer) or has waited and goes on (\<open>Inr\<close>). Deletion
  suppresses the test of the timeout, not that of the budget.
\<close>

definition timed_out :: "AsyncRequest env \<Rightarrow> bool \<Rightarrow> int \<Rightarrow> (AsyncRequest world, bool) state" where
  "timed_out E deleted deadline =
     (if deleted then State_Monad.return False
      else do { t \<leftarrow> timeNow E; State_Monad.return (deadline < t) })"

definition poll_step ::
  "AsyncRequest env \<Rightarrow> Polling \<Rightarrow> string \<Rightarrow> bool \<Rightarrow> int \<Rightarrow> int \<Rightarrow> json \<Rightarrow>
   (AsyncRequest world, (json \<times> (goerr + PollResult)) + json) state" where
  "poll_step E p url deleted deadline budgetEnd mr = do {
     late \<leftarrow> timed_out E deleted deadline;
     if late
     then State_Monad.return (Inl (mr, Inr (emptyResult\<lparr>OperationURL := url,
            TerminalErr := timeoutMessage (GetTimeout p) url\<rparr>)))
     else do {
       t \<leftarrow> timeNow E;
       if budgetEnd < t then State_Monad.return (Inl (mr, Inr (emptyResult\<lparr>OperationURL := url\<rparr>)))
       else do {
         (details, err) \<leftarrow> sendRequest E (poll_call url);
         case err of
           Some e \<Rightarrow> State_Monad.return (Inl (mr, Inl (Wrapped e ''polling GET failed'')))
         | None \<Rightarrow> do {
             cr \<leftarrow> theObj;
             let pollMap = ResponseToMap (HttpResponse details);
             let ctx = buildPollJQCtx E cr mr pollMap;
             let mr' = context_response mr ctx;
             case poll_outcome E p url (HttpResponse details) (context_poll_response pollMap ctx) ctx of
               Some r \<Rightarrow> State_Monad.return (Inl (mr', r))
             | None \<Rightarrow> do {
                 cancelled \<leftarrow> waitFor E (GetInterval p);
                 State_Monad.return (if cancelled then Inl (mr', Inl (ContextErr E)) else Inr mr')
               }
           }
       }
     }
   }"

primrec poll_loop ::
  "nat \<Rightarrow> AsyncRequest env \<Rightarrow> Polling \<Rightarrow> string \<Rightarrow> bool \<Rightarrow> int \<Rightarrow> int \<Rightarrow> json \<Rightarrow>
   (AsyncRequest world, json \<times> (goerr + PollResult)) state" where
  "poll_loop 0 E p url deleted deadline budgetEnd mr = State_Monad.return (mr, Inl NotReturned)"
| "poll_loop (Suc n) E p url deleted deadline budgetEnd mr = do {
     s \<leftarrow> poll_step E p url deleted deadline budgetEnd mr;
     case s of
       Inl answer \<Rightarrow> State_Monad.return answer
     | Inr mr' \<Rightarrow> poll_loop n E p url deleted deadline budgetEnd mr'
   }"

definition Poll ::
  "nat \<Rightarrow> AsyncRequest env \<Rightarrow> Mapping \<Rightarrow> json \<Rightarrow> (AsyncRequest world, json \<times> (goerr + PollResult)) state" where
  "Poll fuel E m mr =
     (case MapPolling m of
        None \<Rightarrow> State_Monad.return (mr, Inr (emptyResult\<lparr>Done := True\<rparr>))
      | Some p \<Rightarrow> do {
          cr \<leftarrow> theObj;
          let ctx = GenerateRequestContextFromMap E cr mr JNilMap;
          let mr' = context_response mr ctx;
          case ParseString E (PollURL p) ctx of
            Inl err \<Rightarrow> State_Monad.return (mr', Inl (Wrapped err ''failed to evaluate polling.url''))
          | Inr url \<Rightarrow>
              if url = [] then
                State_Monad.return (mr', Inr (emptyResult\<lparr>TerminalErr := emptyURLMessage (PollURL p)\<rparr>))
              else if validateOperationURL url \<noteq> [] then
                State_Monad.return (mr', Inr (emptyResult\<lparr>TerminalErr :=
                  badURLMessage (PollURL p) url (validateOperationURL url)\<rparr>))
              else do {
                cr2 \<leftarrow> theObj;
                started \<leftarrow> (case StartedAt (Status cr2) of
                   None \<Rightarrow> timeNow E | Some t \<Rightarrow> State_Monad.return t);
                now \<leftarrow> timeNow E;
                poll_loop fuel E p url (WasDeleted cr2) (started + GetTimeout p)
                  (now + defaultReconcileBudget) mr'
              }
        })"

subsection \<open>Recording a terminal failure\<close>

definition terminal_change :: "string \<Rightarrow> bool \<Rightarrow> AsyncRequest \<Rightarrow> AsyncRequest" where
  "terminal_change msg clearAnchor cr =
     (let cr1 = SetTerminalError msg cr;
          cr2 = (if clearAnchor then SetOperationStartedAt None (SetPollingResponse JNilMap cr1) else cr1)
      in SetObservedGeneration (Generation cr2) cr2)"

definition SetTerminalFailure ::
  "AsyncRequest env \<Rightarrow> string \<Rightarrow> bool \<Rightarrow> (AsyncRequest world, goerr option) state" where
  "SetTerminalFailure E msg clearAnchor =
     update_status E ''failed to get resource before setting terminal failure''
       (modifyObj (terminal_change msg clearAnchor))"

text \<open>A usable operation URL is one that parses, with an HTTP scheme and a host.\<close>

lemma validateOperationURL_iff:
  "validateOperationURL raw = [] \<longleftrightarrow>
     (\<exists>u. url_parse raw = Inr u \<and> (Scheme u = ''http'' \<or> Scheme u = ''https'') \<and> Host u \<noteq> [])"
proof -
  have "url_parse raw = Inl e \<Longrightarrow> e \<noteq> []" for e
    by (auto simp: url_parse_def url_error_def split: prod.splits sum.splits option.splits)
  then show ?thesis by (auto simp: validateOperationURL_def split: sum.splits)
qed

lemma ResponseToMap_not_nil [simp]: "ResponseToMap r \<noteq> JNilMap"
  by (simp add: ResponseToMap_def http_response_json_def)

subsection \<open>The interface of a poller\<close>

text \<open>The calls a poller makes: reading the clock, waiting, and GETs at usable absolute URLs.\<close>

definition is_poll_event :: "'cr event \<Rightarrow> bool" where
  "is_poll_event e \<longleftrightarrow>
     (case e of
        ClockRead _ \<Rightarrow> True
      | Waited _ \<Rightarrow> True
      | HttpSent c _ _ \<Rightarrow>
          c = poll_call (Decrypted (CallURL c)) \<and> validateOperationURL (Decrypted (CallURL c)) = []
      | _ \<Rightarrow> False)"

text \<open>
  The four shapes of a result: finished, still running, terminal (a message, nothing else), failed (with
  the failing response and the anchor to be cleared).
\<close>

definition result_ok :: "PollResult \<Rightarrow> bool" where
  "result_ok x \<longleftrightarrow>
     (TerminalErr x \<noteq> [] \<longrightarrow> \<not> Done x \<and> FailingPollResponse x = None) \<and>
     (ClearAnchor x \<longleftrightarrow> FailingPollResponse x \<noteq> None) \<and>
     (FailingPollResponse x \<noteq> None \<longrightarrow> \<not> Done x)"

definition answer_ok :: "goerr + PollResult \<Rightarrow> bool" where
  "answer_ok r = (case r of Inl _ \<Rightarrow> True | Inr x \<Rightarrow> result_ok x)"

lemma answer_ok_simps [simp]:
  "answer_ok (Inl e)" "answer_ok (Inr x) = result_ok x"
  "result_ok (emptyResult\<lparr>Done := b\<rparr>)" "result_ok (emptyResult\<lparr>TerminalErr := msg\<rparr>)"
  "result_ok (emptyResult\<lparr>OperationURL := url\<rparr>)"
  "result_ok (emptyResult\<lparr>OperationURL := url, TerminalErr := msg\<rparr>)"
  by (simp_all add: answer_ok_def result_ok_def emptyResult_def)

locale poller =
  fixes poll :: "Mapping \<Rightarrow> json \<Rightarrow> (AsyncRequest world, json \<times> (goerr + PollResult)) state"
  assumes poll_events: "emits_same is_poll_event (poll m mr)"
    and poll_answer: "wp (poll m mr) (\<lambda>(mr', r) _. answer_ok r) w"
    and poll_sync: "MapPolling m = None \<Longrightarrow>
      run_state (poll m mr) w = ((mr, Inr (emptyResult\<lparr>Done := True\<rparr>)), w)"
begin

text \<open>A poller leaves the resource alone and writes nothing.\<close>

lemma poll_object: "run_state (poll m mr) w = (r, w') \<Longrightarrow> Obj w' = Obj w"
  using poll_events [of m mr] by (auto simp: adds_same_def dest: keepsD)

lemma poll_no_write:
  "run_state (poll m mr) w = (r, w') \<Longrightarrow> Hist w' = es @ Hist w \<Longrightarrow> StatusUpdate cr err \<notin> set es"
  using keepsD [OF poll_events [of m mr]]
  by (fastforce simp: adds_same_def adds_def is_poll_event_def list_all_iff)

end

subsection \<open>The foreground poller\<close>

lemma poll_outcome_ok: "poll_outcome E p url resp pm ctx = Some r \<Longrightarrow> answer_ok r"
  by (auto simp: poll_outcome_def answer_ok_def result_ok_def emptyResult_def Let_def
           split: sum.splits bool.splits if_splits)

lemma poll_outcome_no_terminal:
  "poll_outcome E p url resp pm ctx = Some (Inr x) \<Longrightarrow> TerminalErr x = []"
  by (auto simp: poll_outcome_def emptyResult_def Let_def split: sum.splits bool.splits if_splits)

lemma poll_outcome_returned:
  "poll_outcome E p url resp pm ctx = Some (Inl e) \<Longrightarrow> \<exists>e' m. e = Wrapped e' m \<and>
     (ParseBool E (PollDone p) ctx = Inl e' \<or> Exists E (PollError p) ctx = Inl e' \<or>
      ParseAny E (PollError p) ctx = Inl e')"
  by (auto simp: poll_outcome_def Let_def split: sum.splits bool.splits if_splits)

lemma emits_poll_step:
  "validateOperationURL url = [] \<Longrightarrow>
   emits_same is_poll_event (poll_step E p url deleted deadline budgetEnd mr)"
  unfolding poll_step_def timed_out_def
  by (auto simp: is_poll_event_def poll_call_def intro!: keeps_intros)

lemma emits_poll_loop:
  "validateOperationURL url = [] \<Longrightarrow>
   emits_same is_poll_event (poll_loop n E p url deleted deadline budgetEnd mr)"
  by (induction n arbitrary: mr) (auto intro!: keeps_intros emits_poll_step)

lemma emits_Poll: "emits_same is_poll_event (Poll n E m mr)"
  unfolding Poll_def Let_def
  by (auto simp: is_poll_event_def intro!: keeps_intros emits_poll_loop)

text \<open>
  An invariant of the loop: what holds of an answer wherever one iteration leaves the loop holds of the
  loop's answer.
\<close>

lemma poll_loop_inv:
  assumes init: "I n w"
    and step: "\<And>k w mr. I (Suc k) w \<Longrightarrow> wp (poll_step E p url deleted deadline budgetEnd mr)
       (\<lambda>s w'. case s of Inl (mr', r) \<Rightarrow> Q r w' | Inr mr' \<Rightarrow> I k w') w"
    and fuel: "\<And>w. I 0 w \<Longrightarrow> Q (Inl NotReturned) w"
  shows "wp (poll_loop n E p url deleted deadline budgetEnd mr) (\<lambda>(mr', r) w'. Q r w') w"
  using init
proof (induction n arbitrary: mr w)
  case 0
  then show ?case by (simp add: wp_simps fuel)
next
  case (Suc n)
  show ?case
    unfolding poll_loop.simps wp_bind
    by (rule wp_mono [OF step [OF Suc.prems]]) (auto simp: wp_simps Suc.IH split: sum.splits)
qed

lemma poll_step_answer:
  "wp (poll_step E p url deleted deadline budgetEnd mr)
     (\<lambda>s w'. case s of Inl (mr', r) \<Rightarrow> answer_ok r | Inr mr' \<Rightarrow> True) w"
  unfolding poll_step_def timed_out_def
  by (auto simp: wp_simps Let_def split: option.splits prod.splits dest!: poll_outcome_ok)

lemma poll_loop_answer:
  "wp (poll_loop n E p url deleted deadline budgetEnd mr) (\<lambda>(mr', r) _. answer_ok r) w"
  by (rule poll_loop_inv [where I = "\<lambda>_ _. True"])
     (auto intro: wp_mono [OF poll_step_answer] split: sum.splits)

lemma Poll_answer: "wp (Poll n E m mr) (\<lambda>(mr', r) _. answer_ok r) w"
  unfolding Poll_def Let_def
  by (auto simp: wp_simps Let_def poll_loop_answer split: option.splits sum.splits)

interpretation foreground: poller "Poll n E" for n E
proof
  show "emits_same is_poll_event (Poll n E m mr)" for m mr by (rule emits_Poll)
  show "wp (Poll n E m mr) (\<lambda>(mr', r) _. answer_ok r) w" for m mr w by (rule Poll_answer)
  show "MapPolling m = None \<Longrightarrow> run_state (Poll n E m mr) w = ((mr, Inr (emptyResult\<lparr>Done := True\<rparr>)), w)"
    for m mr w by (simp add: Poll_def)
qed

subsection \<open>The loop returns\<close>

lemma poll_outcome_proper:
  assumes "calls_return E" "poll_outcome E p url resp pm ctx = Some r"
  shows "proper_sum r"
proof (cases r)
  case (Inl e)
  with poll_outcome_returned assms(2) obtain e' m where e: "e = Wrapped e' m"
    "ParseBool E (PollDone p) ctx = Inl e' \<or> Exists E (PollError p) ctx = Inl e' \<or>
     ParseAny E (PollError p) ctx = Inl e'" by blast
  with jq_returns [OF assms(1)] have "\<not> has_not_returned e'" by (metis proper_simps(4))
  with e(1) Inl show ?thesis by simp
qed simp

lemma timed_out_spec:
  "clock_contract E \<Longrightarrow>
   wp (timed_out E deleted deadline)
     (\<lambda>late w'. Obj w' = Obj w \<and> Clock E (Hist w) \<le> Clock E (Hist w') \<and> (late \<longrightarrow> \<not> deleted)) w"
  by (auto simp: timed_out_def wp_simps Let_def clock_contract_def)

lemma poll_step_returns:
  assumes ret: "calls_return E" and clock: "clock_contract E"
  shows "wp (poll_step E p url deleted deadline budgetEnd mr)
    (\<lambda>s w'. case s of
        Inl (mr', r) \<Rightarrow> proper_sum r
      | Inr mr' \<Rightarrow> Clock E (Hist w) \<le> budgetEnd \<and> Clock E (Hist w) + GetInterval p \<le> Clock E (Hist w')) w"
proof -
  have le: "Clock E h \<le> Clock E (e # h)" "Clock E h + d \<le> Clock E (Waited d # h)" for h e d
    using clock by (simp_all add: clock_contract_def)
  have http: "SendHTTP E h c = (d, Some e) \<Longrightarrow> \<not> has_not_returned e" for h c d e
    using ret unfolding calls_return_def by (metis proper_simps(2) snd_conv)
  have ctx: "\<not> has_not_returned (ContextErr E)" using ret by (simp add: calls_return_def)
  have step: "Clock E h + GetInterval p \<le>
      Clock E (Waited (GetInterval p) # HttpSent c d e # ClockRead t # h)" for h t c d e
    using le(1) [of h "ClockRead t"] le(1) [of "ClockRead t # h" "HttpSent c d e"]
      le(2) [of "HttpSent c d e # ClockRead t # h" "GetInterval p"] by linarith
  have step': "c \<le> Clock E h \<Longrightarrow> c + GetInterval p \<le>
      Clock E (Waited (GetInterval p) # HttpSent q d e # ClockRead t # h)" for c h t q d e
    using step [of h q d e t] by linarith
  show ?thesis
    unfolding poll_step_def wp_bind
    by (rule wp_mono [OF timed_out_spec [OF clock]])
       (auto simp: wp_simps Let_def ctx http step' split: option.splits prod.splits
             dest!: poll_outcome_proper [OF ret])
qed

lemma poll_loop_returns:
  assumes env: "calls_return E" "clock_contract E"
    and n: "budgetEnd < Clock E (Hist w) + int n * GetInterval p"
  shows "wp (poll_loop (Suc n) E p url deleted deadline budgetEnd mr) (\<lambda>(mr', r) _. proper_sum r) w"
proof (rule poll_loop_inv [where Q = "\<lambda>r _. proper_sum r" and
    I = "\<lambda>k w. k \<noteq> 0 \<and> budgetEnd < Clock E (Hist w) + (int k - 1) * GetInterval p"])
  show "Suc n \<noteq> 0 \<and> budgetEnd < Clock E (Hist w) + (int (Suc n) - 1) * GetInterval p" using n by simp
  fix k and w :: "AsyncRequest world" and mr
  assume I: "Suc k \<noteq> 0 \<and> budgetEnd < Clock E (Hist w) + (int (Suc k) - 1) * GetInterval p"
  have next_k: "k \<noteq> 0 \<and> budgetEnd < c' + (int k - 1) * GetInterval p"
    if "Clock E (Hist w) \<le> budgetEnd" "Clock E (Hist w) + GetInterval p \<le> c'" for c'
    using I that by (cases "k = 0") (auto simp: algebra_simps)
  show "wp (poll_step E p url deleted deadline budgetEnd mr) (\<lambda>s w'. case s of Inl (mr', r) \<Rightarrow> proper_sum r
      | Inr mr' \<Rightarrow> k \<noteq> 0 \<and> budgetEnd < Clock E (Hist w') + (int k - 1) * GetInterval p) w"
    by (rule wp_mono [OF poll_step_returns [OF env]]) (use next_k in \<open>auto split: sum.splits\<close>)
qed simp

text \<open>The fuel that is enough: more polls than intervals fit in the budget.\<close>

definition enough_fuel :: "nat \<Rightarrow> Polling \<Rightarrow> bool" where
  "enough_fuel n p \<longleftrightarrow> defaultReconcileBudget < (int n - 1) * GetInterval p \<and> 0 < n"

lemma Poll_returns_proper:
  assumes env: "calls_return E" "clock_contract E"
    and fuel: "\<And>p. MapPolling m = Some p \<Longrightarrow> enough_fuel n p"
  shows "wp (Poll n E m mr) (\<lambda>(mr', r) _. proper_sum r) w"
proof (cases "MapPolling m")
  case None
  then show ?thesis by (simp add: Poll_def wp_simps)
next
  case (Some p)
  with fuel obtain k where n: "n = Suc k" "defaultReconcileBudget < int k * GetInterval p"
    by (cases n) (auto simp: enough_fuel_def)
  have loop: "wp (poll_loop (Suc k) E p url del dl (Clock E h + defaultReconcileBudget) mr')
      (\<lambda>(mr', r) _. proper_sum r) (w\<lparr>Hist := ClockRead (Clock E h) # h\<rparr>)" for url del dl h mr'
    using n(2) env(2) by (intro poll_loop_returns env) (simp add: clock_contract_def add_strict_mono add_le_less_mono)
  have str: "ParseString E q ctx = Inl e \<Longrightarrow> \<not> has_not_returned e" for q ctx e
    using jq_returns(3) [OF env(1)] by (metis proper_simps(4))
  show ?thesis
    unfolding Poll_def Some n(1)
    by (auto simp: wp_simps Let_def str split: option.splits sum.splits
             intro!: loop loop [where h = "ClockRead _ # Hist w", simplified] simp del: poll_loop.simps)
qed

subsection \<open>What an answer says\<close>

text \<open>
  An answer that is finished or failed was given by the last call: a poll of the operation whose
  response made \<^verbatim>\<open>polling.done\<close> true.
\<close>

definition last_poll_done ::
  "AsyncRequest env \<Rightarrow> Polling \<Rightarrow> string \<Rightarrow> PollResult \<Rightarrow> AsyncRequest world \<Rightarrow> bool" where
  "last_poll_done E p url x w' \<longleftrightarrow>
     (\<exists>d h mr. Hist w' = HttpSent (poll_call url) d None # h \<and>
        ParseBool E (PollDone p) (buildPollJQCtx E (Obj w') mr (ResponseToMap (HttpResponse d))) = Inr True \<and>
        (FailingPollResponse x \<noteq> None \<longrightarrow> FailingPollResponse x = Some (HttpResponse d)))"

definition answer_sound ::
  "AsyncRequest env \<Rightarrow> Polling \<Rightarrow> string \<Rightarrow> goerr + PollResult \<Rightarrow> AsyncRequest world \<Rightarrow> bool" where
  "answer_sound E p url r w' \<longleftrightarrow>
     (\<forall>x. r = Inr x \<longrightarrow> Done x \<or> FailingPollResponse x \<noteq> None \<longrightarrow> last_poll_done E p url x w')"

lemma answer_sound_simps [simp]:
  "answer_sound E p url (Inl e) w'" "answer_sound E p url (Inr (emptyResult\<lparr>OperationURL := u\<rparr>)) w'"
  "answer_sound E p url (Inr (emptyResult\<lparr>OperationURL := u, TerminalErr := msg\<rparr>)) w'"
  by (simp_all add: answer_sound_def emptyResult_def)

lemma poll_outcome_sound:
  assumes "poll_outcome E p url resp pm ctx = Some (Inr x)"
  shows "ParseBool E (PollDone p) ctx = Inr True"
    and "FailingPollResponse x \<noteq> None \<Longrightarrow> FailingPollResponse x = Some resp"
  using assms
  by (auto simp: poll_outcome_def emptyResult_def Let_def split: sum.splits bool.splits if_splits)

lemma poll_step_sound:
  "wp (poll_step E p url deleted deadline budgetEnd mr)
     (\<lambda>s w'. case s of Inl (mr', r) \<Rightarrow> answer_sound E p url r w' | Inr mr' \<Rightarrow> True) w"
proof -
  have got: "answer_sound E p url r (w\<lparr>Hist := HttpSent (poll_call url) d None # h\<rparr>)"
    if "poll_outcome E p url (HttpResponse d) pm
        (buildPollJQCtx E (Obj w) mr (ResponseToMap (HttpResponse d))) = Some r" for r d pm h
    unfolding answer_sound_def last_poll_done_def
  proof (intro allI impI)
    fix x assume "r = Inr x"
    with that poll_outcome_sound show "\<exists>d' h' mr'. Hist (w\<lparr>Hist := HttpSent (poll_call url) d None # h\<rparr>) =
        HttpSent (poll_call url) d' None # h' \<and>
        ParseBool E (PollDone p) (buildPollJQCtx E (Obj (w\<lparr>Hist := HttpSent (poll_call url) d None # h\<rparr>)) mr'
          (ResponseToMap (HttpResponse d'))) = Inr True \<and>
        (FailingPollResponse x \<noteq> None \<longrightarrow> FailingPollResponse x = Some (HttpResponse d'))"
      by (intro exI [of _ d] exI [of _ h] exI [of _ mr]) auto
  qed
  show ?thesis
    unfolding poll_step_def timed_out_def
    by (auto simp: wp_simps Let_def split: option.splits prod.splits intro: got)
qed

lemma poll_loop_sound:
  "wp (poll_loop n E p url deleted deadline budgetEnd mr) (\<lambda>(mr', r) w'. answer_sound E p url r w') w"
  by (rule poll_loop_inv [where I = "\<lambda>_ _. True"])
     (auto intro: wp_mono [OF poll_step_sound] split: sum.splits)

lemma Poll_sound:
  assumes "MapPolling m = Some p"
  shows "wp (Poll n E m mr) (\<lambda>(mr', r) w'. \<exists>url. answer_sound E p url r w') w"
proof -
  have loop: "wp (poll_loop n E p url del dl be mr') (\<lambda>(mr', r) w'. \<exists>url. answer_sound E p url r w') v"
    for url del dl be mr' v by (rule wp_mono [OF poll_loop_sound]) auto
  have none: "answer_sound E p [] (Inr (emptyResult\<lparr>TerminalErr := msg\<rparr>)) w'" for msg w'
    by (simp add: answer_sound_def emptyResult_def)
  show ?thesis
    unfolding Poll_def assms
    by (auto simp: wp_simps Let_def loop intro: none split: option.splits sum.splits)
qed

text \<open>Deletion suppresses the timeout: no answer of the loop is terminal then.\<close>

lemma poll_loop_deleted:
  "wp (poll_loop n E p url True deadline budgetEnd mr) (\<lambda>(mr', r) w'. \<forall>x. r = Inr x \<longrightarrow> TerminalErr x = []) w"
proof (rule poll_loop_inv [where I = "\<lambda>_ _. True"])
  show "wp (poll_step E p url True deadline budgetEnd mr)
      (\<lambda>s w'. case s of Inl (mr', r) \<Rightarrow> \<forall>x. r = Inr x \<longrightarrow> TerminalErr x = [] | Inr mr' \<Rightarrow> True) w" for w mr
    unfolding poll_step_def timed_out_def
    by (auto simp: wp_simps Let_def emptyResult_def split: option.splits prod.splits
             dest: poll_outcome_no_terminal)
qed simp_all

lemma Poll_deleted_terminal:
  assumes "WasDeleted (Obj w)"
  shows "wp (Poll n E m mr) (\<lambda>(mr', r) w'. \<forall>x. r = Inr x \<longrightarrow> TerminalErr x \<noteq> [] \<longrightarrow> w' = w) w"
proof -
  have loop: "wp (poll_loop n E p url True dl be mr')
      (\<lambda>(mr', r) w'. \<forall>x. r = Inr x \<longrightarrow> TerminalErr x \<noteq> [] \<longrightarrow> w' = w) v" for p url dl be mr' v
    by (rule wp_mono [OF poll_loop_deleted]) auto
  show ?thesis
    unfolding Poll_def using assms
    by (auto simp: wp_simps Let_def loop split: option.splits sum.splits)
qed

subsection \<open>How many polls\<close>

definition calls :: "'cr world \<Rightarrow> int" where
  "calls w = int (length (filter (\<lambda>e. case e of HttpSent _ _ _ \<Rightarrow> True | _ \<Rightarrow> False) (Hist w)))"

lemma calls_simps [simp]:
  "calls (w\<lparr>Hist := HttpSent c d e # h\<rparr>) = calls (w\<lparr>Hist := h\<rparr>) + 1"
  "calls (w\<lparr>Hist := ClockRead t # h\<rparr>) = calls (w\<lparr>Hist := h\<rparr>)"
  "calls (w\<lparr>Hist := Waited k # h\<rparr>) = calls (w\<lparr>Hist := h\<rparr>)"
  "calls (w\<lparr>Hist := Hist w\<rparr>) = calls w"
  by (simp_all add: calls_def)

text \<open>
  One call more than intervals fit between the clock's reading at the start and the end of the budget.
\<close>

definition few_calls :: "AsyncRequest env \<Rightarrow> int \<Rightarrow> int \<Rightarrow> AsyncRequest world \<Rightarrow> AsyncRequest world \<Rightarrow> bool" where
  "few_calls E budgetEnd interval w w' \<longleftrightarrow>
     calls w' = calls w \<or> (calls w' - calls w - 1) * interval \<le> budgetEnd - Clock E (Hist w)"

lemma timed_out_calls:
  "clock_contract E \<Longrightarrow>
   wp (timed_out E deleted deadline)
     (\<lambda>late w'. calls w' = calls w \<and> Clock E (Hist w) \<le> Clock E (Hist w')) w"
  by (auto simp: timed_out_def wp_simps Let_def clock_contract_def)

lemma poll_step_calls:
  assumes clock: "clock_contract E"
  shows "wp (poll_step E p url deleted deadline budgetEnd mr)
    (\<lambda>s w'. case s of
        Inl _ \<Rightarrow> calls w' = calls w \<or> (calls w' = calls w + 1 \<and> Clock E (Hist w) \<le> budgetEnd)
      | Inr _ \<Rightarrow> calls w' = calls w + 1 \<and> Clock E (Hist w) \<le> budgetEnd \<and>
          Clock E (Hist w) + GetInterval p \<le> Clock E (Hist w')) w"
proof -
  have le: "Clock E h \<le> Clock E (e # h)" "Clock E h + d \<le> Clock E (Waited d # h)" for h e d
    using clock by (simp_all add: clock_contract_def)
  have step: "c \<le> Clock E h \<Longrightarrow> c + GetInterval p \<le>
      Clock E (Waited (GetInterval p) # HttpSent q d e # ClockRead t # h)" for c h t q d e
    using le(1) [of h "ClockRead t"] le(1) [of "ClockRead t # h" "HttpSent q d e"]
      le(2) [of "HttpSent q d e # ClockRead t # h" "GetInterval p"] by linarith
  show ?thesis
    unfolding poll_step_def wp_bind
    by (rule wp_mono [OF timed_out_calls [OF clock]])
       (auto simp: wp_simps Let_def step split: option.splits prod.splits)
qed

lemma poll_loop_calls:
  assumes "clock_contract E"
  shows "wp (poll_loop n E p url deleted deadline budgetEnd mr)
    (\<lambda>_ w'. few_calls E budgetEnd (GetInterval p) w w') w"
proof (induction n arbitrary: mr w)
  case 0
  then show ?case by (simp add: wp_simps few_calls_def)
next
  case (Suc n)
  have more: "few_calls E budgetEnd (GetInterval p) w w'"
    if "calls v = calls w + 1" "Clock E (Hist w) \<le> budgetEnd"
      "Clock E (Hist w) + GetInterval p \<le> Clock E (Hist v)" "few_calls E budgetEnd (GetInterval p) v w'"
    for v w'
    using that by (auto simp: few_calls_def algebra_simps)
  have one: "few_calls E budgetEnd (GetInterval p) w v"
    if "calls v = calls w \<or> (calls v = calls w + 1 \<and> Clock E (Hist w) \<le> budgetEnd)" for v
    using that by (auto simp: few_calls_def)
  show ?case
    unfolding poll_loop.simps wp_bind
    by (rule wp_mono [OF poll_step_calls [OF assms]])
       (auto simp: wp_simps one split: sum.splits intro!: wp_mono [OF Suc] intro: more)
qed

lemma Poll_calls:
  assumes "clock_contract E" "MapPolling m = Some p"
  shows "wp (Poll n E m mr) (\<lambda>_ w'. calls w' = calls w \<or>
    (calls w' - calls w - 1) * GetInterval p \<le> defaultReconcileBudget) w"
proof -
  have loop: "wp (poll_loop n E p url del dl (Clock E h + defaultReconcileBudget) mr')
      (\<lambda>_ w'. calls w' = calls w \<or> (calls w' - calls w - 1) * GetInterval p \<le> defaultReconcileBudget) v"
    if "calls v = calls w" "Hist v = ClockRead (Clock E h) # h" for url del dl h mr' v
    using that assms(1)
    by (auto intro!: wp_mono [OF poll_loop_calls] simp: few_calls_def clock_contract_def)
       (smt (verit, best))
  show ?thesis
    unfolding Poll_def assms(2)
    by (auto simp: wp_simps Let_def loop split: option.splits sum.splits)
qed

subsection \<open>Timeouts\<close>

text \<open>
  Past the timeout, counted from the recorded start, the poll ends without a call.
\<close>

lemma Poll_times_out:
  assumes clock: "clock_contract E" and n: "0 < n"
    and p: "MapPolling m = Some p" "\<not> WasDeleted (Obj w)" "StartedAt (Status (Obj w)) = Some since"
    and late: "since + GetTimeout p < Clock E (Hist w)"
    and url: "ParseString E (PollURL p) (GenerateRequestContextFromMap E (Obj w) mr JNilMap) = Inr url"
      "url \<noteq> []" "validateOperationURL url = []"
  shows "wp (Poll n E m mr) (\<lambda>(mr', r) w'.
    r = Inr (emptyResult\<lparr>OperationURL := url, TerminalErr := timeoutMessage (GetTimeout p) url\<rparr>) \<and>
    calls w' = calls w \<and> Obj w' = Obj w) w"
proof -
  obtain k where k: "n = Suc k" using n by (cases n) auto
  have "Clock E (Hist w) \<le> Clock E (ClockRead t # Hist w)" for t
    using clock by (simp add: clock_contract_def)
  with late have "since + GetTimeout p < Clock E (ClockRead t # Hist w)" for t
    by (meson less_le_trans)
  then show ?thesis
    unfolding Poll_def k using p url
    by (simp add: wp_simps Let_def poll_step_def timed_out_def)
qed

end
