(* ===== verification/CallOrder.thy ===== *)
theory CallOrder
  imports StatusHandler Poller
begin

text \<open>
  The order of the calls of an action. Both kinds of resource have an anchor; \<open>raw\<close> reads it from the resource.
\<close>

subsection \<open>Kinds of calls\<close>

text \<open>
  The calls that settle an operation or resume one: reads and writes of the resource, the clock, polls.
\<close>

definition is_resume_event :: "'cr event \<Rightarrow> bool" where
  "is_resume_event e \<longleftrightarrow> is_kube_event e \<or> is_poll_event e"

lemma resume_event_simps [simp]:
  "is_resume_event (KubeGet cr e)" "is_resume_event (StatusUpdate cr e)" "is_resume_event (ClockRead t)"
  "is_kube_event ev \<Longrightarrow> is_resume_event ev" "is_poll_event ev \<Longrightarrow> is_resume_event ev"
  by (auto simp: is_resume_event_def is_kube_event_def is_poll_event_def)

definition no_call :: "'cr event \<Rightarrow> bool" where
  "no_call e \<longleftrightarrow> (case e of HttpSent _ _ _ \<Rightarrow> False | _ \<Rightarrow> True)"

lemma no_call_simps [simp]:
  "no_call (KubeGet cr e)" "no_call (StatusUpdate cr e)" "no_call (ClockRead t)" "\<not> no_call (HttpSent c d e)"
  "is_status_event ev \<Longrightarrow> no_call ev" "is_secret_event ev \<Longrightarrow> no_call ev" "is_secret_read ev \<Longrightarrow> no_call ev"
  "is_kube_event ev \<Longrightarrow> no_call ev"
  by (auto simp: no_call_def is_status_event_def is_kube_event_def is_secret_event_def is_secret_read_def
           split: event.splits)

text \<open>No call to the HTTP API but polls.\<close>

definition harmless :: "'cr event \<Rightarrow> bool" where
  "harmless e \<longleftrightarrow> no_call e \<or> is_poll_event e"

lemma harmless_simps [simp]:
  "no_call e \<Longrightarrow> harmless e" "is_poll_event e \<Longrightarrow> harmless e" "is_resume_event e \<Longrightarrow> harmless e"
  by (auto simp: harmless_def is_resume_event_def is_kube_event_def split: event.splits)

lemma emits_harmlessI:
  "emits no_call m \<Longrightarrow> emits harmless m" "emits is_status_event m \<Longrightarrow> emits harmless m"
  "emits is_resume_event m \<Longrightarrow> emits harmless m"
  by (erule emits_mono; simp)+

lemma keeps_wpI: "keeps R m \<Longrightarrow> wp m (\<lambda>_ w'. R w w') w"
  by (simp add: keeps_wp)

subsection \<open>The order of the calls of an action\<close>

text \<open>
  The calls of one action in the order they are made: at most one call of its own; then, only once the
  anchor has been written, polls.
\<close>

datatype stage = Unsent | Sent | Anchored

fun stage_step :: "('cr \<Rightarrow> string option) \<Rightarrow> stage \<Rightarrow> 'cr event \<Rightarrow> stage option" where
  "stage_step raw Unsent (HttpSent c d e) = Some Sent"
| "stage_step raw Sent (HttpSent c d e) = None"
| "stage_step raw Anchored (HttpSent c d e) =
     (if is_poll_event (HttpSent c d e :: 'cr event) then Some Anchored else None)"
| "stage_step raw Sent (StatusUpdate cr None) = Some (if raw cr \<noteq> None then Anchored else Sent)"
| "stage_step raw s _ = Some s"

fun stages :: "('cr \<Rightarrow> string option) \<Rightarrow> stage \<Rightarrow> 'cr event list \<Rightarrow> stage option" where
  "stages raw s [] = Some s"
| "stages raw s (e # es) = (case stage_step raw s e of None \<Rightarrow> None | Some t \<Rightarrow> stages raw t es)"

lemma stages_append: "stages raw s (xs @ ys) = Option.bind (stages raw s xs) (\<lambda>t. stages raw t ys)"
  by (induction raw s xs rule: stages.induct) (auto split: option.splits)

lemma stages_Anchored: "list_all harmless es \<Longrightarrow> stages raw Anchored es = Some Anchored"
proof (induction es)
  case (Cons e es)
  then have "stage_step raw Anchored e = Some Anchored"
    by (cases e) (auto simp: harmless_def)
  with Cons show ?case by simp
qed simp

lemma stages_no_call:
  "list_all no_call es \<Longrightarrow> \<exists>t. stages raw s es = Some t \<and> (s = Unsent \<longleftrightarrow> t = Unsent)"
proof (induction es arbitrary: s)
  case (Cons e es)
  have "\<exists>u. stage_step raw s e = Some u \<and> (s = Unsent \<longleftrightarrow> u = Unsent)"
    using Cons.prems by (cases "(raw, s, e)" rule: stage_step.cases) auto
  then obtain u where u: "stage_step raw s e = Some u" "s = Unsent \<longleftrightarrow> u = Unsent" by blast
  from Cons.prems Cons.IH [of u] obtain t where "stages raw u es = Some t" "u = Unsent \<longleftrightarrow> t = Unsent" by auto
  with u show ?case by auto
qed simp

text \<open>\<open>staged raw s w w'\<close>: the calls made between \<open>w\<close> and \<open>w'\<close> keep the order, from stage \<open>s\<close> on.\<close>

definition staged ::
  "('cr \<Rightarrow> string option) \<Rightarrow> stage \<Rightarrow> 'cr world \<Rightarrow> 'cr world \<Rightarrow> stage set" where
  "staged raw s w w' = {t. \<exists>es. Hist w' = es @ Hist w \<and> stages raw s (rev es) = Some t}"

lemma staged_trans: "t \<in> staged raw s u v \<Longrightarrow> x \<in> staged raw t v w \<Longrightarrow> x \<in> staged raw s u w"
  unfolding staged_def by (auto simp: stages_append)

lemma staged_adds:
  "adds P w w' \<Longrightarrow> (\<And>e. P e \<Longrightarrow> no_call e) \<Longrightarrow> \<exists>t \<in> staged raw s w w'. s = Unsent \<longleftrightarrow> t = Unsent"
proof -
  assume "adds P w w'" and P: "\<And>e. P e \<Longrightarrow> no_call e"
  then obtain es where es: "Hist w' = es @ Hist w" "list_all P es" by (auto simp: adds_def)
  have "list_all no_call (rev es)" using es(2) P by (auto simp: list_all_iff)
  from stages_no_call [OF this, of raw s] es(1) show ?thesis by (auto simp: staged_def)
qed

lemma staged_harmless: "adds harmless w w' \<Longrightarrow> Anchored \<in> staged raw Anchored w w'"
  unfolding adds_def staged_def by (auto intro!: stages_Anchored)

text \<open>An accepted write of an anchor, after a call, opens the way to the polls.\<close>

lemma staged_anchor:
  assumes "Hist w' = StatusUpdate cr None # es @ Hist w" "list_all no_call es" "raw cr \<noteq> None" "s \<noteq> Unsent"
  shows "Anchored \<in> staged raw s w w'"
proof -
  have "list_all no_call (rev es)" using assms(2) by simp
  then obtain t where t: "stages raw s (rev es) = Some t" "t \<noteq> Unsent"
    using stages_no_call [of "rev es" raw s] assms(4) by auto
  have "stage_step raw t (StatusUpdate cr None) = Some Anchored"
    using assms(3) t(2) by (cases t) auto
  with t(1) have "stages raw s (rev (StatusUpdate cr None # es)) = Some Anchored" by (simp add: stages_append)
  with assms(1) show ?thesis unfolding staged_def by (auto intro!: exI [of _ "StatusUpdate cr None # es"])
qed

lemma staged_no_call:
  "adds P w w' \<Longrightarrow> (\<And>e. P e \<Longrightarrow> no_call e) \<Longrightarrow> t \<in> staged raw s u w \<Longrightarrow> staged raw s u w' \<noteq> {}"
  using staged_adds [of P w w' raw t] staged_trans [of t raw s u w] by blast

end
