(* ===== verification/Deploy.thy ===== *)
theory Deploy
  imports CallOrder
begin

text \<open>
  \<^verbatim>\<open>internal/service/request/deployaction.go\<close>: firing a mapping's call, or resuming the operation a
  persisted anchor stands for; recording the anchor before the first poll; acting on the poll's
  result. \<open>DeployAction\<close> takes its poller as an argument, as the code does; the controllers pass
  none, and the code then uses \<open>Poll\<close>.
\<close>

subsection \<open>Writes to the status\<close>

text \<open>\<open>persistPollFailureResponse\<close>: the failing response, stamped as the outcome of a POST.\<close>

definition failure_change :: "Response \<Rightarrow> AsyncRequest \<Rightarrow> AsyncRequest" where
  "failure_change r cr =
     SetRequestDetails [] ''POST'' [] None
       (SetStatusCode (StatusCode r) (SetHeaders (Headers r) (SetBody (Body r) cr)))"

definition persistPollFailureResponse ::
  "AsyncRequest env \<Rightarrow> Response \<Rightarrow> (AsyncRequest world, goerr option) state" where
  "persistPollFailureResponse E r =
     update_status E ''failed to get resource before persisting poll failure response''
       (modifyObj (failure_change r))"

definition clear_change :: "AsyncRequest \<Rightarrow> AsyncRequest" where
  "clear_change cr = SetOperationStartedAt None (SetPollingResponse JNilMap cr)"

definition clearAnchorAfterPollFailure :: "AsyncRequest env \<Rightarrow> (AsyncRequest world, goerr option) state" where
  "clearAnchorAfterPollFailure E =
     update_status E ''failed to get resource before clearing anchor after poll failure''
       (modifyObj clear_change)"

text \<open>\<open>persistPollingResponse\<close>: the anchor, and the start of the operation when none is recorded.\<close>

definition anchor_change :: "AsyncRequest env \<Rightarrow> json \<Rightarrow> AsyncRequest setter" where
  "anchor_change E mr = do {
     modifyObj (SetPollingResponse mr);
     cr \<leftarrow> theObj;
     if StartedAt (Status cr) = None
     then do { now \<leftarrow> timeNow E; modifyObj (SetOperationStartedAt (Some now)) }
     else State_Monad.return ()
   }"

definition persistPollingResponse ::
  "AsyncRequest env \<Rightarrow> json \<Rightarrow> (AsyncRequest world, goerr option) state" where
  "persistPollingResponse E mr =
     update_status E ''failed to get resource before setting polling response'' (anchor_change E mr)"

definition started_change :: "AsyncRequest env \<Rightarrow> AsyncRequest setter" where
  "started_change E = do { now \<leftarrow> timeNow E; modifyObj (SetOperationStartedAt (Some now)) }"

definition persistOperationStartedAtNow :: "AsyncRequest env \<Rightarrow> (AsyncRequest world, goerr option) state" where
  "persistOperationStartedAtNow E =
     update_status E ''failed to get resource before setting operation startedAt'' (started_change E)"

subsection \<open>The external reference\<close>

text \<open>
  The jq context is converted in place, so a retried closure sees the maps as its last run left them.
\<close>

definition buildExternalRefJQCtx :: "AsyncRequest \<Rightarrow> json \<Rightarrow> json \<Rightarrow> json" where
  "buildExternalRefJQCtx cr mutateResponse pollResponse =
     ConvertJSONStringsToMaps (JObj
       ([(''status'', GetStatusMap cr), (''response'', mutateResponse)] @
        (if pollResponse = JNilMap then [] else [(''poll'', JObj [(''response'', pollResponse)])])))"

definition externalRefContext :: "(AsyncRequest world, json) state" where
  "externalRefContext = do {
     cr \<leftarrow> theObj;
     (mr, pr) \<leftarrow> captured;
     let ctx = buildExternalRefJQCtx cr mr pr;
     capture (context_response mr ctx, context_poll_response pr ctx);
     State_Monad.return ctx
   }"

definition ErrGetBeforeExternalRef :: string where
  "ErrGetBeforeExternalRef = ''failed to get resource before setting externalRef''"

definition completion_change :: "AsyncRequest env \<Rightarrow> AsyncRequest setter" where
  "completion_change E = do {
     modifyObj clear_change;
     cr \<leftarrow> theObj;
     let expr = ExternalRefExpr (ForProvider cr);
     if expr = [] then State_Monad.return ()
     else do {
       ctx \<leftarrow> externalRefContext;
       modifyObj (case ParseString E expr ctx of
           Inl _ \<Rightarrow> id
         | Inr v \<Rightarrow> if v \<noteq> [] then SetExternalRef v else id)
     }
   }"

definition extractAndPersistExternalRef ::
  "AsyncRequest env \<Rightarrow> json \<Rightarrow> json \<Rightarrow> (AsyncRequest world, goerr option) state" where
  "extractAndPersistExternalRef E mr pr = do {
     capture (mr, pr);
     update_status E ErrGetBeforeExternalRef (completion_change E)
   }"

definition extract_attempt :: "AsyncRequest env \<Rightarrow> string \<Rightarrow> (AsyncRequest world, goerr option) state" where
  "extract_attempt E expr = do {
     g \<leftarrow> kubeGet E;
     onError g (\<lambda>e. State_Monad.return (Some (Wrapped e ErrGetBeforeExternalRef))) (do {
       ctx \<leftarrow> externalRefContext;
       case ParseString E expr ctx of
         Inl _ \<Rightarrow> State_Monad.return None
       | Inr v \<Rightarrow>
           if v = [] then State_Monad.return None
           else do { modifyObj (SetExternalRef v); kubeStatusUpdate E }
     })
   }"

definition extractExternalRefInto ::
  "AsyncRequest env \<Rightarrow> json \<Rightarrow> json \<Rightarrow> (AsyncRequest world, goerr option) state" where
  "extractExternalRefInto E mr pr = do {
     cr \<leftarrow> theObj;
     let expr = ExternalRefExpr (ForProvider cr);
     if expr = [] then State_Monad.return None
     else do { capture (mr, pr); RetryOnConflict E (extract_attempt E expr) }
   }"

definition extractExternalRefFromResponse ::
  "AsyncRequest env \<Rightarrow> Response \<Rightarrow> (AsyncRequest world, goerr option) state" where
  "extractExternalRefFromResponse E resp = do {
     cr \<leftarrow> theObj;
     if ExternalRefExpr (ForProvider cr) = [] then State_Monad.return None
     else extractExternalRefInto E (ResponseToMap resp) JNilMap
   }"

subsection \<open>Terminal or retry\<close>

text \<open>The message of a terminal failure, or \<open>None\<close> to retry.\<close>

definition classifyTerminalError ::
  "AsyncRequest env \<Rightarrow> AsyncRequest \<Rightarrow> json \<Rightarrow> json \<Rightarrow> string \<Rightarrow> string option" where
  "classifyTerminalError E cr mr failing defaultMessage =
     (let expr = IsTerminalError (ForProvider cr)
      in if expr = [] then None
         else case ParseAny E expr (GenerateRequestContextFromMap E cr mr failing) of
           Inl err \<Rightarrow> Some (''isTerminalError jq expression failed: '' @ Error err)
         | Inr v \<Rightarrow>
             (case v of
                JStr s \<Rightarrow> if s = [] then None else Some s
              | JBool b \<Rightarrow>
                  if \<not> b then None
                  else if defaultMessage = [] then Some ''isTerminalError classified this failure as terminal''
                  else Some defaultMessage
              | _ \<Rightarrow> None))"

definition classifyMutateTerminalError ::
  "AsyncRequest env \<Rightarrow> AsyncRequest \<Rightarrow> Response \<Rightarrow> string option" where
  "classifyMutateTerminalError E cr r =
     classifyTerminalError E cr (ResponseToMap r) JNilMap
       (''isTerminalError classified the mutate response (HTTP '' @ itoa (StatusCode r) @ '') as terminal'')"

definition handlePollOperationFailure ::
  "AsyncRequest env \<Rightarrow> json \<Rightarrow> Response \<Rightarrow> string \<Rightarrow> (AsyncRequest world, goerr option) state" where
  "handlePollOperationFailure E mr failing operationError = do {
     r \<leftarrow> persistPollFailureResponse E failing;
     onError r (\<lambda>e. State_Monad.return (Some e)) (do {
       cr \<leftarrow> theObj;
       case classifyTerminalError E cr mr (ResponseToMap failing) operationError of
         Some msg \<Rightarrow> SetTerminalFailure E msg True
       | None \<Rightarrow> clearAnchorAfterPollFailure E
     })
   }"

subsection \<open>The mutate call\<close>

text \<open>\<open>statushandler.NewStatusHandler\<close> and then \<open>SetRequestStatus\<close>.\<close>

definition record_response ::
  "AsyncRequest env \<Rightarrow> HttpDetails \<Rightarrow> goerr option \<Rightarrow> (AsyncRequest world, goerr option) state" where
  "record_response E d sendErr = do {
     h \<leftarrow> NewStatusHandler E d sendErr;
     case h of
       Inl e \<Rightarrow> State_Monad.return (Some e)
     | Inr hdl \<Rightarrow> SetRequestStatus E hdl
   }"

text \<open>A mutate response with an error status, once recorded: terminal, or an error so that it is retried.\<close>

definition reject_mutate ::
  "AsyncRequest env \<Rightarrow> Mapping \<Rightarrow> Response \<Rightarrow> (AsyncRequest world, goerr option) state" where
  "reject_mutate E m r = do {
     cr \<leftarrow> theObj;
     case classifyMutateTerminalError E cr r of
       Some msg \<Rightarrow> SetTerminalFailure E msg False
     | None \<Rightarrow> State_Monad.return (Some (ErrStatusCode (GetEffectiveMethod m) (StatusCode r)))
   }"

definition mutate_call ::
  "AsyncRequest env \<Rightarrow> Mapping \<Rightarrow> (AsyncRequest world, goerr + HttpDetails \<times> goerr option) state" where
  "mutate_call E m = do {
     g \<leftarrow> GenerateValidRequestDetails E m;
     case g of
       Inl err \<Rightarrow> State_Monad.return (Inl err)
     | Inr rd \<Rightarrow> do {
         (d, sendErr) \<leftarrow> sendRequest E (details_call (GetEffectiveMethod m) rd);
         cr \<leftarrow> theObj;
         resp \<leftarrow> (if \<not> WasDeleted cr
                  then ApplyResponseDataToSecrets E cr (Namespace cr) (UID cr) (HttpResponse d)
                         (SecretInjectionConfigs (ForProvider cr))
                  else State_Monad.return (HttpResponse d));
         State_Monad.return (Inr (d\<lparr>HttpResponse := resp\<rparr>, sendErr))
       }
   }"

text \<open>Without polling: the response is the outcome.\<close>

definition deploy_sync ::
  "AsyncRequest env \<Rightarrow> Mapping \<Rightarrow> HttpDetails \<Rightarrow> goerr option \<Rightarrow> (AsyncRequest world, goerr option) state" where
  "deploy_sync E m d sendErr = do {
     logged \<leftarrow> extractExternalRefFromResponse E (HttpResponse d);
     r \<leftarrow> record_response E d sendErr;
     onError r (\<lambda>e. State_Monad.return (Some e)) (do {
       cr \<leftarrow> theObj;
       if IsHTTPError (StatusCode (HttpResponse d)) (AllowedStatusCodes (ForProvider cr))
       then reject_mutate E m (HttpResponse d)
       else State_Monad.return None
     })
   }"

text \<open>
  With polling: the map of the mutate response once its anchor is persisted (\<open>Inr\<close>), or the end of
  the action (\<open>Inl\<close>).
\<close>

definition start_operation ::
  "AsyncRequest env \<Rightarrow> Mapping \<Rightarrow> HttpDetails \<Rightarrow> goerr option \<Rightarrow>
   (AsyncRequest world, goerr option + json) state" where
  "start_operation E m d sendErr = do {
     cr \<leftarrow> theObj;
     if sendErr \<noteq> None
     then do { r \<leftarrow> record_response E d sendErr; State_Monad.return (Inl r) }
     else if IsHTTPError (StatusCode (HttpResponse d)) (AllowedStatusCodes (ForProvider cr))
     then do {
       r \<leftarrow> record_response E d None;
       x \<leftarrow> onError r (\<lambda>e. State_Monad.return (Some e)) (reject_mutate E m (HttpResponse d));
       State_Monad.return (Inl x)
     }
     else do {
       let mr = ResponseToMap (HttpResponse d);
       r \<leftarrow> persistPollingResponse E mr;
       State_Monad.return (case r of Some e \<Rightarrow> Inl (Some e) | None \<Rightarrow> Inr mr)
     }
   }"

definition resume_operation ::
  "AsyncRequest env \<Rightarrow> json \<Rightarrow> (AsyncRequest world, goerr option + json) state" where
  "resume_operation E inFlight = do {
     cr \<leftarrow> theObj;
     r \<leftarrow> (if StartedAt (Status cr) = None then persistOperationStartedAtNow E
           else State_Monad.return None);
     State_Monad.return (case r of Some e \<Rightarrow> Inl (Some e) | None \<Rightarrow> Inr inFlight)
   }"

subsection \<open>DeployAction\<close>

type_synonym poll_fun = "Mapping \<Rightarrow> json \<Rightarrow> (AsyncRequest world, json \<times> (goerr + PollResult)) state"

definition run_poll ::
  "AsyncRequest env \<Rightarrow> poll_fun \<Rightarrow> Mapping \<Rightarrow> json \<Rightarrow> (AsyncRequest world, goerr option) state" where
  "run_poll E poll m mr0 = do {
     (mr, pr) \<leftarrow> poll m mr0;
     case pr of
       Inl err \<Rightarrow> State_Monad.return (Some err)
     | Inr result \<Rightarrow>
         if TerminalErr result \<noteq> [] then SetTerminalFailure E (TerminalErr result) False
         else (case FailingPollResponse result of
             Some failing \<Rightarrow> handlePollOperationFailure E mr failing (OperationErrorMessage result)
           | None \<Rightarrow>
               if \<not> Done result then State_Monad.return None
               else extractAndPersistExternalRef E mr (PollResponse result))
   }"

definition fire_action ::
  "AsyncRequest env \<Rightarrow> poll_fun \<Rightarrow> Mapping \<Rightarrow> (AsyncRequest world, goerr option) state" where
  "fire_action E poll m = do {
     c \<leftarrow> mutate_call E m;
     case c of
       Inl err \<Rightarrow> State_Monad.return (Some err)
     | Inr sent \<Rightarrow>
         if MapPolling m = None then deploy_sync E m (fst sent) (snd sent)
         else do {
           s \<leftarrow> start_operation E m (fst sent) (snd sent);
           case s of
             Inl r \<Rightarrow> State_Monad.return r
           | Inr mr \<Rightarrow> run_poll E poll m mr
         }
   }"

definition resume_action ::
  "AsyncRequest env \<Rightarrow> poll_fun \<Rightarrow> Mapping \<Rightarrow> json \<Rightarrow> (AsyncRequest world, goerr option) state" where
  "resume_action E poll m inFlight = do {
     s \<leftarrow> resume_operation E inFlight;
     case s of
       Inl r \<Rightarrow> State_Monad.return r
     | Inr mr \<Rightarrow> run_poll E poll m mr
   }"

definition DeployAction ::
  "AsyncRequest env \<Rightarrow> poll_fun \<Rightarrow> string \<Rightarrow> (AsyncRequest world, goerr option) state" where
  "DeployAction E poll action = do {
     g \<leftarrow> getMapping action;
     case g of
       Inl _ \<Rightarrow> State_Monad.return None
     | Inr m \<Rightarrow> do {
         cr \<leftarrow> theObj;
         let inFlight = GetPollingResponse cr;
         if inFlight = JNilMap then fire_action E poll m else resume_action E poll m inFlight
       }
   }"

subsection \<open>Which calls\<close>

lemma emits_changes [keeps_intros]:
  "(\<And>t. P (ClockRead t)) \<Longrightarrow> emits P (anchor_change E mr)"
  "(\<And>t. P (ClockRead t)) \<Longrightarrow> emits P (started_change E)"
  "emits P externalRefContext" "emits P (completion_change E)"
  unfolding anchor_change_def started_change_def externalRefContext_def completion_change_def
  by (auto simp: Let_def intro!: keeps_intros)

lemma emits_writes [keeps_intros]:
  assumes "retry_contract E" "\<And>cr e. P (KubeGet cr e)" "\<And>cr e. P (StatusUpdate cr e)" "\<And>t. P (ClockRead t)"
  shows "emits P (persistPollFailureResponse E r)" "emits P (clearAnchorAfterPollFailure E)"
    "emits P (persistPollingResponse E mr)" "emits P (persistOperationStartedAtNow E)"
    "emits P (SetTerminalFailure E msg b)" "emits P (extractAndPersistExternalRef E mr pr)"
  unfolding persistPollFailureResponse_def clearAnchorAfterPollFailure_def persistPollingResponse_def
    persistOperationStartedAtNow_def SetTerminalFailure_def extractAndPersistExternalRef_def
  using assms by (auto intro!: keeps_intros emits_update_status)

lemma emits_extract [keeps_intros]:
  assumes "retry_contract E" "\<And>cr e. P (KubeGet cr e)" "\<And>cr e. P (StatusUpdate cr e)"
  shows "emits P (extractExternalRefInto E mr pr)" "emits P (extractExternalRefFromResponse E resp)"
  unfolding extractExternalRefInto_def extractExternalRefFromResponse_def extract_attempt_def Let_def
  using assms by (auto intro!: keeps_intros)

lemma emits_handlePollOperationFailure [keeps_intros]:
  assumes "retry_contract E" "\<And>cr e. P (KubeGet cr e)" "\<And>cr e. P (StatusUpdate cr e)" "\<And>t. P (ClockRead t)"
  shows "emits P (handlePollOperationFailure E mr r msg)"
  unfolding handlePollOperationFailure_def using assms by (auto intro!: keeps_intros)

lemma emits_record_response [keeps_intros]:
  assumes "retry_contract E"
  shows "emits is_status_event (record_response E d err)"
  unfolding record_response_def
  by (rule keeps_bind_result [OF _ _ NewStatusHandler_ok])
     (auto intro!: keeps_intros emits_SetRequestStatus assms)

lemma emits_reject_mutate [keeps_intros]:
  "retry_contract E \<Longrightarrow> emits is_status_event (reject_mutate E m r)"
  unfolding reject_mutate_def by (auto intro!: keeps_intros)

lemma emits_start_operation:
  "retry_contract E \<Longrightarrow> emits is_status_event (start_operation E m d err)"
  unfolding start_operation_def Let_def by (auto intro!: keeps_intros)

lemma emits_deploy_sync:
  "retry_contract E \<Longrightarrow> emits is_status_event (deploy_sync E m d err)"
  unfolding deploy_sync_def Let_def by (auto intro!: keeps_intros)

lemma emits_resume_operation [keeps_intros]:
  "retry_contract E \<Longrightarrow> emits is_resume_event (resume_operation E mr)"
  unfolding resume_operation_def by (auto intro!: keeps_intros)

context poller
begin

lemma emits_run_poll:
  assumes "retry_contract E"
  shows "emits is_resume_event (run_poll E poll m mr)"
  unfolding run_poll_def
  using assms
  by (auto intro!: keeps_intros emits_same_emits [OF emits_same_mono [OF poll_events]])

lemma emits_resume_action:
  assumes "retry_contract E"
  shows "emits is_resume_event (resume_action E poll m mr)"
  unfolding resume_action_def using assms by (auto intro!: keeps_intros emits_run_poll)

text \<open>With an anchor, an action resumes: whatever it calls, it is no mutate call.\<close>

lemma DeployAction_resumes:
  assumes "retry_contract E" "GetPollingResponse (Obj w) \<noteq> JNilMap"
    and run: "run_state (DeployAction E poll action) w = (r, w')"
  shows "adds is_resume_event w w'"
proof -
  let ?w = "w\<lparr>Obj := (Obj w)\<lparr>ForProvider := snd (GetMapping (ForProvider (Obj w)) action)\<rparr>\<rparr>"
  have p: "GetPollingResponse ((Obj w)\<lparr>ForProvider := p\<rparr>) = GetPollingResponse (Obj w)" for p
    by (simp add: GetPollingResponse_def)
  have "wp (resume_action E poll m j) (\<lambda>_ w'. adds is_resume_event ?w w') ?w" for m j
    using emits_resume_action [OF assms(1)] by (simp add: keeps_wp)
  then have "wp (DeployAction E poll action) (\<lambda>_ w'. adds is_resume_event w w') w"
    using assms(2) by (simp add: DeployAction_def wp_simps Let_def p adds_def split: sum.split)
  then show ?thesis by (rule wp_run [OF _ run])
qed

end

subsection \<open>What the writes write\<close>

text \<open>Nothing but the given parts of the status.\<close>

definition settled :: "AsyncRequest \<Rightarrow> bool" where
  "settled cr \<longleftrightarrow> PollingResponse (Status cr) = None \<and> StartedAt (Status cr) = None"

definition same_anchor :: "AsyncRequest \<Rightarrow> AsyncRequest \<Rightarrow> bool" where
  "same_anchor a b \<longleftrightarrow>
     PollingResponse (Status a) = PollingResponse (Status b) \<and> StartedAt (Status a) = StartedAt (Status b)"

definition anchors :: "json \<Rightarrow> AsyncRequest \<Rightarrow> AsyncRequest \<Rightarrow> bool" where
  "anchors mr a b \<longleftrightarrow> same_meta a b \<and> PollingResponse (Status b) = Some (json_marshal mr) \<and>
     StartedAt (Status b) \<noteq> None \<and>
     (StartedAt (Status a) \<noteq> None \<longrightarrow> StartedAt (Status b) = StartedAt (Status a))"

lemma persistPollingResponse_spec:
  assumes "retry_contract E" "mr \<noteq> JNilMap"
  shows "wp (persistPollingResponse E mr) (\<lambda>r w'. fresh_writes (anchors mr) w w' \<and>
    ends_written (anchors mr) w r w') w"
  unfolding persistPollingResponse_def
proof (rule update_status_spec [OF assms(1)])
  show "wp (anchor_change E mr) (\<lambda>_ w'. anchors mr (Obj w) (Obj w') \<and>
      adds (\<lambda>e. \<not> is_kube_event e) w w') w" for w
    using assms(2)
    by (auto simp: anchor_change_def wp_simps Let_def anchors_def same_meta_def setter_defs adds_def
          is_kube_event_def)
qed

definition terminates :: "string \<Rightarrow> bool \<Rightarrow> AsyncRequest \<Rightarrow> AsyncRequest \<Rightarrow> bool" where
  "terminates msg clear a b \<longleftrightarrow> same_meta a b \<and> TerminalError (Status b) = msg \<and>
     ObservedGeneration (Status b) = Generation b \<and> Failed (Status b) = Failed (Status a) \<and>
     ExternalRef (Status b) = ExternalRef (Status a) \<and> StatusResponse (Status b) = StatusResponse (Status a) \<and>
     (if clear then settled b else same_anchor a b)"

lemma SetTerminalFailure_spec:
  assumes "retry_contract E"
  shows "wp (SetTerminalFailure E msg clear) (\<lambda>r w'. fresh_writes (terminates msg clear) w w' \<and>
    ends_written (terminates msg clear) w r w') w"
  unfolding SetTerminalFailure_def
  by (rule update_status_modify [OF assms])
     (simp add: terminates_def terminal_change_def same_meta_def settled_def same_anchor_def setter_defs)

definition completes :: "AsyncRequest \<Rightarrow> AsyncRequest \<Rightarrow> bool" where
  "completes a b \<longleftrightarrow> same_meta a b \<and> settled b \<and> TerminalError (Status b) = TerminalError (Status a) \<and>
     Failed (Status b) = Failed (Status a) \<and> StatusResponse (Status b) = StatusResponse (Status a) \<and>
     (ExternalRef (Status b) = ExternalRef (Status a) \<or> ExternalRef (Status b) \<noteq> [])"

lemma completion_change_spec:
  "wp (completion_change E) (\<lambda>_ w'. completes (Obj w) (Obj w') \<and> adds (\<lambda>e. \<not> is_kube_event e) w w') w"
  by (auto simp: completion_change_def externalRefContext_def wp_simps Let_def completes_def clear_change_def
        same_meta_def settled_def setter_defs adds_def split: sum.splits)

lemma extractAndPersistExternalRef_spec:
  assumes "retry_contract E"
  shows "wp (extractAndPersistExternalRef E mr pr) (\<lambda>r w'. fresh_writes completes w w' \<and>
    ends_written completes w r w') w"
  unfolding extractAndPersistExternalRef_def wp_bind wp_capture
  using update_status_spec [OF assms completion_change_spec, where w = "w\<lparr>Captured := (mr, pr)\<rparr>" and msg = ErrGetBeforeExternalRef]
  by (auto elim!: wp_mono simp: fresh_writes_def ends_written_def)

definition records_failure :: "Response \<Rightarrow> AsyncRequest \<Rightarrow> AsyncRequest \<Rightarrow> bool" where
  "records_failure r a b \<longleftrightarrow> same_meta a b \<and> StatusResponse (Status b) = r \<and>
     Failed (Status b) = Failed (Status a) \<and> StatusError (Status b) = StatusError (Status a) \<and>
     ExternalRef (Status b) = ExternalRef (Status a) \<and> same_anchor a b"

lemma persistPollFailureResponse_spec:
  assumes "retry_contract E"
  shows "wp (persistPollFailureResponse E r) (\<lambda>x w'. fresh_writes (records_failure r) w w' \<and>
    ends_written (records_failure r) w x w') w"
  unfolding persistPollFailureResponse_def
  by (rule update_status_modify [OF assms])
     (simp add: records_failure_def failure_change_def same_meta_def same_anchor_def setter_defs)

subsection \<open>The order of the calls of an action\<close>

definition raw_anchor :: "AsyncRequest \<Rightarrow> string option" where
  [simp]: "raw_anchor cr = PollingResponse (Status cr)"

lemma staged_written:
  assumes "adds P w w'" "\<And>e. P e \<Longrightarrow> no_call e" "ends_written (anchors mr) w None w'" "s \<noteq> Unsent"
  shows "Anchored \<in> staged raw_anchor s w w'"
proof -
  from assms(3) obtain cr b es where h: "Hist w' = StatusUpdate cr None # es @ Hist w" "anchors mr b cr"
    by (auto simp: ends_written_def)
  with assms(1) have "list_all P es" by (auto simp: adds_def)
  with assms(2) have "list_all no_call es" by (auto simp: list_all_iff)
  from staged_anchor [OF h(1) this _ assms(4)] h(2) show ?thesis by (simp add: anchors_def)
qed

lemma mutate_call_staged:
  "wp (mutate_call E m) (\<lambda>x w'. \<exists>t \<in> staged raw_anchor Unsent w w'. (\<forall>y. x = Inr y \<longrightarrow> t \<noteq> Unsent)) w"
proof -
  have secrets: "wp (if b then ApplyResponseDataToSecrets E cr ns uid r cfgs else State_Monad.return r)
      (\<lambda>_ w3. \<exists>t \<in> staged raw_anchor Sent w2 w3. t \<noteq> Unsent) w2" for b cr ns uid r cfgs w2
  proof -
    have "emits is_secret_event (if b then ApplyResponseDataToSecrets E cr ns uid r cfgs else State_Monad.return r)"
      by (auto intro!: keeps_intros emits_same_emits [OF emits_ApplyResponseDataToSecrets])
    from keeps_wpI [OF this] show ?thesis
      by (rule wp_mono) (use staged_adds [of is_secret_event] in fastforce)
  qed
  have sent: "\<exists>t \<in> staged raw_anchor Unsent w w3. t \<noteq> Unsent"
    if "adds is_secret_read w w1" "w2 = w1\<lparr>Hist := HttpSent c d e # Hist w1\<rparr>"
      "\<exists>t \<in> staged raw_anchor Sent w2 w3. t \<noteq> Unsent" for w1 w2 w3 c d e
  proof -
    have "Sent \<in> staged raw_anchor Unsent w1 w2" using that(2) by (auto simp: staged_def)
    moreover have "Unsent \<in> staged raw_anchor Unsent w w1" using staged_adds [OF that(1)] by fastforce
    ultimately have "Sent \<in> staged raw_anchor Unsent w w2" by (rule staged_trans [rotated])
    with that(3) show ?thesis using staged_trans by blast
  qed
  have gen: "wp (GenerateValidRequestDetails E m) (\<lambda>_ w1. adds is_secret_read w w1) w"
    by (rule keeps_wpI) (rule emits_same_emits [OF emits_GenerateValidRequestDetails])
  show ?thesis
    unfolding mutate_call_def wp_bind
  proof (rule wp_mono [OF gen], goal_cases)
    case (1 x w1)
    have none: "\<exists>t \<in> staged raw_anchor Unsent w w1. True" using staged_adds [OF 1] by fastforce
    have sent': "\<exists>t \<in> staged raw_anchor Unsent w w3. t \<noteq> Unsent"
      if "t \<in> staged raw_anchor Sent (w1\<lparr>Hist := HttpSent c d e # Hist w1\<rparr>) w3" "t \<noteq> Unsent" for t c d e w3
      using sent [OF 1 refl] that by blast
    have now: "\<exists>t \<in> staged raw_anchor Unsent w (w1\<lparr>Hist := HttpSent c d e # Hist w1\<rparr>). t \<noteq> Unsent" for c d e
      by (rule sent' [of Sent]) (simp_all add: staged_def)
    show ?case
      using none
      by (auto simp: wp_simps Let_def split: sum.splits prod.splits intro: sent' now
               intro!: wp_mono [OF secrets [of True, simplified]])
  qed
qed

text \<open>A new operation goes on to its polls only with its anchor written.\<close>

lemma start_operation_spec:
  assumes "retry_contract E"
  shows "wp (start_operation E m d err) (\<lambda>x w'. adds is_status_event w w' \<and>
    (\<forall>mr. x = Inr mr \<longrightarrow> mr = ResponseToMap (HttpResponse d) \<and> ends_written (anchors mr) w None w')) w"
proof (rule wp_conj)
  show "wp (start_operation E m d err) (\<lambda>_ w'. adds is_status_event w w') w"
    by (rule keeps_wpI) (rule emits_start_operation [OF assms])
  have left: "wp n (\<lambda>r. wp (f r \<bind> (\<lambda>x. State_Monad.return (Inl x))) (\<lambda>x w'. \<forall>mr. x = Inr mr \<longrightarrow> Q mr w')) v"
    for n :: "('w, 'a) state" and f :: "'a \<Rightarrow> ('w, 'b) state" and Q :: "json \<Rightarrow> 'w \<Rightarrow> bool" and v
    by (auto simp: wp_def split: prod.split)
  show "wp (start_operation E m d err) (\<lambda>x w'. \<forall>mr. x = Inr mr \<longrightarrow>
      mr = ResponseToMap (HttpResponse d) \<and> ends_written (anchors mr) w None w') w"
    unfolding start_operation_def
    by (cases "err = None";
        cases "IsHTTPError (StatusCode (HttpResponse d)) (AllowedStatusCodes (ForProvider (Obj w)))")
       (auto simp: wp_bind wp_return wp_theObj Let_def intro: wp_any intro!: left
             intro!: wp_mono [OF persistPollingResponse_spec [OF assms ResponseToMap_not_nil]]
             split: option.splits)
qed

lemma staged_status:
  "adds is_status_event w w' \<Longrightarrow> t \<in> staged raw_anchor s u w \<Longrightarrow> staged raw_anchor s u w' \<noteq> {}"
  by (rule staged_no_call [where P = is_status_event]) simp_all

context poller
begin

lemma fire_action_staged:
  assumes "retry_contract E"
  shows "wp (fire_action E poll m) (\<lambda>_ w'. staged raw_anchor Unsent w w' \<noteq> {}) w"
proof -
  have sync: "wp (deploy_sync E m d err) (\<lambda>_ w'. staged raw_anchor s u w' \<noteq> {}) w1" if "t \<in> staged raw_anchor s u w1"
    for d err s t u w1
    using keeps_wpI [OF emits_deploy_sync [OF assms]] by (rule wp_mono) (rule staged_status [OF _ that])
  have poll: "wp (run_poll E poll m mr) (\<lambda>_ w'. staged raw_anchor s u w' \<noteq> {}) w2" if "Anchored \<in> staged raw_anchor s u w2"
    for mr s u w2
    using keeps_wpI [OF emits_run_poll [OF assms]]
    by (rule wp_mono) (use staged_trans [OF that staged_harmless] adds_mono [of is_resume_event _ _ harmless] in fastforce)
  have start: "wp (start_operation E m d err) (\<lambda>x w2. wp (case x of Inl r \<Rightarrow> State_Monad.return r
      | Inr mr \<Rightarrow> run_poll E poll m mr) (\<lambda>_ w'. staged raw_anchor s u w' \<noteq> {}) w2) w1"
    if t: "t \<in> staged raw_anchor s u w1" "t \<noteq> Unsent" for d err s t u w1
  proof (rule wp_mono [OF start_operation_spec [OF assms]], goal_cases)
    case (1 x w2)
    show ?case
    proof (cases x)
      case (Inl r)
      then show ?thesis using staged_status 1 t(1) by (auto simp: wp_simps)
    next
      case (Inr mr)
      with 1 have "Anchored \<in> staged raw_anchor t w1 w2"
        by (intro staged_written [where P = is_status_event and mr = mr]) (use t in auto)
      then have "Anchored \<in> staged raw_anchor s u w2" by (rule staged_trans [OF t(1)])
      then show ?thesis using Inr by (simp add: poll)
    qed
  qed
  show ?thesis
    unfolding fire_action_def wp_bind
    by (rule wp_mono [OF mutate_call_staged])
       (auto simp: wp_simps sync start split: sum.splits)
qed

text \<open>An action without an anchor: one mutate call at most, and polls only behind a written anchor.\<close>

lemma DeployAction_staged:
  assumes "retry_contract E" "GetPollingResponse (Obj w) = JNilMap"
    and run: "run_state (DeployAction E poll action) w = (r, w')"
  shows "\<exists>es t. Hist w' = es @ Hist w \<and> stages raw_anchor Unsent (rev es) = Some t"
proof -
  let ?w = "w\<lparr>Obj := (Obj w)\<lparr>ForProvider := snd (GetMapping (ForProvider (Obj w)) action)\<rparr>\<rparr>"
  have p: "GetPollingResponse ((Obj w)\<lparr>ForProvider := p\<rparr>) = GetPollingResponse (Obj w)" for p
    by (simp add: GetPollingResponse_def)
  have "wp (fire_action E poll m) (\<lambda>_ w'. staged raw_anchor Unsent w w' \<noteq> {}) ?w" for m
    by (rule wp_mono [OF fire_action_staged [OF assms(1)]]) (simp add: staged_def)
  moreover have "staged raw_anchor Unsent w ?w \<noteq> {}" by (simp add: staged_def)
  ultimately have "wp (DeployAction E poll action) (\<lambda>_ w'. staged raw_anchor Unsent w w' \<noteq> {}) w"
    using assms(2) by (simp add: DeployAction_def wp_simps Let_def p split: sum.split)
  with run have "staged raw_anchor Unsent w w' \<noteq> {}" by (auto dest: wp_run)
  then show ?thesis by (auto simp: staged_def)
qed

end

subsection \<open>What a poll's answer leads to\<close>

text \<open>
  The writes of the two ends of a failed operation: the failing response first, then the anchor is
  cleared, with a terminal message or without one.
\<close>

definition drops_anchor :: "AsyncRequest \<Rightarrow> AsyncRequest \<Rightarrow> bool" where
  "drops_anchor a b \<longleftrightarrow> same_meta a b \<and> (same_anchor a b \<or> settled b) \<and>
     Failed (Status b) = Failed (Status a) \<and> ExternalRef (Status b) = ExternalRef (Status a)"

lemma drops_anchor_cases:
  "records_failure r a b \<Longrightarrow> drops_anchor a b" "terminates msg True a b \<Longrightarrow> drops_anchor a b"
  by (auto simp: drops_anchor_def records_failure_def terminates_def)

lemma fresh_writes_mono:
  "fresh_writes F w w' \<Longrightarrow> (\<And>a b. F a b \<Longrightarrow> G a b) \<Longrightarrow> fresh_writes G w w'"
  unfolding fresh_writes_def by (fastforce simp: list_all_iff split: prod.splits)

lemma clearAnchorAfterPollFailure_spec:
  assumes "retry_contract E"
  shows "wp (clearAnchorAfterPollFailure E) (\<lambda>r w'.
    fresh_writes (\<lambda>a b. drops_anchor a b \<and> settled b) w w' \<and>
    ends_written (\<lambda>a b. drops_anchor a b \<and> settled b) w r w') w"
  unfolding clearAnchorAfterPollFailure_def
  by (rule update_status_modify [OF assms])
     (simp add: drops_anchor_def clear_change_def same_meta_def settled_def setter_defs)

definition ends_settled :: "goerr option \<Rightarrow> AsyncRequest world \<Rightarrow> bool" where
  "ends_settled r w' \<longleftrightarrow> (r = None \<longrightarrow> (\<exists>cr h. Hist w' = StatusUpdate cr None # h \<and> settled cr))"

lemma ends_settledI: "ends_written F w r w' \<Longrightarrow> (\<And>a b. F a b \<Longrightarrow> settled b) \<Longrightarrow> ends_settled r w'"
  by (auto simp: ends_written_def ends_settled_def)

text \<open>A failed operation whose handling succeeds has lost its anchor in the last write.\<close>

lemma handlePollOperationFailure_spec:
  assumes "retry_contract E"
  shows "wp (handlePollOperationFailure E mr r msg) ends_settled w"
proof -
  have stall: "wp (SetTerminalFailure E t True) ends_settled v" for t v
    by (rule wp_mono [OF SetTerminalFailure_spec [OF assms]]) (auto elim!: ends_settledI simp: terminates_def)
  have clear: "wp (clearAnchorAfterPollFailure E) ends_settled v" for v
    by (rule wp_mono [OF clearAnchorAfterPollFailure_spec [OF assms]]) (auto elim!: ends_settledI)
  show ?thesis
    unfolding handlePollOperationFailure_def wp_bind
    by (rule wp_mono [OF persistPollFailureResponse_spec [OF assms]])
       (auto simp: wp_simps stall clear ends_settled_def [of "Some _"] split: option.splits)
qed

definition poll_ends :: "goerr + PollResult \<Rightarrow> goerr option \<Rightarrow> AsyncRequest world \<Rightarrow> AsyncRequest world \<Rightarrow> bool" where
  "poll_ends answer r w w' \<longleftrightarrow>
     (case answer of
        Inl err \<Rightarrow> r = Some err \<and> w' = w
      | Inr x \<Rightarrow>
          if TerminalErr x \<noteq> [] then
            fresh_writes (terminates (TerminalErr x) False) w w' \<and>
            ends_written (terminates (TerminalErr x) False) w r w'
          else if FailingPollResponse x \<noteq> None then
            ends_settled r w'
          else if Done x then fresh_writes completes w w' \<and> ends_written completes w r w'
          else r = None \<and> w' = w)"

lemma run_poll_ends:
  assumes "retry_contract E" and poll: "run_state (poll m mr) w = ((mr', answer), w1)"
    and run: "run_state (run_poll E poll m mr) w = (r, w')"
  shows "poll_ends answer r w1 w'"
proof -
  have "wp (run_poll E poll m mr) (\<lambda>r w'. poll_ends answer r w1 w') w"
  proof (cases answer)
    case (Inl err)
    then show ?thesis using poll by (simp add: run_poll_def wp_def poll_ends_def)
  next
    case (Inr x)
    have "wp (case answer of Inl err \<Rightarrow> State_Monad.return (Some err)
       | Inr result \<Rightarrow>
           if TerminalErr result \<noteq> [] then SetTerminalFailure E (TerminalErr result) False
           else (case FailingPollResponse result of
               Some failing \<Rightarrow> handlePollOperationFailure E mr' failing (OperationErrorMessage result)
             | None \<Rightarrow>
                 if \<not> Done result then State_Monad.return None
                 else extractAndPersistExternalRef E mr' (PollResponse result)))
       (\<lambda>r w'. poll_ends answer r w1 w') w1"
      unfolding Inr poll_ends_def
      by (auto simp: wp_simps SetTerminalFailure_spec [OF assms(1)] handlePollOperationFailure_spec [OF assms(1)]
            extractAndPersistExternalRef_spec [OF assms(1)] split: option.split)
    then show ?thesis using poll by (simp add: run_poll_def wp_def)
  qed
  then show ?thesis by (rule wp_run [OF _ run])
qed

end
