(* ===== verification/Observe.thy ===== *)
theory Observe
  imports Deploy ObserveChecks
begin

text \<open>
  \<^verbatim>\<open>internal/service/request/observe.go\<close>: what a reconcile finds out before it acts. A terminal failure
  stands until the spec changes; an operation in flight is routed back to \<open>DeployAction\<close> without a
  call; otherwise the OBSERVE mapping is called and its response checked, on one of two paths chosen
  by whether the OBSERVE URL mentions \<^verbatim>\<open>.status.externalRef\<close>.
\<close>

record ObserveRequestDetails =
  ObsDetails :: HttpDetails
  ResponseError :: "goerr option"
  Synced :: bool
  ObsTerminalError :: string
  InFlight :: bool

definition NewObserve :: "HttpDetails \<Rightarrow> goerr option \<Rightarrow> bool \<Rightarrow> ObserveRequestDetails" where
  "NewObserve d err synced =
     \<lparr>ObsDetails = d, ResponseError = err, Synced = synced, ObsTerminalError = [], InFlight = False\<rparr>"

definition NewTerminalObserve :: "string \<Rightarrow> ObserveRequestDetails" where
  "NewTerminalObserve msg = (NewObserve emptyDetails None False)\<lparr>ObsTerminalError := msg\<rparr>"

definition NewInFlightObserve :: ObserveRequestDetails where
  "NewInFlightObserve = (NewObserve emptyDetails None False)\<lparr>InFlight := True\<rparr>"

text \<open>
  The functions answer a pair of an observation and an error; every error comes with the empty
  observation \<^verbatim>\<open>FailedObserve()\<close>, so the model answers a sum.
\<close>

type_synonym observation = "goerr + ObserveRequestDetails"

abbreviation notFound :: observation where
  "notFound \<equiv> Inl (ErrorString ErrObjectNotFound)"

definition errUpdateMappingNotFound :: string where
  "errUpdateMappingNotFound =
     ''no UPDATE or PUT mapping is configured but the resource is out of sync (expectedResponseCheck returned false); add an UPDATE mapping or fix the spec so the resource reconciles''"

definition errPolledResponseIdentity :: string where
  "errPolledResponseIdentity =
     ''polling is configured but the OBSERVE URL derives identity from the mutate response (.response); a polled resource must key its OBSERVE URL on .status.externalRef (set spec.externalRef to extract it) or use a constant URL''"

definition errObserveStatusUnknown :: "int \<Rightarrow> goerr" where
  "errObserveStatusUnknown n =
     ErrorString (''OBSERVE returned status code '' @ itoa n @
       ''; the resource state is unknown and the resource is not treated as removed'')"

subsection \<open>Which path\<close>

definition isObjectValidForObservation :: "AsyncRequest \<Rightarrow> bool" where
  "isObjectValidForObservation cr \<longleftrightarrow>
     (StatusCode (StatusResponse (Status cr)) \<noteq> 0 \<and>
      \<not> (Method (RequestDetails (Status cr)) = ''POST'' \<and>
         IsHTTPError (StatusCode (StatusResponse (Status cr))) (AllowedStatusCodes (ForProvider cr)))) \<or>
     ExternalRef (Status cr) \<noteq> []"

definition urlReferencesExternalRef :: "string \<Rightarrow> bool" where
  "urlReferencesExternalRef url \<longleftrightarrow> str_contains url ''.status.externalRef''"

definition urlReferencesResponse :: "string \<Rightarrow> bool" where
  "urlReferencesResponse url \<longleftrightarrow>
     str_contains url ''.response'' \<and> \<not> str_contains url ''.status.response''"

definition pollingConfigured :: "AsyncRequestParameters \<Rightarrow> bool" where
  "pollingConfigured p \<longleftrightarrow> list_ex (\<lambda>m. MapPolling m \<noteq> None) (Mappings p)"

subsection \<open>The steps\<close>

definition clear_terminal_change :: "AsyncRequest \<Rightarrow> AsyncRequest" where
  "clear_terminal_change cr = SetOperationStartedAt None (SetTerminalError [] cr)"

definition clearTerminalError :: "AsyncRequest env \<Rightarrow> (AsyncRequest world, goerr option) state" where
  "clearTerminalError E =
     update_status E ''failed to get resource before clearing terminal error''
       (modifyObj clear_terminal_change)"

definition determineIfRemoved ::
  "AsyncRequest env \<Rightarrow> HttpDetails \<Rightarrow> (AsyncRequest world, goerr option) state" where
  "determineIfRemoved E d = IsRemovedResponseCheck E d"

text \<open>A terminal failure that is recorded and then reported.\<close>

definition stall :: "AsyncRequest env \<Rightarrow> string \<Rightarrow> (AsyncRequest world, observation) state" where
  "stall E msg = do {
     r \<leftarrow> SetTerminalFailure E msg False;
     State_Monad.return (case r of Some e \<Rightarrow> Inl e | None \<Rightarrow> Inr (NewTerminalObserve msg))
   }"

definition determineIfUpToDate ::
  "AsyncRequest env \<Rightarrow> HttpDetails \<Rightarrow> goerr option \<Rightarrow> (AsyncRequest world, observation) state" where
  "determineIfUpToDate E d respErr = do {
     c \<leftarrow> IsUpToDateCheck E d;
     case c of
       Inl err \<Rightarrow> State_Monad.return (Inl err)
     | Inr synced \<Rightarrow>
         if synced then State_Monad.return (Inr (NewObserve d respErr True))
         else do {
           m \<leftarrow> getMapping ActionUpdate;
           case m of
             Inl _ \<Rightarrow> stall E errUpdateMappingNotFound
           | Inr _ \<Rightarrow> State_Monad.return (Inr (NewObserve d respErr False))
         }
   }"

text \<open>The existence check, when there is one: \<open>Inr True\<close> to go on.\<close>

definition check_exists ::
  "AsyncRequest env \<Rightarrow> HttpDetails \<Rightarrow> (AsyncRequest world, goerr + bool) state" where
  "check_exists E d = do {
     cr \<leftarrow> theObj;
     if has_exists_check (ForProvider cr) then customResourceExistsCheck E d
     else State_Monad.return (Inr True)
   }"

text \<open>The end of both paths: existence, secrets, drift.\<close>

definition finish_observe ::
  "AsyncRequest env \<Rightarrow> HttpDetails \<Rightarrow> goerr option \<Rightarrow> (AsyncRequest world, observation) state" where
  "finish_observe E d respErr = do {
     x \<leftarrow> check_exists E d;
     case x of
       Inl err \<Rightarrow> State_Monad.return (Inl err)
     | Inr exists \<Rightarrow>
         if \<not> exists then State_Monad.return notFound
         else do {
           cr \<leftarrow> theObj;
           resp \<leftarrow> ApplyResponseDataToSecrets E cr (Namespace cr) (UID cr) (HttpResponse d)
                     (SecretInjectionConfigs (ForProvider cr));
           determineIfUpToDate E (d\<lparr>HttpResponse := resp\<rparr>) respErr
         }
   }"

definition observeExternalRefDriven ::
  "AsyncRequest env \<Rightarrow> Mapping \<Rightarrow> (AsyncRequest world, observation) state" where
  "observeExternalRefDriven E m = do {
     cr \<leftarrow> theObj;
     if ExternalRef (Status cr) = [] then State_Monad.return notFound
     else do {
       g \<leftarrow> GenerateValidRequestDetails E m;
       case g of
         Inl err \<Rightarrow> State_Monad.return (Inl err)
       | Inr rd \<Rightarrow> do {
           (d, respErr) \<leftarrow> sendRequest E (details_call (GetEffectiveMethod m) rd);
           r \<leftarrow> determineIfRemoved E d;
           onError r (\<lambda>e. State_Monad.return (Inl e)) (do {
             cr2 \<leftarrow> theObj;
             let code = StatusCode (HttpResponse d);
             if \<not> IsHTTPSuccess code \<and> IsHTTPError code (AllowedStatusCodes (ForProvider cr2))
             then State_Monad.return (Inl (errObserveStatusUnknown code))
             else finish_observe E d respErr
           })
         }
     }
   }"

definition observeResponseDriven ::
  "AsyncRequest env \<Rightarrow> Mapping \<Rightarrow> (AsyncRequest world, observation) state" where
  "observeResponseDriven E m = do {
     cr \<leftarrow> theObj;
     let objectNotCreated = \<not> isObjectValidForObservation cr;
     g \<leftarrow> GenerateValidRequestDetails E m;
     case g of
       Inl err \<Rightarrow> State_Monad.return (if objectNotCreated then notFound else Inl err)
     | Inr rd \<Rightarrow> do {
         (d, respErr) \<leftarrow> sendRequest E (details_call (GetEffectiveMethod m) rd);
         if \<not> IsHTTPSuccess (StatusCode (HttpResponse d)) \<and> objectNotCreated
         then State_Monad.return notFound
         else do {
           r \<leftarrow> determineIfRemoved E d;
           onError r (\<lambda>e. State_Monad.return (Inl e)) (finish_observe E d respErr)
         }
       }
   }"

text \<open>What is left once no terminal failure stands: the anchor, then the call.\<close>

definition observe_live :: "AsyncRequest env \<Rightarrow> (AsyncRequest world, observation) state" where
  "observe_live E = do {
     cr \<leftarrow> theObj;
     if GetPollingResponse cr \<noteq> JNilMap
     then State_Monad.return
       (if ExternalRef (Status cr) = [] \<and> \<not> WasDeleted cr then notFound else Inr NewInFlightObserve)
     else do {
       g \<leftarrow> getMapping ActionObserve;
       case g of
         Inl err \<Rightarrow> State_Monad.return (Inl err)
       | Inr m \<Rightarrow> do {
           cr2 \<leftarrow> theObj;
           if pollingConfigured (ForProvider cr2) \<and> urlReferencesResponse (URL m) \<and>
              \<not> urlReferencesExternalRef (URL m)
           then stall E errPolledResponseIdentity
           else if urlReferencesExternalRef (URL m) then observeExternalRefDriven E m
           else observeResponseDriven E m
         }
     }
   }"

definition IsUpToDate :: "AsyncRequest env \<Rightarrow> (AsyncRequest world, observation) state" where
  "IsUpToDate E = do {
     cr \<leftarrow> theObj;
     if TerminalError (Status cr) = [] then observe_live E
     else if WasDeleted cr \<and> GetPollingResponse cr = JNilMap \<and> ExternalRef (Status cr) = []
     then State_Monad.return notFound
     else if Generation cr = ObservedGeneration (Status cr)
     then State_Monad.return (Inr (NewTerminalObserve (TerminalError (Status cr))))
     else do {
       r \<leftarrow> clearTerminalError E;
       onError r (\<lambda>e. State_Monad.return (Inl e)) (observe_live E)
     }
   }"

subsection \<open>Terminal failures and operations in flight make no call\<close>

lemma IsUpToDate_terminal:
  assumes "TerminalError (Status (Obj w)) \<noteq> []"
    and "Generation (Obj w) = ObservedGeneration (Status (Obj w))"
    and "WasDeleted (Obj w) \<Longrightarrow> GetPollingResponse (Obj w) \<noteq> JNilMap \<or> ExternalRef (Status (Obj w)) \<noteq> []"
  shows "run_state (IsUpToDate E) w = (Inr (NewTerminalObserve (TerminalError (Status (Obj w)))), w)"
  using assms by (auto simp: IsUpToDate_def run_calls)

lemma IsUpToDate_abandon:
  assumes "TerminalError (Status (Obj w)) \<noteq> []" "WasDeleted (Obj w)"
    and "GetPollingResponse (Obj w) = JNilMap" "ExternalRef (Status (Obj w)) = []"
  shows "run_state (IsUpToDate E) w = (notFound, w)"
  using assms by (simp add: IsUpToDate_def run_calls)

lemma IsUpToDate_in_flight:
  assumes "TerminalError (Status (Obj w)) = []" "GetPollingResponse (Obj w) \<noteq> JNilMap"
  shows "run_state (IsUpToDate E) w =
     (if ExternalRef (Status (Obj w)) = [] \<and> \<not> WasDeleted (Obj w) then notFound
      else Inr NewInFlightObserve, w)"
  using assms by (simp add: IsUpToDate_def observe_live_def run_calls)

text \<open>
  The identity gate: an OBSERVE URL built from the external reference is not called while there is none.
\<close>

lemma IsUpToDate_no_identity:
  assumes "TerminalError (Status (Obj w)) = []" "GetPollingResponse (Obj w) = JNilMap"
    and "ExternalRef (Status (Obj w)) = []"
    and "GetMapping (ForProvider (Obj w)) ActionObserve = (Inr m, p)" "urlReferencesExternalRef (URL m)"
  shows "run_state (IsUpToDate E) w = (notFound, w\<lparr>Obj := (Obj w)\<lparr>ForProvider := p\<rparr>\<rparr>)"
  using assms
  by (simp add: IsUpToDate_def observe_live_def observeExternalRefDriven_def getMapping_def run_calls)

subsection \<open>Which calls\<close>

lemma emits_observe_writes [keeps_intros]:
  assumes "retry_contract E" "\<And>cr e. P (KubeGet cr e)" "\<And>cr e. P (StatusUpdate cr e)"
  shows "emits P (clearTerminalError E)" "emits P (stall E msg)"
  unfolding clearTerminalError_def stall_def SetTerminalFailure_def
  using assms by (auto intro!: keeps_intros emits_update_status)

lemma emits_no_call:
  "emits is_secret_read m \<Longrightarrow> emits no_call m" "emits is_secret_event m \<Longrightarrow> emits no_call m"
  "emits is_status_event m \<Longrightarrow> emits no_call m"
  by (auto elim: emits_mono)

lemma emits_determineIfUpToDate:
  assumes "retry_contract E"
  shows "emits no_call (determineIfUpToDate E d err)"
  unfolding determineIfUpToDate_def
  using assms by (auto intro!: keeps_bind keeps_sum keeps_if emits_no_call(1) [OF emits_IsUpToDateCheck]
      emits_getMapping emits_observe_writes keeps_return_world)

lemma emits_finish_observe:
  assumes "retry_contract E"
  shows "emits no_call (finish_observe E d err)"
proof -
  have "emits no_call (check_exists E d)"
    unfolding check_exists_def
    by (auto intro!: keeps_bind keeps_if emits_theObj keeps_return_world
        emits_no_call(1) [OF emits_same_emits [OF emits_exists_removed(1)]])
  moreover have "emits no_call (ApplyResponseDataToSecrets E cr ns uid r cfgs)"
    for cr :: AsyncRequest and ns uid r cfgs
    by (rule emits_no_call(2) [OF emits_same_emits [OF emits_ApplyResponseDataToSecrets]])
  ultimately show ?thesis
    unfolding finish_observe_def
    using assms by (auto intro!: keeps_bind keeps_sum keeps_if emits_determineIfUpToDate emits_theObj
        keeps_return_world)
qed

lemma emits_determineIfRemoved: "emits no_call (determineIfRemoved E d)"
  unfolding determineIfRemoved_def
  by (rule emits_no_call(1) [OF emits_same_emits [OF emits_exists_removed(2)]])

subsection \<open>Drift without a way to repair it\<close>

text \<open>
  When the check says out of sync and no mapping serves UPDATE, the observation is terminal, and the
  terminal failure has been written.
\<close>

definition stalled :: "string \<Rightarrow> observation \<Rightarrow> AsyncRequest world \<Rightarrow> bool" where
  "stalled msg r w' \<longleftrightarrow>
     (case r of
        Inl _ \<Rightarrow> True
      | Inr obs \<Rightarrow> obs = NewTerminalObserve msg \<and>
          (\<exists>cr h. Hist w' = StatusUpdate cr None # h \<and> TerminalError (Status cr) = msg \<and>
                  ObservedGeneration (Status cr) = Generation cr))"

lemma stall_stalled:
  assumes "retry_contract E"
  shows "wp (stall E msg) (stalled msg) w"
  unfolding stall_def wp_bind
  by (rule wp_mono [OF SetTerminalFailure_spec [OF assms]])
     (auto simp: wp_simps ends_written_def terminates_def stalled_def split: option.splits)

lemma determineIfUpToDate_stalls:
  assumes retry: "retry_contract E"
    and check: "run_state (IsUpToDateCheck E d) w = (Inr False, w1)"
    and none: "GetMapping (ForProvider (Obj w1)) ActionUpdate = (Inl e, p)"
  shows "wp (determineIfUpToDate E d err) (stalled errUpdateMappingNotFound) w"
proof -
  have "wp (do { m \<leftarrow> getMapping ActionUpdate;
           case m of
             Inl _ \<Rightarrow> stall E errUpdateMappingNotFound
           | Inr _ \<Rightarrow> State_Monad.return (Inr (NewObserve d err False)) })
     (stalled errUpdateMappingNotFound) w1"
    using none by (simp add: wp_simps Let_def stall_stalled [OF retry])
  then show ?thesis
    using check by (simp add: determineIfUpToDate_def wp_def)
qed

end
