(* ===== verification/ObserveSecrets.thy ===== *)
theory ObserveSecrets
  imports Deploy Observe
begin

text \<open>
  What an observation does to the injected secrets when its call fails: the checks and the injection
  (\<^verbatim>\<open>observeExternalRefDriven\<close> in \<^verbatim>\<open>internal/service/request/observe.go\<close>) look at the response, which is
  empty then, and not at the error of the call.
\<close>

subsection \<open>Injecting a value that is not there\<close>

text \<open>With the strategy to delete, an expression that finds nothing drops the key from the secret.\<close>

lemma injection_drops_key:
  assumes "KeyMappings cfg = Some [k]" "MissingStrategy k = DeleteMissingField" "\<not> SetOwnerReference cfg"
    and "ReadSecret E (Hist w) (SecretRefName cfg) (SecretRefNamespace cfg) = Inr s"
    and "extractValueToPatch E (prepareDataMap (r\<lparr>Headers := copyHeaders (Headers r)\<rparr>)) (ResponseJQ k) = None"
  shows "wp (ApplyResponseDataToSecrets E cr ns uid r [cfg]) (\<lambda>_ w'.
    \<exists>e. SecretWritten (updateSecretData s (SecretKey k) None DeleteMissingField) e \<in> set (Hist w')) w"
proof -
  let ?P = "\<lambda>w'. \<exists>e. SecretWritten (updateSecretData s (SecretKey k) None DeleteMissingField) e \<in> set (Hist w')"
  have keep: "wp m (\<lambda>_. ?P) v" if "emits is_secret_event m" "?P v" for m :: "('a world, 'c) state" and v
    by (rule wp_mono [OF keeps_wpI [OF that(1)]]) (use that(2) in \<open>auto simp: adds_def\<close>)
  have lab: "emits is_secret_event (updateSecretLabelsAndAnnotations E d' s' l a)" for d' s' l a
    by (rule emits_same_emits [OF emits_updateSecretLabelsAndAnnotations])
  show ?thesis
    using assms
    by (simp add: ApplyResponseDataToSecrets_def patchResponseDataToSecret_def secret_owner_def GetOrCreateSecret_def
        GetSecret_def kubeGetSecret_def applySecretConfig_def updateSecretWithPatchedValue_def UpdateSecret_def kubeUpdate_def
        wp_simps Let_def case_prod_beta emit_def)
       (auto simp: wp_simps split: option.split intro!: keep lab keeps_bind keeps_return_world)
qed

subsection \<open>A failed call\<close>

lemma transport_error_drops_key:
  assumes retry: "retry_contract E" and identity: "ExternalRef (Status (Obj w)) \<noteq> []"
    and gen: "run_state (GenerateValidRequestDetails E m) w = (Inr rd, w1)"
    and send: "SendHTTP E (Hist w1) (details_call (GetEffectiveMethod m) rd) = (d, Some err)" "HttpResponse d = emptyResponse"
    and checks: "CheckType (IsRemovedCheck (ForProvider (Obj w))) \<noteq> CheckTypeCustom" "\<not> has_exists_check (ForProvider (Obj w))"
    and inject: "SecretInjectionConfigs (ForProvider (Obj w)) = [cfg]" "KeyMappings cfg = Some [k]"
      "MissingStrategy k = DeleteMissingField" "\<not> SetOwnerReference cfg"
    and secret: "ReadSecret E (HttpSent (details_call (GetEffectiveMethod m) rd) d (Some err) # Hist w1)
      (SecretRefName cfg) (SecretRefNamespace cfg) = Inr s"
    and none: "extractValueToPatch E (prepareDataMap (emptyResponse\<lparr>Headers := copyHeaders None\<rparr>)) (ResponseJQ k) = None"
  shows "wp (observeExternalRefDriven E m) (\<lambda>_ w'.
    \<exists>e. SecretWritten (updateSecretData s (SecretKey k) None DeleteMissingField) e \<in> set (Hist w')) w"
proof -
  let ?P = "\<lambda>w'. \<exists>e. SecretWritten (updateSecretData s (SecretKey k) None DeleteMissingField) e \<in> set (Hist w')"
  let ?c = "details_call (GetEffectiveMethod m) rd"
  let ?w2 = "w1\<lparr>Hist := HttpSent ?c d (Some err) # Hist w1\<rparr>"
  have obj: "Obj w1 = Obj w"
    using wp_run [OF keeps_wpI [OF emits_GenerateValidRequestDetails] gen] by (simp add: adds_same_def)
  have code: "StatusCode (HttpResponse d) = 0" using send(2) by (simp add: emptyResponse_def)
  have inj: "wp (ApplyResponseDataToSecrets E cr ns uid emptyResponse [cfg]) (\<lambda>_. ?P) ?w2" for cr :: AsyncRequest and ns uid
    using injection_drops_key [OF inject(2-4), of E ?w2 s emptyResponse cr ns uid] secret none
    by (simp add: emptyResponse_def)
  have rest: "wp (determineIfUpToDate E d' e) (\<lambda>_. ?P) v" if "?P v" for d' e v
    by (rule wp_mono [OF keeps_wpI [OF emits_determineIfUpToDate [OF retry]]]) (use that in \<open>auto simp: adds_def\<close>)
  have "wp (finish_observe E d (Some err)) (\<lambda>_. ?P) ?w2"
    unfolding finish_observe_def check_exists_def
    using checks(2) obj inject(1) send(2)
    by (simp add: wp_bind wp_theObj wp_return wp_if) (auto intro: wp_mono [OF inj] rest)
  then have "wp (do {
      (d, respErr) \<leftarrow> sendRequest E ?c;
      r \<leftarrow> determineIfRemoved E d;
      onError r (\<lambda>e. State_Monad.return (Inl e)) (do {
        cr2 \<leftarrow> theObj;
        let code = StatusCode (HttpResponse d);
        if \<not> IsHTTPSuccess code \<and> IsHTTPError code (AllowedStatusCodes (ForProvider cr2))
        then State_Monad.return (Inl (errObserveStatusUnknown code))
        else finish_observe E d respErr
      }) }) (\<lambda>_. ?P) w1"
    using send(1) checks(1) obj code
    by (simp add: wp_simps Let_def determineIfRemoved_def IsRemovedResponseCheck_def defaultIsRemovedCheck_def)
  then show ?thesis
    unfolding observeExternalRefDriven_def
    using identity gen by (simp add: wp_bind [of theObj] wp_theObj wp_bind [of "GenerateValidRequestDetails E m"])
      (simp add: wp_def)
qed

end
