(* ===== verification/RequestController.thy ===== *)
theory RequestController
  imports Observe
begin

text \<open>
  The external client of \<^verbatim>\<open>internal/controller/namespaced/request/request.go\<close> (its copy under
  \<^verbatim>\<open>cluster\<close> has the same four operations): \<open>Observe\<close>, \<open>Create\<close>, \<open>Update\<close>, \<open>Delete\<close>, which the managed
  reconciler of crossplane-runtime calls.

  The type assertion on the managed resource always holds here: the model's resources are
  AsyncRequests. Crossplane's conditions are its documented ones; setting them is the environment's
  \<open>SetConditions\<close>.
\<close>

record ExternalObservation =
  ResourceExists :: bool
  ResourceUpToDate :: bool

definition terminalErrorPrefix :: string where "terminalErrorPrefix = ''Terminal error: ''"
definition errFailedToCheckIfUpToDate :: string where
  "errFailedToCheckIfUpToDate = ''failed to check if request is up to date''"
definition errFailedToSendHttpRequest :: string where
  "errFailedToSendHttpRequest = ''failed to execute HTTP action''"
definition errGetLatestVersion :: string where
  "errGetLatestVersion = ''failed to get the latest version of the resource''"

definition setCondition :: "AsyncRequest env \<Rightarrow> (int \<Rightarrow> Condition) \<Rightarrow> (AsyncRequest world, unit) state" where
  "setCondition E c = do {
     now \<leftarrow> timeNow E;
     modifyObj (\<lambda>cr. SetConditionList (SetConditions E (Conditions (Status cr)) [c now]) cr)
   }"

subsection \<open>Observe\<close>

text \<open>The external name seeds the external reference, unless it is the name of the object itself.\<close>

definition import_ref :: "AsyncRequest \<Rightarrow> string option" where
  "import_ref cr =
     (let extName = GetExternalName cr
      in if ExternalRef (Status cr) = [] \<and> extName \<noteq> [] \<and> extName \<noteq> Name cr then Some extName else None)"

definition seedExternalRef :: "AsyncRequest env \<Rightarrow> (AsyncRequest world, goerr option) state" where
  "seedExternalRef E = do {
     cr \<leftarrow> theObj;
     case import_ref cr of
       None \<Rightarrow> State_Monad.return None
     | Some extName \<Rightarrow> do {
         modifyObj (SetExternalRef extName);
         r \<leftarrow> kubeStatusUpdate E;
         State_Monad.return (Wrap r ''failed to seed externalRef from external-name annotation'')
       }
   }"

text \<open>What is done with an observation that is no terminal failure.\<close>

definition report_observation ::
  "AsyncRequest env \<Rightarrow> ObserveRequestDetails \<Rightarrow> (AsyncRequest world, goerr + ExternalObservation) state" where
  "report_observation E obs = do {
     h \<leftarrow> NewStatusHandler E (ObsDetails obs) (ResponseError obs);
     case h of
       Inl err \<Rightarrow> State_Monad.return (Inl err)
     | Inr hdl \<Rightarrow> do {
         setCondition E (if InFlight obs then Creating else Available);
         r \<leftarrow> SetRequestStatus E (if Synced obs then handlerResetFailures hdl else hdl);
         State_Monad.return
           (case r of
              Some err \<Rightarrow> Inl (Wrapped err '' failed updating status'')
            | None \<Rightarrow> Inr \<lparr>ResourceExists = True, ResourceUpToDate = Synced obs\<rparr>)
       }
   }"

definition Observe ::
  "AsyncRequest env \<Rightarrow> (AsyncRequest world, goerr + ExternalObservation) state" where
  "Observe E = do {
     s \<leftarrow> seedExternalRef E;
     case s of
       Some err \<Rightarrow> State_Monad.return (Inl err)
     | None \<Rightarrow> do {
         r \<leftarrow> IsUpToDate E;
         case r of
           Inl err \<Rightarrow> State_Monad.return
             (if Error err = ErrObjectNotFound
              then Inr \<lparr>ResourceExists = False, ResourceUpToDate = False\<rparr>
              else Inl (Wrapped err errFailedToCheckIfUpToDate))
         | Inr obs \<Rightarrow>
             if ObsTerminalError obs \<noteq> [] then do {
               let msg = terminalErrorPrefix @ ObsTerminalError obs;
               setCondition E (Unavailable msg);
               State_Monad.return (Inl (ErrorString msg))
             }
             else report_observation E obs
       }
   }"

subsection \<open>Create, Update, Delete\<close>

text \<open>Each reads the latest version first.\<close>

definition with_latest ::
  "AsyncRequest env \<Rightarrow> (AsyncRequest world, goerr option) state \<Rightarrow> (AsyncRequest world, goerr option) state" where
  "with_latest E act = do {
     g \<leftarrow> kubeGet E;
     onError g (\<lambda>e. State_Monad.return (Some (Wrapped e errGetLatestVersion))) (do {
       r \<leftarrow> act;
       State_Monad.return (Wrap r errFailedToSendHttpRequest)
     })
   }"

definition Create :: "nat \<Rightarrow> AsyncRequest env \<Rightarrow> (AsyncRequest world, goerr option) state" where
  "Create fuel E = with_latest E (DeployAction E (Poll fuel E) ActionCreate)"

definition Update :: "nat \<Rightarrow> AsyncRequest env \<Rightarrow> (AsyncRequest world, goerr option) state" where
  "Update fuel E = with_latest E (DeployAction E (Poll fuel E) ActionUpdate)"

text \<open>
  A CREATE still in flight has an anchor and no external reference: its poll is resumed first, by the
  CREATE mapping.
\<close>

definition create_in_flight :: "AsyncRequest \<Rightarrow> bool" where
  "create_in_flight cr \<longleftrightarrow> GetPollingResponse cr \<noteq> JNilMap \<and> ExternalRef (Status cr) = []"

definition Delete :: "nat \<Rightarrow> AsyncRequest env \<Rightarrow> (AsyncRequest world, goerr option) state" where
  "Delete fuel E = with_latest E (do {
     cr \<leftarrow> theObj;
     DeployAction E (Poll fuel E) (if create_in_flight cr then ActionCreate else ActionRemove)
   })"

end
