(* ===== verification/AnchorSafety.thy ===== *)
theory AnchorSafety
  imports CallOrder
begin

text \<open>
  What an anchor in the status means for the calls made while it is there. The controllers read through the
  cache of their manager: a read may answer an older version, or one that somebody else has changed. So two
  things are told apart, both functions of the history: the anchor that is \<open>stored\<close> by the writes the API server
  accepted, and the one the controller has \<open>seen\<close> last. \<open>anchor_safe\<close> is about the latter; where the two differ
  the last read was stale.
\<close>

subsection \<open>What is stored and what is seen\<close>

text \<open>The anchor in the API server after a history, \<open>a0\<close> the one it starts with.\<close>

fun stored :: "('cr \<Rightarrow> string option) \<Rightarrow> string option \<Rightarrow> 'cr event list \<Rightarrow> string option" where
  "stored raw a0 [] = a0"
| "stored raw a0 (StatusUpdate cr None # h) = raw cr"
| "stored raw a0 (_ # h) = stored raw a0 h"

text \<open>The object as the controller last saw it: the answer of a read, or what an accepted write wrote.\<close>

fun last_seen :: "'cr event list \<Rightarrow> 'cr option" where
  "last_seen [] = None"
| "last_seen (KubeGet cr None # h) = Some cr"
| "last_seen (StatusUpdate cr None # h) = Some cr"
| "last_seen (_ # h) = last_seen h"

definition seen :: "('cr \<Rightarrow> string option) \<Rightarrow> string option \<Rightarrow> 'cr event list \<Rightarrow> string option" where
  "seen raw a0 h = (case last_seen h of None \<Rightarrow> a0 | Some cr \<Rightarrow> raw cr)"

lemma seen_simps [simp]:
  "seen raw a0 [] = a0"
  "seen raw a0 (KubeGet cr None # h) = raw cr" "seen raw a0 (KubeGet cr (Some e) # h) = seen raw a0 h"
  "seen raw a0 (StatusUpdate cr None # h) = raw cr" "seen raw a0 (StatusUpdate cr (Some e) # h) = seen raw a0 h"
  "seen raw a0 (HttpSent c d err # h) = seen raw a0 h" "seen raw a0 (ClockRead t # h) = seen raw a0 h"
  "seen raw a0 (Waited t # h) = seen raw a0 h" "seen raw a0 (SecretRead n m # h) = seen raw a0 h"
  "seen raw a0 (SecretWritten s err # h) = seen raw a0 h" "seen raw a0 (SecretCreated s err # h) = seen raw a0 h"
  by (simp_all add: seen_def)

definition anchored :: "string option \<Rightarrow> bool" where
  "anchored a \<longleftrightarrow> RawExtensionToMap a \<noteq> JNilMap"

lemma not_anchored_None [simp]: "\<not> anchored None"
  by (simp add: anchored_def RawExtensionToMap_def)

text \<open>The last thing seen is a read whose answer lacks the anchor that is stored.\<close>

fun stale_read :: "('cr \<Rightarrow> string option) \<Rightarrow> string option \<Rightarrow> 'cr event list \<Rightarrow> bool" where
  "stale_read raw a0 [] = False"
| "stale_read raw a0 (KubeGet cr None # h) \<longleftrightarrow> \<not> anchored (raw cr) \<and> anchored (stored raw a0 h)"
| "stale_read raw a0 (StatusUpdate cr None # h) = False"
| "stale_read raw a0 (_ # h) = stale_read raw a0 h"

lemma unseen_stale:
  "anchored (stored raw a0 h) \<Longrightarrow> \<not> anchored (seen raw a0 h) \<Longrightarrow> stale_read raw a0 h"
  by (induction raw a0 h rule: stale_read.induct) auto

subsection \<open>No call but polls while an anchor is seen\<close>

fun anchor_safe :: "('cr \<Rightarrow> string option) \<Rightarrow> string option \<Rightarrow> 'cr event list \<Rightarrow> bool" where
  "anchor_safe raw a0 [] \<longleftrightarrow> True"
| "anchor_safe raw a0 (HttpSent c d e # h) \<longleftrightarrow>
     (\<not> anchored (seen raw a0 h) \<or> is_poll_event (HttpSent c d e :: 'cr event)) \<and> anchor_safe raw a0 h"
| "anchor_safe raw a0 (_ # h) \<longleftrightarrow> anchor_safe raw a0 h"

text \<open>
  What the API server promises: an accepted write answers the object with the anchor it wrote. Nothing is asked
  of its reads.
\<close>

definition writes_answered :: "('cr \<Rightarrow> string option) \<Rightarrow> 'cr env \<Rightarrow> bool" where
  "writes_answered raw E \<longleftrightarrow> (\<forall>h cr x. KubeStatusWrite E h cr = (None, x) \<longrightarrow> raw x = raw cr)"

lemma anchor_safe_suffix: "anchor_safe raw a0 (es @ h) \<Longrightarrow> anchor_safe raw a0 h"
proof (induction es)
  case (Cons e es)
  then show ?case by (cases e) auto
qed simp

lemma anchor_safe_harmless: "list_all harmless es \<Longrightarrow> anchor_safe raw a0 (es @ h) = anchor_safe raw a0 h"
proof (induction es)
  case (Cons e es)
  then show ?case by (cases e) (auto simp: harmless_def)
qed simp

lemma anchor_safe_adds:
  "adds harmless w w' \<Longrightarrow> anchor_safe raw a0 (Hist w) \<Longrightarrow> anchor_safe raw a0 (Hist w')"
  by (auto simp: adds_def anchor_safe_harmless)

text \<open>What a call in a safe history tells.\<close>

lemma anchor_safe_call:
  assumes "anchor_safe raw a0 (Hist w)" "Hist w = later @ HttpSent c d err # earlier"
  shows "c = poll_call (Decrypted (CallURL c)) \<and> validateOperationURL (Decrypted (CallURL c)) = [] \<or>
    \<not> anchored (seen raw a0 earlier)"
  using anchor_safe_suffix [of raw a0 later "HttpSent c d err # earlier"] assms by (auto simp: is_poll_event_def)

lemma seen_secrets: "adds is_secret_read w w' \<Longrightarrow> seen raw a0 (Hist w') = seen raw a0 (Hist w)"
proof -
  have "list_all is_secret_read es \<Longrightarrow> seen raw a0 (es @ h) = seen raw a0 h" for es h
  proof (induction es)
    case (Cons e es)
    then show ?case by (cases e) (auto simp: is_secret_read_def)
  qed simp
  then show "adds is_secret_read w w' \<Longrightarrow> seen raw a0 (Hist w') = seen raw a0 (Hist w)"
    by (auto simp: adds_def)
qed

text \<open>The resource in memory has the anchor that was last seen.\<close>

definition in_step :: "('cr \<Rightarrow> string option) \<Rightarrow> string option \<Rightarrow> 'cr world \<Rightarrow> bool" where
  "in_step raw a0 w \<longleftrightarrow> raw (Obj w) = seen raw a0 (Hist w)"

lemma kubeGet_in_step:
  "wp (kubeGet E) (\<lambda>g w'. (g = None \<longrightarrow> in_step raw a0 w') \<and>
    (anchor_safe raw a0 (Hist w) \<longrightarrow> anchor_safe raw a0 (Hist w'))) w"
  unfolding in_step_def by (auto simp: wp_simps Let_def)

lemma kubeStatusUpdate_in_step:
  assumes "writes_answered raw E"
  shows "wp (kubeStatusUpdate E) (\<lambda>g w'. (g = None \<longrightarrow> in_step raw a0 w')) w"
  using assms unfolding writes_answered_def in_step_def
  by (auto simp: wp_simps Let_def) (metis prod.collapse)

lemma harmless_safe:
  assumes "emits harmless m" "anchor_safe raw a0 (Hist w)"
  shows "wp m (\<lambda>_ w'. anchor_safe raw a0 (Hist w')) w"
  by (rule wp_mono [OF keeps_wpI [OF assms(1)]]) (rule anchor_safe_adds [OF _ assms(2)])

lemma harmless_then_safe:
  assumes "wp m (\<lambda>_ w'. anchor_safe raw a0 (Hist w')) w" "\<And>x. emits harmless (f x)"
  shows "wp (State_Monad.bind m f) (\<lambda>_ w'. anchor_safe raw a0 (Hist w')) w"
  unfolding wp_bind
  by (rule wp_mono [OF assms(1)]) (auto intro!: wp_mono [OF keeps_wpI [OF assms(2)]] intro: anchor_safe_adds)

end
