(* ===== verification/Lifecycle.thy ===== *)
theory Lifecycle
  imports RequestController AnchorSafety
begin

text \<open>
  The life of one AsyncRequest over many reconciles, with crashes: a step relation whose steps are
  the controller's operations, each on the resource as it is read at its start, and cut off anywhere.

  The safety property the anchor exists for is an invariant of the history: while the resource as it was last
  read or written has an anchor, no call but a poll is made (\<open>anchor_safe\<close>).
\<close>

subsection \<open>The steps\<close>

datatype operation = DoObserve | DoCreate | DoUpdate | DoDelete

text \<open>The reconciler reads the resource and then observes it; the other operations read it themselves.\<close>

definition observe_latest :: "AsyncRequest env \<Rightarrow> (AsyncRequest world, unit) state" where
  "observe_latest E = do {
     g \<leftarrow> kubeGet E;
     onError g (\<lambda>_. State_Monad.return ()) (do { r \<leftarrow> Observe E; State_Monad.return () })
   }"

definition run_operation :: "nat \<Rightarrow> AsyncRequest env \<Rightarrow> operation \<Rightarrow> (AsyncRequest world, unit) state" where
  "run_operation fuel E op =
     (case op of
        DoObserve \<Rightarrow> observe_latest E
      | DoCreate \<Rightarrow> do { r \<leftarrow> Create fuel E; State_Monad.return () }
      | DoUpdate \<Rightarrow> do { r \<leftarrow> Update fuel E; State_Monad.return () }
      | DoDelete \<Rightarrow> do { r \<leftarrow> Delete fuel E; State_Monad.return () })"

text \<open>A crash keeps some of the calls, the first ones, and nothing of the memory.\<close>

inductive reaches :: "AsyncRequest env \<Rightarrow> AsyncRequest world \<Rightarrow> bool" for E where
  start: "Hist w = [] \<Longrightarrow> reaches E w"
| finish: "reaches E w \<Longrightarrow> run_state (run_operation fuel E op) w = ((), w') \<Longrightarrow> reaches E w'"
| crash: "reaches E w \<Longrightarrow> run_state (run_operation fuel E op) w = ((), w') \<Longrightarrow>
    Hist w' = lost @ kept @ Hist w \<Longrightarrow> Hist v = kept @ Hist w \<Longrightarrow> reaches E v"

inductive_cases reachesE: "reaches E w"

lemma reaches_cut:
  assumes "reaches E w" "drop k (Hist (snd (run_state (run_operation n E op) w))) = Hist v" "Hist v = kept @ Hist w"
  shows "reaches E v"
proof (rule reaches.crash [OF assms(1)])
  show "run_state (run_operation n E op) w = ((), snd (run_state (run_operation n E op) w))"
    by (simp add: prod_eq_iff)
  show "Hist (snd (run_state (run_operation n E op) w)) =
      take k (Hist (snd (run_state (run_operation n E op) w))) @ kept @ Hist w"
    using assms(2,3) by (metis append_take_drop_id)
qed (rule assms(3))

subsection \<open>Every operation keeps the invariant\<close>

lemma in_step_anchored:
  "in_step raw_anchor a0 w \<Longrightarrow> anchored (seen raw_anchor a0 (Hist w)) \<longleftrightarrow> GetPollingResponse (Obj w) \<noteq> JNilMap"
  by (simp add: in_step_def anchored_def GetPollingResponse_def)

text \<open>A call made with generated details, when no anchor is stored.\<close>

lemma call_safe:
  assumes free: "\<not> anchored (seen raw_anchor a0 (Hist w))" and safe: "anchor_safe raw_anchor a0 (Hist w)"
    and rest: "\<And>x d. emits harmless (f x d)" "\<And>e. emits harmless (k e)"
  shows "wp (do {
      g \<leftarrow> GenerateValidRequestDetails E m;
      case g of
        Inl err \<Rightarrow> k err
      | Inr rd \<Rightarrow> do { (d, err) \<leftarrow> sendRequest E (c rd); f d err } })
    (\<lambda>_ w'. anchor_safe raw_anchor a0 (Hist w')) w"
proof -
  have gen: "wp (GenerateValidRequestDetails E m) (\<lambda>_ w1. adds is_secret_read w w1) w"
    by (rule keeps_wpI) (rule emits_same_emits [OF emits_GenerateValidRequestDetails])
  have "anchor_safe raw_anchor a0 (Hist w1) \<and> \<not> anchored (seen raw_anchor a0 (Hist w1))" if "adds is_secret_read w w1" for w1
    using that free safe seen_secrets [OF that] adds_mono [OF that, of harmless] anchor_safe_adds
    by auto
  then show ?thesis
    unfolding wp_bind
    by (intro wp_mono [OF gen])
       (auto simp: wp_simps Let_def intro!: harmless_safe rest split: sum.split prod.split)
qed

lemma mutate_call_safe:
  assumes "\<not> anchored (seen raw_anchor a0 (Hist w))" "anchor_safe raw_anchor a0 (Hist w)"
  shows "wp (mutate_call E m) (\<lambda>_ w'. anchor_safe raw_anchor a0 (Hist w')) w"
proof -
  have "emits harmless (ApplyResponseDataToSecrets E cr ns uid r cfgs)" for cr ns uid r cfgs
    by (rule emits_mono [OF emits_same_emits [OF emits_ApplyResponseDataToSecrets]]) simp
  then show ?thesis
    unfolding mutate_call_def
    by (intro call_safe assms) (auto intro!: keeps_bind keeps_if emits_theObj keeps_return_world)
qed

lemma emits_harmless:
  assumes "retry_contract E"
  shows "emits harmless (deploy_sync E m d err)" "emits harmless (start_operation E m d err)"
    "emits harmless (run_poll E (Poll n E) m mr)" "emits harmless (finish_observe E d err)"
    "emits harmless (determineIfRemoved E d)" "emits harmless (clearTerminalError E)"
    "emits harmless (stall E msg)"
  by (rule emits_harmlessI(2) [OF emits_deploy_sync [OF assms]]
        emits_harmlessI(2) [OF emits_start_operation [OF assms]]
        emits_harmlessI(3) [OF foreground.emits_run_poll [OF assms]]
        emits_harmlessI(1) [OF emits_finish_observe [OF assms]]
        emits_harmlessI(1) [OF emits_determineIfRemoved]
      | (rule emits_observe_writes [OF assms]; simp))+

lemma fire_action_safe:
  assumes "retry_contract E" "\<not> anchored (seen raw_anchor a0 (Hist w))" "anchor_safe raw_anchor a0 (Hist w)"
  shows "wp (fire_action E (Poll n E) m) (\<lambda>_ w'. anchor_safe raw_anchor a0 (Hist w')) w"
  unfolding fire_action_def
  by (rule harmless_then_safe [OF mutate_call_safe [OF assms(2,3)]])
     (auto intro!: keeps_bind keeps_sum keeps_if keeps_return_world emits_harmless [OF assms(1)])

lemma DeployAction_safe:
  assumes retry: "retry_contract E" and w: "in_step raw_anchor a0 w" "anchor_safe raw_anchor a0 (Hist w)"
  shows "wp (DeployAction E (Poll n E) action) (\<lambda>_ w'. anchor_safe raw_anchor a0 (Hist w')) w"
proof -
  let ?w = "w\<lparr>Obj := (Obj w)\<lparr>ForProvider := snd (GetMapping (ForProvider (Obj w)) action)\<rparr>\<rparr>"
  have p: "GetPollingResponse ((Obj w)\<lparr>ForProvider := q\<rparr>) = GetPollingResponse (Obj w)" for q
    by (simp add: GetPollingResponse_def)
  have resume: "wp (resume_action E (Poll n E) m j) (\<lambda>_ w'. anchor_safe raw_anchor a0 (Hist w')) ?w" for m j
    using w(2) by (intro harmless_safe emits_harmlessI(3) foreground.emits_resume_action [OF retry]) simp
  have fire: "wp (fire_action E (Poll n E) m) (\<lambda>_ w'. anchor_safe raw_anchor a0 (Hist w')) ?w"
    if "GetPollingResponse (Obj w) = JNilMap" for m
    using that w in_step_anchored [OF w(1)] by (intro fire_action_safe [OF retry]) auto
  show ?thesis
    using resume fire w(2) by (auto simp: DeployAction_def wp_simps Let_def p split: sum.split)
qed

lemma observe_live_safe:
  assumes retry: "retry_contract E" and w: "in_step raw_anchor a0 w" "anchor_safe raw_anchor a0 (Hist w)"
  shows "wp (observe_live E) (\<lambda>_ w'. anchor_safe raw_anchor a0 (Hist w')) w"
proof -
  note free = in_step_anchored [OF w(1)]
  let ?w = "\<lambda>p. w\<lparr>Obj := (Obj w)\<lparr>ForProvider := p\<rparr>\<rparr>"
  have ext: "wp (observeExternalRefDriven E m) (\<lambda>_ w'. anchor_safe raw_anchor a0 (Hist w')) (?w p)"
    if "GetPollingResponse (Obj w) = JNilMap" for m p
    unfolding observeExternalRefDriven_def wp_bind [of theObj] wp_theObj wp_if Let_def
    using that free w(2)
    by (auto simp: wp_return intro!: call_safe keeps_bind keeps_return_world keeps_onError keeps_if emits_theObj
        emits_harmless [OF retry])
  have resp: "wp (observeResponseDriven E m) (\<lambda>_ w'. anchor_safe raw_anchor a0 (Hist w')) (?w p)"
    if "GetPollingResponse (Obj w) = JNilMap" for m p
    unfolding observeResponseDriven_def wp_bind [of theObj] wp_theObj Let_def
    using that free w(2)
    by (intro call_safe)
       (auto intro!: keeps_bind keeps_return_world keeps_onError keeps_if emits_theObj
        emits_harmless [OF retry])
  have st: "wp (stall E msg) (\<lambda>_ w'. anchor_safe raw_anchor a0 (Hist w')) (?w p)" for msg p
    using w(2) by (intro harmless_safe emits_harmless [OF retry]) simp
  show ?thesis
    unfolding observe_live_def
    using w(2) by (auto simp: wp_simps Let_def ext resp st split: sum.split)
qed

text \<open>A successful status update leaves the resource in step.\<close>

lemma update_status_in_step:
  assumes "retry_contract E" "writes_answered raw_anchor E"
  shows "wp (update_status E msg change) (\<lambda>r w'. r = None \<longrightarrow> in_step raw_anchor a0 w') w"
  unfolding update_status_def
proof (rule wp_RetryOnConflict [OF assms(1), where I = "\<lambda>_. True"])
  have upd: "wp (kubeStatusUpdate E) (\<lambda>r w'. r = None \<longrightarrow> in_step raw_anchor a0 w') v" for v
    using kubeStatusUpdate_in_step [OF assms(2)] .
  have "wp (update_attempt E msg change) (\<lambda>r w'. r = None \<longrightarrow> in_step raw_anchor a0 w') v" for v
    unfolding update_attempt_def
    by (auto simp: wp_bind wp_kubeGet wp_onError wp_return Let_def upd wp_fst_snd [of change] split: option.split)
  then show "wp (update_attempt E msg change) (\<lambda>r w'. if IsConflict r then True \<and> (r = None \<longrightarrow> in_step raw_anchor a0 w')
      else r = None \<longrightarrow> in_step raw_anchor a0 w') v" for v
    by (rule wp_mono) auto
qed simp

lemma IsUpToDate_safe:
  assumes retry: "retry_contract E" and api: "writes_answered raw_anchor E" and w: "in_step raw_anchor a0 w" "anchor_safe raw_anchor a0 (Hist w)"
  shows "wp (IsUpToDate E) (\<lambda>_ w'. anchor_safe raw_anchor a0 (Hist w')) w"
proof -
  have "wp (clearTerminalError E) (\<lambda>r w'. (r = None \<longrightarrow> in_step raw_anchor a0 w') \<and> anchor_safe raw_anchor a0 (Hist w')) w"
    using update_status_in_step [OF retry api] harmless_safe [OF emits_harmless(6) [OF retry] w(2)]
    by (intro wp_conj) (simp_all add: clearTerminalError_def)
  then have "wp (clearTerminalError E) (\<lambda>r. wp (onError r (\<lambda>e. State_Monad.return (Inl e)) (observe_live E))
      (\<lambda>_ w'. anchor_safe raw_anchor a0 (Hist w'))) w"
    by (rule wp_mono) (auto simp: wp_simps observe_live_safe [OF retry] split: option.split)
  then show ?thesis
    using w observe_live_safe [OF retry w] by (simp add: IsUpToDate_def wp_bind wp_theObj wp_return)
qed

lemma seedExternalRef_safe:
  assumes api: "writes_answered raw_anchor E" and w: "in_step raw_anchor a0 w" "anchor_safe raw_anchor a0 (Hist w)"
  shows "wp (seedExternalRef E) (\<lambda>r w'. (r = None \<longrightarrow> in_step raw_anchor a0 w') \<and> anchor_safe raw_anchor a0 (Hist w')) w"
proof -
  have "wp (kubeStatusUpdate E) (\<lambda>r w'. (r = None \<longrightarrow> in_step raw_anchor a0 w') \<and> anchor_safe raw_anchor a0 (Hist w')) v"
    if "anchor_safe raw_anchor a0 (Hist v)" for v
    using kubeStatusUpdate_in_step [OF api] that
    by (intro wp_conj) (auto simp: wp_simps Let_def)
  then show ?thesis
    using w by (auto simp: seedExternalRef_def wp_bind wp_theObj wp_modifyObj wp_return_eta elim!: wp_mono split: option.split)
qed

lemma emits_report_observation:
  assumes "retry_contract E"
  shows "emits harmless (report_observation E obs)"
proof -
  have set: "emits harmless (SetRequestStatus E (if b then handlerResetFailures h else h))"
    if "handler_ok h" for h b
    using that by (intro emits_harmlessI(2) emits_SetRequestStatus assms) simp
  show ?thesis
    unfolding report_observation_def
    by (rule keeps_bind_result [OF _ _ NewStatusHandler_ok])
       (auto simp: setCondition_def intro!: keeps_bind keeps_sum keeps_return_world set emits_modifyObj emits_timeNow
          emits_harmlessI(2) [OF emits_NewStatusHandler])
qed

lemma Observe_safe:
  assumes retry: "retry_contract E" and api: "writes_answered raw_anchor E" and w: "in_step raw_anchor a0 w" "anchor_safe raw_anchor a0 (Hist w)"
  shows "wp (Observe E) (\<lambda>_ w'. anchor_safe raw_anchor a0 (Hist w')) w"
proof -
  have rest: "emits harmless (case r of
           Inl err \<Rightarrow> State_Monad.return
             (if Error err = ErrObjectNotFound
              then Inr \<lparr>ResourceExists = False, ResourceUpToDate = False\<rparr>
              else Inl (Wrapped err errFailedToCheckIfUpToDate))
         | Inr obs \<Rightarrow>
             if ObsTerminalError obs \<noteq> [] then do {
               let msg = terminalErrorPrefix @ ObsTerminalError obs;
               setCondition E (Unavailable msg);
               State_Monad.return (Inl (ErrorString msg))
             }
             else report_observation E obs)" for r
    by (auto simp: setCondition_def Let_def intro!: keeps_bind keeps_sum keeps_if keeps_return_world
        emits_modifyObj emits_timeNow emits_report_observation [OF retry])
  have live: "wp (do { r \<leftarrow> IsUpToDate E; case r of
           Inl err \<Rightarrow> State_Monad.return
             (if Error err = ErrObjectNotFound
              then Inr \<lparr>ResourceExists = False, ResourceUpToDate = False\<rparr>
              else Inl (Wrapped err errFailedToCheckIfUpToDate))
         | Inr obs \<Rightarrow>
             if ObsTerminalError obs \<noteq> [] then do {
               let msg = terminalErrorPrefix @ ObsTerminalError obs;
               setCondition E (Unavailable msg);
               State_Monad.return (Inl (ErrorString msg))
             }
             else report_observation E obs }) (\<lambda>_ w'. anchor_safe raw_anchor a0 (Hist w')) v"
    if "in_step raw_anchor a0 v" "anchor_safe raw_anchor a0 (Hist v)" for v
    by (rule harmless_then_safe [OF IsUpToDate_safe [OF retry api that] rest])
  show ?thesis
    unfolding Observe_def wp_bind [of "seedExternalRef E"]
    by (rule wp_mono [OF seedExternalRef_safe [OF api w]])
       (auto simp: wp_return live split: option.split)
qed

lemma with_latest_safe:
  assumes api: "writes_answered raw_anchor E" and w: "anchor_safe raw_anchor a0 (Hist w)"
    and act: "\<And>v. in_step raw_anchor a0 v \<Longrightarrow> anchor_safe raw_anchor a0 (Hist v) \<Longrightarrow> wp act (\<lambda>_ w'. anchor_safe raw_anchor a0 (Hist w')) v"
  shows "wp (with_latest E act) (\<lambda>_ w'. anchor_safe raw_anchor a0 (Hist w')) w"
  unfolding with_latest_def wp_bind
  by (rule wp_mono [OF kubeGet_in_step])
     (use w act in \<open>auto simp: wp_simps split: option.split\<close>)

lemma run_operation_safe:
  assumes retry: "retry_contract E" and api: "writes_answered raw_anchor E" and w: "anchor_safe raw_anchor a0 (Hist w)"
  shows "wp (run_operation n E op) (\<lambda>_ w'. anchor_safe raw_anchor a0 (Hist w')) w"
proof -
  have "wp (observe_latest E) (\<lambda>_ w'. anchor_safe raw_anchor a0 (Hist w')) w"
    unfolding observe_latest_def wp_bind
    by (rule wp_mono [OF kubeGet_in_step])
       (use w Observe_safe [OF retry api] in \<open>auto simp: wp_simps split: option.split\<close>)
  moreover have "wp (with_latest E (DeployAction E (Poll n E) a)) (\<lambda>_ w'. anchor_safe raw_anchor a0 (Hist w')) w" for a
    by (rule with_latest_safe [OF api w DeployAction_safe [OF retry]])
  moreover have "wp (with_latest E (do { cr \<leftarrow> theObj; DeployAction E (Poll n E) (f cr) }))
      (\<lambda>_ w'. anchor_safe raw_anchor a0 (Hist w')) w" for f
    by (rule with_latest_safe [OF api w]) (simp add: wp_bind wp_theObj DeployAction_safe [OF retry])
  ultimately show ?thesis
    by (auto simp: run_operation_def Create_def Update_def Delete_def wp_simps split: operation.split)
qed

theorem reaches_anchor_safe:
  assumes "reaches E w" "retry_contract E" "writes_answered raw_anchor E"
  shows "anchor_safe raw_anchor a0 (Hist w)"
  using assms(1)
proof induction
  case (start w)
  then show ?case by simp
next
  case (finish w fuel op w')
  with run_operation_safe [OF assms(2,3)] show ?case by (blast dest: wp_run)
next
  case (crash w fuel op w' lost kept v)
  with run_operation_safe [OF assms(2,3)] have "anchor_safe raw_anchor a0 (Hist w')" by (blast dest: wp_run)
  with crash show ?case by (metis anchor_safe_suffix)
qed

end
