(* ===== verification/Example.thy ===== *)
theory Example
  imports Lifecycle
begin

text \<open>
  A small concrete world: the instances at which the witnesses apply the properties. The resource
  creates a thing by a POST that starts an operation, and polls it; the API server keeps what it is
  given; the jq engine knows the programs of the example.
\<close>

definition ex_polling :: Polling where
  "ex_polling = \<lparr>PollURL = ''url'', PollDone = ''done'', PollError = [], PollTimeout = None, PollInterval = None\<rparr>"

definition ex_create :: Mapping where
  "ex_create = \<lparr>Method = ''POST'', Action = ''CREATE'', MapBody = [], URL = ''base'',
     MapHeaders = None, MapPolling = Some ex_polling\<rparr>"

definition ex_observe :: Mapping where
  "ex_observe = \<lparr>Method = ''GET'', Action = ''OBSERVE'', MapBody = [],
     URL = ''.status.externalRef'', MapHeaders = None, MapPolling = None\<rparr>"

definition ex_remove :: Mapping where
  "ex_remove = \<lparr>Method = ''DELETE'', Action = ''REMOVE'', MapBody = [],
     URL = ''.status.externalRef'', MapHeaders = None, MapPolling = None\<rparr>"

definition ex_check :: ResponseCheck where "ex_check = \<lparr>CheckType = [], CheckLogic = []\<rparr>"

definition ex_spec :: AsyncRequestParameters where
  "ex_spec = \<lparr>Mappings = [ex_create, ex_observe, ex_remove], BaseUrl = [], PayloadBody = [],
     DefaultHeaders = None, WaitTimeout = None, InsecureSkipTLSVerify = False, TLS = None,
     SecretInjectionConfigs = [], ExpectedResponseCheck = ex_check, ResourceExistsCheck = ex_check,
     IsRemovedCheck = ex_check, AllowedStatusCodes = [], ExternalRefExpr = ''ref'', IsTerminalError = [],
     OIDC = None, GCP = None\<rparr>"

definition ex_status :: AsyncRequestStatus where
  "ex_status = \<lparr>Conditions = [], ObservedGeneration = 0, StatusResponse = emptyResponse,
     CacheLastUpdated = [], CacheResponse = emptyResponse, Failed = 0, StatusError = [],
     RequestDetails = emptyMapping, ExternalRef = [], TerminalError = [], PollingResponse = None,
     StartedAt = None\<rparr>"

definition ex_request :: AsyncRequest where
  "ex_request = \<lparr>Name = ''thing'', Namespace = ''ns'', UID = ''uid'', Generation = 1,
     DeletionTimestamp = None, Annotations = [], ProviderConfigRef = None, ForProvider = ex_spec,
     Status = ex_status\<rparr>"

definition ex_response :: Response where
  "ex_response = \<lparr>StatusCode = 200, Body = ''ok'', Headers = Some []\<rparr>"

definition ex_details :: "http_call \<Rightarrow> HttpDetails" where
  "ex_details c = \<lparr>HttpResponse = ex_response,
     HttpRequest = \<lparr>ReqMethod = CallMethod c, ReqBody = Encrypted (CallBody c), ReqURL = Encrypted (CallURL c),
       ReqHeaders = Encrypted (CallHeaders c)\<rparr>\<rparr>"

definition ex_jq :: "string \<Rightarrow> json \<Rightarrow> jq_next" where
  "ex_jq q v =
     (if q = ''url'' then JqValue (JStr ''http://h'')
      else if q = ''base'' then JqValue (JStr ''http://h'')
      else if q = ''.status.externalRef'' then JqValue (JStr ''http://h/7'')
      else if q = ''drifted'' then JqValue (JBool False)
      else if q = ''done'' then JqValue (JBool True)
      else if q = ''ref'' then JqValue (JStr ''7'')
      else JqNone)"

primrec ex_clock :: "AsyncRequest event list \<Rightarrow> int" where
  "ex_clock [] = 0"
| "ex_clock (e # h) = ex_clock h + (case e of Waited d \<Rightarrow> max 0 d | _ \<Rightarrow> 0)"

definition ex_env :: "string option \<Rightarrow> AsyncRequest env" where
  "ex_env a0 = \<lparr>KubeRead = (\<lambda>h cr. (None, cr\<lparr>Status := (Status cr)\<lparr>PollingResponse := stored raw_anchor a0 h\<rparr>\<rparr>)),
     KubeStatusWrite = (\<lambda>h cr. (None, cr)), SendHTTP = (\<lambda>h c. (ex_details c, None)), Clock = ex_clock,
     ContextDone = (\<lambda>h. False), ContextErr = ErrorString ''context canceled'',
     ReadSecret = (\<lambda>h n s. Inl (KubeError NotFound ''no secret'')), WriteSecret = (\<lambda>h s. (None, s)),
     CreateSecret = (\<lambda>h s. (None, s)), AddOwner = (\<lambda>cr s. Inr s), JqParse = (\<lambda>q. None), JqFirst = ex_jq,
     RetryOnConflict = retry_steps 4, SetConditions = (\<lambda>old new. new), Base64 = id\<rparr>"

text \<open>The same outside, but for the first write of a status: it conflicts.\<close>

definition first_write :: "'cr event list \<Rightarrow> bool" where
  "first_write h \<longleftrightarrow> list_all (\<lambda>e. case e of StatusUpdate _ _ \<Rightarrow> False | _ \<Rightarrow> True) h"

definition refuse_first :: "'cr env \<Rightarrow> 'cr env" where
  "refuse_first E = E\<lparr>KubeStatusWrite := (\<lambda>h cr.
     if first_write h then (Some (KubeError Conflict ''the object has been modified''), cr) else (None, cr))\<rparr>"

definition ex_conflict_env :: "AsyncRequest env" where
  "ex_conflict_env = refuse_first (ex_env None)"

definition ex_anchor :: string where "ex_anchor = [CHR ''{'', CHR ''}'']"

definition ex_world :: "AsyncRequest \<Rightarrow> AsyncRequest world" where
  "ex_world cr = \<lparr>Obj = cr, Hist = [], Captured = (JNilMap, JNilMap)\<rparr>"

lemmas ex_simps = ex_polling_def ex_create_def ex_observe_def ex_remove_def ex_check_def ex_spec_def
  ex_status_def ex_request_def ex_response_def ex_details_def ex_jq_def ex_env_def ex_anchor_def ex_world_def
  emptyMapping_def emptyResponse_def

lemma ex_retry: "retry_contract (ex_env a0)"
  by (auto simp: retry_contract_def ex_env_def)

lemma ex_conflict_contracts: "retry_contract ex_conflict_env" "reads_not_conflict ex_conflict_env"
  by (auto simp: retry_contract_def reads_not_conflict_def ex_conflict_env_def refuse_first_def ex_env_def)

lemma ex_writes_answered: "writes_answered raw_anchor (ex_env a0)"
  by (simp add: writes_answered_def ex_env_def)

lemma ex_clock_contract: "clock_contract (ex_env a0)"
proof -
  have "0 \<le> (case e of Waited d \<Rightarrow> max 0 d | _ \<Rightarrow> (0::int))" for e :: "AsyncRequest event" by (cases e) auto
  then show ?thesis by (simp add: clock_contract_def ex_env_def)
qed

lemma ex_calls_return: "calls_return (ex_env a0)"
  by (simp add: calls_return_def ex_env_def)

subsection \<open>A CREATE from beginning to end\<close>

text \<open>
  The reconciler's CREATE of the example: the POST, the anchor, the poll, the external reference.
\<close>

definition ex_read :: "AsyncRequest world" where
  "ex_read = (ex_world ex_request)\<lparr>Hist := [KubeGet ex_request None]\<rparr>"

definition ex_call :: http_call where
  "ex_call = \<lparr>CallMethod = ''POST'', CallURL = \<lparr>Encrypted = ''http://h'', Decrypted = ''http://h''\<rparr>,
     CallBody = \<lparr>Encrypted = [], Decrypted = []\<rparr>,
     CallHeaders = \<lparr>Encrypted = Some [], Decrypted = Some []\<rparr>\<rparr>"

definition ex_response_map :: json where
  "ex_response_map = JObj [(''body'', JStr ''ok''), (''headers'', JObj []), (''statusCode'', JNum 2 2)]"

definition ex_anchored :: AsyncRequest where
  "ex_anchored = ex_request\<lparr>Status := ex_status
     \<lparr>PollingResponse := Some (json_marshal ex_response_map), StartedAt := Some 0\<rparr>\<rparr>"

definition ex_created :: AsyncRequest where
  "ex_created = ex_request\<lparr>Status := ex_status\<lparr>ExternalRef := ''7''\<rparr>\<rparr>"

definition ex_mutated_history :: "AsyncRequest event list" where
  "ex_mutated_history =
     [StatusUpdate ex_anchored None, ClockRead 0, KubeGet ex_request None,
      HttpSent ex_call (ex_details ex_call) None, KubeGet ex_request None]"

definition ex_poll :: "AsyncRequest event" where
  "ex_poll = HttpSent (poll_call ''http://h'') (ex_details (poll_call ''http://h'')) None"

definition ex_finished :: "AsyncRequest world" where
  "ex_finished = \<lparr>Obj = ex_created,
     Hist = [StatusUpdate ex_created None, KubeGet ex_anchored None, ex_poll, ClockRead 0, ClockRead 0,
             ClockRead 0] @ ex_mutated_history,
     Captured = (ex_response_map, ex_response_map)\<rparr>"

lemma ex_deploy:
  "run_state (DeployAction (ex_env None) (Poll 3 (ex_env None)) ActionCreate) ex_read = (None, ex_finished)"
  by code_simp

lemma ex_reconcile:
  "run_state (run_operation 3 (ex_env None) DoCreate) (ex_world ex_request) = ((), ex_finished)"
proof -
  have g: "run_state (kubeGet (ex_env None)) (ex_world ex_request) = (None, ex_read)"
    by (simp add: run_calls ex_env_def ex_world_def ex_read_def ex_request_def ex_status_def)
  show ?thesis
    by (simp add: run_operation_def Create_def with_latest_def g onError_def ex_deploy)
qed

lemma ex_anchor_stored: "anchored (PollingResponse (Status ex_anchored))"
  by code_simp

lemma ex_anchored_response: "GetPollingResponse ex_anchored \<noteq> JNilMap"
  using ex_anchor_stored by (simp add: anchored_def GetPollingResponse_def)

subsection \<open>A CREATE fired twice\<close>

text \<open>
  The same outside behind a cache that never sees the anchor: every read answers the resource as it was first. The
  first CREATE is cut off once its anchor is stored; the second reads, sees none, and fires again.
\<close>

definition ex_stale_env :: "AsyncRequest env" where
  "ex_stale_env = (ex_env None)\<lparr>KubeRead := (\<lambda>h cr. (None, ex_request))\<rparr>"

definition ex_cut_off :: "AsyncRequest world" where
  "ex_cut_off = (ex_world ex_request)\<lparr>Hist := ex_mutated_history\<rparr>"

definition ex_refired :: "AsyncRequest world" where
  "ex_refired = (ex_world ex_request)
     \<lparr>Hist := HttpSent ex_call (ex_details ex_call) None # KubeGet ex_request None # ex_mutated_history\<rparr>"

lemma ex_stale_contracts: "retry_contract ex_stale_env" "writes_answered raw_anchor ex_stale_env"
  by (auto simp: ex_stale_env_def retry_contract_def writes_answered_def ex_env_def)

lemma ex_stale_runs:
  "drop 6 (Hist (snd (run_state (run_operation 3 ex_stale_env DoCreate) (ex_world ex_request)))) = Hist ex_cut_off"
  "drop 9 (Hist (snd (run_state (run_operation 3 ex_stale_env DoCreate) ex_cut_off))) = Hist ex_refired"
  by code_simp+

lemma ex_twice: "reaches ex_stale_env ex_refired"
proof -
  have "reaches ex_stale_env ex_cut_off"
    by (rule reaches_cut [OF reaches.start ex_stale_runs(1)]) (simp_all add: ex_world_def)
  from reaches_cut [OF this ex_stale_runs(2)] show ?thesis
    by (simp add: ex_refired_def ex_cut_off_def ex_world_def)
qed

subsection \<open>Polls of the example\<close>

definition ex_polled :: "AsyncRequest world" where
  "ex_polled = (ex_world ex_anchored)\<lparr>Hist := [ex_poll, ClockRead 0, ClockRead 0, ClockRead 0]\<rparr>"

lemma ex_poll_run:
  "run_state (Poll 3 (ex_env None) ex_create ex_response_map) (ex_world ex_anchored) =
     ((ex_response_map,
       Inr (emptyResult\<lparr>Done := True, OperationURL := ''http://h'', PollResponse := ex_response_map\<rparr>)), ex_polled)"
  by code_simp

text \<open>The same, long after the operation began, and in deletion with a URL that is none.\<close>

definition ex_late :: "AsyncRequest world" where
  "ex_late = (ex_world ex_anchored)\<lparr>Hist := [Waited (DefaultPollTimeout + 1)]\<rparr>"

lemma ex_url_ok: "''http://h'' \<noteq> []" "validateOperationURL ''http://h'' = []"
  by code_simp+

definition ex_deleted :: "AsyncRequest world" where
  "ex_deleted = ex_world (ex_anchored\<lparr>DeletionTimestamp := Some 0\<rparr>)"

definition ex_bad_url :: Mapping where
  "ex_bad_url = ex_create\<lparr>MapPolling := Some (ex_polling\<lparr>PollURL := ''ref''\<rparr>)\<rparr>"

lemma ex_bad_url_refused: "validateOperationURL ''7'' \<noteq> []"
  by code_simp

subsection \<open>Observations of the example\<close>

definition ex_terminal :: AsyncRequest where
  "ex_terminal = ex_request\<lparr>Status := ex_status\<lparr>TerminalError := ''gone wrong'', ObservedGeneration := 1\<rparr>\<rparr>"

text \<open>A resource whose check, an expression, says that it is out of sync.\<close>

definition ex_drift_spec :: AsyncRequestParameters where
  "ex_drift_spec = ex_spec\<lparr>ExpectedResponseCheck := \<lparr>CheckType = CheckTypeCustom, CheckLogic = ''drifted''\<rparr>\<rparr>"

definition ex_drift :: "AsyncRequest world" where
  "ex_drift = ex_world (ex_request\<lparr>ForProvider := ex_drift_spec\<rparr>)"

lemma ex_drift_check:
  "run_state (IsUpToDateCheck (ex_env None) (ex_details ex_call)) ex_drift = (Inr False, ex_drift)"
  by code_simp

lemma ex_no_update:
  "GetMapping (ForProvider (Obj ex_drift)) ActionUpdate =
     (Inl (ErrorString (ErrMappingNotFound ''UPDATE'' ''PUT'')), ex_drift_spec)"
  by code_simp

text \<open>An operation in flight for a resource that has its external reference already.\<close>

definition ex_imported :: "AsyncRequest world" where
  "ex_imported = ex_world (ex_anchored\<lparr>Status := (Status ex_anchored)\<lparr>ExternalRef := ''7''\<rparr>\<rparr>)"

text \<open>
  A network that fails, for a resource with an identity that injects one value into a secret.
\<close>

definition ex_key :: KeyInjection where
  "ex_key = \<lparr>SecretKey = ''token'', ResponseJQ = ''.body.token'', MissingStrategy = DeleteMissingField\<rparr>"

definition ex_injection :: SecretInjectionConfig where
  "ex_injection = \<lparr>SecretRefName = ''s'', SecretRefNamespace = ''ns'', OldSecretKey = [], ResponsePath = [],
     KeyMappings = Some [ex_key], MetaLabels = None, MetaAnnotations = None, SetOwnerReference = False\<rparr>"

definition ex_secret :: Secret where
  "ex_secret = \<lparr>SecretName = ''s'', SecretNamespace = ''ns'', SecretData = Some [(''token'', ''abc'')],
     SecretLabels = None, SecretAnnotations = None, SecretOwners = []\<rparr>"

definition ex_broken_env :: "AsyncRequest env" where
  "ex_broken_env = (ex_env None)
     \<lparr>SendHTTP := (\<lambda>h c. ((ex_details c)\<lparr>HttpResponse := emptyResponse\<rparr>, Some (ErrorString ''connection refused''))),
      ReadSecret := (\<lambda>h n s. Inr ex_secret)\<rparr>"

definition ex_injecting :: "AsyncRequest world" where
  "ex_injecting = ex_world (ex_request\<lparr>ForProvider := ex_spec\<lparr>SecretInjectionConfigs := [ex_injection]\<rparr>,
     Status := ex_status\<lparr>ExternalRef := ''7''\<rparr>\<rparr>)"

lemma ex_broken_retry: "retry_contract ex_broken_env"
  by (auto simp: retry_contract_def ex_broken_env_def ex_env_def)

lemmas ex_broken_simps = ex_broken_env_def ex_injecting_def ex_injection_def ex_key_def ex_secret_def ex_env_def
  ex_world_def ex_request_def ex_spec_def ex_status_def ex_check_def ex_details_def has_exists_check_def map_del_def

end
