(* ===== verification/DisposableTypes.thy ===== *)
theory DisposableTypes
  imports StatusHandler
begin

text \<open>
  The \<^verbatim>\<open>AsyncDisposableRequest\<close> (\<^verbatim>\<open>apis/namespaced/disposablerequest/v1alpha2\<close> and its copy under
  \<^verbatim>\<open>apis/cluster\<close>): its specification and status, its status setters, and the JSON forms the jq
  expressions see. The zero \<^verbatim>\<open>metav1.Time\<close> of \<^verbatim>\<open>status.lastReconcileTime\<close> is \<open>None\<close>.
\<close>

record DisposableParameters =
  DURL :: string
  DMethod :: string
  DHeaders :: headers
  DBody :: string
  DWaitTimeout :: "string option"
  RollbackRetriesLimit :: "32 word option"
  DInsecureSkipTLSVerify :: bool
  DTLS :: "TLSConfig option"
  DGCP :: "GCPAuth option"
  DOIDC :: "OIDCConfig option"
  ExpectedResponse :: string
  DPolling :: "Polling option"
  NextReconcile :: "string option"
  ShouldLoopInfinitely :: bool
  DSecretInjectionConfigs :: "SecretInjectionConfig list"
  DAllowedStatusCodes :: "int list"

record DisposableStatus =
  DConditions :: "Condition list"
  DObservedGeneration :: int
  DResponse :: Response
  DFailed :: "32 word"
  DError :: string
  DSynced :: bool
  DRequestDetails :: HttpRequest
  DPollingResponse :: "string option"
  DStartedAt :: "int option"
  LastReconcileTime :: "int option"

record DisposableRequest =
  DName :: string
  DNamespace :: string
  DUID :: string
  DDeletionTimestamp :: "int option"
  DProviderConfigRef :: "ProviderConfigReference option"
  DForProvider :: DisposableParameters
  DStatus :: DisposableStatus

subsection \<open>Status setters (status_setters.go, polling_accessors.go)\<close>

definition DSetStatusCode :: "int \<Rightarrow> DisposableRequest \<Rightarrow> DisposableRequest" where
  "DSetStatusCode n d = d\<lparr>DStatus := (DStatus d)\<lparr>DResponse := (DResponse (DStatus d))\<lparr>StatusCode := n\<rparr>\<rparr>\<rparr>"

definition DSetHeaders :: "headers \<Rightarrow> DisposableRequest \<Rightarrow> DisposableRequest" where
  "DSetHeaders h d = d\<lparr>DStatus := (DStatus d)\<lparr>DResponse := (DResponse (DStatus d))\<lparr>Headers := h\<rparr>\<rparr>\<rparr>"

definition DSetBody :: "string \<Rightarrow> DisposableRequest \<Rightarrow> DisposableRequest" where
  "DSetBody b d = d\<lparr>DStatus := (DStatus d)\<lparr>DResponse := (DResponse (DStatus d))\<lparr>Body := b\<rparr>\<rparr>\<rparr>"

definition DSetSynced :: "bool \<Rightarrow> DisposableRequest \<Rightarrow> DisposableRequest" where
  "DSetSynced b d = d\<lparr>DStatus := (DStatus d)\<lparr>DSynced := b, DFailed := 0, DError := []\<rparr>\<rparr>"

text \<open>The time written is the clock's reading \<open>now\<close>.\<close>

definition DSetLastReconcileTime :: "int \<Rightarrow> DisposableRequest \<Rightarrow> DisposableRequest" where
  "DSetLastReconcileTime now d = d\<lparr>DStatus := (DStatus d)\<lparr>LastReconcileTime := Some now\<rparr>\<rparr>"

definition DSetError :: "goerr option \<Rightarrow> DisposableRequest \<Rightarrow> DisposableRequest" where
  "DSetError e d =
     d\<lparr>DStatus := (DStatus d)\<lparr>DFailed := DFailed (DStatus d) + 1, DSynced := False,
        DError := (case e of None \<Rightarrow> DError (DStatus d) | Some x \<Rightarrow> Error x)\<rparr>\<rparr>"

definition DSetRequestDetails ::
  "string \<Rightarrow> string \<Rightarrow> string \<Rightarrow> headers \<Rightarrow> DisposableRequest \<Rightarrow> DisposableRequest" where
  "DSetRequestDetails url meth body h d =
     d\<lparr>DStatus := (DStatus d)\<lparr>DRequestDetails :=
        \<lparr>ReqMethod = meth, ReqBody = body, ReqURL = url, ReqHeaders = h\<rparr>\<rparr>\<rparr>"

definition DGetPollingResponse :: "DisposableRequest \<Rightarrow> json" where
  "DGetPollingResponse d = RawExtensionToMap (DPollingResponse (DStatus d))"

definition DSetPollingResponse :: "json \<Rightarrow> DisposableRequest \<Rightarrow> DisposableRequest" where
  "DSetPollingResponse m d = d\<lparr>DStatus := (DStatus d)\<lparr>DPollingResponse := MapToRawExtension m\<rparr>\<rparr>"

definition DSetOperationStartedAt :: "int option \<Rightarrow> DisposableRequest \<Rightarrow> DisposableRequest" where
  "DSetOperationStartedAt t d = d\<lparr>DStatus := (DStatus d)\<lparr>DStartedAt := t\<rparr>\<rparr>"

definition DSetConditionList :: "Condition list \<Rightarrow> DisposableRequest \<Rightarrow> DisposableRequest" where
  "DSetConditionList cs d = d\<lparr>DStatus := (DStatus d)\<lparr>DConditions := cs\<rparr>\<rparr>"

lemmas disposable_setter_defs =
  DSetStatusCode_def DSetHeaders_def DSetBody_def DSetSynced_def DSetLastReconcileTime_def DSetError_def
  DSetRequestDetails_def DSetPollingResponse_def DSetOperationStartedAt_def DSetConditionList_def

subsection \<open>The setters of utils/set_status.go\<close>

definition disposableWriter :: "DisposableRequest StatusWriter" where
  "disposableWriter =
     \<lparr>WriteStatusCode = DSetStatusCode, WriteHeaders = DSetHeaders, WriteBody = DSetBody,
      WriteError = DSetError, WriteRequestDetails = DSetRequestDetails\<rparr>"

interpretation disposable_writer: status_writer disposableWriter "\<lambda>d. DResponse (DStatus d)"
    "\<lambda>d. DFailed (DStatus d)"
  by unfold_locales (simp_all add: disposableWriter_def disposable_setter_defs)

definition setterSynced :: "DisposableRequest setter" where
  "setterSynced = modifyObj (DSetSynced True)"

definition setterLastReconcileTime :: "DisposableRequest env \<Rightarrow> DisposableRequest setter" where
  "setterLastReconcileTime E = do { now \<leftarrow> timeNow E; modifyObj (DSetLastReconcileTime now) }"

subsection \<open>JSON forms\<close>

definition disposable_spec_json :: "(string \<Rightarrow> string) \<Rightarrow> DisposableParameters \<Rightarrow> json" where
  "disposable_spec_json b64 p =
     JObj ([(''url'', JStr (DURL p)), (''method'', JStr (DMethod p))] @ opt_headers (DHeaders p) @
           opt_str ''body'' (DBody p) @ opt_ptr ''waitTimeout'' (DWaitTimeout p) @
           opt_obj ''rollbackRetriesLimit'' (\<lambda>n. mk_num (sint n) 0) (RollbackRetriesLimit p) @
           opt_bool ''insecureSkipTLSVerify'' (DInsecureSkipTLSVerify p) @
           opt_obj ''tlsConfig'' (tls_json b64) (DTLS p) @ opt_obj ''gcp'' gcp_json (DGCP p) @
           opt_obj ''oidc'' oidc_json (DOIDC p) @ opt_str ''expectedResponse'' (ExpectedResponse p) @
           opt_obj ''polling'' polling_json (DPolling p) @ opt_ptr ''nextReconcile'' (NextReconcile p) @
           opt_bool ''shouldLoopInfinitely'' (ShouldLoopInfinitely p) @
           opt_list ''secretInjectionConfigs'' secret_config_json (DSecretInjectionConfigs p) @
           opt_list ''allowedStatusCodes'' (\<lambda>n. mk_num n 0) (DAllowedStatusCodes p))"

definition request_details_json :: "HttpRequest \<Rightarrow> json" where
  "request_details_json q =
     JObj ([(''method'', JStr (ReqMethod q))] @ opt_str ''body'' (ReqBody q) @
           [(''url'', JStr (ReqURL q))] @ opt_headers (ReqHeaders q))"

text \<open>
  \<^verbatim>\<open>crStatusMap\<close>. The whole resource is printed; only a raw extension that is not JSON keeps that
  from succeeding, and then the map is nil. The zero time prints as null.
\<close>

definition crStatusMap :: "DisposableRequest \<Rightarrow> json" where
  "crStatusMap d =
     (let s = DStatus d
      in case (case DPollingResponse s of None \<Rightarrow> Some []
               | Some raw \<Rightarrow> map_option (\<lambda>j. [(''response'', j)])
                    (if raw = [] then Some JNull else json_unmarshal raw)) of
           None \<Rightarrow> JNilMap
         | Some anchor \<Rightarrow>
             JObj (opt_list ''conditions'' condition_json (DConditions s) @
                   opt_num ''observedGeneration'' (DObservedGeneration s) @
                   [(''response'', response_json (DResponse s))] @
                   opt_num ''failed'' (sint (DFailed s)) @ opt_str ''error'' (DError s) @
                   opt_bool ''synced'' (DSynced s) @
                   [(''requestDetails'', request_details_json (DRequestDetails s)),
                    (''polling'', JObj (anchor @ opt_ptr ''startedAt'' (map_option rfc3339 (DStartedAt s)))),
                    (''lastReconcileTime'',
                      case LastReconcileTime s of None \<Rightarrow> JNull | Some t \<Rightarrow> JStr (rfc3339 t))]))"

subsection \<open>Facts\<close>

definition same_request :: "DisposableRequest \<Rightarrow> DisposableRequest \<Rightarrow> bool" where
  "same_request a b \<longleftrightarrow>
     DName a = DName b \<and> DNamespace a = DNamespace b \<and> DUID a = DUID b \<and>
     DDeletionTimestamp a = DDeletionTimestamp b \<and> DProviderConfigRef a = DProviderConfigRef b \<and>
     DForProvider a = DForProvider b"

lemma same_request_setters [simp, api_simps]:
  "same_request d (DSetStatusCode n d)" "same_request d (DSetHeaders h d)" "same_request d (DSetBody b d)"
  "same_request d (DSetSynced s d)" "same_request d (DSetLastReconcileTime now d)"
  "same_request d (DSetError e d)" "same_request d (DSetRequestDetails u m b h d)"
  "same_request d (DSetPollingResponse j d)" "same_request d (DSetOperationStartedAt since d)"
  "same_request d (DSetConditionList cs d)"
  by (simp_all add: same_request_def disposable_setter_defs)

lemma DGetPollingResponse_cleared [simp, api_simps]:
  "DGetPollingResponse (DSetPollingResponse JNilMap d) = JNilMap"
  by (simp add: DGetPollingResponse_def DSetPollingResponse_def MapToRawExtension_def RawExtensionToMap_def)

lemma emits_disposable_setters [keeps_intros]:
  "emits P setterSynced" "(\<And>t. P (ClockRead t)) \<Longrightarrow> emits P (setterLastReconcileTime E)"
  unfolding setterSynced_def setterLastReconcileTime_def by (auto intro!: keeps_intros)

end
