(* ===== verification/Connect.thy ===== *)
theory Connect
  imports HttpClient DisposableTypes
begin

text \<open>
  The connectors of the controllers (\<^verbatim>\<open>Connect\<close> in \<^verbatim>\<open>internal/controller/{namespaced,cluster}\<close>): from a
  resource and its provider configuration to the HTTP client and the TLS settings of the reconcile.

  The four connectors have one form. What differs is a record: \<open>resource_kind\<close> for the two kinds of
  resource, \<open>scope\<close> for namespaced and cluster-scoped ones. The provider configurations and the usage
  tracker are outside: \<open>provider_api\<close>.
\<close>

record provider_config =
  PCCredentials :: "ProviderCredentials option"
  PCTLS :: "TLSConfig option"
  PCOIDC :: "OIDCConfig option"
  PCGCP :: "GCPAuth option"

record 'cr provider_api =
  TrackUsage :: "'cr event list \<Rightarrow> 'cr \<Rightarrow> goerr option"
  ReadProviderConfig :: "'cr event list \<Rightarrow> string \<Rightarrow> string \<Rightarrow> goerr + provider_config"
  ReadClusterProviderConfig :: "'cr event list \<Rightarrow> string \<Rightarrow> goerr + provider_config"

record 'cr resource_kind =
  KindRef :: "'cr \<Rightarrow> ProviderConfigReference option"
  KindSetRef :: "ProviderConfigReference \<Rightarrow> 'cr \<Rightarrow> 'cr"
  KindNamespace :: "'cr \<Rightarrow> string"
  KindGCP :: "'cr \<Rightarrow> GCPAuth option"
  KindOIDC :: "'cr \<Rightarrow> OIDCConfig option"
  KindTLS :: "'cr \<Rightarrow> TLSConfig option"
  KindSkip :: "'cr \<Rightarrow> bool"
  KindTimeout :: "'cr \<Rightarrow> string option"
  KindConditions :: "'cr \<Rightarrow> Condition list"
  KindSetConditions :: "Condition list \<Rightarrow> 'cr \<Rightarrow> 'cr"
  KindErrNew :: string

record 'cr scope =
  DefaultRef :: ProviderConfigReference
  ResolvePC :: "'cr provider_api \<Rightarrow> 'cr event list \<Rightarrow> string \<Rightarrow> ProviderConfigReference \<Rightarrow> goerr + provider_config"
  ExtractCreds :: "ProviderCredentials option \<Rightarrow> goerr + string"
  ErrTLS :: string

subsection \<open>Provider configurations\<close>

definition defaultProviderConfig :: string where "defaultProviderConfig = ''default''"

definition wrap_left :: "string \<Rightarrow> goerr + 'a \<Rightarrow> goerr + 'a" where
  "wrap_left m = map_sum (\<lambda>e. Wrapped e m) id"

definition resolveProviderConfig ::
  "'cr provider_api \<Rightarrow> 'cr event list \<Rightarrow> string \<Rightarrow> ProviderConfigReference \<Rightarrow> goerr + provider_config" where
  "resolveProviderConfig A h ns ref =
     (if RefKind ref = ''ProviderConfig'' then
        wrap_left ''cannot get ProviderConfig'' (ReadProviderConfig A h (RefName ref) ns)
      else if RefKind ref = ''ClusterProviderConfig'' then
        wrap_left ''cannot get ClusterProviderConfig'' (ReadClusterProviderConfig A h (RefName ref))
      else Inl (ErrorString (''unsupported provider config kind: '' @ RefKind ref)))"

text \<open>A cluster-scoped resource refers to a configuration by its name alone.\<close>

definition resolve_cluster ::
  "'cr provider_api \<Rightarrow> 'cr event list \<Rightarrow> string \<Rightarrow> ProviderConfigReference \<Rightarrow> goerr + provider_config" where
  "resolve_cluster A h ns ref =
     wrap_left ''provider could not be retrieved'' (ReadClusterProviderConfig A h (RefName ref))"

subsection \<open>Connect\<close>

definition errTrackPCUsage :: string where "errTrackPCUsage = ''cannot track ProviderConfig usage''"
definition errInvalidAuthSelection :: string where "errInvalidAuthSelection = ''invalid auth configuration''"

text \<open>\<^verbatim>\<open>errors.As\<close> for an \<open>AuthSelectionError\<close>: its message.\<close>

fun auth_message :: "goerr \<Rightarrow> string option" where
  "auth_message (Wrapped e _) = auth_message e"
| "auth_message (AuthSelectionError m) = Some m"
| "auth_message _ = None"

definition ReconcileError :: "goerr \<Rightarrow> int \<Rightarrow> Condition" where
  "ReconcileError err now =
     \<lparr>CondType = ''Synced'', CondStatus = ''False'', CondReason = ''ReconcileError'',
      CondMessage = Error err, CondTime = now\<rparr>"

definition default_reference :: "'cr resource_kind \<Rightarrow> 'cr scope \<Rightarrow> 'cr \<Rightarrow> 'cr" where
  "default_reference K S cr = (if KindRef K cr = None then KindSetRef K (DefaultRef S) cr else cr)"

text \<open>The status of a resource whose selection is refused; the result of the write is dropped.\<close>

definition report_auth_error ::
  "'cr env \<Rightarrow> 'cr resource_kind \<Rightarrow> string \<Rightarrow> goerr \<Rightarrow> ('cr world, unit) state" where
  "report_auth_error E K msg err = do {
     t1 \<leftarrow> timeNow E;
     t2 \<leftarrow> timeNow E;
     modifyObj (\<lambda>cr. KindSetConditions K (SetConditions E (KindConditions K cr)
       [Unavailable msg t1, ReconcileError (Wrapped err errInvalidAuthSelection) t2]) cr);
     r \<leftarrow> kubeStatusUpdate E;
     State_Monad.return ()
   }"

definition connect ::
  "'cr env \<Rightarrow> 'cr provider_api \<Rightarrow> 'h transport \<Rightarrow> 'cr resource_kind \<Rightarrow> 'cr scope \<Rightarrow>
   ('cr world, goerr + (http_client \<times> TLSConfigData)) state" where
  "connect E A T K S = do {
     w \<leftarrow> State_Monad.get;
     onError (TrackUsage A (Hist w) (Obj w)) (\<lambda>e. State_Monad.return (Inl (Wrapped e errTrackPCUsage))) (do {
       modifyObj (default_reference K S);
       cr \<leftarrow> theObj;
       case ResolvePC S A (Hist w) (KindNamespace K cr)
              (case KindRef K cr of Some r \<Rightarrow> r | None \<Rightarrow> DefaultRef S) of
         Inl err \<Rightarrow> State_Monad.return (Inl err)
       | Inr pc \<Rightarrow>
           (case buildHTTPClient T (KindErrNew K) (ExtractCreds S) (KindGCP K cr) (KindOIDC K cr) (KindTimeout K cr)
                   (PCCredentials pc) (PCOIDC pc) (PCGCP pc) of
              Inl err \<Rightarrow>
                (case auth_message err of
                   None \<Rightarrow> State_Monad.return (Inl err)
                 | Some msg \<Rightarrow> do {
                     report_auth_error E K msg err;
                     State_Monad.return (Inl (Wrapped err errInvalidAuthSelection))
                   })
            | Inr client \<Rightarrow> do {
                t \<leftarrow> buildTLSConfigData E (KindTLS K cr) (KindSkip K cr) (PCTLS pc);
                State_Monad.return
                  (case t of Inl err \<Rightarrow> Inl (Wrapped err (ErrTLS S)) | Inr tls \<Rightarrow> Inr (client, tls))
              })
     })
   }"

subsection \<open>The four connectors\<close>

definition request_kind :: "AsyncRequest resource_kind" where
  "request_kind = \<lparr>KindRef = ProviderConfigRef, KindSetRef = (\<lambda>r cr. cr\<lparr>ProviderConfigRef := Some r\<rparr>),
     KindNamespace = Namespace, KindGCP = (\<lambda>cr. GCP (ForProvider cr)), KindOIDC = (\<lambda>cr. OIDC (ForProvider cr)),
     KindTLS = (\<lambda>cr. TLS (ForProvider cr)), KindSkip = (\<lambda>cr. InsecureSkipTLSVerify (ForProvider cr)),
     KindTimeout = (\<lambda>cr. WaitTimeout (ForProvider cr)), KindConditions = (\<lambda>cr. Conditions (Status cr)),
     KindSetConditions = SetConditionList, KindErrNew = errNewHttpClient\<rparr>"

definition disposable_kind :: "DisposableRequest resource_kind" where
  "disposable_kind = \<lparr>KindRef = DProviderConfigRef, KindSetRef = (\<lambda>r d. d\<lparr>DProviderConfigRef := Some r\<rparr>),
     KindNamespace = DNamespace, KindGCP = (\<lambda>d. DGCP (DForProvider d)), KindOIDC = (\<lambda>d. DOIDC (DForProvider d)),
     KindTLS = (\<lambda>d. DTLS (DForProvider d)), KindSkip = (\<lambda>d. DInsecureSkipTLSVerify (DForProvider d)),
     KindTimeout = (\<lambda>d. DWaitTimeout (DForProvider d)), KindConditions = (\<lambda>d. DConditions (DStatus d)),
     KindSetConditions = DSetConditionList, KindErrNew = errNewDisposableClient\<rparr>"

definition errBuildTLSConfig :: string where "errBuildTLSConfig = ''failed to build TLS configuration''"
definition errLoadTLSConfig :: string where "errLoadTLSConfig = ''failed to load TLS configuration''"

definition namespaced_scope :: "(ProviderCredentials option \<Rightarrow> goerr + string) \<Rightarrow> 'cr scope" where
  "namespaced_scope extract = \<lparr>DefaultRef = \<lparr>RefKind = ''ClusterProviderConfig'', RefName = defaultProviderConfig\<rparr>,
     ResolvePC = resolveProviderConfig, ExtractCreds = extract, ErrTLS = errBuildTLSConfig\<rparr>"

definition cluster_scope :: "string \<Rightarrow> 'cr scope" where
  "cluster_scope errTLS = \<lparr>DefaultRef = \<lparr>RefKind = [], RefName = defaultProviderConfig\<rparr>,
     ResolvePC = resolve_cluster, ExtractCreds = extract_secret_only, ErrTLS = errTLS\<rparr>"

type_synonym ('cr, 'h) connector =
  "'cr env \<Rightarrow> 'cr provider_api \<Rightarrow> 'h transport \<Rightarrow> ('cr world, goerr + (http_client \<times> TLSConfigData)) state"

definition connect_request :: "(AsyncRequest, 'h) connector" where
  "connect_request E A T = connect E A T request_kind (namespaced_scope extract_any)"

definition connect_cluster_request :: "(AsyncRequest, 'h) connector" where
  "connect_cluster_request E A T = connect E A T request_kind (cluster_scope errBuildTLSConfig)"

definition connect_disposable :: "(DisposableRequest, 'h) connector" where
  "connect_disposable E A T = connect E A T disposable_kind (namespaced_scope extract_secret_only)"

definition connect_cluster_disposable :: "(DisposableRequest, 'h) connector" where
  "connect_cluster_disposable E A T =
     connect E A T disposable_kind (cluster_scope errLoadTLSConfig)"

subsection \<open>Facts\<close>

text \<open>
  The client of a reconcile has static credentials or one identity: the merged blocks select exactly one.
\<close>

definition single_mechanism ::
  "ProviderCredentials option \<Rightarrow> GCPAuth option \<Rightarrow> OIDCConfig option \<Rightarrow> http_client \<Rightarrow> bool" where
  "single_mechanism cd gcp oidc client \<longleftrightarrow>
     (case client of
        PlainClient _ _ \<Rightarrow> cd \<noteq> None \<and> gcp = None \<and> oidc = None
      | GCPClient inner cfg \<Rightarrow> cd = None \<and> gcp = Some cfg \<and> oidc = None \<and> (\<exists>t. inner = PlainClient t [])
      | OIDCClient inner cfg \<Rightarrow> cd = None \<and> gcp = None \<and> oidc = Some cfg \<and> (\<exists>t. inner = PlainClient t []))"

lemma buildHTTPClient_single:
  assumes "buildHTTPClient T errNew extract gcp oidc timeout cd poidc pgcp = Inr client"
    and "\<And>c. extract None = Inr c \<Longrightarrow> c = []"
  shows "single_mechanism cd (MergeGCPConfigs gcp pgcp) (MergeOIDCConfigs oidc poidc) client"
  using assms
  by (auto simp: buildHTTPClient_def ValidateAuthSelection_def single_mechanism_def Let_def
      split: option.splits sum.splits if_splits)

lemma extract_none [simp]: "extract_any None = Inr c \<longleftrightarrow> c = []" "extract_secret_only None = Inr c \<longleftrightarrow> c = []"
  by (auto simp: extract_any_def extract_secret_only_def)

text \<open>A selection that names none or several mechanisms is refused, whatever the transport.\<close>

lemma buildHTTPClient_refused:
  "ValidateAuthSelection \<lparr>CredentialsSet = cd \<noteq> None, SelGCP = MergeGCPConfigs gcp pgcp,
     SelOIDC = MergeOIDCConfigs oidc poidc\<rparr> = Some e \<Longrightarrow>
   buildHTTPClient T errNew extract gcp oidc timeout cd poidc pgcp = Inl e"
  by (simp add: buildHTTPClient_def Let_def)

lemma selection_error_message:
  "ValidateAuthSelection s = Some e \<Longrightarrow> \<exists>m. e = AuthSelectionError m \<and> auth_message e = Some m"
  by (auto simp: ValidateAuthSelection_def Let_def split: if_splits)

definition effective_ref :: "'cr resource_kind \<Rightarrow> 'cr scope \<Rightarrow> 'cr \<Rightarrow> ProviderConfigReference" where
  "effective_ref K S cr = (case KindRef K cr of Some r \<Rightarrow> r | None \<Rightarrow> DefaultRef S)"

text \<open>
  Both kinds of resource keep their settings when the default reference is set.
\<close>

locale connectable =
  fixes K :: "'cr resource_kind"
  assumes set_ref: "KindRef K (KindSetRef K r cr) = Some r"
    and set_ref_keeps: "KindNamespace K (KindSetRef K r cr) = KindNamespace K cr"
      "KindGCP K (KindSetRef K r cr) = KindGCP K cr" "KindOIDC K (KindSetRef K r cr) = KindOIDC K cr"
begin

lemma default_reference_keeps [simp]:
  "KindNamespace K (default_reference K S cr) = KindNamespace K cr"
  "KindGCP K (default_reference K S cr) = KindGCP K cr" "KindOIDC K (default_reference K S cr) = KindOIDC K cr"
  "(case KindRef K (default_reference K S cr) of Some r \<Rightarrow> r | None \<Rightarrow> DefaultRef S) = effective_ref K S cr"
  by (auto simp: default_reference_def effective_ref_def set_ref set_ref_keeps split: option.splits)

lemma paired [simp]: "(case r of Inl e \<Rightarrow> Inl (f e) | Inr t \<Rightarrow> Inr (a, t)) = Inr (c, u) \<longleftrightarrow> a = c \<and> r = Inr u"
  by (cases r) auto

lemma connect_single:
  assumes "\<And>c. ExtractCreds S None = Inr c \<Longrightarrow> c = []"
  shows "wp (connect E A T K S) (\<lambda>x _. \<forall>client tls. x = Inr (client, tls) \<longrightarrow>
    (\<exists>pc. ResolvePC S A (Hist w) (KindNamespace K (Obj w)) (effective_ref K S (Obj w)) = Inr pc \<and>
      single_mechanism (PCCredentials pc) (MergeGCPConfigs (KindGCP K (Obj w)) (PCGCP pc))
        (MergeOIDCConfigs (KindOIDC K (Obj w)) (PCOIDC pc)) client)) w"
  unfolding connect_def
  by (auto simp: wp_simps split: option.split sum.split intro!: wp_any buildHTTPClient_single [OF _ assms])

text \<open>A refused selection is an error with one write of the status, and no client.\<close>

lemma connect_refused:
  assumes track: "TrackUsage A (Hist w) (Obj w) = None"
    and pc: "ResolvePC S A (Hist w) (KindNamespace K (Obj w)) (effective_ref K S (Obj w)) = Inr pc"
    and bad: "ValidateAuthSelection \<lparr>CredentialsSet = PCCredentials pc \<noteq> None,
        SelGCP = MergeGCPConfigs (KindGCP K (Obj w)) (PCGCP pc),
        SelOIDC = MergeOIDCConfigs (KindOIDC K (Obj w)) (PCOIDC pc)\<rparr> = Some e"
  shows "wp (connect E A T K S) (\<lambda>x w'. x = Inl (Wrapped e errInvalidAuthSelection) \<and>
    (\<exists>cr r. Hist w' = [StatusUpdate cr r, ClockRead (Clock E (ClockRead (Clock E (Hist w)) # Hist w)),
       ClockRead (Clock E (Hist w))] @ Hist w)) w"
proof -
  from selection_error_message [OF bad] obtain m where m: "auth_message e = Some m" by blast
  show ?thesis
    unfolding connect_def report_auth_error_def
    by (simp add: wp_simps track pc Let_def m buildHTTPClient_refused [OF bad])
qed

end

interpretation request_connectable: connectable request_kind
  by unfold_locales (simp_all add: request_kind_def)

interpretation disposable_connectable: connectable disposable_kind
  by unfold_locales (simp_all add: disposable_kind_def)

end
