(* ===== verification/DisposablePolling.thy ===== *)
theory DisposablePolling
  imports DisposableTypes CallOrder
begin

text \<open>
  \<^verbatim>\<open>internal/service/disposablerequest/polling.go\<close> and \<^verbatim>\<open>validation.go\<close>: the poll loop of an
  AsyncDisposableRequest, and the writes that start and finish its operation.

  \<open>persistStatus\<close> writes the resource as it is in memory, once: a conflict is an error here. The loop
  spends one unit of fuel per poll, as \<open>Poller\<close>'s does, and ends with a \<open>verdict\<close> that \<open>conclude\<close>
  carries out (in the code the calls of \<open>finalizeError\<close> and \<open>finalizeSuccess\<close> are in the loop).
\<close>

subsection \<open>validation.go\<close>

definition ExpectedFormat :: "goerr \<Rightarrow> goerr" where
  "ExpectedFormat err =
     ErrorString (''JQ filter should return a boolean, but returned error: '' @ Error err)"

definition IsResponseAsExpected ::
  "DisposableRequest env \<Rightarrow> DisposableParameters \<Rightarrow> Response \<Rightarrow> goerr + bool" where
  "IsResponseAsExpected E p res =
     (if ExpectedResponse p = [] then Inr True
      else if StatusCode res = 0 then Inr False
      else (case ParseBool E (ExpectedResponse p) (ResponseToMap res) of
         Inl err \<Rightarrow> Inl (ExpectedFormat err)
       | Inr b \<Rightarrow> Inr b))"

subsection \<open>polling.go\<close>

definition validateDisposableURL :: "string \<Rightarrow> string" where
  "validateDisposableURL raw =
     (if raw = [] then ''resolved to an empty value''
      else case url_parse raw of
        Inl err \<Rightarrow> err
      | Inr u \<Rightarrow>
          if Scheme u \<noteq> ''http'' \<and> Scheme u \<noteq> ''https'' then
            (if Scheme u = [] then ''missing scheme (expected http:// or https://)''
             else ''unsupported scheme (expected http or https)'')
          else if Host u = [] then ''missing host''
          else [])"

definition persistStatus :: "DisposableRequest env \<Rightarrow> (DisposableRequest world, goerr option) state" where
  "persistStatus E = kubeStatusUpdate E"

text \<open>
  The context is converted in place; \<open>context_response\<close> reads the trigger's map back from it.
\<close>

definition buildJQContext :: "DisposableRequest env \<Rightarrow> DisposableRequest \<Rightarrow> json \<Rightarrow> json \<Rightarrow> json" where
  "buildJQContext E d triggerMap pollMap =
     (let base = disposable_spec_json (Base64 E) (DForProvider d);
          base1 = with_entry ''response'' (if triggerMap = JNilMap then JObj [] else triggerMap) base;
          base2 = (if pollMap = JNilMap then base1
                   else with_entry ''poll'' (JObj [(''response'', pollMap)]) base1)
      in ConvertJSONStringsToMaps (with_entry ''status'' (crStatusMap d) base2))"

definition operationErrorMessage :: "DisposableRequest env \<Rightarrow> string \<Rightarrow> json \<Rightarrow> string" where
  "operationErrorMessage E errExpr ctx =
     (case ParseString E errExpr ctx of
        Inr s \<Rightarrow> if s \<noteq> [] then ''operation failed: '' @ s else ''operation failed''
      | Inl _ \<Rightarrow> ''operation failed'')"

definition notAbsoluteURL :: "string \<Rightarrow> string \<Rightarrow> string \<Rightarrow> goerr" where
  "notAbsoluteURL expr url reason =
     ErrorString (''polling.url '' @ go_quote expr @ '' resolved to '' @ go_quote url @
       '', which is not a valid absolute URL: '' @ reason)"

text \<open>How the loop ends.\<close>

datatype verdict =
    Broken goerr
  | OutOfBudget
  | OperationFailed goerr "Response option"
  | OperationDone Response

definition poll_verdict ::
  "DisposableRequest env \<Rightarrow> Polling \<Rightarrow> Response \<Rightarrow> json \<Rightarrow> verdict option" where
  "poll_verdict E p resp ctx =
     (case ParseBool E (PollDone p) ctx of
        Inl err \<Rightarrow> Some (Broken (Wrapped err ''failed to evaluate polling.done''))
      | Inr False \<Rightarrow> None
      | Inr True \<Rightarrow>
          if PollError p = [] then Some (OperationDone resp)
          else (case Exists E (PollError p) ctx of
             Inl err \<Rightarrow> Some (Broken (Wrapped err ''failed to evaluate polling.error''))
           | Inr True \<Rightarrow>
               Some (OperationFailed (ErrorString (operationErrorMessage E (PollError p) ctx)) (Some resp))
           | Inr False \<Rightarrow> Some (OperationDone resp)))"

definition drive_step ::
  "DisposableRequest env \<Rightarrow> Polling \<Rightarrow> string \<Rightarrow> int \<Rightarrow> int \<Rightarrow> json \<Rightarrow>
   (DisposableRequest world, verdict + json) state" where
  "drive_step E p url deadline budgetEnd tm = do {
     t \<leftarrow> timeNow E;
     if deadline < t
     then State_Monad.return (Inl (OperationFailed (ErrorString (timeoutMessage (GetTimeout p) url)) None))
     else do {
       t2 \<leftarrow> timeNow E;
       if budgetEnd < t2 then State_Monad.return (Inl OutOfBudget)
       else do {
         (details, err) \<leftarrow> sendRequest E (poll_call url);
         case err of
           Some e \<Rightarrow> State_Monad.return (Inl (Broken (Wrapped e ''polling GET failed'')))
         | None \<Rightarrow> do {
             d \<leftarrow> theObj;
             let ctx = buildJQContext E d tm (ResponseToMap (HttpResponse details));
             case poll_verdict E p (HttpResponse details) ctx of
               Some v \<Rightarrow> State_Monad.return (Inl v)
             | None \<Rightarrow> do {
                 cancelled \<leftarrow> waitFor E (GetInterval p);
                 State_Monad.return
                   (if cancelled then Inl (Broken (ContextErr E)) else Inr (context_response tm ctx))
               }
           }
       }
     }
   }"

primrec drive_loop ::
  "nat \<Rightarrow> DisposableRequest env \<Rightarrow> Polling \<Rightarrow> string \<Rightarrow> int \<Rightarrow> int \<Rightarrow> json \<Rightarrow>
   (DisposableRequest world, verdict) state" where
  "drive_loop 0 E p url deadline budgetEnd tm = State_Monad.return (Broken NotReturned)"
| "drive_loop (Suc n) E p url deadline budgetEnd tm = do {
     s \<leftarrow> drive_step E p url deadline budgetEnd tm;
     case s of
       Inl v \<Rightarrow> State_Monad.return v
     | Inr tm' \<Rightarrow> drive_loop n E p url deadline budgetEnd tm'
   }"

definition operation_verdict ::
  "nat \<Rightarrow> DisposableRequest env \<Rightarrow> Polling \<Rightarrow> json \<Rightarrow> (DisposableRequest world, verdict) state" where
  "operation_verdict fuel E p tm = do {
     d \<leftarrow> theObj;
     let ctx = buildJQContext E d tm JNilMap;
     case ParseString E (PollURL p) ctx of
       Inl err \<Rightarrow> State_Monad.return (Broken (Wrapped err ''failed to evaluate polling.url''))
     | Inr url \<Rightarrow>
         if validateDisposableURL url \<noteq> [] then
           State_Monad.return (OperationFailed (notAbsoluteURL (PollURL p) url (validateDisposableURL url)) None)
         else do {
           started \<leftarrow> (case DStartedAt (DStatus d) of
               None \<Rightarrow> timeNow E | Some t \<Rightarrow> State_Monad.return t);
           now \<leftarrow> timeNow E;
           drive_loop fuel E p url (started + GetTimeout p) (now + defaultReconcileBudget)
             (context_response tm ctx)
         }
   }"

subsection \<open>Finishing\<close>

definition store_response :: "Response \<Rightarrow> DisposableRequest \<Rightarrow> DisposableRequest" where
  "store_response r d = DSetBody (Body r) (DSetHeaders (Headers r) (DSetStatusCode (StatusCode r) d))"

definition clear_operation :: "DisposableRequest \<Rightarrow> DisposableRequest" where
  "clear_operation d = DSetOperationStartedAt None (DSetPollingResponse JNilMap d)"

definition errResponseFormat :: string where
  "errResponseFormat = ''Response does not match the expected format, retries limit ''"

definition finalizeSuccess ::
  "DisposableRequest env \<Rightarrow> Response \<Rightarrow> (DisposableRequest world, goerr option) state" where
  "finalizeSuccess E pollResp = do {
     d \<leftarrow> theObj;
     case IsResponseAsExpected E (DForProvider d) pollResp of
       Inl err \<Rightarrow> State_Monad.return (Some err)
     | Inr isExpected \<Rightarrow> do {
         resp \<leftarrow> (if isExpected \<and> DSecretInjectionConfigs (DForProvider d) \<noteq> []
                  then ApplyResponseDataToSecrets E d (DNamespace d) (DUID d) pollResp
                         (DSecretInjectionConfigs (DForProvider d))
                  else State_Monad.return pollResp);
         modifyObj (store_response resp);
         setterLastReconcileTime E;
         modifyObj clear_operation;
         modifyObj (if isExpected then DSetSynced True
           else DSetError (Some (ErrorString
             (errResponseFormat @ ''reached (poll response did not match expectedResponse)''))));
         persistStatus E
       }
   }"

definition finalizeError ::
  "DisposableRequest env \<Rightarrow> goerr \<Rightarrow> Response option \<Rightarrow> (DisposableRequest world, goerr option) state" where
  "finalizeError E opErr pollResp = do {
     modifyObj (case pollResp of None \<Rightarrow> id | Some r \<Rightarrow> store_response r);
     modifyObj (DSetError (Some opErr));
     setterLastReconcileTime E;
     modifyObj clear_operation;
     r \<leftarrow> persistStatus E;
     State_Monad.return
       (case r of Some e \<Rightarrow> Some (Wrapped e ''failed to persist polling error status'') | None \<Rightarrow> Some opErr)
   }"

definition conclude ::
  "DisposableRequest env \<Rightarrow> verdict \<Rightarrow> (DisposableRequest world, goerr option) state" where
  "conclude E v =
     (case v of
        Broken err \<Rightarrow> State_Monad.return (Some err)
      | OutOfBudget \<Rightarrow> do { setterLastReconcileTime E; persistStatus E }
      | OperationFailed err resp \<Rightarrow> finalizeError E err resp
      | OperationDone resp \<Rightarrow> finalizeSuccess E resp)"

text \<open>
  The polling block is read from the resource as the last write left it. If it is gone, the adapter is
  nil and its first use panics: a call that does not return.
\<close>

definition drivePolling ::
  "nat \<Rightarrow> DisposableRequest env \<Rightarrow> json \<Rightarrow> (DisposableRequest world, goerr option) state" where
  "drivePolling fuel E tm = do {
     d \<leftarrow> theObj;
     case DPolling (DForProvider d) of
       None \<Rightarrow> State_Monad.return (Some NotReturned)
     | Some p \<Rightarrow> do { v \<leftarrow> operation_verdict fuel E p tm; conclude E v }
   }"

subsection \<open>Starting and resuming\<close>

definition begin_change ::
  "DisposableRequest env \<Rightarrow> HttpRequest \<Rightarrow> json \<Rightarrow> DisposableRequest setter" where
  "begin_change E q tm = do {
     modifyObj (DSetPollingResponse tm);
     d \<leftarrow> theObj;
     (if DStartedAt (DStatus d) = None
      then do { now \<leftarrow> timeNow E; modifyObj (DSetOperationStartedAt (Some now)) }
      else State_Monad.return ());
     modifyObj (DSetRequestDetails (ReqURL q) (ReqMethod q) (ReqBody q) (ReqHeaders q));
     setterLastReconcileTime E
   }"

definition beginPolling ::
  "nat \<Rightarrow> DisposableRequest env \<Rightarrow> HttpDetails \<Rightarrow> (DisposableRequest world, goerr option) state" where
  "beginPolling fuel E details = do {
     d \<leftarrow> theObj;
     resp \<leftarrow> (if DSecretInjectionConfigs (DForProvider d) \<noteq> []
              then ApplyResponseDataToSecrets E d (DNamespace d) (DUID d) (HttpResponse details)
                     (DSecretInjectionConfigs (DForProvider d))
              else State_Monad.return (HttpResponse details));
     let tm = ResponseToMap resp;
     begin_change E (HttpRequest details) tm;
     r \<leftarrow> persistStatus E;
     onError r (\<lambda>e. State_Monad.return (Some e)) (drivePolling fuel E tm)
   }"

definition resumePolling ::
  "nat \<Rightarrow> DisposableRequest env \<Rightarrow> (DisposableRequest world, goerr option) state" where
  "resumePolling fuel E = do {
     d \<leftarrow> theObj;
     drivePolling fuel E (DGetPollingResponse d)
   }"

subsection \<open>Only polls\<close>

text \<open>A URL this poller accepts is one the other accepts.\<close>

lemma validateDisposableURL_usable:
  "validateDisposableURL url = [] \<longleftrightarrow> url \<noteq> [] \<and> validateOperationURL url = []"
  by (simp add: validateDisposableURL_def validateOperationURL_def split: sum.splits)

text \<open>The URLs that are polled, by either poller.\<close>

lemma polled_urls:
  "(raw \<noteq> [] \<and> validateOperationURL raw = [] \<longleftrightarrow>
     raw \<noteq> [] \<and> (\<exists>u. url_parse raw = Inr u \<and> (Scheme u = ''http'' \<or> Scheme u = ''https'') \<and> Host u \<noteq> [])) \<and>
   (validateDisposableURL raw = [] \<longleftrightarrow> raw \<noteq> [] \<and> validateOperationURL raw = [])"
  using validateOperationURL_iff validateDisposableURL_usable by blast

lemma emits_drive_step:
  "validateDisposableURL url = [] \<Longrightarrow> emits_same is_poll_event (drive_step E p url deadline budgetEnd tm)"
  unfolding drive_step_def
  by (auto simp: is_poll_event_def poll_call_def validateDisposableURL_usable intro!: keeps_intros)

lemma emits_drive_loop:
  "validateDisposableURL url = [] \<Longrightarrow> emits_same is_poll_event (drive_loop n E p url deadline budgetEnd tm)"
  by (induction n arbitrary: tm) (auto intro!: keeps_intros emits_drive_step)

lemma emits_operation_verdict: "emits_same is_poll_event (operation_verdict n E p tm)"
  unfolding operation_verdict_def Let_def
  by (auto simp: is_poll_event_def intro!: keeps_intros emits_drive_loop)

subsection \<open>The loop\<close>

text \<open>
  An invariant of the loop: what holds of a verdict wherever one iteration leaves the loop holds of the
  loop's verdict.
\<close>

lemma drive_loop_inv:
  assumes init: "I n w"
    and step: "\<And>k w tm. I (Suc k) w \<Longrightarrow> wp (drive_step E p url deadline budgetEnd tm)
       (\<lambda>s w'. case s of Inl v \<Rightarrow> Q v w' | Inr tm' \<Rightarrow> I k w') w"
    and fuel: "\<And>w. I 0 w \<Longrightarrow> Q (Broken NotReturned) w"
  shows "wp (drive_loop n E p url deadline budgetEnd tm) Q w"
  using init
proof (induction n arbitrary: tm w)
  case 0
  then show ?case by (simp add: wp_simps fuel)
next
  case (Suc n)
  show ?case
    unfolding drive_loop.simps wp_bind
    by (rule wp_mono [OF step [OF Suc.prems]]) (auto simp: wp_simps Suc.IH split: sum.splits)
qed

text \<open>A verdict that the loop gave, not the end of its fuel.\<close>

definition proper_verdict :: "verdict \<Rightarrow> bool" where
  "proper_verdict v \<longleftrightarrow> (\<forall>e. v = Broken e \<longrightarrow> \<not> has_not_returned e)"

lemma proper_verdict_simps [simp]:
  "proper_verdict (Broken e) = (\<not> has_not_returned e)" "proper_verdict OutOfBudget"
  "proper_verdict (OperationFailed e' r)" "proper_verdict (OperationDone r')"
  by (simp_all add: proper_verdict_def)

lemma poll_verdict_proper:
  assumes "calls_return E" "poll_verdict E p resp ctx = Some v"
  shows "proper_verdict v"
  using assms(2) jq_returns(4,5) [OF assms(1), of "PollDone p" ctx] jq_returns(5) [OF assms(1), of "PollError p" ctx]
  by (auto simp: poll_verdict_def split: sum.splits bool.splits if_splits)

lemma drive_step_returns:
  assumes ret: "calls_return E" and clock: "clock_contract E"
  shows "wp (drive_step E p url deadline budgetEnd tm)
    (\<lambda>s w'. case s of
        Inl v \<Rightarrow> proper_verdict v
      | Inr tm' \<Rightarrow> Clock E (Hist w) \<le> budgetEnd \<and> Clock E (Hist w) + GetInterval p \<le> Clock E (Hist w')) w"
proof -
  have le: "Clock E h \<le> Clock E (e # h)" "Clock E h + d \<le> Clock E (Waited d # h)" for h e d
    using clock by (simp_all add: clock_contract_def)
  have http: "SendHTTP E h c = (d, Some e) \<Longrightarrow> \<not> has_not_returned e" for h c d e
    using ret unfolding calls_return_def by (metis proper_simps(2) snd_conv)
  have ctx: "\<not> has_not_returned (ContextErr E)" using ret by (simp add: calls_return_def)
  have start: "Clock E h \<le> Clock E (ClockRead t # h)" for t h using le(1) .
  have step: "Clock E h + GetInterval p \<le>
      Clock E (Waited (GetInterval p) # HttpSent c d e # ClockRead t # ClockRead t' # h)" for h t t' c d e
    using le(1) [of h "ClockRead t'"] le(1) [of "ClockRead t' # h" "ClockRead t"]
      le(1) [of "ClockRead t # ClockRead t' # h" "HttpSent c d e"]
      le(2) [of "HttpSent c d e # ClockRead t # ClockRead t' # h" "GetInterval p"] by linarith
  have late: "\<not> budgetEnd < Clock E (ClockRead t # h) \<Longrightarrow> Clock E h \<le> budgetEnd" for t h
    using start [of h t] by linarith
  show ?thesis
    unfolding drive_step_def
    by (auto simp: wp_simps Let_def ctx http step late split: option.splits prod.splits
             dest!: poll_verdict_proper [OF ret])
qed

lemma drive_loop_returns:
  assumes env: "calls_return E" "clock_contract E"
    and n: "budgetEnd < Clock E (Hist w) + int n * GetInterval p"
  shows "wp (drive_loop (Suc n) E p url deadline budgetEnd tm) (\<lambda>v _. proper_verdict v) w"
proof (rule drive_loop_inv [where
    I = "\<lambda>k w. k \<noteq> 0 \<and> budgetEnd < Clock E (Hist w) + (int k - 1) * GetInterval p"])
  show "Suc n \<noteq> 0 \<and> budgetEnd < Clock E (Hist w) + (int (Suc n) - 1) * GetInterval p" using n by simp
  fix k and w :: "DisposableRequest world" and tm
  assume I: "Suc k \<noteq> 0 \<and> budgetEnd < Clock E (Hist w) + (int (Suc k) - 1) * GetInterval p"
  have next_k: "k \<noteq> 0 \<and> budgetEnd < c' + (int k - 1) * GetInterval p"
    if "Clock E (Hist w) \<le> budgetEnd" "Clock E (Hist w) + GetInterval p \<le> c'" for c'
    using I that by (cases "k = 0") (auto simp: algebra_simps)
  show "wp (drive_step E p url deadline budgetEnd tm) (\<lambda>s w'. case s of Inl v \<Rightarrow> proper_verdict v
      | Inr tm' \<Rightarrow> k \<noteq> 0 \<and> budgetEnd < Clock E (Hist w') + (int k - 1) * GetInterval p) w"
    by (rule wp_mono [OF drive_step_returns [OF env]]) (use next_k in \<open>auto split: sum.splits\<close>)
qed simp

lemma operation_verdict_returns:
  assumes env: "calls_return E" "clock_contract E" and fuel: "enough_fuel n p"
  shows "wp (operation_verdict n E p tm) (\<lambda>v _. proper_verdict v) w"
proof -
  obtain k where n: "n = Suc k" "defaultReconcileBudget < int k * GetInterval p"
    using fuel by (cases n) (auto simp: enough_fuel_def)
  have loop: "wp (drive_loop (Suc k) E p url dl (Clock E h + defaultReconcileBudget) tm')
      (\<lambda>v _. proper_verdict v) (w\<lparr>Hist := ClockRead (Clock E h) # h\<rparr>)" for url dl h tm'
    using n(2) env(2) by (intro drive_loop_returns env) (simp add: clock_contract_def add_strict_mono add_le_less_mono)
  have str: "ParseString E q ctx = Inl e \<Longrightarrow> \<not> has_not_returned e" for q ctx e
    using jq_returns(3) [OF env(1)] by (metis proper_simps(4))
  show ?thesis
    unfolding operation_verdict_def n(1)
    by (auto simp: wp_simps Let_def str split: option.splits sum.splits
             intro!: loop loop [where h = "ClockRead _ # Hist w", simplified] simp del: drive_loop.simps)
qed

text \<open>A finished or failed operation was read off the last call, a poll that made \<^verbatim>\<open>polling.done\<close> true.\<close>

definition verdict_seen :: "DisposableRequest env \<Rightarrow> Polling \<Rightarrow> string \<Rightarrow> Response \<Rightarrow> DisposableRequest world \<Rightarrow> bool" where
  "verdict_seen E p url resp w' \<longleftrightarrow>
     (\<exists>d h tm. Hist w' = HttpSent (poll_call url) d None # h \<and> resp = HttpResponse d \<and>
        ParseBool E (PollDone p) (buildJQContext E (Obj w') tm (ResponseToMap resp)) = Inr True)"

definition verdict_sound :: "DisposableRequest env \<Rightarrow> Polling \<Rightarrow> string \<Rightarrow> verdict \<Rightarrow> DisposableRequest world \<Rightarrow> bool" where
  "verdict_sound E p url v w' \<longleftrightarrow>
     (\<forall>resp. v = OperationDone resp \<or> (\<exists>e. v = OperationFailed e (Some resp)) \<longrightarrow> verdict_seen E p url resp w')"

lemma verdict_sound_simps [simp]:
  "verdict_sound E p url (Broken e) w'" "verdict_sound E p url OutOfBudget w'"
  "verdict_sound E p url (OperationFailed e None) w'"
  by (simp_all add: verdict_sound_def)

lemma poll_verdict_sound:
  assumes "poll_verdict E p resp ctx = Some v"
  shows "v = OperationDone r \<or> v = OperationFailed e (Some r) \<Longrightarrow> r = resp \<and> ParseBool E (PollDone p) ctx = Inr True"
  using assms by (auto simp: poll_verdict_def split: sum.splits bool.splits if_splits)

lemma drive_step_sound:
  "wp (drive_step E p url deadline budgetEnd tm)
     (\<lambda>s w'. case s of Inl v \<Rightarrow> verdict_sound E p url v w' | Inr tm' \<Rightarrow> True) w"
proof -
  have got: "verdict_sound E p url v (w\<lparr>Hist := HttpSent (poll_call url) d None # h\<rparr>)"
    if "poll_verdict E p (HttpResponse d) (buildJQContext E (Obj w) tm (ResponseToMap (HttpResponse d))) = Some v" for v d h
    unfolding verdict_sound_def
  proof (intro allI impI)
    fix resp assume "v = OperationDone resp \<or> (\<exists>e. v = OperationFailed e (Some resp))"
    with poll_verdict_sound [OF that]
    have "resp = HttpResponse d \<and> ParseBool E (PollDone p) (buildJQContext E (Obj w) tm (ResponseToMap (HttpResponse d))) = Inr True"
      by blast
    then show "verdict_seen E p url resp (w\<lparr>Hist := HttpSent (poll_call url) d None # h\<rparr>)"
      unfolding verdict_seen_def by (intro exI [of _ d] exI [of _ h] exI [of _ tm]) simp
  qed
  show ?thesis
    unfolding drive_step_def
    by (auto simp: wp_simps Let_def split: option.splits prod.splits intro: got)
qed

lemma operation_verdict_sound:
  "wp (operation_verdict n E p tm) (\<lambda>v w'. \<exists>url. verdict_sound E p url v w') w"
proof -
  have loop: "wp (drive_loop n E p url dl be tm') (\<lambda>v w'. \<exists>url. verdict_sound E p url v w') v"
    for url dl be tm' v
    by (rule wp_mono [OF drive_loop_inv [where I = "\<lambda>_ _. True" and Q = "verdict_sound E p url"]])
       (auto intro: wp_mono [OF drive_step_sound] split: sum.splits)
  show ?thesis
    unfolding operation_verdict_def
    by (auto simp: wp_simps Let_def loop split: option.splits sum.splits)
qed

subsection \<open>How an operation ends\<close>

definition operation_over :: "DisposableRequest \<Rightarrow> bool" where
  "operation_over d \<longleftrightarrow> DPollingResponse (DStatus d) = None \<and> DStartedAt (DStatus d) = None"

definition same_operation :: "DisposableRequest \<Rightarrow> DisposableRequest \<Rightarrow> bool" where
  "same_operation a b \<longleftrightarrow> same_request a b \<and>
     DPollingResponse (DStatus b) = DPollingResponse (DStatus a) \<and> DStartedAt (DStatus b) = DStartedAt (DStatus a) \<and>
     DFailed (DStatus b) = DFailed (DStatus a) \<and> DSynced (DStatus b) = DSynced (DStatus a)"

text \<open>One failure more, with its message; a success forgets the failures before it.\<close>

definition job_fails :: "string \<Rightarrow> DisposableRequest \<Rightarrow> DisposableRequest \<Rightarrow> bool" where
  "job_fails msg a b \<longleftrightarrow> same_request a b \<and> DFailed (DStatus b) = DFailed (DStatus a) + 1 \<and>
     \<not> DSynced (DStatus b) \<and> DError (DStatus b) = msg"

definition job_succeeds :: "DisposableRequest \<Rightarrow> DisposableRequest \<Rightarrow> bool" where
  "job_succeeds a b \<longleftrightarrow> same_request a b \<and> DFailed (DStatus b) = 0 \<and> DSynced (DStatus b) \<and> DError (DStatus b) = []"

definition job_ends :: "bool \<Rightarrow> DisposableRequest \<Rightarrow> DisposableRequest \<Rightarrow> bool" where
  "job_ends b a c \<longleftrightarrow> (if b then job_succeeds a c else \<exists>msg. job_fails msg a c) \<and> operation_over c"

definition concludes ::
  "DisposableRequest env \<Rightarrow> verdict \<Rightarrow> DisposableRequest world \<Rightarrow> goerr option \<Rightarrow> DisposableRequest world \<Rightarrow> bool" where
  "concludes E v w r w' \<longleftrightarrow>
     (case v of
        Broken err \<Rightarrow> r = Some err \<and> w' = w
      | OutOfBudget \<Rightarrow> one_write same_operation w r w'
      | OperationFailed err resp \<Rightarrow>
          (\<exists>x. one_write (\<lambda>a b. job_fails (Error err) a b \<and> operation_over b) w x w' \<and>
               r = (case x of None \<Rightarrow> Some err | Some e \<Rightarrow> Some (Wrapped e ''failed to persist polling error status'')))
      | OperationDone resp \<Rightarrow>
          (case IsResponseAsExpected E (DForProvider (Obj w)) resp of
             Inl err \<Rightarrow> r = Some err \<and> w' = w
           | Inr ok \<Rightarrow> one_write (job_ends ok) w r w'))"

lemma secret_not_kube [simp]: "is_secret_event e \<Longrightarrow> \<not> is_kube_event e"
  by (cases e) (auto simp: is_secret_event_def is_kube_event_def)

lemma adds_modify [simp]: "adds P w (v\<lparr>Obj := x\<rparr>) = adds P w v"
  by (simp add: adds_def)

lemma obj_updated: "Obj (v\<lparr>Hist := h, Obj := x\<rparr>) = x"
  by simp

lemma adds_clock: "adds P w v \<Longrightarrow> P (ClockRead t) \<Longrightarrow> adds P w (v\<lparr>Hist := ClockRead t # Hist v, Obj := x\<rparr>)"
  by (erule adds_trans) simp

lemmas status_change_simps = same_request_def disposable_setter_defs store_response_def clear_operation_def
  MapToRawExtension_def

lemma finalizeError_spec:
  "wp (finalizeError E e resp) (\<lambda>r w'. concludes E (OperationFailed e resp) w r w') w"
proof -
  let ?F = "\<lambda>a b. job_fails (Error e) a b \<and> operation_over b"
  let ?d = "\<lambda>t. clear_operation (DSetLastReconcileTime t (DSetError (Some e)
      ((case resp of None \<Rightarrow> id | Some r \<Rightarrow> store_response r) (Obj w))))"
  let ?v = "\<lambda>t. w\<lparr>Obj := ?d t, Hist := ClockRead t # Hist w\<rparr>"
  have F: "?F (Obj w) (?d t)" for t
    by (cases resp) (simp_all add: job_fails_def operation_over_def status_change_simps)
  have "wp (kubeStatusUpdate E) (\<lambda>x w'. one_write ?F w x w') (?v t)" for t
    by (rule kubeStatusUpdate_one_write) (use F in simp_all)
  then show ?thesis
    unfolding finalizeError_def persistStatus_def setterLastReconcileTime_def
    by (simp add: wp_simps Let_def) (auto simp: concludes_def)
qed

lemma finalizeSuccess_spec:
  "wp (finalizeSuccess E resp) (\<lambda>r w'. concludes E (OperationDone resp) w r w') w"
proof -
  have inj: "wp (if b then ApplyResponseDataToSecrets E d ns uid x cfgs else State_Monad.return x)
      (\<lambda>_ w'. adds_same is_secret_event w w') w" for b d ns uid x cfgs
    by (intro keeps_wpI keeps_if emits_ApplyResponseDataToSecrets keeps_return_world)
  have G: "job_ends b d ((if b then DSetSynced True else DSetError (Some (ErrorString m)))
      (clear_operation (DSetLastReconcileTime t (store_response x d))))" for b d m t x
    by (cases b) (simp_all add: job_ends_def job_succeeds_def job_fails_def operation_over_def status_change_simps)
  have fin: "wp (do {
        modifyObj (store_response x);
        setterLastReconcileTime E;
        modifyObj clear_operation;
        modifyObj (if b then DSetSynced True else DSetError (Some (ErrorString m)));
        persistStatus E }) (\<lambda>r w'. one_write (job_ends b) w r w') v"
    if v: "adds_same is_secret_event w v" for b x v m
  proof -
    have a: "adds (\<lambda>e. \<not> is_kube_event e) w v" and o: "Obj v = Obj w"
      using v by (auto simp: adds_same_def elim: adds_mono)
    let ?d = "\<lambda>t. (if b then DSetSynced True else DSetError (Some (ErrorString m)))
      (clear_operation (DSetLastReconcileTime t (store_response x (Obj v))))"
    have d: "job_ends b (Obj w) (?d t)" for t
      unfolding o by (rule G)
    have "wp (kubeStatusUpdate E) (one_write (job_ends b) w) (v\<lparr>Hist := ClockRead t # Hist v, Obj := ?d t\<rparr>)" for t
      by (rule kubeStatusUpdate_one_write [OF adds_clock [OF a]]) (simp, use d [of t] in \<open>simp only: obj_updated\<close>)
    then show ?thesis
      unfolding persistStatus_def setterLastReconcileTime_def
      by (cases b) (simp_all add: wp_bind wp_timeNow wp_modifyObj Let_def)
  qed
  show ?thesis
  proof (cases "IsResponseAsExpected E (DForProvider (Obj w)) resp")
    case (Inl e)
    then show ?thesis by (simp add: finalizeSuccess_def wp_simps concludes_def)
  next
    case (Inr b)
    have "concludes E (OperationDone resp) w = one_write (job_ends b) w"
      using Inr by (simp add: concludes_def fun_eq_iff)
    then show ?thesis
      unfolding finalizeSuccess_def wp_bind [of theObj] wp_theObj Inr sum.case wp_bind [of "if _ then _ else _"]
      by (simp only:, intro wp_mono [OF inj] fin)
  qed
qed

lemma conclude_concludes: "wp (conclude E v) (\<lambda>r w'. concludes E v w r w') w"
proof (cases v)
  case OutOfBudget
  then show ?thesis
    unfolding conclude_def setterLastReconcileTime_def persistStatus_def
    by (auto simp: wp_bind wp_timeNow wp_modifyObj Let_def concludes_def same_operation_def disposable_setter_defs
          same_request_def adds_def intro!: kubeStatusUpdate_one_write)
qed (simp_all add: conclude_def wp_return finalizeError_spec finalizeSuccess_spec, simp add: concludes_def)

end
