(* ===== verification/DisposableDeploy.thy ===== *)
theory DisposableDeploy
  imports DisposablePolling
begin

text \<open>
  \<^verbatim>\<open>internal/service/disposablerequest/deployaction.go\<close> and \<^verbatim>\<open>observe.go\<close>: firing the one request
  of an AsyncDisposableRequest or resuming its operation, and what an observation reads and writes.
\<close>

subsection \<open>deployaction.go\<close>

definition sendHttpRequest ::
  "DisposableRequest env \<Rightarrow> (DisposableRequest world, HttpDetails \<times> goerr option) state" where
  "sendHttpRequest E = do {
     d \<leftarrow> theObj;
     let p = DForProvider d;
     u \<leftarrow> PatchSecretsIntoString E (DURL p);
     case u of
       Inl err \<Rightarrow> State_Monad.return (emptyDetails, Some err)
     | Inr url \<Rightarrow> do {
         b \<leftarrow> PatchSecretsIntoString E (DBody p);
         case b of
           Inl err \<Rightarrow> State_Monad.return (emptyDetails, Some err)
         | Inr body \<Rightarrow> do {
             h \<leftarrow> PatchSecretsIntoHeaders E (DHeaders p);
             case h of
               Inl err \<Rightarrow> State_Monad.return (emptyDetails, Some err)
             | Inr hds \<Rightarrow>
                 sendRequest E \<lparr>CallMethod = DMethod p, CallURL = \<lparr>Encrypted = DURL p, Decrypted = url\<rparr>,
                   CallBody = \<lparr>Encrypted = DBody p, Decrypted = body\<rparr>,
                   CallHeaders = \<lparr>Encrypted = DHeaders p, Decrypted = hds\<rparr>\<rparr>
           }
       }
   }"

text \<open>\<open>prepareRequestResource\<close>: the resource of the answer is the one in memory, read again.\<close>

definition prepareRequestResource :: "DisposableRequest env \<Rightarrow> (DisposableRequest world, goerr option) state" where
  "prepareRequestResource E = do {
     g \<leftarrow> kubeGet E;
     State_Monad.return (Wrap g ''failed to get the latest version of the resource'')
   }"

definition response_setters :: "DisposableRequest env \<Rightarrow> HttpDetails \<Rightarrow> DisposableRequest setter list" where
  "response_setters E d =
     [setterStatusCode disposableWriter d, setterLastReconcileTime E, setterHeaders disposableWriter d,
      setterBody disposableWriter d]"

definition handleHttpRequestError ::
  "DisposableRequest env \<Rightarrow> HttpDetails \<Rightarrow> goerr \<Rightarrow> (DisposableRequest world, goerr option) state" where
  "handleHttpRequestError E details err = do {
     r \<leftarrow> SetRequestResourceStatus E
       [setterError disposableWriter (Some err), setterLastReconcileTime E,
        setterRequestDetails disposableWriter details];
     State_Monad.return (case r of Some e \<Rightarrow> Some (Wrapped e ErrFailedToSetStatus) | None \<Rightarrow> Some err)
   }"

definition handleHttpErrorStatus ::
  "DisposableRequest env \<Rightarrow> HttpDetails \<Rightarrow> (DisposableRequest world, goerr option) state" where
  "handleHttpErrorStatus E details = do {
     d \<leftarrow> theObj;
     let httpErr = ErrStatusCode (DMethod (DForProvider d)) (StatusCode (HttpResponse details));
     r \<leftarrow> SetRequestResourceStatus E
       (response_setters E details @
        [setterRequestDetails disposableWriter details, setterError disposableWriter (Some httpErr)]);
     State_Monad.return (case r of Some e \<Rightarrow> Some (Wrapped e ErrFailedToSetStatus) | None \<Rightarrow> Some httpErr)
   }"

text \<open>The response is judged with its secrets in it, and stored with placeholders in their place.\<close>

definition handleResponseValidation ::
  "DisposableRequest env \<Rightarrow> HttpDetails \<Rightarrow> (DisposableRequest world, goerr option) state" where
  "handleResponseValidation E details = do {
     d \<leftarrow> theObj;
     case IsResponseAsExpected E (DForProvider d) (HttpResponse details) of
       Inl err \<Rightarrow> State_Monad.return (Some err)
     | Inr True \<Rightarrow> do {
         resp \<leftarrow> ApplyResponseDataToSecrets E d (DNamespace d) (DUID d) (HttpResponse details)
           (DSecretInjectionConfigs (DForProvider d));
         let stored = details\<lparr>HttpResponse := resp\<rparr>;
         SetRequestResourceStatus E
           (response_setters E stored @ [setterSynced, setterRequestDetails disposableWriter stored])
       }
     | Inr False \<Rightarrow>
         SetRequestResourceStatus E
           (response_setters E details @
            [setterError disposableWriter (Some (ErrorString (errResponseFormat @
               itoa (sint (GetRollbackRetriesLimit (RollbackRetriesLimit (DForProvider d))))))),
             setterRequestDetails disposableWriter details])
   }"

definition handleHttpResponse ::
  "DisposableRequest env \<Rightarrow> HttpDetails \<Rightarrow> (DisposableRequest world, goerr option) state" where
  "handleHttpResponse E details = do {
     d \<leftarrow> theObj;
     if IsHTTPError (StatusCode (HttpResponse details)) (DAllowedStatusCodes (DForProvider d))
     then handleHttpErrorStatus E details
     else handleResponseValidation E details
   }"

definition retries_exhausted :: "DisposableRequest \<Rightarrow> bool" where
  "retries_exhausted d \<longleftrightarrow>
     RollBackEnabled (RollbackRetriesLimit (DForProvider d)) \<and>
     RetriesLimitReached (DFailed (DStatus d)) (RollbackRetriesLimit (DForProvider d))"

definition in_flight :: "DisposableRequest \<Rightarrow> bool" where
  "in_flight d \<longleftrightarrow> DPolling (DForProvider d) \<noteq> None \<and> DGetPollingResponse d \<noteq> JNilMap"

text \<open>What follows the trigger once its answer is there.\<close>

definition after_trigger ::
  "nat \<Rightarrow> DisposableRequest env \<Rightarrow> HttpDetails \<Rightarrow> goerr option \<Rightarrow>
   (DisposableRequest world, goerr option) state" where
  "after_trigger fuel E details httpErr = do {
     g \<leftarrow> prepareRequestResource E;
     onError g (\<lambda>e. State_Monad.return (Some e))
       (onError httpErr (handleHttpRequestError E details) (do {
          d \<leftarrow> theObj;
          if DPolling (DForProvider d) = None then handleHttpResponse E details
          else if IsHTTPError (StatusCode (HttpResponse details)) (DAllowedStatusCodes (DForProvider d))
          then handleHttpErrorStatus E details
          else beginPolling fuel E details
        }))
   }"

definition DisposableDeployAction ::
  "nat \<Rightarrow> DisposableRequest env \<Rightarrow> (DisposableRequest world, goerr option) state" where
  "DisposableDeployAction fuel E = do {
     d \<leftarrow> theObj;
     if DSynced (DStatus d) \<and> \<not> ShouldLoopInfinitely (DForProvider d) then State_Monad.return None
     else if retries_exhausted d then State_Monad.return None
     else if in_flight d then resumePolling fuel E
     else do {
       (details, httpErr) \<leftarrow> sendHttpRequest E;
       after_trigger fuel E details httpErr
     }
   }"

subsection \<open>observe.go\<close>

definition ValidateStoredResponse ::
  "DisposableRequest env \<Rightarrow> (DisposableRequest world, goerr + (bool \<times> Response)) state" where
  "ValidateStoredResponse E = do {
     d \<leftarrow> theObj;
     let response = DResponse (DStatus d);
     if StatusCode response = 0 then State_Monad.return (Inr (False, emptyResponse))
     else do {
       b \<leftarrow> PatchSecretsIntoString E (Body response);
       case b of
         Inl err \<Rightarrow> State_Monad.return (Inl (Wrapped err ''cannot patch from referenced secret''))
       | Inr body \<Rightarrow> do {
           let stored = response\<lparr>Body := body\<rparr>;
           State_Monad.return
             (case IsResponseAsExpected E (DForProvider d) stored of
                Inl err \<Rightarrow> Inl (Wrapped err ''failed to check if response is as expected'')
              | Inr ok \<Rightarrow> Inr (if ok then (True, stored) else (False, emptyResponse)))
         }
     }
   }"

definition CalculateUpToDateStatus :: "DisposableParameters \<Rightarrow> bool \<Rightarrow> bool" where
  "CalculateUpToDateStatus p current =
     (if ShouldLoopInfinitely p \<and> RollbackRetriesLimit p = None then False else current)"

text \<open>
  \<open>UpdateResourceStatus\<close> and \<open>MarkResourceUnavailable\<close> differ in the condition they set. The error of
  the write is dropped for a fixed text.
\<close>

definition write_condition ::
  "DisposableRequest env \<Rightarrow> (int \<Rightarrow> Condition) \<Rightarrow> (DisposableRequest world, goerr option) state" where
  "write_condition E c = do {
     g \<leftarrow> kubeGet E;
     onError g (\<lambda>e. State_Monad.return (Some (Wrapped e ''failed to get the latest version of the resource''))) (do {
       now \<leftarrow> timeNow E;
       modifyObj (\<lambda>d. DSetConditionList (SetConditions E (DConditions (DStatus d)) [c now]) d);
       r \<leftarrow> kubeStatusUpdate E;
       State_Monad.return (if r = None then None else Some (ErrorString ''failed updating status conditions''))
     })
   }"

definition UpdateResourceStatus :: "DisposableRequest env \<Rightarrow> (DisposableRequest world, goerr option) state" where
  "UpdateResourceStatus E = write_condition E Available"

definition MarkResourceUnavailable ::
  "DisposableRequest env \<Rightarrow> string \<Rightarrow> (DisposableRequest world, goerr option) state" where
  "MarkResourceUnavailable E msg = write_condition E (Unavailable msg)"

definition ApplySecretInjectionsFromStoredResponse ::
  "DisposableRequest env \<Rightarrow> Response \<Rightarrow> (DisposableRequest world, unit) state" where
  "ApplySecretInjectionsFromStoredResponse E storedResponse = do {
     d \<leftarrow> theObj;
     r \<leftarrow> ApplyResponseDataToSecrets E d (DNamespace d) (DUID d) storedResponse
       (DSecretInjectionConfigs (DForProvider d));
     State_Monad.return ()
   }"

subsection \<open>Which calls\<close>

definition job_anchor :: "DisposableRequest \<Rightarrow> string option" where
  [simp]: "job_anchor d = DPollingResponse (DStatus d)"

text \<open>Neither a call to the HTTP API nor one for the resource: the secrets and the clock.\<close>

definition is_quiet :: "'cr event \<Rightarrow> bool" where
  "is_quiet e \<longleftrightarrow> no_call e \<and> \<not> is_kube_event e"

lemma quiet_simps [simp]:
  "is_secret_event ev \<Longrightarrow> is_quiet ev" "is_quiet (ClockRead t)" "is_quiet ev \<Longrightarrow> no_call ev"
  "is_quiet ev \<Longrightarrow> \<not> is_kube_event ev"
  by (auto simp: is_quiet_def is_secret_event_def split: event.splits)

lemma emits_conclude: "emits no_call (conclude E v)"
  unfolding conclude_def finalizeError_def finalizeSuccess_def persistStatus_def Let_def
  by (auto intro!: keeps_intros emits_same_emits [OF emits_same_mono [OF emits_ApplyResponseDataToSecrets]]
      split: verdict.split)

lemma emits_drivePolling: "emits harmless (drivePolling n E tm)"
  unfolding drivePolling_def
  by (auto intro!: keeps_bind keeps_option keeps_return_world emits_theObj emits_harmlessI(1) [OF emits_conclude]
      emits_same_emits [OF emits_same_mono [OF emits_operation_verdict]])

lemma emits_resumePolling: "emits harmless (resumePolling n E)"
  unfolding resumePolling_def by (auto intro!: keeps_bind emits_theObj emits_drivePolling)

lemma emits_status_write:
  assumes "retry_contract E" "list_all (emits no_call) fs"
  shows "emits no_call (SetRequestResourceStatus E fs)"
  using assms by (intro emits_SetRequestResourceStatus) auto

lemma emits_handlers:
  assumes "retry_contract E"
  shows "emits no_call (handleHttpRequestError E d err)" "emits no_call (handleHttpResponse E d)"
    "emits no_call (handleHttpErrorStatus E d)"
  unfolding handleHttpRequestError_def handleHttpResponse_def handleHttpErrorStatus_def
    handleResponseValidation_def response_setters_def Let_def
  by (auto intro!: keeps_intros emits_status_write assms
      emits_same_emits [OF emits_same_mono [OF emits_ApplyResponseDataToSecrets]] split: bool.split)

lemma emits_prepareRequestResource: "emits no_call (prepareRequestResource E)"
  unfolding prepareRequestResource_def by (auto intro!: keeps_intros)

subsection \<open>The order of the calls of an action\<close>

text \<open>A new operation begins with the write of its anchor: with it the time of the start is kept.\<close>

definition job_begins :: "json \<Rightarrow> DisposableRequest \<Rightarrow> DisposableRequest \<Rightarrow> bool" where
  "job_begins tm a b \<longleftrightarrow> same_request a b \<and> DPollingResponse (DStatus b) = Some (json_marshal tm) \<and>
     DStartedAt (DStatus b) \<noteq> None \<and>
     (DStartedAt (DStatus a) \<noteq> None \<longrightarrow> DStartedAt (DStatus b) = DStartedAt (DStatus a)) \<and>
     DFailed (DStatus b) = DFailed (DStatus a) \<and> DSynced (DStatus b) = DSynced (DStatus a)"

lemma begin_change_begins:
  assumes "tm \<noteq> JNilMap"
  shows "wp (begin_change E q tm) (\<lambda>_ w'. adds is_quiet w w' \<and> job_begins tm (Obj w) (Obj w')) w"
  using assms
  by (auto simp: begin_change_def setterLastReconcileTime_def wp_simps Let_def job_begins_def adds_def same_request_def
        disposable_setter_defs MapToRawExtension_def)

text \<open>\<open>begins\<close>: the write that begins an operation, and, once it is accepted, polls.\<close>

definition begins :: "DisposableRequest world \<Rightarrow> goerr option \<Rightarrow> DisposableRequest world \<Rightarrow> bool" where
  "begins w r w' \<longleftrightarrow>
     (\<exists>tm cr x es v. Hist v = StatusUpdate cr x # es @ Hist w \<and> list_all is_quiet es \<and> job_begins tm (Obj w) cr \<and>
        (case x of Some e \<Rightarrow> r = Some e \<and> w' = v | None \<Rightarrow> adds harmless v w'))"

lemma beginPolling_begins: "wp (beginPolling n E d) (\<lambda>r w'. begins w r w') w"
proof -
  have inj: "wp (if b then ApplyResponseDataToSecrets E x ns uid r cfgs else State_Monad.return r)
      (\<lambda>_ w'. adds_same is_secret_event w w') w" for b x ns uid r cfgs
    by (intro keeps_wpI keeps_if emits_ApplyResponseDataToSecrets keeps_return_world)
  have drive: "wp (drivePolling n E tm) (\<lambda>r w'. adds harmless v w') v" for tm v
    by (rule keeps_wpI [OF emits_drivePolling])
  have persist: "wp (persistStatus E) (\<lambda>x v. wp (onError x (\<lambda>e. State_Monad.return (Some e)) (drivePolling n E tm))
      (\<lambda>r w'. begins w r w') v) u"
    if "adds is_quiet w u" "job_begins tm (Obj w) (Obj u)" for tm u
  proof -
    from that(1) obtain es where es: "Hist u = es @ Hist w" "list_all is_quiet es" by (auto simp: adds_def)
    let ?s = "KubeStatusWrite E (Hist u) (Obj u)"
    let ?v = "u\<lparr>Obj := snd ?s, Hist := StatusUpdate (Obj u) (fst ?s) # Hist u\<rparr>"
    have v: "Hist ?v = StatusUpdate (Obj u) (fst ?s) # es @ Hist w" using es(1) by simp
    have "begins w r w'" if "case fst ?s of Some e \<Rightarrow> r = Some e \<and> w' = ?v | None \<Rightarrow> adds harmless ?v w'" for r w'
      unfolding begins_def using v es(2) \<open>job_begins tm (Obj w) (Obj u)\<close> that by blast
    then show ?thesis
      unfolding persistStatus_def wp_kubeStatusUpdate Let_def wp_onError
      by (cases "fst ?s") (simp_all add: wp_return, rule wp_mono [OF drive], simp)
  qed
  have change: "wp (begin_change E q tm) (\<lambda>_ v. wp (persistStatus E) (\<lambda>x v. wp (onError x
      (\<lambda>e. State_Monad.return (Some e)) (drivePolling n E tm)) (\<lambda>r w'. begins w r w') v) v) u"
    if u: "adds_same is_secret_event w u" and tm: "tm \<noteq> JNilMap" for q tm u
  proof (rule wp_mono [OF begin_change_begins [OF tm]], elim conjE)
    fix v assume v: "adds is_quiet u v" "job_begins tm (Obj u) (Obj v)"
    have "adds is_quiet w u" "Obj u = Obj w" using u by (auto simp: adds_same_def elim: adds_mono)
    with v show "wp (persistStatus E) (\<lambda>x v. wp (onError x (\<lambda>e. State_Monad.return (Some e)) (drivePolling n E tm))
      (\<lambda>r w'. begins w r w') v) v" by (intro persist) (auto intro: adds_trans)
  qed
  show ?thesis
    unfolding beginPolling_def Let_def wp_bind wp_theObj
    by (rule wp_mono [OF inj]) (rule change, simp_all)
qed

lemma staged_begins:
  assumes "begins w r w'" "s \<noteq> Unsent"
  shows "staged job_anchor s w w' \<noteq> {}"
proof -
  from assms(1) obtain tm cr x es v where v: "Hist v = StatusUpdate cr x # es @ Hist w" "list_all is_quiet es"
      "job_begins tm (Obj w) cr" "case x of Some e \<Rightarrow> r = Some e \<and> w' = v | None \<Rightarrow> adds harmless v w'"
    by (auto simp: begins_def)
  have es: "list_all no_call es" using v(2) by (auto simp: list_all_iff)
  show ?thesis
  proof (cases x)
    case None
    with v(1) es have "Anchored \<in> staged job_anchor s w v"
      by (intro staged_anchor [OF _ es _ assms(2)]) (use v(3) in \<open>auto simp: job_begins_def\<close>)
    moreover have "Anchored \<in> staged job_anchor Anchored v w'" using None v(4) by (intro staged_harmless) simp
    ultimately show ?thesis using staged_trans by blast
  next
    case (Some e)
    have "adds no_call w v" unfolding adds_def using v(1) es by (intro exI [of _ "StatusUpdate cr x # es"]) simp
    from staged_adds [OF this, of job_anchor s] Some v(4) show ?thesis by auto
  qed
qed

lemma staged_quiet:
  "adds no_call w w' \<Longrightarrow> t \<in> staged raw s u w \<Longrightarrow> staged raw s u w' \<noteq> {}"
  by (rule staged_no_call [where P = no_call]) simp_all

lemma after_trigger_staged:
  assumes retry: "retry_contract E" and t: "t \<in> staged job_anchor s u w" "t \<noteq> Unsent"
  shows "wp (after_trigger n E d err) (\<lambda>_ w'. staged job_anchor s u w' \<noteq> {}) w"
proof -
  have quiet: "wp m (\<lambda>_ w'. staged job_anchor s u w' \<noteq> {}) v"
    if "emits no_call m" "t' \<in> staged job_anchor s u v" for m :: "(DisposableRequest world, goerr option) state" and v t'
    using keeps_wpI [OF that(1)] by (rule wp_mono) (rule staged_quiet [OF _ that(2)])
  have start: "wp (beginPolling n E d) (\<lambda>_ w'. staged job_anchor s u w' \<noteq> {}) v"
    if "t' \<in> staged job_anchor s u v" "t' \<noteq> Unsent" for v t'
  proof (rule wp_mono [OF beginPolling_begins])
    fix r w' assume "begins v r w'"
    from staged_begins [OF this that(2)] obtain x where "x \<in> staged job_anchor t' v w'" by auto
    from staged_trans [OF that(1) this] show "staged job_anchor s u w' \<noteq> {}" by auto
  qed
  have rest: "wp (onError g (\<lambda>e. State_Monad.return (Some e))
       (onError err (handleHttpRequestError E d) (do {
          x \<leftarrow> theObj;
          if DPolling (DForProvider x) = None then handleHttpResponse E d
          else if IsHTTPError (StatusCode (HttpResponse d)) (DAllowedStatusCodes (DForProvider x))
          then handleHttpErrorStatus E d
          else beginPolling n E d }))) (\<lambda>_ w'. staged job_anchor s u w' \<noteq> {}) v"
    if "t' \<in> staged job_anchor s u v" "t' \<noteq> Unsent" for v t' g
    using that quiet [OF emits_handlers(1) [OF retry] that(1)] quiet [OF emits_handlers(2) [OF retry] that(1)]
      quiet [OF emits_handlers(3) [OF retry] that(1)] start [OF that]
    by (auto simp: wp_simps split: option.split)
  show ?thesis
    unfolding after_trigger_def wp_bind [of "prepareRequestResource E"]
  proof (rule wp_mono [OF keeps_wpI [OF emits_prepareRequestResource]])
    fix g v assume "adds no_call w v"
    from staged_adds [OF this, of job_anchor t] obtain t' where "t' \<in> staged job_anchor t w v" "t = Unsent \<longleftrightarrow> t' = Unsent"
      by auto
    with t show "wp (onError g (\<lambda>e. State_Monad.return (Some e))
       (onError err (handleHttpRequestError E d) (do {
          x \<leftarrow> theObj;
          if DPolling (DForProvider x) = None then handleHttpResponse E d
          else if IsHTTPError (StatusCode (HttpResponse d)) (DAllowedStatusCodes (DForProvider x))
          then handleHttpErrorStatus E d
          else beginPolling n E d }))) (\<lambda>_ w'. staged job_anchor s u w' \<noteq> {}) v"
      by (intro rest [of t']) (auto intro: staged_trans)
  qed
qed

text \<open>The trigger: secrets are read, then the one call is made, or none.\<close>

definition sends :: "DisposableRequest world \<Rightarrow> HttpDetails \<times> goerr option \<Rightarrow> DisposableRequest world \<Rightarrow> bool" where
  "sends w x w' \<longleftrightarrow> Obj w' = Obj w \<and>
     (adds is_secret_read w w' \<and> snd x \<noteq> None \<or>
      (\<exists>v c. adds is_secret_read w v \<and> Hist w' = HttpSent c (fst x) (snd x) # Hist v))"

lemma sendHttpRequest_sends: "wp (sendHttpRequest E) (\<lambda>x w'. sends w x w') w"
proof -
  note str = keeps_wpI [OF emits_PatchSecretsIntoString]
  note hdr = keeps_wpI [OF emits_PatchSecretsIntoHeaders]
  have fail: "sends w (emptyDetails, Some e) v" if "adds_same is_secret_read w v" for v e
    using that by (simp add: sends_def adds_same_def)
  have send: "wp (sendRequest E c) (\<lambda>x w'. sends w x w') v" if "adds_same is_secret_read w v" for c v
    using that by (auto simp: wp_simps Let_def sends_def adds_same_def)
  have tr: "adds_same is_secret_read a b \<Longrightarrow> adds_same is_secret_read b c \<Longrightarrow> adds_same is_secret_read a c" for a b c
    by (auto simp: adds_same_def intro: adds_trans)
  show ?thesis
    unfolding sendHttpRequest_def Let_def wp_bind [of theObj] wp_theObj wp_bind [of "PatchSecretsIntoString E (DURL _)"]
    by (rule wp_mono [OF str])
       (auto simp: wp_bind wp_sum wp_return fail split: sum.split
         intro!: wp_mono [OF str] wp_mono [OF hdr], (blast intro: send fail tr)+)
qed

lemma sends_staged:
  assumes "sends w x w'"
  shows "\<exists>t \<in> staged raw Unsent w w'. t \<noteq> Unsent \<or> snd x \<noteq> None"
  using assms unfolding sends_def
proof (elim conjE disjE exE)
  assume "adds is_secret_read w w'" "snd x \<noteq> None"
  with staged_adds [of is_secret_read w w' raw Unsent] show ?thesis by auto
next
  fix v c assume v: "adds is_secret_read w v" "Hist w' = HttpSent c (fst x) (snd x) # Hist v"
  have "Unsent \<in> staged raw Unsent w v" using staged_adds [OF v(1), of raw Unsent] by fastforce
  moreover have "Sent \<in> staged raw Unsent v w'" using v(2) by (auto simp: staged_def)
  ultimately have "Sent \<in> staged raw Unsent w w'" by (rule staged_trans)
  then show ?thesis by blast
qed

text \<open>
  The order of an action that resumes nothing: the trigger at most once, and polls only behind an
  accepted write of the anchor.
\<close>

lemma DisposableDeployAction_staged:
  assumes retry: "retry_contract E" and "\<not> in_flight (Obj w)"
  shows "wp (DisposableDeployAction n E) (\<lambda>_ w'. staged job_anchor Unsent w w' \<noteq> {}) w"
proof -
  have quiet: "emits no_call (after_trigger n E d (Some e))" for d e
    unfolding after_trigger_def onError_def
    by (auto intro!: keeps_intros emits_prepareRequestResource emits_handlers [OF retry] simp: onError_def)
  have after: "wp (after_trigger n E d err) (\<lambda>_ w'. staged job_anchor Unsent w w' \<noteq> {}) v" if "sends w (d, err) v" for d err v
  proof -
    from sends_staged [OF that, of job_anchor] obtain t where t: "t \<in> staged job_anchor Unsent w v" "t \<noteq> Unsent \<or> err \<noteq> None"
      by auto
    show ?thesis
    proof (cases "t = Unsent")
      case True
      with t obtain e where "err = Some e" by auto
      with keeps_wpI [OF quiet [of d e], of v] show ?thesis
        by (auto elim!: wp_mono dest!: staged_quiet [OF _ t(1)])
    next
      case False
      from after_trigger_staged [OF retry t(1) this] show ?thesis .
    qed
  qed
  have "Unsent \<in> staged job_anchor Unsent w w" by (simp add: staged_def)
  then have none: "staged job_anchor Unsent w w \<noteq> {}" by blast
  have "wp (do { (d, err) \<leftarrow> sendHttpRequest E; after_trigger n E d err })
      (\<lambda>_ w'. staged job_anchor Unsent w w' \<noteq> {}) w"
    unfolding wp_bind by (rule wp_mono [OF sendHttpRequest_sends]) (auto simp: wp_prod after split: prod.split)
  with assms(2) none show ?thesis
    unfolding DisposableDeployAction_def wp_bind [of theObj] wp_theObj wp_if
    by (simp add: wp_return)
qed

text \<open>An action on a resource whose operation is in flight makes no call but polls.\<close>

lemma DisposableDeployAction_resumes:
  assumes "in_flight (Obj w)"
  shows "wp (DisposableDeployAction n E) (\<lambda>_ w'. adds harmless w w') w"
  unfolding DisposableDeployAction_def wp_bind [of theObj] wp_theObj
  using assms keeps_wpI [OF emits_resumePolling [of n E]] by (simp add: wp_simps)

subsection \<open>What is recorded\<close>

text \<open>
  The setters of a response that is stored: the parts that are not empty, the time, and what the
  last setter does to the failures.
\<close>

definition records :: "Response \<Rightarrow> (DisposableRequest \<Rightarrow> DisposableRequest \<Rightarrow> bool) \<Rightarrow> DisposableRequest \<Rightarrow> DisposableRequest \<Rightarrow> bool" where
  "records r F a b \<longleftrightarrow> same_request a b \<and> DResponse (DStatus b) = merge_response (DResponse (DStatus a)) r \<and>
     LastReconcileTime (DStatus b) \<noteq> None \<and>
     DPollingResponse (DStatus b) = DPollingResponse (DStatus a) \<and> F a b"

lemma run_last_reconcile:
  "run_state (setterLastReconcileTime E) w =
     ((), w\<lparr>Hist := ClockRead (Clock E (Hist w)) # Hist w, Obj := DSetLastReconcileTime (Clock E (Hist w)) (Obj w)\<rparr>)"
  by (simp add: setterLastReconcileTime_def run_calls)

lemma failure_setters:
  assumes "run_state (run_setters (response_setters E d @ [setterRequestDetails disposableWriter d,
      setterError disposableWriter (Some e)])) w = ((), w')"
  shows "records (HttpResponse d) (job_fails (Error e)) (Obj w) (Obj w') \<and> adds (\<lambda>e. \<not> is_kube_event e) w w'"
  using assms
  by (auto simp: response_setters_def setterStatusCode_def setterHeaders_def setterBody_def setterRequestDetails_def
        setterError_def run_calls run_last_reconcile Let_def disposableWriter_def records_def job_fails_def
        same_request_def disposable_setter_defs merge_response_def adds_def split: if_splits)

lemma success_setters:
  assumes "run_state (run_setters (response_setters E d @ [setterSynced, setterRequestDetails disposableWriter d])) w = ((), w')"
  shows "records (HttpResponse d) job_succeeds (Obj w) (Obj w') \<and> adds (\<lambda>e. \<not> is_kube_event e) w w'"
  using assms
  by (auto simp: response_setters_def setterStatusCode_def setterHeaders_def setterBody_def setterRequestDetails_def
        setterSynced_def run_calls run_last_reconcile Let_def disposableWriter_def records_def job_succeeds_def
        same_request_def disposable_setter_defs merge_response_def adds_def split: if_splits)

lemma mismatch_setters:
  assumes "run_state (run_setters (response_setters E d @ [setterError disposableWriter (Some e),
      setterRequestDetails disposableWriter d])) w = ((), w')"
  shows "records (HttpResponse d) (job_fails (Error e)) (Obj w) (Obj w') \<and> adds (\<lambda>e. \<not> is_kube_event e) w w'"
  using assms
  by (auto simp: response_setters_def setterStatusCode_def setterHeaders_def setterBody_def setterRequestDetails_def
        setterError_def run_calls run_last_reconcile Let_def disposableWriter_def records_def job_fails_def
        same_request_def disposable_setter_defs merge_response_def adds_def split: if_splits)

definition written ::
  "(DisposableRequest \<Rightarrow> DisposableRequest \<Rightarrow> bool) \<Rightarrow> DisposableRequest world \<Rightarrow> goerr option \<Rightarrow> DisposableRequest world \<Rightarrow> bool" where
  "written F w r w' \<longleftrightarrow> fresh_writes F w w' \<and> ends_written F w r w'"

definition mismatch_error :: "DisposableParameters \<Rightarrow> goerr" where
  "mismatch_error p = ErrorString (errResponseFormat @ itoa (sint (GetRollbackRetriesLimit (RollbackRetriesLimit p))))"

text \<open>
  What the answer to a request without polling leads to: an HTTP error and a response that is not the
  expected one count as a failure, an expected one ends the failures; a response that cannot be judged
  is an error, and nothing is written.
\<close>

definition answer_recorded ::
  "DisposableRequest env \<Rightarrow> HttpDetails \<Rightarrow> DisposableRequest world \<Rightarrow> goerr option \<Rightarrow> DisposableRequest world \<Rightarrow> bool" where
  "answer_recorded E d w r w' \<longleftrightarrow>
     (let p = DForProvider (Obj w); resp = HttpResponse d; err = ErrStatusCode (DMethod p) (StatusCode resp)
      in if IsHTTPError (StatusCode resp) (DAllowedStatusCodes p) then
           (\<exists>x. written (records resp (job_fails (Error err))) w x w' \<and>
                r = (case x of None \<Rightarrow> Some err | Some e \<Rightarrow> Some (Wrapped e ErrFailedToSetStatus)))
         else (case IsResponseAsExpected E p resp of
             Inl e \<Rightarrow> r = Some e \<and> w' = w
           | Inr True \<Rightarrow> \<exists>stored. StatusCode stored = StatusCode resp \<and> written (records stored job_succeeds) w r w'
           | Inr False \<Rightarrow> written (records resp (job_fails (Error (mismatch_error p)))) w r w'))"

lemma injected_code:
  "wp (ApplyResponseDataToSecrets E cr ns uid d cfgs) (\<lambda>r _. StatusCode r = StatusCode d) w"
proof -
  have sens: "StatusCode (replaceSensitiveValues x s k v) = StatusCode x" for x s k v
    by (auto simp: replaceSensitiveValues_def Let_def split: option.split)
  have one: "wp (updateSecretWithPatchedValue E x orig s m) (\<lambda>(err, s', x') _. StatusCode x' = StatusCode x) v" for x orig s m v
    unfolding updateSecretWithPatchedValue_def Let_def by (auto simp: wp_simps sens intro: wp_any)
  have maps: "wp (apply_mappings E orig ms x s) (\<lambda>(err, s', x') _. StatusCode x' = StatusCode x) v" for orig ms x s v
  proof (induction ms arbitrary: x s v)
    case (Cons m ms)
    have IH: "wp (apply_mappings E orig ms y t) (\<lambda>(err, s', x') _. StatusCode x' = c) u"
      if "StatusCode y = c" for y t u c using Cons.IH [of y t u] that by simp
    show ?case
      unfolding apply_mappings.simps wp_bind
      by (rule wp_mono [OF one]) (auto simp: wp_simps IH split: option.split)
  qed (simp add: wp_simps)
  have apply_cfg: "wp (applySecretConfig E x orig c s) (\<lambda>(err, x') _. StatusCode x' = StatusCode x) v" for x orig c s v
    unfolding applySecretConfig_def wp_bind
    by (rule wp_mono [OF maps]) (auto simp: wp_simps split: option.split intro: wp_any)
  have cfg: "wp (patchResponseDataToSecret E x orig owner c) (\<lambda>(err, x') _. StatusCode x' = StatusCode x) v" for x orig owner c v
    unfolding patchResponseDataToSecret_def wp_bind
    by (rule wp_any) (auto simp: wp_simps apply_cfg split: sum.split)
  have "wp (apply_configs E orig cr ns uid cfgs x) (\<lambda>r _. StatusCode r = StatusCode x) v" for orig x v
  proof (induction cfgs arbitrary: x v)
    case (Cons c cfgs)
    have IH: "wp (apply_configs E orig cr ns uid cfgs y) (\<lambda>r _. StatusCode r = n) u"
      if "StatusCode y = n" for y u n using Cons.IH [of y u] that by simp
    show ?case
      unfolding apply_configs.simps wp_bind
      by (rule wp_mono [OF cfg]) (auto simp: wp_simps IH)
  qed (simp add: wp_simps)
  then show ?thesis by (simp add: ApplyResponseDataToSecrets_def)
qed

lemma written_after:
  assumes "adds_same is_secret_event w v" "written F v r w'"
  shows "written F w r w'"
proof -
  from assms(1) obtain es where es: "Hist v = es @ Hist w" "list_all is_secret_event es" "Obj v = Obj w"
    by (auto simp: adds_same_def adds_def)
  then have "list_all (\<lambda>e. \<not> is_kube_event e) (rev es)" by (auto simp: list_all_iff)
  from quiet_writes [OF this] es have "fresh_run F w v" by (auto simp: fresh_run_def)
  with assms(2) show ?thesis by (auto simp: written_def intro: fresh_run_writes fresh_run_written)
qed

lemma handleHttpResponse_records:
  assumes "retry_contract E" "reads_not_conflict E"
  shows "wp (handleHttpResponse E d) (\<lambda>r w'. answer_recorded E d w r w') w"
proof -
  let ?p = "DForProvider (Obj w)" and ?resp = "HttpResponse d"
  note wr = SetRequestResourceStatus_spec [OF assms]
  show ?thesis
  proof (cases "IsHTTPError (StatusCode ?resp) (DAllowedStatusCodes ?p)")
    case True
    then show ?thesis
      unfolding handleHttpResponse_def handleHttpErrorStatus_def wp_bind [of theObj] wp_theObj wp_if Let_def
        wp_bind [of "SetRequestResourceStatus E _"]
      by (simp, intro wp_mono [OF wr [OF failure_setters]])
         (auto simp: wp_simps answer_recorded_def written_def Let_def)
  next
    case ok: False
    show ?thesis
    proof (cases "IsResponseAsExpected E ?p ?resp")
      case (Inl e)
      with ok show ?thesis
        by (simp add: handleHttpResponse_def handleResponseValidation_def wp_simps answer_recorded_def Let_def)
    next
      case (Inr b)
      show ?thesis
      proof (cases b)
        case True
        have inj: "wp (ApplyResponseDataToSecrets E x ns uid ?resp cfgs)
            (\<lambda>r v. adds_same is_secret_event w v \<and> StatusCode r = StatusCode ?resp) w" for x ns uid cfgs
          by (intro wp_conj keeps_wpI emits_ApplyResponseDataToSecrets injected_code)
        have "written (records r job_succeeds) w x w'"
          if "adds_same is_secret_event w v" "written (records r job_succeeds) v x w'" for r x v w'
          by (rule written_after [OF that])
        with ok Inr True show ?thesis
          unfolding handleHttpResponse_def handleResponseValidation_def wp_bind [of theObj] wp_theObj wp_if Let_def
          by (simp add: wp_bind, intro wp_mono [OF inj] wp_mono [OF wr [OF success_setters]])
             (auto simp: answer_recorded_def Let_def written_def [symmetric])
      next
        case False
        with ok Inr show ?thesis
          unfolding handleHttpResponse_def handleResponseValidation_def wp_bind [of theObj] wp_theObj wp_if Let_def
          by (simp, intro wp_mono [OF wr [OF mismatch_setters]])
             (auto simp: answer_recorded_def Let_def written_def mismatch_error_def)
      qed
    qed
  qed
qed

end
