(* ===== verification/DisposableController.thy ===== *)
theory DisposableController
  imports DisposableDeploy
begin

text \<open>
  The external client of \<^verbatim>\<open>internal/controller/namespaced/disposablerequest/disposablerequest.go\<close> (its
  copy under \<^verbatim>\<open>cluster\<close> has the same operations), the interval until the next reconcile, and the
  reconciler that keeps the condition \<^verbatim>\<open>ErrorObserved\<close>.
\<close>

record Observation =
  ObsExists :: bool
  ObsUpToDate :: bool

subsection \<open>Observe\<close>

definition needs_retry :: "DisposableRequest \<Rightarrow> bool" where
  "needs_retry d \<longleftrightarrow>
     ShouldRetry (RollbackRetriesLimit (DForProvider d)) (DFailed (DStatus d)) \<and>
     \<not> RetriesLimitReached (DFailed (DStatus d)) (RollbackRetriesLimit (DForProvider d))"

definition failed_for_good :: "DisposableRequest \<Rightarrow> bool" where
  "failed_for_good d \<longleftrightarrow> \<not> DSynced (DStatus d) \<and> DError (DStatus d) \<noteq> [] \<and> retries_exhausted d"

text \<open>
  Whether the next reconcile is due: the last one, or now when there was none, plus the interval. The
  clock is read once more for the comparison.
\<close>

definition reconcile_due :: "DisposableRequest env \<Rightarrow> string \<Rightarrow> (DisposableRequest world, bool) state" where
  "reconcile_due E interval = do {
     d \<leftarrow> theObj;
     last \<leftarrow> (case LastReconcileTime (DStatus d) of None \<Rightarrow> timeNow E | Some t \<Rightarrow> State_Monad.return t);
     now \<leftarrow> timeNow E;
     State_Monad.return (last + ParseDuration (Some interval) 0 \<le> now)
   }"

text \<open>\<open>b\<close> is the answer when no interval is configured.\<close>

definition due_now :: "DisposableRequest env \<Rightarrow> bool \<Rightarrow> (DisposableRequest world, bool) state" where
  "due_now E b = do {
     d \<leftarrow> theObj;
     case NextReconcile (DForProvider d) of
       None \<Rightarrow> State_Monad.return b
     | Some i \<Rightarrow> reconcile_due E i
   }"

text \<open>\<open>Observe\<close> for a resource that is synced: at the end, and before that.\<close>

definition report_synced ::
  "DisposableRequest env \<Rightarrow> bool \<Rightarrow> bool \<Rightarrow> Response \<Rightarrow> (DisposableRequest world, goerr + Observation) state" where
  "report_synced E isAvailable isUpToDate storedResponse = do {
     r \<leftarrow> (if isAvailable then UpdateResourceStatus E else State_Monad.return None);
     onError r (\<lambda>e. State_Monad.return (Inl e)) (do {
       d \<leftarrow> theObj;
       (if DSecretInjectionConfigs (DForProvider d) \<noteq> [] \<and> StatusCode (DResponse (DStatus d)) \<noteq> 0
        then ApplySecretInjectionsFromStoredResponse E storedResponse else State_Monad.return ());
       State_Monad.return (Inr \<lparr>ObsExists = isAvailable, ObsUpToDate = isUpToDate\<rparr>)
     })
   }"

definition observe_synced ::
  "DisposableRequest env \<Rightarrow> bool \<Rightarrow> bool \<Rightarrow> (DisposableRequest world, goerr + Observation) state" where
  "observe_synced E needsRetry isAvailable = do {
     v \<leftarrow> ValidateStoredResponse E;
     case v of
       Inl err \<Rightarrow> State_Monad.return (Inl err)
     | Inr (isExpected, storedResponse) \<Rightarrow>
         if \<not> isExpected then do {
           due \<leftarrow> due_now E True;
           State_Monad.return (Inr \<lparr>ObsExists = isAvailable, ObsUpToDate = \<not> due\<rparr>)
         }
         else do {
           due \<leftarrow> (if needsRetry then State_Monad.return False else due_now E False);
           d \<leftarrow> theObj;
           report_synced E isAvailable (CalculateUpToDateStatus (DForProvider d) isAvailable \<and> \<not> due) storedResponse
         }
   }"

definition DisposableObserve ::
  "DisposableRequest env \<Rightarrow> (DisposableRequest world, goerr + Observation) state" where
  "DisposableObserve E = do {
     d \<leftarrow> theObj;
     if DDeletionTimestamp d \<noteq> None then State_Monad.return (Inr \<lparr>ObsExists = False, ObsUpToDate = False\<rparr>)
     else if failed_for_good d then do {
       r \<leftarrow> MarkResourceUnavailable E (DError (DStatus d));
       State_Monad.return (case r of Some e \<Rightarrow> Inl e | None \<Rightarrow> Inr \<lparr>ObsExists = True, ObsUpToDate = True\<rparr>)
     }
     else do {
       due \<leftarrow> (if needs_retry d then due_now E True else State_Monad.return False);
       if DSynced (DStatus d) then observe_synced E (needs_retry d) (\<not> due)
       else State_Monad.return (Inr
         (if needs_retry d \<and> \<not> due then \<lparr>ObsExists = True, ObsUpToDate = True\<rparr>
          else \<lparr>ObsExists = False, ObsUpToDate = False\<rparr>))
     }
   }"

subsection \<open>Create, Update\<close>

definition errFailedToSendHttpDisposableRequest :: string where
  "errFailedToSendHttpDisposableRequest = ''failed to send http request''"

text \<open>\<open>Create\<close> and \<open>Update\<close> have one body.\<close>

definition DisposableCreate ::
  "nat \<Rightarrow> DisposableRequest env \<Rightarrow> (DisposableRequest world, goerr option) state" where
  "DisposableCreate fuel E = do {
     d \<leftarrow> theObj;
     onError (Utils.IsRequestValid (DMethod (DForProvider d)) (DURL (DForProvider d)))
       (\<lambda>e. State_Monad.return (Some e)) (do {
         r \<leftarrow> DisposableDeployAction fuel E;
         State_Monad.return (Wrap r errFailedToSendHttpDisposableRequest)
       })
   }"

definition DisposableUpdate ::
  "nat \<Rightarrow> DisposableRequest env \<Rightarrow> (DisposableRequest world, goerr option) state" where
  "DisposableUpdate fuel E = DisposableCreate fuel E"

subsection \<open>The next reconcile\<close>

definition defaultPollInterval :: int where "defaultPollInterval = 30 * second"

definition customPollIntervalHook :: "DisposableRequest env \<Rightarrow> (DisposableRequest world, int) state" where
  "customPollIntervalHook E = do {
     d \<leftarrow> theObj;
     case NextReconcile (DForProvider d) of
       None \<Rightarrow> State_Monad.return defaultPollInterval
     | Some i \<Rightarrow> do {
         last \<leftarrow> (case LastReconcileTime (DStatus d) of None \<Rightarrow> timeNow E | Some t \<Rightarrow> State_Monad.return t);
         now \<leftarrow> timeNow E;
         let next = last + ParseDuration (Some i) 0;
         State_Monad.return (if now < next then next - now else defaultPollInterval)
       }
   }"

subsection \<open>The condition ErrorObserved\<close>

definition conditionTypeErrorObserved :: string where
  "conditionTypeErrorObserved = ''ErrorObserved''"

definition is_error_observed :: "Condition \<Rightarrow> bool" where
  "is_error_observed c \<longleftrightarrow> CondType c = conditionTypeErrorObserved"

fun replace_first :: "Condition \<Rightarrow> Condition list \<Rightarrow> Condition list" where
  "replace_first c [] = [c]"
| "replace_first c (x # xs) = (if is_error_observed x then c # xs else x # replace_first c xs)"

definition errorCondition :: "string \<Rightarrow> int \<Rightarrow> Condition" where
  "errorCondition msg now =
     \<lparr>CondType = conditionTypeErrorObserved, CondStatus = ''True'', CondReason = ''RetriesExhausted'',
      CondMessage = msg, CondTime = now\<rparr>"

text \<open>
  The slice of the conditions is changed in place before it is passed to \<open>SetConditions\<close>; where the
  condition is appended the resource keeps its old list until then.
\<close>

definition ensureErrorObserved ::
  "DisposableRequest env \<Rightarrow> (DisposableRequest world, goerr option) state" where
  "ensureErrorObserved E = do {
     d \<leftarrow> theObj;
     let cs = DConditions (DStatus d);
     if \<exists>c \<in> set cs. is_error_observed c \<and> CondStatus c = ''True'' \<and> CondMessage c = DError (DStatus d)
     then State_Monad.return None
     else do {
       now \<leftarrow> timeNow E;
       let new = replace_first (errorCondition (DError (DStatus d)) now) cs;
       let old = (if \<exists>c \<in> set cs. is_error_observed c then new else cs);
       modifyObj (DSetConditionList (SetConditions E old new));
       kubeStatusUpdate E
     }
   }"

definition clearErrorObserved ::
  "DisposableRequest env \<Rightarrow> (DisposableRequest world, goerr option) state" where
  "clearErrorObserved E = do {
     d \<leftarrow> theObj;
     let cs = DConditions (DStatus d);
     if \<not> (\<exists>c \<in> set cs. is_error_observed c) then State_Monad.return None
     else do {
       modifyObj (DSetConditionList (filter (\<lambda>c. \<not> is_error_observed c) cs));
       kubeStatusUpdate E
     }
   }"

text \<open>
  What \<open>errorConditionReconciler\<close> does after the managed reconciler has run: its own result is that of
  the reconciler, whatever happens here.
\<close>

definition update_error_condition ::
  "DisposableRequest env \<Rightarrow> (DisposableRequest world, unit) state" where
  "update_error_condition E = do {
     g \<leftarrow> kubeGet E;
     onError g (\<lambda>e. State_Monad.return ()) (do {
       d \<leftarrow> theObj;
       r \<leftarrow> (if DError (DStatus d) \<noteq> [] \<and> retries_exhausted d
            then ensureErrorObserved E else clearErrorObserved E);
       State_Monad.return ()
     })
   }"

subsection \<open>Facts\<close>

text \<open>The interval until the next reconcile is positive and no longer than the one configured, or the default.\<close>

lemma customPollIntervalHook_bounds:
  assumes "clock_contract E"
    and past: "\<And>t. LastReconcileTime (DStatus (Obj w)) = Some t \<Longrightarrow> t \<le> Clock E (Hist w)"
  shows "wp (customPollIntervalHook E) (\<lambda>n w'. 0 < n \<and>
    n \<le> max defaultPollInterval (ParseDuration (NextReconcile (DForProvider (Obj w))) 0)) w"
proof -
  have le: "Clock E (Hist w) \<le> Clock E (ClockRead t # Hist w)" for t using assms(1) by (simp add: clock_contract_def)
  show ?thesis
  proof (cases "NextReconcile (DForProvider (Obj w))")
    case (Some i)
    show ?thesis
    proof (cases "LastReconcileTime (DStatus (Obj w))")
      case None
      show ?thesis
        unfolding customPollIntervalHook_def defaultPollInterval_def
        using le [of "Clock E (Hist w)"] by (auto simp: wp_simps Let_def Some None)
    next
      case (Some t)
      with past [of t] show ?thesis
        unfolding customPollIntervalHook_def defaultPollInterval_def
        by (auto simp: wp_simps Let_def \<open>NextReconcile _ = Some i\<close>)
    qed
  qed (simp add: customPollIntervalHook_def defaultPollInterval_def wp_simps)
qed

text \<open>
  The contract of crossplane's \<open>SetConditions\<close> the code relies on: a condition that is alone of its
  type among those set is there afterwards (but for its time, kept when nothing else changes).
\<close>

definition conditions_contract :: "'cr env \<Rightarrow> bool" where
  "conditions_contract E \<longleftrightarrow>
     (\<forall>old new c. c \<in> set new \<longrightarrow> (\<forall>c' \<in> set new. CondType c' = CondType c \<longrightarrow> c' = c) \<longrightarrow>
        (\<exists>r \<in> set (SetConditions E old new).
           CondType r = CondType c \<and> CondStatus r = CondStatus c \<and> CondMessage r = CondMessage c))"

text \<open>The condition mirrors the state: true with the error once the retries are used up, absent otherwise.\<close>

definition mirrors_error :: "DisposableRequest \<Rightarrow> bool" where
  "mirrors_error d \<longleftrightarrow>
     (if DError (DStatus d) \<noteq> [] \<and> retries_exhausted d
      then (\<exists>c \<in> set (DConditions (DStatus d)). is_error_observed c \<and> CondStatus c = ''True'' \<and>
              CondMessage c = DError (DStatus d))
      else (\<forall>c \<in> set (DConditions (DStatus d)). \<not> is_error_observed c))"

lemma set_replace_first: "set (replace_first c cs) \<subseteq> insert c (set cs)" "c \<in> set (replace_first c cs)"
  by (induction cs) auto

lemma replace_first_unique:
  assumes "distinct (map CondType cs)" "is_error_observed c" "c' \<in> set (replace_first c cs)" "is_error_observed c'"
  shows "c' = c"
  using assms
proof (induction cs)
  case (Cons x cs)
  have "\<not> is_error_observed y" if "is_error_observed x" "y \<in> set cs" for y
  proof -
    have "CondType y \<in> CondType ` set cs" using that(2) by (rule imageI)
    moreover have "CondType x \<notin> CondType ` set cs" using Cons.prems(1) by simp
    ultimately show ?thesis using that(1) unfolding is_error_observed_def by metis
  qed
  with Cons show ?case by (auto split: if_splits)
qed simp

lemma mirrors_setConditions:
  assumes "DError (DStatus d) \<noteq> [] \<and> retries_exhausted d"
  shows "mirrors_error (DSetConditionList cs d) \<longleftrightarrow>
    (\<exists>c \<in> set cs. is_error_observed c \<and> CondStatus c = ''True'' \<and> CondMessage c = DError (DStatus d))"
  using assms by (simp add: mirrors_error_def retries_exhausted_def DSetConditionList_def)

text \<open>What follows a reconcile leaves the condition as it should be, or writes it so, or could not read.\<close>

definition mirror_kept :: "DisposableRequest world \<Rightarrow> DisposableRequest world \<Rightarrow> bool" where
  "mirror_kept w w' \<longleftrightarrow> (Hist w' = Hist w \<and> mirrors_error (Obj w)) \<or> (\<exists>x. one_write (\<lambda>a b. mirrors_error b) w x w')"

lemma ensureErrorObserved_mirrors:
  assumes "conditions_contract E" "distinct (map CondType (DConditions (DStatus (Obj w))))"
    and failed: "DError (DStatus (Obj w)) \<noteq> [] \<and> retries_exhausted (Obj w)"
  shows "wp (ensureErrorObserved E) (\<lambda>_ w'. mirror_kept w w') w"
proof -
  let ?d = "Obj w" and ?t = "Clock E (Hist w)"
  let ?c = "errorCondition (DError (DStatus ?d)) ?t"
  let ?new = "replace_first ?c (DConditions (DStatus ?d))"
  have c: "is_error_observed ?c" "CondStatus ?c = ''True''" "CondMessage ?c = DError (DStatus ?d)"
    by (simp_all add: errorCondition_def is_error_observed_def)
  have "\<forall>c' \<in> set ?new. CondType c' = CondType ?c \<longrightarrow> c' = ?c"
    using replace_first_unique [OF assms(2) c(1)] c(1) by (auto simp: is_error_observed_def)
  with assms(1) set_replace_first(2) [of ?c] have "\<exists>r \<in> set (SetConditions E old ?new).
      CondType r = CondType ?c \<and> CondStatus r = CondStatus ?c \<and> CondMessage r = CondMessage ?c" for old
    unfolding conditions_contract_def by blast
  then have m: "mirrors_error (DSetConditionList (SetConditions E old ?new) ?d)" for old
    unfolding mirrors_setConditions [OF failed] using c by (metis is_error_observed_def)
  have "wp (kubeStatusUpdate E) (\<lambda>_ w'. mirror_kept w w')
      (w\<lparr>Hist := ClockRead ?t # Hist w, Obj := DSetConditionList (SetConditions E old ?new) ?d\<rparr>)" for old
    by (rule wp_mono [OF kubeStatusUpdate_one_write [where w = w and F = "\<lambda>a b. mirrors_error b"]])
       (use m in \<open>auto simp: mirror_kept_def\<close>)
  moreover have "mirrors_error ?d" if "\<exists>c \<in> set (DConditions (DStatus ?d)). is_error_observed c \<and> CondStatus c = ''True'' \<and>
      CondMessage c = DError (DStatus ?d)"
    using that failed by (simp add: mirrors_error_def)
  ultimately show ?thesis
    unfolding ensureErrorObserved_def Let_def wp_bind [of theObj] wp_theObj wp_if
    by (simp add: wp_return wp_bind wp_timeNow wp_modifyObj Let_def mirror_kept_def [of w w])
qed

lemma clearErrorObserved_mirrors:
  assumes ok: "\<not> (DError (DStatus (Obj w)) \<noteq> [] \<and> retries_exhausted (Obj w))"
  shows "wp (clearErrorObserved E) (\<lambda>_ w'. mirror_kept w w') w"
proof -
  let ?d = "DSetConditionList (filter (\<lambda>c. \<not> is_error_observed c) (DConditions (DStatus (Obj w)))) (Obj w)"
  have m: "mirrors_error ?d" using ok by (simp add: mirrors_error_def retries_exhausted_def DSetConditionList_def)
  have "wp (kubeStatusUpdate E) (\<lambda>_ w'. mirror_kept w w') (w\<lparr>Obj := ?d\<rparr>)"
    by (rule wp_mono [OF kubeStatusUpdate_one_write [where w = w and F = "\<lambda>a b. mirrors_error b"]])
       (use m in \<open>auto simp: mirror_kept_def\<close>)
  moreover have "mirrors_error (Obj w)" if "\<not> (\<exists>c \<in> set (DConditions (DStatus (Obj w))). is_error_observed c)"
    using that ok by (simp add: mirrors_error_def)
  ultimately show ?thesis
    unfolding clearErrorObserved_def Let_def wp_bind [of theObj] wp_theObj wp_if
    by (simp add: wp_return wp_bind wp_modifyObj mirror_kept_def [of w w])
qed

lemma update_error_condition_mirrors:
  assumes "conditions_contract E" and read: "KubeRead E (Hist w) (Obj w) = (None, d)"
    and "distinct (map CondType (DConditions (DStatus d)))"
  shows "wp (update_error_condition E) (\<lambda>_ w'. mirror_kept (w\<lparr>Obj := d, Hist := KubeGet d None # Hist w\<rparr>) w') w"
  using assms ensureErrorObserved_mirrors [OF assms(1), of "w\<lparr>Obj := d, Hist := KubeGet d None # Hist w\<rparr>"]
    clearErrorObserved_mirrors [of "w\<lparr>Obj := d, Hist := KubeGet d None # Hist w\<rparr>"]
  unfolding update_error_condition_def
  by (simp add: wp_simps)

end
