(* ===== verification/DisposableLifecycle.thy ===== *)
theory DisposableLifecycle
  imports DisposableController AnchorSafety
begin

text \<open>
  What the operations of an AsyncDisposableRequest keep from one reconcile to the next: no call but a poll
  while the anchor is stored, and a resource in memory that agrees with the stored one wherever the
  next step relies on it. \<open>Reconcile\<close> puts the operations together.
\<close>

text \<open>
  An anchor counts only beside a polling block: a resource whose block was removed is not in flight, whatever
  its status says.
\<close>

definition live_anchor :: "DisposableRequest \<Rightarrow> string option" where
  "live_anchor d = (if DPolling (DForProvider d) = None then None else job_anchor d)"

definition polling_removed :: "DisposableRequest event list \<Rightarrow> bool" where
  "polling_removed h \<longleftrightarrow> (\<exists>d. last_seen h = Some d \<and> DPolling (DForProvider d) = None)"

text \<open>The two ways to miss an anchor that is stored.\<close>

lemma unseen_job:
  assumes "anchored (stored job_anchor a0 h)" "\<not> anchored (seen live_anchor a0 h)"
  shows "polling_removed h \<or> stale_read job_anchor a0 h"
proof (cases "polling_removed h")
  case False
  then have "seen live_anchor a0 h = seen job_anchor a0 h"
    by (auto simp: seen_def live_anchor_def polling_removed_def split: option.split)
  with assms show ?thesis by (auto dest: unseen_stale)
qed simp

subsection \<open>The resource in memory is the one that was seen last\<close>

definition ready :: "string option \<Rightarrow> DisposableRequest world \<Rightarrow> bool" where
  "ready a0 w \<longleftrightarrow> in_step live_anchor a0 w"

definition safe_ready :: "string option \<Rightarrow> bool \<Rightarrow> DisposableRequest world \<Rightarrow> bool" where
  "safe_ready a0 ok w \<longleftrightarrow> anchor_safe live_anchor a0 (Hist w) \<and> (ok \<longrightarrow> ready a0 w)"

lemma live_anchored: "anchored (live_anchor d) \<longleftrightarrow> in_flight d"
  by (simp add: live_anchor_def in_flight_def anchored_def DGetPollingResponse_def RawExtensionToMap_def)

lemma ready_in_flight:
  "ready a0 w \<Longrightarrow> in_flight (Obj w) \<longleftrightarrow> anchored (seen live_anchor a0 (Hist w))"
  by (simp add: ready_def in_step_def live_anchored [symmetric])

lemma seen_quiet: "adds is_quiet w w' \<Longrightarrow> seen raw a0 (Hist w') = seen raw a0 (Hist w)"
proof -
  have "list_all is_quiet es \<Longrightarrow> seen raw a0 (es @ h) = seen raw a0 h" for es h
  proof (induction es)
    case (Cons e es)
    then show ?case by (cases e) (auto simp: is_quiet_def is_kube_event_def)
  qed simp
  then show "adds is_quiet w w' \<Longrightarrow> seen raw a0 (Hist w') = seen raw a0 (Hist w)"
    by (auto simp: adds_def)
qed

lemma quiet_harmless: "adds is_quiet w w' \<Longrightarrow> adds harmless w w'"
  by (erule adds_mono) simp

lemma safe_ready_quiet:
  "safe_ready a0 ok w \<Longrightarrow> adds_same is_quiet w w' \<Longrightarrow> safe_ready a0 ok w'"
proof -
  assume w: "safe_ready a0 ok w" and q: "adds_same is_quiet w w'"
  then have "adds is_quiet w w'" and o: "Obj w' = Obj w" by (auto simp: adds_same_def)
  then have s: "seen live_anchor a0 (Hist w') = seen live_anchor a0 (Hist w)"
    and h: "adds harmless w w'" by (auto intro: seen_quiet quiet_harmless)
  show "safe_ready a0 ok w'"
    using w anchor_safe_adds [OF h] unfolding safe_ready_def ready_def in_step_def s o by blast
qed

lemma wp_quiet:
  assumes "emits_same is_quiet m" "safe_ready a0 ok w"
  shows "wp m (\<lambda>_ w'. safe_ready a0 ok w') w"
  by (rule wp_mono [OF keeps_wpI [OF assms(1)]]) (rule safe_ready_quiet [OF assms(2)])

lemma kubeGet_ready:
  assumes "anchor_safe live_anchor a0 (Hist w)"
  shows "wp (kubeGet E) (\<lambda>g w'. safe_ready a0 (g = None) w') w"
  using assms kubeGet_in_step [of E live_anchor a0 w] by (auto simp: safe_ready_def ready_def wp_def split: prod.splits)

lemma kubeStatusUpdate_ready:
  assumes "writes_answered live_anchor E" "anchor_safe live_anchor a0 (Hist w)"
  shows "wp (kubeStatusUpdate E) (\<lambda>g w'. safe_ready a0 (g = None) w') w"
  using assms(2) kubeStatusUpdate_in_step [OF assms(1), of a0 w] unfolding safe_ready_def ready_def
  by (auto simp: wp_simps Let_def)

lemma wp_seq: "wp m P w \<Longrightarrow> (\<And>x v. P x v \<Longrightarrow> wp (f x) Q v) \<Longrightarrow> wp (State_Monad.bind m f) Q w"
  unfolding wp_bind by (rule wp_mono)

subsection \<open>Observing\<close>

lemma write_condition_ready:
  assumes api: "writes_answered live_anchor E" and w: "safe_ready a0 ok w"
  shows "wp (write_condition E c) (\<lambda>r w'. safe_ready a0 (r = None) w') w"
proof -
  have safe: "anchor_safe live_anchor a0 (Hist w)" using w by (simp add: safe_ready_def)
  have upd: "wp (kubeStatusUpdate E) (\<lambda>r v'. wp (State_Monad.return
        (if r = None then None else Some (ErrorString ''failed updating status conditions'')))
        (\<lambda>r w'. safe_ready a0 (r = None) w') v') v"
    if "anchor_safe live_anchor a0 (Hist v)" for v
    by (rule wp_mono [OF kubeStatusUpdate_ready [OF api that]]) (auto simp: wp_return)
  show ?thesis
    unfolding write_condition_def
    by (rule wp_seq [OF kubeGet_ready [OF safe]])
       (auto simp: wp_onError wp_return wp_bind wp_timeNow wp_modifyObj Let_def safe_ready_def split: option.split
         intro!: upd [unfolded safe_ready_def])
qed

lemma emits_observe_reads:
  "emits_same is_quiet (due_now E b)" "emits_same is_quiet (ValidateStoredResponse E)"
  "emits_same is_quiet (ApplySecretInjectionsFromStoredResponse E r)"
  unfolding due_now_def reconcile_due_def ValidateStoredResponse_def ApplySecretInjectionsFromStoredResponse_def Let_def
  by (auto intro!: keeps_intros emits_same_mono [OF emits_PatchSecretsIntoString]
      emits_same_mono [OF emits_ApplyResponseDataToSecrets])

text \<open>An observation that succeeds leaves the resource as it is stored.\<close>

definition observed :: "string option \<Rightarrow> goerr + Observation \<Rightarrow> DisposableRequest world \<Rightarrow> bool" where
  "observed a0 x w \<longleftrightarrow> safe_ready a0 (\<exists>obs. x = Inr obs) w"

lemma wp_return_observed: "safe_ready a0 True v \<Longrightarrow> wp (State_Monad.return y) (observed a0) v"
  by (auto simp: wp_return observed_def safe_ready_def)

lemma report_synced_ready:
  assumes api: "writes_answered live_anchor E" and w: "safe_ready a0 True w"
  shows "wp (report_synced E available utd s) (observed a0) w"
proof -
  have upd: "wp (if available then UpdateResourceStatus E else State_Monad.return None)
      (\<lambda>r w'. safe_ready a0 (r = None) w') w"
    using write_condition_ready [OF api w] w by (simp add: UpdateResourceStatus_def wp_return)
  have inj: "wp (if b then ApplySecretInjectionsFromStoredResponse E r else State_Monad.return ())
      (\<lambda>_ w'. safe_ready a0 True w') v" if "safe_ready a0 True v" for b r v
    by (rule wp_quiet [OF _ that]) (auto intro!: keeps_if keeps_return_world emits_observe_reads)
  show ?thesis
    unfolding report_synced_def
  proof (rule wp_seq [OF upd])
    fix r :: "goerr option" and v assume v: "safe_ready a0 (r = None) v"
    show "wp (onError r (\<lambda>e. State_Monad.return (Inl e)) (do {
       d \<leftarrow> theObj;
       (if DSecretInjectionConfigs (DForProvider d) \<noteq> [] \<and> StatusCode (DResponse (DStatus d)) \<noteq> 0
        then ApplySecretInjectionsFromStoredResponse E s else State_Monad.return ());
       State_Monad.return (Inr \<lparr>ObsExists = available, ObsUpToDate = utd\<rparr>) })) (observed a0) v"
    proof (cases r)
      case None
      with v have "safe_ready a0 True v" by simp
      then show ?thesis
        unfolding None onError_def option.case wp_bind [of theObj] wp_theObj
        by (intro wp_seq [OF inj] wp_return_observed)
    qed (use v in \<open>auto simp: wp_onError wp_return observed_def safe_ready_def\<close>)
  qed
qed

lemma observe_synced_ready:
  assumes api: "writes_answered live_anchor E" and w: "safe_ready a0 True w"
  shows "wp (observe_synced E needs available) (observed a0) w"
proof -
  have due: "wp (if b then State_Monad.return c else due_now E d) (\<lambda>_ w'. safe_ready a0 True w') v"
    "wp (due_now E d) (\<lambda>_ w'. safe_ready a0 True w') v" if "safe_ready a0 True v" for b c d v
    by (rule wp_quiet [OF _ that]; auto intro!: keeps_if keeps_return_world emits_observe_reads)+
  note rest = wp_seq [OF due(1)] wp_seq [OF due(2)] wp_return_observed report_synced_ready [OF api]
  show ?thesis
    unfolding observe_synced_def
    by (rule wp_seq [OF wp_quiet [OF emits_observe_reads(2) w]])
       (auto simp: wp_bind [of theObj] wp_theObj split: sum.split intro!: rest)
qed

lemma DisposableObserve_ready:
  assumes api: "writes_answered live_anchor E" and w: "safe_ready a0 True w"
  shows "wp (DisposableObserve E) (observed a0) w"
proof -
  have due: "wp (due_now E d) (\<lambda>_ w'. safe_ready a0 True w') w"
    "wp (State_Monad.return c) (\<lambda>_ w'. safe_ready a0 True w') w" for c d
    by (rule wp_quiet [OF _ w]; auto intro!: keeps_return_world emits_observe_reads)+
  have mark: "wp (do { r \<leftarrow> MarkResourceUnavailable E m;
       State_Monad.return (case r of Some e \<Rightarrow> Inl e | None \<Rightarrow> Inr ob) }) (observed a0) w" for m ob
    unfolding MarkResourceUnavailable_def
    by (rule wp_seq [OF write_condition_ready [OF api w]])
       (auto simp: wp_return observed_def safe_ready_def split: option.split)
  show ?thesis
    unfolding DisposableObserve_def wp_bind [of theObj] wp_theObj
    by (auto simp: wp_if intro!: wp_return_observed w mark wp_seq [OF due(1)] wp_seq [OF due(2)]
        observe_synced_ready [OF api])
qed

subsection \<open>Firing, resuming, and the condition\<close>

lemma emits_after_trigger:
  assumes "retry_contract E"
  shows "emits harmless (after_trigger n E d err)"
proof -
  have "emits harmless (begin_change E q tm)" "emits harmless (persistStatus E)" for q tm
    unfolding begin_change_def persistStatus_def by (auto intro!: keeps_intros)
  then have "emits harmless (beginPolling n E d)"
    unfolding beginPolling_def Let_def
    by (auto intro!: keeps_intros emits_drivePolling simp: onError_def
        intro: emits_same_emits [OF emits_same_mono [OF emits_ApplyResponseDataToSecrets]])
  then show ?thesis
    unfolding after_trigger_def
    by (auto intro!: keeps_bind keeps_onError keeps_if keeps_return_world emits_theObj
        emits_harmlessI(1) [OF emits_prepareRequestResource] emits_harmlessI(1) [OF emits_handlers(1) [OF assms]]
        emits_harmlessI(1) [OF emits_handlers(2) [OF assms]] emits_harmlessI(1) [OF emits_handlers(3) [OF assms]])
qed

lemma sends_safe:
  assumes "sends w x w'" "anchor_safe live_anchor a0 (Hist w)" "\<not> anchored (seen live_anchor a0 (Hist w))"
  shows "anchor_safe live_anchor a0 (Hist w')"
  using assms(1) unfolding sends_def
proof (elim conjE disjE exE)
  have sec: "anchor_safe live_anchor a0 (Hist v)" if "adds is_secret_read w v" for v
    using that assms(2) by (intro anchor_safe_adds [OF adds_mono [OF that]]) auto
  { assume "adds is_secret_read w w'"
    then show ?thesis by (rule sec)
  next
    fix v c assume v: "adds is_secret_read w v" "Hist w' = HttpSent c (fst x) (snd x) # Hist v"
    then show ?thesis using sec [OF v(1)] seen_secrets [OF v(1), of live_anchor a0] assms(3) by simp }
qed

lemma DisposableDeployAction_safe:
  assumes retry: "retry_contract E" and w: "safe_ready a0 True w"
  shows "wp (DisposableDeployAction n E) (\<lambda>_ w'. anchor_safe live_anchor a0 (Hist w')) w"
proof (cases "in_flight (Obj w)")
  case True
  show ?thesis
    by (rule wp_mono [OF DisposableDeployAction_resumes [OF True]])
       (use w in \<open>auto simp: safe_ready_def intro: anchor_safe_adds\<close>)
next
  case False
  with w have free: "\<not> anchored (seen live_anchor a0 (Hist w))" and safe: "anchor_safe live_anchor a0 (Hist w)"
    using ready_in_flight [of a0 w] by (auto simp: safe_ready_def)
  have "wp (do { (d, err) \<leftarrow> sendHttpRequest E; after_trigger n E d err })
      (\<lambda>_ w'. anchor_safe live_anchor a0 (Hist w')) w"
    by (rule wp_seq [OF sendHttpRequest_sends])
       (auto simp: wp_prod split: prod.split intro!: harmless_safe [OF emits_after_trigger [OF retry]]
          sends_safe [OF _ safe free])
  then show ?thesis
    using False safe by (simp add: DisposableDeployAction_def wp_simps)
qed

lemma emits_update_error_condition: "emits harmless (update_error_condition E)"
  unfolding update_error_condition_def ensureErrorObserved_def clearErrorObserved_def Let_def
  by (auto intro!: keeps_intros emits_harmlessI)

end
