(* ===== verification/ClientCalls.thy ===== *)
theory ClientCalls
  imports Connect Lifecycle DisposableLifecycle
begin

text \<open>
  The controllers and the HTTP client together: the calls a resource's operations make, given to the
  client its connector chose. A client with an identity assigns into the header maps of the call, so
  they must exist.
\<close>

definition headed_call :: "http_call \<Rightarrow> bool" where
  "headed_call c \<longleftrightarrow> Decrypted (CallHeaders c) \<noteq> None \<and> Encrypted (CallHeaders c) \<noteq> None"

definition headed :: "'cr event \<Rightarrow> bool" where
  "headed e \<longleftrightarrow> (case e of HttpSent c _ _ \<Rightarrow> headed_call c | _ \<Rightarrow> True)"

lemma headed_simps [simp]:
  "headed (HttpSent c d e) = headed_call c" "no_call ev \<Longrightarrow> headed ev"
  by (auto simp: headed_def no_call_def split: event.splits)

lemma headed_poll_call [simp]: "headed_call (poll_call url)"
  by (simp add: headed_call_def poll_call_def)

lemma headed_poll [simp]: "is_poll_event ev \<Longrightarrow> headed ev"
proof -
  assume "is_poll_event ev"
  then show ?thesis
    by (cases ev) (auto simp: is_poll_event_def headed_def, metis headed_poll_call)
qed

lemma headed_harmless [simp]: "harmless ev \<Longrightarrow> headed ev"
  by (auto simp: harmless_def)

lemma emits_headedI:
  "emits harmless m \<Longrightarrow> emits headed m"
  by (erule emits_mono) simp

subsection \<open>AsyncRequest\<close>

text \<open>The details of a request always have both header maps.\<close>

definition det_headed :: "goerr + RequestDetails \<Rightarrow> bool" where
  "det_headed x \<longleftrightarrow> (\<forall>d. x = Inr d \<longrightarrow> Decrypted (DetHeaders d) \<noteq> None \<and> Encrypted (DetHeaders d) \<noteq> None)"

lemma ParseMapStrings_some: "ParseMapStrings E h obj = Inr g \<Longrightarrow> g \<noteq> None"
  by (auto simp: ParseMapStrings_def)

lemma PatchSecretsIntoHeaders_some:
  "wp (PatchSecretsIntoHeaders E h) (\<lambda>x _. \<forall>g. x = Inr g \<longrightarrow> g \<noteq> None) w"
  unfolding PatchSecretsIntoHeaders_def by (auto simp: wp_simps intro: wp_any)

lemma generateHeaders_headed:
  "wp (generateHeaders E h ctx) (\<lambda>x _. \<forall>d. x = Inr d \<longrightarrow> Decrypted d \<noteq> None \<and> Encrypted d \<noteq> None) w"
  unfolding generateHeaders_def ApplyJQOnMapStrings_def
  by (auto simp: wp_simps split: sum.split intro!: wp_mono [OF PatchSecretsIntoHeaders_some]
      dest: ParseMapStrings_some)

lemma GenerateRequestDetails_headed: "wp (GenerateRequestDetails E m r) (\<lambda>x _. det_headed x) w"
proof -
  have hd: "wp (do { h \<leftarrow> generateHeaders E hs ctx;
      State_Monad.return (map_sum id (\<lambda>hd. \<lparr>DetUrl = u, DetBody = b, DetHeaders = hd\<rparr>) h) })
      (\<lambda>x _. det_headed x) v" for hs ctx u b v
    unfolding wp_bind wp_return by (rule wp_mono [OF generateHeaders_headed]) (auto simp: det_headed_def)
  have inl: "det_headed (Inl e)" for e by (simp add: det_headed_def)
  have body: "wp (State_Monad.bind n f) (\<lambda>x _. det_headed x) v"
    if "\<And>y u. wp (f y) (\<lambda>x _. det_headed x) u"
    for n :: "(AsyncRequest world, 'b) state" and f v
    unfolding wp_bind by (rule wp_any) (rule that)
  show ?thesis
    unfolding GenerateRequestDetails_def Let_def
    by (auto simp: wp_return inl wp_if split: sum.split intro!: body hd)
qed

lemma GenerateValidRequestDetails_headed: "wp (GenerateValidRequestDetails E m) (\<lambda>x _. det_headed x) w"
  unfolding GenerateValidRequestDetails_def wp_bind wp_theObj wp_if wp_return
  by (rule wp_mono [OF GenerateRequestDetails_headed]) (auto intro: wp_mono [OF GenerateRequestDetails_headed])

text \<open>A call made with generated details.\<close>

lemma emits_generated_call:
  assumes "\<And>e. emits headed (k e)" "\<And>x d. emits headed (f x d)"
  shows "emits headed (do {
      g \<leftarrow> GenerateValidRequestDetails E m;
      case g of
        Inl err \<Rightarrow> k err
      | Inr rd \<Rightarrow> do { (d, err) \<leftarrow> sendRequest E (details_call meth rd); f d err } })"
proof (rule keeps_bind_result [OF preorder_adds _ GenerateValidRequestDetails_headed])
  show "emits headed (GenerateValidRequestDetails E m)"
    by (rule emits_same_emits [OF emits_same_mono [OF emits_GenerateValidRequestDetails]]) simp
  fix g assume "det_headed g"
  then show "emits headed (case g of
        Inl err \<Rightarrow> k err
      | Inr rd \<Rightarrow> do { (d, err) \<leftarrow> sendRequest E (details_call meth rd); f d err })"
    by (cases g) (auto intro!: keeps_bind keeps_prod emits_sendRequest assms
        simp: det_headed_def headed_call_def details_call_def)
qed

lemma emits_headed_request:
  assumes retry: "retry_contract E"
  shows "emits headed (mutate_call E m)" "emits headed (observeExternalRefDriven E m)"
    "emits headed (observeResponseDriven E m)"
proof -
  note h = emits_headedI
  have inj: "emits headed (ApplyResponseDataToSecrets E cr ns uid r cfgs)" for cr ns uid r cfgs
    by (rule emits_mono [OF emits_same_emits [OF emits_ApplyResponseDataToSecrets]]) simp
  show "emits headed (mutate_call E m)"
    unfolding mutate_call_def
    by (intro emits_generated_call) (auto intro!: keeps_bind keeps_if emits_theObj keeps_return_world inj)
  show "emits headed (observeExternalRefDriven E m)"
    unfolding observeExternalRefDriven_def
    by (auto intro!: keeps_bind keeps_if emits_theObj keeps_return_world emits_generated_call keeps_onError
        h [OF emits_harmless(4) [OF retry]] h [OF emits_harmless(5) [OF retry]] simp: Let_def)
  show "emits headed (observeResponseDriven E m)"
    unfolding observeResponseDriven_def Let_def
    by (auto intro!: keeps_bind keeps_if emits_theObj keeps_return_world emits_generated_call keeps_onError
        h [OF emits_harmless(4) [OF retry]] h [OF emits_harmless(5) [OF retry]])
qed

lemma emits_headed_actions:
  assumes retry: "retry_contract E"
  shows "emits headed (DeployAction E (Poll n E) a)" "emits headed (Observe E)"
proof -
  note h = emits_headedI [OF emits_harmless(1) [OF retry]] emits_headedI [OF emits_harmless(2) [OF retry]]
    emits_headedI [OF emits_harmless(3) [OF retry]] emits_headedI [OF emits_harmless(6) [OF retry]]
    emits_headedI [OF emits_harmless(7) [OF retry]]
  have resume: "emits headed (resume_action E (Poll n E) m j)" for m j
    by (intro emits_headedI emits_harmlessI(3) foreground.emits_resume_action [OF retry])
  show "emits headed (DeployAction E (Poll n E) a)"
    unfolding DeployAction_def fire_action_def Let_def
    by (auto intro!: keeps_bind keeps_sum keeps_if emits_theObj keeps_return_world emits_getMapping resume
        emits_headed_request [OF retry] h)
  have live: "emits headed (observe_live E)"
    unfolding observe_live_def
    by (auto intro!: keeps_bind keeps_sum keeps_if emits_theObj keeps_return_world emits_getMapping
        emits_headed_request [OF retry] h)
  have utd: "emits headed (IsUpToDate E)"
    unfolding IsUpToDate_def
    by (auto intro!: keeps_bind keeps_if keeps_onError emits_theObj keeps_return_world live h)
  have seed: "emits headed (seedExternalRef E)"
    unfolding seedExternalRef_def by (auto intro!: keeps_intros)
  have rep: "emits headed (report_observation E obs)" for obs
    by (rule emits_headedI [OF emits_report_observation [OF retry]])
  show "emits headed (Observe E)"
    unfolding Observe_def
    by (auto intro!: keeps_bind keeps_sum keeps_option keeps_if keeps_return_world seed utd rep emits_modifyObj emits_timeNow
        simp: setCondition_def Let_def)
qed

lemma emits_headed_operation:
  assumes "retry_contract E"
  shows "emits headed (run_operation n E op)"
  unfolding run_operation_def observe_latest_def Create_def Update_def Delete_def with_latest_def
  by (auto intro!: keeps_bind keeps_onError keeps_return_world emits_kubeGet emits_theObj
      emits_headed_actions [OF assms] split: operation.split)

lemma reaches_headed:
  assumes "reaches E w" "retry_contract E"
  shows "list_all headed (Hist w)"
  using assms(1)
proof induction
  case (start w)
  then show ?case by simp
next
  case (finish w fuel op w')
  with keepsD [OF emits_headed_operation [OF assms(2)]] show ?case by (fastforce simp: adds_def)
next
  case (crash w fuel op w' lost kept v)
  with keepsD [OF emits_headed_operation [OF assms(2)]] have "list_all headed (Hist w')" by (fastforce simp: adds_def)
  with crash show ?case by simp
qed

subsection \<open>AsyncDisposableRequest\<close>

text \<open>
  The headers that are logged are those of the specification, as they are: absent when it has none. The
  decorators assign into them.
\<close>

definition spec_headed :: "DisposableParameters \<Rightarrow> 'cr event \<Rightarrow> bool" where
  "spec_headed p e \<longleftrightarrow>
     (case e of
        HttpSent c _ _ \<Rightarrow> Encrypted (CallHeaders c) = DHeaders p \<and> (DHeaders p = None \<longrightarrow> Decrypted (CallHeaders c) = Some [])
      | _ \<Rightarrow> True)"

lemma spec_headed_simps [simp]:
  "spec_headed p (HttpSent c d e) \<longleftrightarrow>
     Encrypted (CallHeaders c) = DHeaders p \<and> (DHeaders p = None \<longrightarrow> Decrypted (CallHeaders c) = Some [])"
  "is_secret_read ev \<Longrightarrow> spec_headed p ev"
  by (auto simp: spec_headed_def is_secret_read_def split: event.splits)

lemma PatchSecretsIntoHeaders_none:
  "run_state (PatchSecretsIntoHeaders E None) w = (Inr (Some []), w)"
  by (simp add: PatchSecretsIntoHeaders_def copyHeaders_def)

lemma sendHttpRequest_headers:
  "wp (sendHttpRequest E) (\<lambda>_ w'. adds (spec_headed (DForProvider (Obj w))) w w') w"
proof -
  let ?p = "DForProvider (Obj w)"
  have sec: "adds (spec_headed ?p) w v" if "adds (spec_headed ?p) w u" "adds_same is_secret_read u v" for u v
    using adds_trans [OF that(1) adds_mono [of is_secret_read u v]] that(2) by (simp add: adds_same_def)
  have str: "wp (PatchSecretsIntoString E s) (\<lambda>_ v. adds (spec_headed ?p) w v) u" if "adds (spec_headed ?p) w u" for s u
    by (rule wp_mono [OF keeps_wpI [OF emits_PatchSecretsIntoString]]) (rule sec [OF that])
  have hdr: "wp (PatchSecretsIntoHeaders E (DHeaders ?p)) (\<lambda>x v. adds (spec_headed ?p) w v \<and>
      (\<forall>h. x = Inr h \<longrightarrow> DHeaders ?p = None \<longrightarrow> h = Some [])) u" if "adds (spec_headed ?p) w u" for u
  proof (cases "DHeaders ?p")
    case None
    then show ?thesis using that by (simp add: wp_def PatchSecretsIntoHeaders_none)
  next
    case (Some hs)
    then show ?thesis
      by (intro wp_mono [OF keeps_wpI [OF emits_PatchSecretsIntoHeaders]]) (use sec [OF that] in auto)
  qed
  have snd: "wp (sendRequest E c) (\<lambda>_ v. adds (spec_headed ?p) w v) u"
    if "adds (spec_headed ?p) w u" "Encrypted (CallHeaders c) = DHeaders ?p"
      "DHeaders ?p = None \<longrightarrow> Decrypted (CallHeaders c) = Some []" for c u
    using that by (auto simp: wp_simps Let_def intro: adds_trans)
  show ?thesis
    unfolding sendHttpRequest_def Let_def wp_bind [of theObj] wp_theObj
    by (auto simp: wp_return split: sum.split intro!: wp_seq [OF str] wp_seq [OF hdr] snd)
qed

text \<open>So an identity cannot be added to the call of a request without headers.\<close>

lemma bare_call_panics:
  assumes "Encrypted (CallHeaders c) = None" "Decrypted (CallHeaders c) = Some []"
  shows "GCPToken T g h = Inr t \<Longrightarrow> \<exists>p. http_send T (GCPClient inner g) tls h c = Panicked p"
    and "OIDCToken T cfg h = Inr t \<Longrightarrow> \<exists>p. http_send T (OIDCClient inner cfg) tls h c = Panicked p"
  using assms by (simp_all add: gcp_send_def oidc_send_def with_identity_def inject_identity_def)

end
