(* ===== verification/Reconcile.thy ===== *)
theory Reconcile
  imports ClientCalls
begin

text \<open>
  A reconcile from end to end: the resource is read, the connector chooses the client, the observation
  and the operations after it make their calls with that client. The four controllers (two kinds of
  resource, namespaced and cluster-scoped) are values of one record; the managed reconciler of
  crossplane, which is not part of the repository, decides which operation follows an observation and
  whether it reads the resource again first: the model leaves both open.

  A call on which the client panics counts as one that fails; the reconcile that makes it is cut off,
  which is a \<open>crash\<close> step.
\<close>

datatype follow_up = CallCreate | CallUpdate | CallDelete

record 'cr external =
  ExtObserve :: "'cr env \<Rightarrow> ('cr world, goerr + (bool \<times> bool)) state"
  ExtRun :: "nat \<Rightarrow> 'cr env \<Rightarrow> follow_up \<Rightarrow> ('cr world, goerr option) state"

record 'cr controller =
  CtlKind :: "'cr resource_kind"
  CtlScope :: "'cr scope"
  CtlExternal :: "'cr external"
  CtlAfter :: "'cr env \<Rightarrow> ('cr world, unit) state"

subsection \<open>The external clients\<close>

definition request_external :: "AsyncRequest external" where
  "request_external =
     \<lparr>ExtObserve = (\<lambda>E. do { r \<leftarrow> Observe E;
        State_Monad.return (map_sum id (\<lambda>obs. (ResourceExists obs, ResourceUpToDate obs)) r) }),
      ExtRun = (\<lambda>fuel E f. case f of CallCreate \<Rightarrow> Create fuel E | CallUpdate \<Rightarrow> Update fuel E | CallDelete \<Rightarrow> Delete fuel E)\<rparr>"

text \<open>Deleting a one-off request makes no call: it only drops the resource.\<close>

definition DisposableDelete :: "(DisposableRequest world, goerr option) state" where
  "DisposableDelete = State_Monad.return None"

definition disposable_external :: "DisposableRequest external" where
  "disposable_external =
     \<lparr>ExtObserve = (\<lambda>E. do { r \<leftarrow> DisposableObserve E;
        State_Monad.return (map_sum id (\<lambda>obs. (ObsExists obs, ObsUpToDate obs)) r) }),
      ExtRun = (\<lambda>fuel E f. case f of CallCreate \<Rightarrow> DisposableCreate fuel E | CallUpdate \<Rightarrow> DisposableUpdate fuel E
        | CallDelete \<Rightarrow> DisposableDelete)\<rparr>"

definition request_controller :: "AsyncRequest scope \<Rightarrow> AsyncRequest controller" where
  "request_controller S = \<lparr>CtlKind = request_kind, CtlScope = S, CtlExternal = request_external,
     CtlAfter = (\<lambda>E. State_Monad.return ())\<rparr>"

definition disposable_controller :: "DisposableRequest scope \<Rightarrow> DisposableRequest controller" where
  "disposable_controller S = \<lparr>CtlKind = disposable_kind, CtlScope = S, CtlExternal = disposable_external,
     CtlAfter = update_error_condition\<rparr>"

text \<open>
  The code of the cluster-scoped controllers is that of the namespaced ones, connecting apart.
\<close>

definition namespaced_request_controller :: "AsyncRequest controller" where
  "namespaced_request_controller = request_controller (namespaced_scope extract_any)"

definition cluster_request_controller :: "AsyncRequest controller" where
  "cluster_request_controller = request_controller (cluster_scope errBuildTLSConfig)"

definition namespaced_disposable_controller :: "DisposableRequest controller" where
  "namespaced_disposable_controller = disposable_controller (namespaced_scope extract_secret_only)"

definition cluster_disposable_controller :: "DisposableRequest controller" where
  "cluster_disposable_controller = disposable_controller (cluster_scope errLoadTLSConfig)"

subsection \<open>The reconcile\<close>

definition wire_answer :: "(HttpDetails \<times> goerr option) outcome \<Rightarrow> HttpDetails \<times> goerr option" where
  "wire_answer r = (case r of Returned a \<Rightarrow> a | Panicked p \<Rightarrow> (emptyDetails, Some (ErrorString p)))"

definition connected :: "'cr env \<Rightarrow> 'cr event list transport \<Rightarrow> http_client \<Rightarrow> TLSConfigData \<Rightarrow> 'cr env" where
  "connected E T client tls = E\<lparr>SendHTTP := (\<lambda>h c. wire_answer (http_send T client (Some tls) h c))\<rparr>"

definition follow ::
  "nat \<Rightarrow> 'cr env \<Rightarrow> 'cr external \<Rightarrow> (follow_up \<times> bool) option \<Rightarrow> ('cr world, unit) state" where
  "follow fuel E X s =
     (case s of
        None \<Rightarrow> State_Monad.return ()
      | Some (f, again) \<Rightarrow> do {
          g \<leftarrow> (if again then kubeGet E else State_Monad.return None);
          onError g (\<lambda>_. State_Monad.return ()) (do { r \<leftarrow> ExtRun X fuel E f; State_Monad.return () })
        })"

definition reconcile ::
  "nat \<Rightarrow> 'cr env \<Rightarrow> 'cr provider_api \<Rightarrow> 'cr event list transport \<Rightarrow> 'cr controller \<Rightarrow> (follow_up \<times> bool) option \<Rightarrow>
   ('cr world, unit) state" where
  "reconcile fuel E A T C s = do {
     g \<leftarrow> kubeGet E;
     onError g (\<lambda>_. State_Monad.return ()) (do {
       c \<leftarrow> connect E A T (CtlKind C) (CtlScope C);
       case c of
         Inl _ \<Rightarrow> State_Monad.return ()
       | Inr (client, tls) \<Rightarrow> do {
           x \<leftarrow> ExtObserve (CtlExternal C) (connected E T client tls);
           case x of
             Inl _ \<Rightarrow> State_Monad.return ()
           | Inr _ \<Rightarrow> follow fuel (connected E T client tls) (CtlExternal C) s
         }
     });
     CtlAfter C E
   }"

inductive lives ::
  "'cr env \<Rightarrow> 'cr provider_api \<Rightarrow> 'cr event list transport \<Rightarrow> 'cr controller \<Rightarrow> 'cr world \<Rightarrow> bool" for E A T C where
  start: "Hist w = [] \<Longrightarrow> lives E A T C w"
| finish: "lives E A T C w \<Longrightarrow> run_state (reconcile fuel E A T C s) w = ((), w') \<Longrightarrow> lives E A T C w'"
| crash: "lives E A T C w \<Longrightarrow> run_state (reconcile fuel E A T C s) w = ((), w') \<Longrightarrow>
    Hist w' = lost @ kept @ Hist w \<Longrightarrow> Hist v = kept @ Hist w \<Longrightarrow> lives E A T C v"

inductive_cases livesE: "lives E A T C w"

subsection \<open>Connecting\<close>

lemma emits_buildTLSConfigData: "emits_same is_quiet (buildTLSConfigData E r skip p)"
  unfolding buildTLSConfigData_def LoadTLSConfig_def load_ref_def loadSecretData_def Let_def
  by (auto intro!: keeps_intros)

text \<open>Until the client is there a connector only reads; refusing a selection writes the status.\<close>

lemma connect_effect:
  "wp (connect E A T K S) (\<lambda>x w'. adds harmless w w' \<and>
     (\<forall>y. x = Inr y \<longrightarrow> adds is_quiet w w' \<and> Obj w' = default_reference K S (Obj w))) w"
proof -
  let ?w = "w\<lparr>Obj := default_reference K S (Obj w)\<rparr>"
  have tls: "wp (buildTLSConfigData E r skip p) (\<lambda>t v. adds is_quiet w v \<and> Obj v = default_reference K S (Obj w)) ?w"
    for r skip p
    by (rule wp_mono [OF keeps_wpI [OF emits_buildTLSConfigData]]) (auto simp: adds_same_def adds_def)
  have rep: "wp (report_auth_error E K msg err) (\<lambda>_ v. adds harmless w v) ?w" for msg err
  proof -
    have "emits harmless (report_auth_error E K msg err)"
      unfolding report_auth_error_def by (auto intro!: keeps_intros)
    from keeps_wpI [OF this] show ?thesis by (rule wp_mono) (auto simp: adds_def)
  qed
  have h: "adds harmless w v" if "adds is_quiet w v" for v :: "'a world" using that by (rule quiet_harmless)
  have r: "adds P w w" "adds P w ?w" for P by (simp_all add: adds_def)
  show ?thesis
    unfolding connect_def Let_def wp_bind [of State_Monad.get] wp_bind [of "modifyObj _"] wp_bind [of theObj]
      wp_get wp_onError wp_modifyObj wp_theObj
    by (auto simp: wp_return r split: option.split sum.split
        intro!: wp_seq [OF tls] wp_seq [OF rep] h)
qed

subsection \<open>What a controller owes its reconciles\<close>

text \<open>
  \<open>ready\<close> is the state in which an observation may begin, \<open>kept\<close> what it leaves for the operation that
  follows. \<open>sound\<close> is what the API server grants.
\<close>

locale controlled =
  fixes C :: "'cr controller"
    and raw :: "'cr \<Rightarrow> string option"
    and sound :: "'cr env \<Rightarrow> bool"
    and pre :: "string option \<Rightarrow> 'cr world \<Rightarrow> bool"
    and kept :: "string option \<Rightarrow> 'cr world \<Rightarrow> bool"
  assumes sound_any_client: "sound E \<Longrightarrow> sound (connected E T client tls)"
    and read: "sound E \<Longrightarrow> anchor_safe raw a0 (Hist w) \<Longrightarrow>
      wp (kubeGet E) (\<lambda>g w'. anchor_safe raw a0 (Hist w') \<and> (g = None \<longrightarrow> pre a0 w')) w"
    and connects: "pre a0 w \<Longrightarrow> adds is_quiet w w' \<Longrightarrow>
      Obj w' = default_reference (CtlKind C) (CtlScope C) (Obj w) \<Longrightarrow> pre a0 w'"
    and observes: "sound E \<Longrightarrow> anchor_safe raw a0 (Hist w) \<Longrightarrow> pre a0 w \<Longrightarrow>
      wp (ExtObserve (CtlExternal C) E) (\<lambda>x w'. anchor_safe raw a0 (Hist w') \<and> (\<forall>o'. x = Inr o' \<longrightarrow> kept a0 w')) w"
    and read_again: "pre a0 w \<Longrightarrow> kept a0 w"
    and runs: "sound E \<Longrightarrow> anchor_safe raw a0 (Hist w) \<Longrightarrow> kept a0 w \<Longrightarrow>
      wp (ExtRun (CtlExternal C) fuel E f) (\<lambda>_ w'. anchor_safe raw a0 (Hist w')) w"
    and ends: "emits harmless (CtlAfter C E)"
begin

lemma follow_safe:
  assumes "sound E" "anchor_safe raw a0 (Hist w)" "kept a0 w"
  shows "wp (follow fuel E (CtlExternal C) s) (\<lambda>_ w'. anchor_safe raw a0 (Hist w')) w"
proof -
  have run: "wp (do { r \<leftarrow> ExtRun (CtlExternal C) fuel E f; State_Monad.return () })
      (\<lambda>_ w'. anchor_safe raw a0 (Hist w')) v" if "anchor_safe raw a0 (Hist v)" "kept a0 v" for f v
    by (rule wp_seq [OF runs [OF assms(1) that]]) (simp add: wp_return)
  have again: "wp (if b then kubeGet E else State_Monad.return None)
      (\<lambda>g w'. anchor_safe raw a0 (Hist w') \<and> (g = None \<longrightarrow> kept a0 w')) w" for b
    using assms by (auto simp: wp_return intro!: wp_mono [OF read [OF assms(1,2)]] read_again)
  have go: "wp (onError g (\<lambda>_. State_Monad.return ())
      (do { r \<leftarrow> ExtRun (CtlExternal C) fuel E f; State_Monad.return () })) (\<lambda>_ w'. anchor_safe raw a0 (Hist w')) v"
    if "anchor_safe raw a0 (Hist v) \<and> (g = None \<longrightarrow> kept a0 v)" for f g v
    using that run by (auto simp: wp_onError wp_return split: option.split)
  show ?thesis
    unfolding follow_def
    using assms(2) wp_seq [OF again go] by (auto simp: wp_return split: option.split)
qed

lemma reconcile_safe:
  assumes snd: "sound E" and w: "anchor_safe raw a0 (Hist w)"
  shows "wp (reconcile fuel E A T C s) (\<lambda>_ w'. anchor_safe raw a0 (Hist w')) w"
proof -
  have conn: "wp (connect E A T (CtlKind C) (CtlScope C))
      (\<lambda>x w'. anchor_safe raw a0 (Hist w') \<and> (\<forall>y. x = Inr y \<longrightarrow> pre a0 w')) v"
    if "anchor_safe raw a0 (Hist v)" "pre a0 v" for v
    by (rule wp_mono [OF connect_effect]) (use that in \<open>auto intro: anchor_safe_adds connects\<close>)
  have obs: "wp (do {
           x \<leftarrow> ExtObserve (CtlExternal C) (connected E T client tls);
           case x of
             Inl _ \<Rightarrow> State_Monad.return ()
           | Inr _ \<Rightarrow> follow fuel (connected E T client tls) (CtlExternal C) s
         }) (\<lambda>_ w'. anchor_safe raw a0 (Hist w')) v"
    if "anchor_safe raw a0 (Hist v)" "pre a0 v" for client tls v
    by (rule wp_seq [OF observes [OF sound_any_client [OF snd] that]])
       (auto simp: wp_return split: sum.split intro!: follow_safe sound_any_client snd)
  have main: "wp (onError g (\<lambda>_. State_Monad.return ()) (do {
       c \<leftarrow> connect E A T (CtlKind C) (CtlScope C);
       case c of
         Inl _ \<Rightarrow> State_Monad.return ()
       | Inr (client, tls) \<Rightarrow> do {
           x \<leftarrow> ExtObserve (CtlExternal C) (connected E T client tls);
           case x of
             Inl _ \<Rightarrow> State_Monad.return ()
           | Inr _ \<Rightarrow> follow fuel (connected E T client tls) (CtlExternal C) s
         }
     })) (\<lambda>_ w'. anchor_safe raw a0 (Hist w')) v"
    if "anchor_safe raw a0 (Hist v) \<and> (g = None \<longrightarrow> pre a0 v)" for g v
    using that
    by (auto simp: wp_onError wp_return split: option.split sum.split prod.split intro!: wp_seq [OF conn] obs)
  show ?thesis
    unfolding reconcile_def
    by (intro wp_seq [OF read [OF snd w]] wp_seq [OF main] harmless_safe [OF ends])
qed

lemma lives_anchor_safe:
  assumes "lives E A T C w" "sound E"
  shows "anchor_safe raw a0 (Hist w)"
  using assms(1)
proof induction
  case (finish w fuel s w')
  with reconcile_safe [OF assms(2)] show ?case by (blast dest: wp_run)
next
  case (crash w fuel s w' lost kept v)
  with reconcile_safe [OF assms(2)] have "anchor_safe raw a0 (Hist w')" by (blast dest: wp_run)
  with crash show ?case by (metis anchor_safe_suffix)
qed simp

end

subsection \<open>The controllers meet it\<close>

lemma connected_simps [simp]:
  "KubeRead (connected E T c t) = KubeRead E" "KubeStatusWrite (connected E T c t) = KubeStatusWrite E"
  "RetryOnConflict (connected E T c t) = RetryOnConflict E"
  by (simp_all add: connected_def)

lemma connected_keeps [simp]:
  "retry_contract (connected E T c t) = retry_contract E"
  "writes_answered raw (connected E T c t) = writes_answered raw E"
  by (simp_all add: retry_contract_def writes_answered_def)

definition request_sound :: "AsyncRequest env \<Rightarrow> bool" where
  "request_sound E \<longleftrightarrow> retry_contract E \<and> writes_answered raw_anchor E"

definition job_sound :: "DisposableRequest env \<Rightarrow> bool" where
  "job_sound E \<longleftrightarrow> retry_contract E \<and> writes_answered live_anchor E"

lemma request_operation_safe:
  assumes "retry_contract E" "writes_answered raw_anchor E" "anchor_safe raw_anchor a0 (Hist w)"
  shows "wp (ExtRun request_external fuel E f) (\<lambda>_ w'. anchor_safe raw_anchor a0 (Hist w')) w"
proof -
  have d: "wp m (\<lambda>_ w'. anchor_safe raw_anchor a0 (Hist w')) w"
    if "wp (do { r \<leftarrow> m; State_Monad.return () }) (\<lambda>_ w'. anchor_safe raw_anchor a0 (Hist w')) w"
    for m :: "(AsyncRequest world, goerr option) state"
    using that by (simp add: wp_bind wp_return [abs_def])
  show ?thesis
    using run_operation_safe [OF assms, of fuel DoCreate] run_operation_safe [OF assms, of fuel DoUpdate]
      run_operation_safe [OF assms, of fuel DoDelete]
    by (auto simp: request_external_def run_operation_def split: follow_up.split intro: d)
qed

interpretation request_lives: controlled "request_controller S" raw_anchor request_sound "in_step raw_anchor" "\<lambda>_ _. True"
  for S :: "AsyncRequest scope"
proof unfold_locales
  fix a0 E T client tls
  assume "request_sound E"
  then show "request_sound (connected E T client tls)" by (simp add: request_sound_def)
next
  fix a0 E and w :: "AsyncRequest world"
  assume "request_sound E" "anchor_safe raw_anchor a0 (Hist w)"
  then show "wp (kubeGet E) (\<lambda>g w'. anchor_safe raw_anchor a0 (Hist w') \<and> (g = None \<longrightarrow> in_step raw_anchor a0 w')) w"
    by (intro wp_mono [OF kubeGet_in_step]) (auto simp: request_sound_def)
next
  fix a0 w and w' :: "AsyncRequest world"
  assume "in_step raw_anchor a0 w" "adds is_quiet w w'"
    "Obj w' = default_reference (CtlKind (request_controller S)) (CtlScope (request_controller S)) (Obj w)"
  then show "in_step raw_anchor a0 w'"
    by (auto simp: in_step_def seen_quiet default_reference_def request_controller_def request_kind_def)
next
  fix a0 E and w :: "AsyncRequest world"
  assume "request_sound E" "anchor_safe raw_anchor a0 (Hist w)" "in_step raw_anchor a0 w"
  then show "wp (ExtObserve (CtlExternal (request_controller S)) E)
      (\<lambda>x w'. anchor_safe raw_anchor a0 (Hist w') \<and> (\<forall>o'. x = Inr o' \<longrightarrow> True)) w"
    using Observe_safe
    by (auto simp: request_controller_def request_external_def request_sound_def wp_bind wp_return_eta)
next
  fix a0 E fuel f and w :: "AsyncRequest world"
  assume "request_sound E" "anchor_safe raw_anchor a0 (Hist w)"
  then show "wp (ExtRun (CtlExternal (request_controller S)) fuel E f) (\<lambda>_ w'. anchor_safe raw_anchor a0 (Hist w')) w"
    using request_operation_safe by (auto simp: request_controller_def request_sound_def)
next
  fix E
  show "emits harmless (CtlAfter (request_controller S) E)"
    by (auto simp: request_controller_def intro!: keeps_intros)
qed simp

text \<open>The same frame around the one-off requests.\<close>

lemma DisposableCreate_safe:
  assumes "retry_contract E" "safe_ready a0 True w"
  shows "wp (DisposableCreate n E) (\<lambda>_ w'. anchor_safe live_anchor a0 (Hist w')) w"
  using DisposableDeployAction_safe [OF assms, of n] assms(2)
  by (auto simp: DisposableCreate_def wp_bind wp_theObj wp_onError wp_return wp_return_eta safe_ready_def split: option.split)

lemma job_operation_safe:
  assumes "retry_contract E" "safe_ready a0 True w"
  shows "wp (ExtRun disposable_external fuel E f) (\<lambda>_ w'. anchor_safe live_anchor a0 (Hist w')) w"
  using DisposableCreate_safe [OF assms] assms(2)
  by (auto simp: disposable_external_def DisposableUpdate_def DisposableDelete_def wp_return safe_ready_def
      split: follow_up.split)

interpretation job_lives: controlled "disposable_controller S" live_anchor job_sound ready ready
  for S :: "DisposableRequest scope"
proof unfold_locales
  fix a0 E T client tls
  assume "job_sound E"
  then show "job_sound (connected E T client tls)" by (simp add: job_sound_def)
next
  fix a0 E and w :: "DisposableRequest world"
  assume "job_sound E" "anchor_safe live_anchor a0 (Hist w)"
  then show "wp (kubeGet E) (\<lambda>g w'. anchor_safe live_anchor a0 (Hist w') \<and> (g = None \<longrightarrow> ready a0 w')) w"
    by (intro wp_mono [OF kubeGet_ready]) (auto simp: job_sound_def safe_ready_def)
next
  fix a0 w and w' :: "DisposableRequest world"
  assume "ready a0 w" "adds is_quiet w w'"
    "Obj w' = default_reference (CtlKind (disposable_controller S)) (CtlScope (disposable_controller S)) (Obj w)"
  then show "ready a0 w'"
    by (auto simp: ready_def in_step_def seen_quiet default_reference_def disposable_controller_def disposable_kind_def
        live_anchor_def)
next
  fix a0 E and w :: "DisposableRequest world"
  assume a: "job_sound E" "anchor_safe live_anchor a0 (Hist w)" "ready a0 w"
  then have "wp (DisposableObserve E) (observed a0) w"
    by (intro DisposableObserve_ready) (auto simp: job_sound_def safe_ready_def)
  then show "wp (ExtObserve (CtlExternal (disposable_controller S)) E)
      (\<lambda>x w'. anchor_safe live_anchor a0 (Hist w') \<and> (\<forall>o'. x = Inr o' \<longrightarrow> ready a0 w')) w"
    unfolding disposable_controller_def disposable_external_def
    by (auto simp: wp_bind wp_return observed_def safe_ready_def elim!: wp_mono split: sum.split)
next
  fix a0 E fuel f and w :: "DisposableRequest world"
  assume "job_sound E" "anchor_safe live_anchor a0 (Hist w)" "ready a0 w"
  then show "wp (ExtRun (CtlExternal (disposable_controller S)) fuel E f) (\<lambda>_ w'. anchor_safe live_anchor a0 (Hist w')) w"
    using job_operation_safe by (auto simp: disposable_controller_def job_sound_def safe_ready_def)
next
  fix E
  show "emits harmless (CtlAfter (disposable_controller S) E)"
    by (simp add: disposable_controller_def emits_update_error_condition)
qed simp

subsection \<open>The calls of an AsyncRequest find their header maps\<close>

lemma emits_headed_reconcile:
  assumes retry: "retry_contract E"
  shows "emits headed (reconcile fuel E A T (request_controller S) s)"
proof -
  have con: "emits headed (connect E A T K S')" for K :: "AsyncRequest resource_kind" and S'
    by (rule emits_headedI) (auto simp: keeps_wp intro: wp_mono [OF connect_effect])
  have op: "emits headed (ExtRun request_external fuel (connected E T c t) f)" for c t f
    using emits_headed_actions(1) [of "connected E T c t"] retry
    by (auto simp: request_external_def Create_def Update_def Delete_def with_latest_def split: follow_up.split
        intro!: keeps_bind keeps_onError keeps_return_world emits_kubeGet emits_theObj)
  have fol: "emits headed (follow fuel (connected E T c t) request_external s)" for c t
    unfolding follow_def
    by (auto intro!: keeps_bind keeps_onError keeps_return_world emits_kubeGet keeps_if op split: option.split)
  have obs: "emits headed (ExtObserve request_external (connected E T c t))" for c t
    using emits_headed_actions(2) [of "connected E T c t"] retry
    by (auto simp: request_external_def intro!: keeps_bind keeps_return_world)
  show ?thesis
    unfolding reconcile_def request_controller_def
    by (auto intro!: keeps_bind keeps_onError keeps_return_world emits_kubeGet con obs fol split: sum.split)
qed

lemma lives_headed:
  assumes "lives E A T (request_controller S) w" "retry_contract E"
  shows "list_all headed (Hist w)"
  using assms(1)
proof induction
  case (finish w fuel s w')
  with keepsD [OF emits_headed_reconcile [OF assms(2)]] show ?case by (fastforce simp: adds_def)
next
  case (crash w fuel s w' lost kept v)
  with keepsD [OF emits_headed_reconcile [OF assms(2)]] have "list_all headed (Hist w')"
    by (fastforce simp: adds_def)
  with crash show ?case by simp
qed simp

end
