(* ===== verification/ReconcileExample.thy ===== *)
theory ReconcileExample
  imports Example Reconcile
begin

text \<open>
  A concrete reconcile from end to end: a network that answers every request, a provider configuration
  with static credentials, and the resource of \<open>Example\<close>, created and polled through the client its
  connector chose.
\<close>

definition rx_transport :: "'h transport" where
  "rx_transport = \<lparr>RoundTrip = (\<lambda>h q s t. Inr \<lparr>RespStatus = 200, RespHeaders = [], RespBody = Inr ''ok'',
       RespClose = None\<rparr>),
     PemParses = (\<lambda>_. True), KeyPairError = (\<lambda>_ _. None), GCPSource = (\<lambda>_. None), GCPToken = (\<lambda>_ _. Inr ''t''),
     OIDCToken = (\<lambda>_ _. Inr ''t'')\<rparr>"

definition rx_config :: provider_config where
  "rx_config = \<lparr>PCCredentials = Some \<lparr>Source = ''Secret'', Extracted = Inr ''Basic abc''\<rparr>,
     PCTLS = None, PCOIDC = None, PCGCP = None\<rparr>"

definition rx_api :: "'cr provider_api" where
  "rx_api = \<lparr>TrackUsage = (\<lambda>h cr. None), ReadProviderConfig = (\<lambda>h n s. Inr rx_config),
     ReadClusterProviderConfig = (\<lambda>h n. Inr rx_config)\<rparr>"

definition rx_client :: http_client where
  "rx_client = PlainClient (WaitTimeoutOf None) ''Basic abc''"

definition rx_tls :: TLSConfigData where
  "rx_tls = \<lparr>DataCABundle = [], DataClientCert = [], DataClientKey = [], DataInsecure = False\<rparr>"

definition rx_env :: "AsyncRequest env" where
  "rx_env = connected (ex_env None) rx_transport rx_client rx_tls"

text \<open>The resource of the example once its connector has set the default reference.\<close>

definition rx_bound :: "AsyncRequest \<Rightarrow> AsyncRequest" where
  "rx_bound cr = cr\<lparr>ProviderConfigRef := Some \<lparr>RefKind = ''ClusterProviderConfig'', RefName = ''default''\<rparr>\<rparr>"

definition rx_connected :: "AsyncRequest world" where
  "rx_connected = ex_read\<lparr>Obj := rx_bound ex_request\<rparr>"

definition rx_read :: "AsyncRequest world" where
  "rx_read = rx_connected\<lparr>Hist := KubeGet (rx_bound ex_request) None # Hist rx_connected\<rparr>"

definition rx_finished :: "AsyncRequest world" where
  "rx_finished = \<lparr>Obj = rx_bound ex_created,
     Hist = [StatusUpdate (rx_bound ex_created) None, KubeGet (rx_bound ex_anchored) None, ex_poll, ClockRead 0,
       ClockRead 0, ClockRead 0, StatusUpdate (rx_bound ex_anchored) None, ClockRead 0,
       KubeGet (rx_bound ex_request) None, HttpSent ex_call (ex_details ex_call) None] @ Hist rx_read,
     Captured = (ex_response_map, ex_response_map)\<rparr>"

lemma rx_steps:
  "run_state (kubeGet (ex_env None)) (ex_world ex_request) = (None, ex_read)"
  "run_state (connect (ex_env None) rx_api rx_transport request_kind (namespaced_scope extract_any)) ex_read =
     (Inr (rx_client, rx_tls), rx_connected)"
  "run_state (Observe rx_env) rx_connected = (Inr \<lparr>ResourceExists = False, ResourceUpToDate = False\<rparr>, rx_connected)"
  "run_state (kubeGet rx_env) rx_connected = (None, rx_read)"
  by code_simp+

lemma rx_deploy: "run_state (DeployAction rx_env (Poll 3 rx_env) ActionCreate) rx_read = (None, rx_finished)"
  by code_simp

lemma rx_reconcile:
  "run_state (reconcile 3 (ex_env None) rx_api rx_transport namespaced_request_controller (Some (CallCreate, False)))
     (ex_world ex_request) = ((), rx_finished)"
  by (simp add: reconcile_def namespaced_request_controller_def request_controller_def request_external_def follow_def
      Create_def with_latest_def onError_def rx_steps(1,2) rx_steps(3,4) [unfolded rx_env_def] rx_deploy [unfolded rx_env_def])

subsection \<open>Other calls and configurations\<close>

text \<open>A call with a secret in its body, and a configuration that names two mechanisms.\<close>

definition rx_secret_call :: http_call where
  "rx_secret_call = \<lparr>CallMethod = ''GET'', CallURL = \<lparr>Encrypted = ''http://h'', Decrypted = ''http://h''\<rparr>,
     CallBody = \<lparr>Encrypted = ''masked'', Decrypted = ''secret''\<rparr>, CallHeaders = \<lparr>Encrypted = Some [], Decrypted = Some []\<rparr>\<rparr>"

definition rx_both :: "'cr provider_api" where
  "rx_both = rx_api\<lparr>ReadClusterProviderConfig := (\<lambda>h n. Inr (rx_config\<lparr>PCGCP := Some \<lparr>ServiceAccount = [], Scopes = []\<rparr>\<rparr>))\<rparr>"

end
