(* ===== verification/DisposableExample.thy ===== *)
theory DisposableExample
  imports ReconcileExample
begin

text \<open>
  The concrete world of the witnesses about AsyncDisposableRequests: one request that starts an operation
  and is polled, with one retry; the outside is that of \<open>Example\<close>.
\<close>

definition dx_spec :: DisposableParameters where
  "dx_spec = \<lparr>DURL = ''http://h'', DMethod = ''POST'', DHeaders = None, DBody = [], DWaitTimeout = None,
     RollbackRetriesLimit = Some 2, DInsecureSkipTLSVerify = False, DTLS = None, DGCP = None, DOIDC = None,
     ExpectedResponse = [], DPolling = Some ex_polling, NextReconcile = None, ShouldLoopInfinitely = False,
     DSecretInjectionConfigs = [], DAllowedStatusCodes = []\<rparr>"

definition dx_status :: DisposableStatus where
  "dx_status = \<lparr>DConditions = [], DObservedGeneration = 0, DResponse = emptyResponse, DFailed = 0, DError = [],
     DSynced = False, DRequestDetails = \<lparr>ReqMethod = [], ReqBody = [], ReqURL = [], ReqHeaders = None\<rparr>,
     DPollingResponse = None, DStartedAt = None, LastReconcileTime = None\<rparr>"

definition dx_request :: DisposableRequest where
  "dx_request = \<lparr>DName = ''job'', DNamespace = ''ns'', DUID = ''uid'', DDeletionTimestamp = None,
     DProviderConfigRef = Some \<lparr>RefKind = ''ClusterProviderConfig'', RefName = ''default''\<rparr>,
     DForProvider = dx_spec, DStatus = dx_status\<rparr>"

definition dx_world :: "DisposableRequest \<Rightarrow> DisposableRequest world" where
  "dx_world d = \<lparr>Obj = d, Hist = [], Captured = (JNilMap, JNilMap)\<rparr>"

primrec dx_clock :: "DisposableRequest event list \<Rightarrow> int" where
  "dx_clock [] = 0"
| "dx_clock (e # h) = dx_clock h + (case e of Waited d \<Rightarrow> max 0 d | _ \<Rightarrow> 0)"

definition dx_env :: "DisposableRequest env" where
  "dx_env = \<lparr>KubeRead = (\<lambda>h d. (None, d)),
     KubeStatusWrite = (\<lambda>h d. (None, d)), SendHTTP = (\<lambda>h c. (ex_details c, None)), Clock = dx_clock,
     ContextDone = (\<lambda>h. False), ContextErr = ErrorString ''context canceled'',
     ReadSecret = (\<lambda>h n s. Inl (KubeError NotFound ''no secret'')), WriteSecret = (\<lambda>h s. (None, s)),
     CreateSecret = (\<lambda>h s. (None, s)), AddOwner = (\<lambda>d s. Inr s), JqParse = (\<lambda>q. None), JqFirst = ex_jq,
     RetryOnConflict = retry_steps 4, SetConditions = (\<lambda>old new. new), Base64 = id\<rparr>"

definition dx_conflict_env :: "DisposableRequest env" where
  "dx_conflict_env = refuse_first dx_env"

lemma dx_retry: "retry_contract dx_env"
  by (auto simp: retry_contract_def dx_env_def)

lemma dx_clock_contract: "clock_contract dx_env"
proof -
  have "0 \<le> (case e of Waited d \<Rightarrow> max 0 d | _ \<Rightarrow> (0::int))" for e :: "DisposableRequest event" by (cases e) auto
  then show ?thesis by (simp add: clock_contract_def dx_env_def)
qed

lemma dx_calls_return: "calls_return dx_env"
  by (simp add: calls_return_def dx_env_def)

lemma dx_conflict_contracts: "retry_contract dx_conflict_env" "reads_not_conflict dx_conflict_env"
  by (auto simp: retry_contract_def reads_not_conflict_def dx_conflict_env_def refuse_first_def dx_env_def)

subsection \<open>A reconcile from beginning to end\<close>

text \<open>The API server that keeps what is written, with a polling block that stays.\<close>

definition dx_polled :: "DisposableRequest \<Rightarrow> DisposableRequest" where
  "dx_polled d = d\<lparr>DForProvider := (DForProvider d)\<lparr>DPolling := Some ex_polling\<rparr>\<rparr>"

definition dx_api_env :: "DisposableRequest env" where
  "dx_api_env = dx_env
     \<lparr>KubeRead := (\<lambda>h d. (None, (dx_polled d)\<lparr>DStatus := (DStatus d)\<lparr>DPollingResponse := stored job_anchor None h\<rparr>\<rparr>))\<rparr>"

text \<open>The same, with the client a connector chooses.\<close>

definition dx_live_env :: "DisposableRequest env" where
  "dx_live_env = connected dx_api_env rx_transport rx_client rx_tls"

lemma dx_api: "retry_contract dx_api_env" "writes_answered live_anchor dx_api_env"
  by (auto simp: dx_api_env_def dx_env_def retry_contract_def writes_answered_def)

lemma dx_live: "retry_contract dx_live_env" "writes_answered live_anchor dx_live_env"
  using dx_api by (simp_all add: dx_live_env_def)

definition dx_call :: http_call where
  "dx_call = \<lparr>CallMethod = ''POST'', CallURL = \<lparr>Encrypted = ''http://h'', Decrypted = ''http://h''\<rparr>,
     CallBody = \<lparr>Encrypted = [], Decrypted = []\<rparr>, CallHeaders = \<lparr>Encrypted = None, Decrypted = Some []\<rparr>\<rparr>"

definition dx_begun :: DisposableRequest where
  "dx_begun = dx_request\<lparr>DStatus := dx_status\<lparr>DRequestDetails := HttpRequest (ex_details dx_call),
     DPollingResponse := Some (json_marshal ex_response_map), DStartedAt := Some 0, LastReconcileTime := Some 0\<rparr>\<rparr>"

definition dx_done :: DisposableRequest where
  "dx_done = dx_request\<lparr>DStatus := dx_status\<lparr>DResponse := ex_response, DSynced := True,
     DRequestDetails := HttpRequest (ex_details dx_call), LastReconcileTime := Some 0\<rparr>\<rparr>"

definition dx_poll :: "DisposableRequest event" where
  "dx_poll = HttpSent (poll_call ''http://h'') (ex_details (poll_call ''http://h'')) None"

definition dx_triggered :: "DisposableRequest event list" where
  "dx_triggered = [StatusUpdate dx_begun None, ClockRead 0, ClockRead 0, KubeGet dx_request None,
     HttpSent dx_call (ex_details dx_call) None, KubeGet dx_request None]"

definition dx_settled :: "DisposableRequest world" where
  "dx_settled = \<lparr>Obj = dx_done,
     Hist = [KubeGet dx_done None, StatusUpdate dx_done None, ClockRead 0, dx_poll, ClockRead 0, ClockRead 0,
       ClockRead 0] @ dx_triggered, Captured = (JNilMap, JNilMap)\<rparr>"

text \<open>The steps of the reconcile: what is read and observed, the trigger, the anchor, the poll, its end.\<close>

definition dx_read :: "DisposableRequest world" where
  "dx_read = (dx_world dx_request)\<lparr>Hist := [KubeGet dx_request None]\<rparr>"

definition dx_sent :: "DisposableRequest world" where
  "dx_sent = dx_read\<lparr>Hist := HttpSent dx_call (ex_details dx_call) None # Hist dx_read\<rparr>"

definition dx_prepared :: "DisposableRequest world" where
  "dx_prepared = dx_sent\<lparr>Hist := KubeGet dx_request None # Hist dx_sent\<rparr>"

definition dx_written :: "DisposableRequest world" where
  "dx_written = dx_read\<lparr>Obj := dx_begun, Hist := dx_triggered\<rparr>"

definition dx_answered :: "DisposableRequest world" where
  "dx_answered = dx_written\<lparr>Hist := [dx_poll, ClockRead 0, ClockRead 0, ClockRead 0] @ dx_triggered\<rparr>"

definition dx_deployed :: "DisposableRequest world" where
  "dx_deployed = dx_settled\<lparr>Hist := tl (Hist dx_settled)\<rparr>"

lemma dx_steps:
  "run_state (kubeGet dx_live_env) (dx_world dx_request) = (None, dx_read)"
  "run_state (DisposableObserve dx_live_env) dx_read = (Inr \<lparr>ObsExists = False, ObsUpToDate = False\<rparr>, dx_read)"
  "run_state (sendHttpRequest dx_live_env) dx_read = ((ex_details dx_call, None), dx_sent)"
  "run_state (prepareRequestResource dx_live_env) dx_sent = (None, dx_prepared)"
  "run_state (begin_change dx_live_env (HttpRequest (ex_details dx_call)) ex_response_map) dx_prepared =
     ((), dx_prepared\<lparr>Obj := dx_begun, Hist := [ClockRead 0, ClockRead 0] @ Hist dx_prepared\<rparr>)"
  "run_state (operation_verdict 3 dx_live_env ex_polling ex_response_map) dx_written =
     (OperationDone ex_response, dx_answered)"
  by (code_simp)+

lemma dx_answer: "ResponseToMap ex_response = ex_response_map"
  by code_simp

lemma dx_conclude: "run_state (conclude dx_live_env (OperationDone ex_response)) dx_answered = (None, dx_deployed)"
proof -
  have "IsResponseAsExpected dx_live_env (DForProvider dx_begun) ex_response = Inr True"
    "DSecretInjectionConfigs (DForProvider dx_begun) = []"
    by (simp_all add: IsResponseAsExpected_def dx_begun_def dx_request_def dx_spec_def)
  then show ?thesis
    unfolding conclude_def finalizeSuccess_def setterLastReconcileTime_def persistStatus_def dx_answered_def dx_written_def
    by (simp add: run_calls)
       (simp add: dx_read_def dx_deployed_def dx_settled_def dx_live_env_def dx_api_env_def connected_def dx_env_def dx_polled_def dx_begun_def dx_request_def
          dx_status_def dx_spec_def dx_done_def status_change_simps store_response_def ex_response_def dx_triggered_def
          dx_poll_def dx_world_def)
qed

lemmas dx_simps = dx_read_def dx_sent_def dx_prepared_def dx_written_def dx_triggered_def dx_begun_def dx_request_def
  dx_status_def dx_spec_def dx_world_def ex_details_def

lemma dx_fields [simp]:
  "Obj dx_read = dx_request" "Obj dx_prepared = dx_request" "Obj dx_written = dx_begun" "Obj dx_deployed = dx_done"
  "DSecretInjectionConfigs (DForProvider dx_request) = []" "DPolling (DForProvider dx_request) = Some ex_polling"
  "DPolling (DForProvider dx_begun) = Some ex_polling" "DAllowedStatusCodes (DForProvider dx_request) = []"
  "HttpResponse (ex_details c) = ex_response" "\<not> IsHTTPError (StatusCode ex_response) []"
  by (simp_all add: dx_simps dx_deployed_def dx_settled_def IsHTTPError_def ex_response_def)

lemma dx_deploy: "run_state (DisposableDeployAction 3 dx_live_env) dx_read = (None, dx_deployed)"
proof -
  have persist: "run_state (persistStatus dx_live_env)
      (dx_prepared\<lparr>Obj := dx_begun, Hist := [ClockRead 0, ClockRead 0] @ Hist dx_prepared\<rparr>) = (None, dx_written)"
    by (simp add: persistStatus_def run_calls dx_live_env_def dx_api_env_def connected_def dx_env_def dx_polled_def dx_simps)
  have "run_state (beginPolling 3 dx_live_env (ex_details dx_call)) dx_prepared = (None, dx_deployed)"
    unfolding beginPolling_def drivePolling_def
    by (simp add: run_calls onError_def dx_answer dx_steps(5,6) [simplified] dx_conclude persist [simplified])
  then have "run_state (after_trigger 3 dx_live_env (ex_details dx_call) None) dx_sent = (None, dx_deployed)"
    by (simp add: after_trigger_def run_calls onError_def dx_steps(4))
  moreover have "\<not> retries_exhausted dx_request" "\<not> in_flight dx_request" "\<not> DSynced (DStatus dx_request)"
    by code_simp+
  ultimately show ?thesis
    by (simp add: DisposableDeployAction_def run_calls dx_steps(3))
qed

text \<open>The whole of it, with its connector.\<close>

lemma dx_connect:
  "run_state (kubeGet dx_api_env) (dx_world dx_request) = (None, dx_read)"
  "run_state (connect dx_api_env rx_api rx_transport disposable_kind (namespaced_scope extract_secret_only)) dx_read =
     (Inr (rx_client, rx_tls), dx_read)"
  "run_state (update_error_condition dx_api_env) dx_deployed = ((), dx_settled)"
  by code_simp+

lemma dx_lives_step:
  "run_state (reconcile 3 dx_api_env rx_api rx_transport namespaced_disposable_controller (Some (CallCreate, False)))
     (dx_world dx_request) = ((), dx_settled)"
proof -
  have "Utils.IsRequestValid (DMethod (DForProvider dx_request)) (DURL (DForProvider dx_request)) = None"
    by code_simp
  then show ?thesis
    by (simp add: reconcile_def namespaced_disposable_controller_def disposable_controller_def disposable_external_def
        follow_def DisposableCreate_def run_calls(2) onError_def dx_connect dx_live_env_def [symmetric] dx_steps(2) dx_deploy)
qed

lemma dx_anchor_stored: "anchored (DPollingResponse (DStatus dx_begun))"
  by code_simp

subsection \<open>An operation whose polling block was removed\<close>

text \<open>
  The status has the anchor of an operation under way, and the specification no polling block any more: the next
  reconcile triggers the request again.
\<close>

definition dx_unpolled :: DisposableRequest where
  "dx_unpolled = dx_begun\<lparr>DForProvider := dx_spec\<lparr>DPolling := None\<rparr>\<rparr>"

definition dx_removed_env :: "DisposableRequest env" where
  "dx_removed_env = dx_env\<lparr>KubeRead := (\<lambda>h d. (None, dx_unpolled))\<rparr>"

definition dx_removed_live :: "DisposableRequest env" where
  "dx_removed_live = connected dx_removed_env rx_transport rx_client rx_tls"

definition dx_reread :: "DisposableRequest world" where
  "dx_reread = (dx_world dx_unpolled)\<lparr>Hist := [KubeGet dx_unpolled None]\<rparr>"

definition dx_retriggered :: "DisposableRequest world" where
  "dx_retriggered = dx_reread\<lparr>Hist := HttpSent dx_call (ex_details dx_call) None # Hist dx_reread\<rparr>"

lemma dx_removed_contracts: "retry_contract dx_removed_env" "writes_answered live_anchor dx_removed_env"
  by (auto simp: dx_removed_env_def retry_contract_def writes_answered_def dx_env_def)

lemma dx_removed_steps:
  "run_state (kubeGet dx_removed_env) (dx_world dx_unpolled) = (None, dx_reread)"
  "run_state (connect dx_removed_env rx_api rx_transport disposable_kind (namespaced_scope extract_secret_only)) dx_reread =
     (Inr (rx_client, rx_tls), dx_reread)"
  "run_state (DisposableObserve dx_removed_live) dx_reread = (Inr \<lparr>ObsExists = False, ObsUpToDate = False\<rparr>, dx_reread)"
  "run_state (sendHttpRequest dx_removed_live) dx_reread = ((ex_details dx_call, None), dx_retriggered)"
  by code_simp+

lemma dx_triggered_again: "lives dx_removed_env rx_api rx_transport namespaced_disposable_controller dx_retriggered"
proof -
  let ?a = "snd (run_state (after_trigger 3 dx_removed_live (ex_details dx_call) None) dx_retriggered)"
  let ?b = "snd (run_state (update_error_condition dx_removed_env) ?a)"
  have "Utils.IsRequestValid (DMethod (DForProvider dx_unpolled)) (DURL (DForProvider dx_unpolled)) = None"
    "\<not> retries_exhausted dx_unpolled" "\<not> in_flight dx_unpolled" "\<not> DSynced (DStatus dx_unpolled)" "Obj dx_reread = dx_unpolled"
    by code_simp+
  then have run: "run_state (reconcile 3 dx_removed_env rx_api rx_transport namespaced_disposable_controller
      (Some (CallCreate, False))) (dx_world dx_unpolled) = ((), ?b)"
    by (simp add: reconcile_def namespaced_disposable_controller_def disposable_controller_def disposable_external_def
        follow_def DisposableCreate_def DisposableDeployAction_def run_calls(2) onError_def dx_removed_steps
        dx_removed_live_def [symmetric] prod_eq_iff case_prod_beta Wrap_def split: option.split)
  have "adds harmless dx_retriggered ?a"
    by (rule keepsD [OF emits_after_trigger prod.collapse [symmetric]])
      (simp add: dx_removed_live_def dx_removed_contracts)
  moreover have "adds harmless ?a ?b" by (rule keepsD [OF emits_update_error_condition prod.collapse [symmetric]])
  ultimately obtain lost where lost: "Hist ?b = lost @ Hist dx_retriggered"
    by (auto simp: adds_def)
  show ?thesis
    by (rule lives.crash [OF lives.start run, of lost "Hist dx_retriggered"])
      (simp_all add: lost dx_world_def)
qed

end
