(* ===== verification/Recovery.thy ===== *)
theory Recovery
  imports Example
begin

text \<open>
  The way back after a crash: an operation whose anchor is stored, and which has finished in the meantime, is
  completed by the next reconcile with one call. It rests on an API server that accepts, and on a poll whose
  first answer says done in time.
\<close>

subsection \<open>Writes that are accepted\<close>

definition accepts :: "'cr env \<Rightarrow> bool" where
  "accepts E \<longleftrightarrow> (\<forall>h x. fst (KubeRead E h x) = None \<and> fst (KubeStatusWrite E h x) = None)"

lemma update_status_accepted:
  assumes "retry_contract E" "accepts E"
  shows "wp (update_status E msg change) (\<lambda>r _. r = None) w"
  unfolding update_status_def
proof (rule wp_RetryOnConflict [OF assms(1), where I = "\<lambda>_. True"])
  show "wp (update_attempt E msg change) (\<lambda>r w'. if IsConflict r then True \<and> r = None else r = None) w" for w
    using assms(2) by (simp add: update_attempt_def accepts_def wp_simps Let_def wp_any)
qed simp

subsection \<open>A poll that is done at once\<close>

text \<open>
  What the operation needs to be found finished: a usable URL, an answer that makes \<^verbatim>\<open>polling.done\<close> true and
  has no error, and a clock that stays within the timeout and the budget as long as it is only read.
\<close>

definition operation_url :: "AsyncRequest env \<Rightarrow> Polling \<Rightarrow> AsyncRequest \<Rightarrow> json \<Rightarrow> goerr + string" where
  "operation_url E q cr mr = ParseString E (PollURL q) (GenerateRequestContextFromMap E cr mr JNilMap)"

definition answers_done :: "AsyncRequest env \<Rightarrow> Polling \<Rightarrow> AsyncRequest \<Rightarrow> json \<Rightarrow> Response \<Rightarrow> bool" where
  "answers_done E q cr mr resp \<longleftrightarrow>
     (let ctx = buildPollJQCtx E cr (context_response mr (GenerateRequestContextFromMap E cr mr JNilMap)) (ResponseToMap resp)
      in ParseBool E (PollDone q) ctx = Inr True \<and> (PollError q = [] \<or> Exists E (PollError q) ctx = Inr False))"

definition in_time :: "'cr env \<Rightarrow> Polling \<Rightarrow> int \<Rightarrow> 'cr event list \<Rightarrow> bool" where
  "in_time E q since h \<longleftrightarrow>
     (\<forall>ts. Clock E (map ClockRead ts @ h) \<le> min (since + GetTimeout q) (Clock E h + defaultReconcileBudget))"

definition finished_operation :: "AsyncRequest env \<Rightarrow> Polling \<Rightarrow> AsyncRequest \<Rightarrow> json \<Rightarrow> AsyncRequest event list \<Rightarrow> bool" where
  "finished_operation E q cr mr h \<longleftrightarrow>
     (\<exists>url since. operation_url E q cr mr = Inr url \<and> url \<noteq> [] \<and> validateOperationURL url = [] \<and>
        StartedAt (Status cr) = Some since \<and> in_time E q since h \<and>
        (\<forall>g. snd (SendHTTP E g (poll_call url)) = None \<and>
             answers_done E q cr mr (HttpResponse (fst (SendHTTP E g (poll_call url))))))"

lemma Poll_finished:
  assumes "MapPolling m = Some q" "finished_operation E q (Obj w) mr (Hist w)"
  shows "wp (Poll (Suc n) E m mr) (\<lambda>(mr', a) w'. Obj w' = Obj w \<and> calls w' = calls w + 1 \<and>
    (\<exists>x. a = Inr x \<and> Done x \<and> TerminalErr x = [] \<and> FailingPollResponse x = None)) w"
proof -
  let ?ctx = "GenerateRequestContextFromMap E (Obj w) mr JNilMap"
  from assms(2) obtain url since where url: "ParseString E (PollURL q) ?ctx = Inr url" "url \<noteq> []"
      "validateOperationURL url = []"
    and since: "StartedAt (Status (Obj w)) = Some since" and time: "in_time E q since (Hist w)"
    and sent: "\<And>g. snd (SendHTTP E g (poll_call url)) = None \<and>
      answers_done E q (Obj w) mr (HttpResponse (fst (SendHTTP E g (poll_call url))))"
    unfolding finished_operation_def operation_url_def by blast
  have clock: "Clock E (map ClockRead ts @ Hist w) \<le> since + GetTimeout q"
      "Clock E (map ClockRead ts @ Hist w) \<le> Clock E (Hist w) + defaultReconcileBudget" for ts
    using time by (auto simp: in_time_def)
  have out: "poll_outcome E q url r pm (buildPollJQCtx E (Obj w) (context_response mr ?ctx) (ResponseToMap r)) =
      Some (Inr (emptyResult\<lparr>Done := True, OperationURL := url, PollResponse := pm\<rparr>))"
    if "answers_done E q (Obj w) mr r" for r pm
    using that by (auto simp: poll_outcome_def answers_done_def Let_def)
  show ?thesis
    using assms(1) url since clock(1) [of "[t]" for t] clock(1) [of "[]"] clock(2) [of "[a, b]" for a b] clock(2) [of "[a]" for a] sent
    by (simp add: Poll_def wp_simps Let_def poll_step_def timed_out_def case_prod_beta out not_less [symmetric]
          emptyResult_def)
qed

subsection \<open>The next reconcile\<close>

lemma calls_quiet:
  fixes w w' :: "'cr world"
  assumes "adds no_call w w'"
  shows "calls w' = calls w"
proof -
  have "calls v = int (length (filter (\<lambda>e. \<not> no_call e) (Hist v)))" for v :: "'cr world"
    unfolding calls_def by (rule arg_cong [where f = "\<lambda>f. int (length (filter f (Hist v)))"])
      (simp add: fun_eq_iff no_call_def split: event.split)
  with assms show ?thesis by (auto simp: adds_def list_all_iff filter_empty_conv)
qed

definition completed :: "AsyncRequest world \<Rightarrow> bool" where
  "completed w \<longleftrightarrow> (\<exists>base cr h. Hist w = StatusUpdate cr None # h \<and> completes base cr)"

lemma extract_accepted:
  assumes "retry_contract E" "accepts E"
  shows "wp (extractAndPersistExternalRef E mr pr) (\<lambda>r w'. r = None \<and> calls w' = calls w \<and> completed w') w"
proof -
  have "wp (extractAndPersistExternalRef E mr pr) (\<lambda>r _. r = None) w"
    unfolding extractAndPersistExternalRef_def wp_bind wp_capture by (rule update_status_accepted [OF assms])
  moreover have "wp (extractAndPersistExternalRef E mr pr) (\<lambda>_ w'. adds no_call w w') w"
    by (rule keeps_wpI) (rule emits_writes [OF assms(1)]; simp)
  ultimately show ?thesis
    using extractAndPersistExternalRef_spec [OF assms(1), of mr pr w]
    by (fastforce simp: wp_def ends_written_def completed_def dest: calls_quiet split: prod.splits)
qed

lemma run_poll_finished:
  assumes "retry_contract E" "accepts E" "MapPolling m = Some q" "finished_operation E q (Obj w) mr (Hist w)"
  shows "wp (run_poll E (Poll (Suc n) E) m mr) (\<lambda>r w'. r = None \<and> calls w' = calls w + 1 \<and> completed w') w"
  unfolding run_poll_def wp_bind
proof (rule wp_mono [OF Poll_finished [OF assms(3,4)]], goal_cases)
  case (1 a v)
  then show ?case
    by (auto simp: wp_simps intro!: wp_mono [OF extract_accepted [OF assms(1,2)]])
qed

text \<open>An action whose mapping is there and whose operation is finished completes it.\<close>

lemma DeployAction_completes:
  assumes "retry_contract E" "accepts E" "GetPollingResponse (Obj w) \<noteq> JNilMap"
    and "GetMapping (ForProvider (Obj w)) action = (Inr m, p)" "MapPolling m = Some q"
    and "finished_operation E q ((Obj w)\<lparr>ForProvider := p\<rparr>) (GetPollingResponse (Obj w)) (Hist w)"
  shows "wp (DeployAction E (Poll (Suc n) E) action) (\<lambda>r w'. r = None \<and> calls w' = calls w + 1 \<and> completed w') w"
proof -
  let ?w = "w\<lparr>Obj := (Obj w)\<lparr>ForProvider := p\<rparr>\<rparr>"
  have c: "GetPollingResponse ((Obj w)\<lparr>ForProvider := p\<rparr>) = GetPollingResponse (Obj w)" "calls ?w = calls w"
    by (simp_all add: GetPollingResponse_def calls_def)
  obtain since where started: "StartedAt (Status (Obj w)) = Some since"
    using assms(6) by (auto simp: finished_operation_def)
  have "wp (run_poll E (Poll (Suc n) E) m (GetPollingResponse (Obj w)))
      (\<lambda>r w'. r = None \<and> calls w' = calls ?w + 1 \<and> completed w') ?w"
    using run_poll_finished [OF assms(1,2,5), of ?w "GetPollingResponse (Obj w)"] assms(6) by simp
  then show ?thesis
    using assms(3,4) started c
    by (simp add: DeployAction_def resume_action_def resume_operation_def wp_simps Let_def)
qed

subsection \<open>From the reconcile that finds it\<close>

text \<open>A creation in flight is observed as absent, so that the reconciler calls \<open>Create\<close>; nothing is called or written.\<close>

lemma in_flight_creation_absent:
  assumes "create_in_flight (Obj w)" "TerminalError (Status (Obj w)) = []" "\<not> WasDeleted (Obj w)"
    and "import_ref (Obj w) = None"
  shows "run_state (Observe E) w = (Inr \<lparr>ResourceExists = False, ResourceUpToDate = False\<rparr>, w)"
proof -
  have "wp (Observe E) (\<lambda>x w'. x = Inr \<lparr>ResourceExists = False, ResourceUpToDate = False\<rparr> \<and> w' = w) w"
    using assms by (simp add: Observe_def seedExternalRef_def IsUpToDate_def observe_live_def create_in_flight_def
        wp_simps Let_def)
  then show ?thesis by (simp add: wp_def split: prod.splits)
qed

lemma interrupted_Create:
  assumes "retry_contract E" "accepts E" "KubeRead E (Hist w) (Obj w) = (None, Obj w)"
    and "GetPollingResponse (Obj w) \<noteq> JNilMap" "GetMapping (ForProvider (Obj w)) ActionCreate = (Inr m, p)"
    and "MapPolling m = Some q"
    and "finished_operation E q ((Obj w)\<lparr>ForProvider := p\<rparr>) (GetPollingResponse (Obj w)) (KubeGet (Obj w) None # Hist w)"
  shows "wp (Create (Suc n) E) (\<lambda>r w'. r = None \<and> calls w' = calls w + 1 \<and> completed w') w"
proof -
  let ?w = "w\<lparr>Hist := KubeGet (Obj w) None # Hist w\<rparr>"
  have "wp (DeployAction E (Poll (Suc n) E) ActionCreate) (\<lambda>r w'. r = None \<and> calls w' = calls ?w + 1 \<and> completed w') ?w"
    using assms(4-7) by (intro DeployAction_completes [OF assms(1,2)]) simp_all
  moreover have "calls ?w = calls w" by (simp add: calls_def)
  ultimately show ?thesis
    using assms(3) by (auto simp: Create_def with_latest_def wp_simps Wrap_def elim!: wp_mono)
qed

text \<open>
  A Delete while an operation is in flight: as long as the reference is unknown that operation is the creation, and
  the CREATE mapping says how it is polled; then it is the removal, and the REMOVE mapping does.
\<close>

definition awaited_action :: "AsyncRequest \<Rightarrow> string" where
  "awaited_action cr = (if ExternalRef (Status cr) = [] then ActionCreate else ActionRemove)"

lemma awaited_Delete:
  assumes "retry_contract E" "accepts E" "KubeRead E (Hist w) (Obj w) = (None, cr)" "GetPollingResponse cr \<noteq> JNilMap"
    and "GetMapping (ForProvider cr) (awaited_action cr) = (Inr m, p)" "MapPolling m = Some q"
    and "finished_operation E q (cr\<lparr>ForProvider := p\<rparr>) (GetPollingResponse cr) (KubeGet cr None # Hist w)"
  shows "wp (Delete (Suc n) E) (\<lambda>r w'. r = None \<and> calls w' = calls w + 1 \<and> completed w' \<and> adds is_resume_event w w') w"
proof -
  let ?w = "w\<lparr>Obj := cr, Hist := KubeGet cr None # Hist w\<rparr>"
  have "wp (DeployAction E (Poll (Suc n) E) (awaited_action cr))
      (\<lambda>r w'. (r = None \<and> calls w' = calls ?w + 1 \<and> completed w') \<and> adds is_resume_event ?w w') ?w"
  proof (rule wp_conj)
    show "wp (DeployAction E (Poll (Suc n) E) (awaited_action cr)) (\<lambda>r w'. r = None \<and> calls w' = calls ?w + 1 \<and> completed w') ?w"
      using assms(4-7) by (intro DeployAction_completes [OF assms(1,2)]) simp_all
    show "wp (DeployAction E (Poll (Suc n) E) (awaited_action cr)) (\<lambda>_ w'. adds is_resume_event ?w w') ?w"
      using foreground.DeployAction_resumes [OF assms(1), of ?w] assms(4) by (simp add: wp_def split: prod.split)
  qed
  moreover have "adds is_resume_event w v" if "adds is_resume_event ?w v" for v
    by (rule adds_trans [OF _ that]) (simp add: adds_def)
  moreover have "calls ?w = calls w" by (simp add: calls_def)
  moreover have "(if create_in_flight cr then ActionCreate else ActionRemove) = awaited_action cr"
    using assms(4) by (simp add: create_in_flight_def awaited_action_def)
  ultimately show ?thesis
    using assms(3) by (auto simp: Delete_def with_latest_def wp_simps Wrap_def elim!: wp_mono)
qed

text \<open>With no operation in flight it is the call of the REMOVE mapping that is made.\<close>

lemma removing_Delete:
  assumes "KubeRead E (Hist v) (Obj v) = (None, cr)" "GetPollingResponse cr = JNilMap"
    and "GetMapping (ForProvider cr) ActionRemove = (Inr m, p)"
  shows "run_state (Delete n E) v =
    map_prod (\<lambda>r. Wrap r errFailedToSendHttpRequest) id
      (run_state (fire_action E (Poll n E) m) (v\<lparr>Hist := KubeGet cr None # Hist v, Obj := cr\<lparr>ForProvider := p\<rparr>\<rparr>))"
  using assms
  by (simp add: Delete_def with_latest_def DeployAction_def getMapping_def run_calls onError_def create_in_flight_def
      GetPollingResponse_def Let_def split: prod.split)

subsection \<open>An example\<close>

definition ex_interrupted :: AsyncRequest where
  "ex_interrupted = ex_anchored\<lparr>Status := (Status ex_anchored)\<lparr>PollingResponse := Some ex_anchor\<rparr>\<rparr>"

lemma ex_interrupted_finished:
  "finished_operation (ex_env (Some ex_anchor)) ex_polling (ex_interrupted\<lparr>ForProvider := ex_spec\<rparr>)
     (GetPollingResponse ex_interrupted) [KubeGet ex_interrupted None]"
  (is "finished_operation ?E ex_polling ?cr ?mr _")
  unfolding finished_operation_def
proof (intro exI conjI allI)
  have clock: "ex_clock (map ClockRead ts @ [KubeGet c None]) = 0" for ts c by (induction ts) simp_all
  show "operation_url ?E ex_polling ?cr ?mr = Inr ''http://h''" by code_simp
  show "StartedAt (Status ?cr) = Some 0" by (simp add: ex_interrupted_def ex_anchored_def)
  show "in_time ?E ex_polling 0 [KubeGet ex_interrupted None]"
    using clock [of _ ex_interrupted] clock [of "[]" ex_interrupted]
    by (simp add: in_time_def ex_env_def ex_polling_def GetTimeout_def DefaultPollTimeout_def defaultReconcileBudget_def)
  fix g
  show "snd (SendHTTP ?E g (poll_call ''http://h'')) = None" by (simp add: ex_env_def)
  have "answers_done ?E ex_polling ?cr ?mr ex_response" by code_simp
  then show "answers_done ?E ex_polling ?cr ?mr (HttpResponse (fst (SendHTTP ?E g (poll_call ''http://h''))))"
    by (simp add: ex_env_def ex_details_def)
qed (rule ex_url_ok)+

end
