(* ===== verification/JobRecovery.thy ===== *)
theory JobRecovery
  imports DisposableExample Recovery
begin

text \<open>
  The way back of an AsyncDisposableRequest: a one-off request that was cut off after its trigger, and whose
  operation has finished in the meantime, is concluded by the next reconcile with one poll and one write.
\<close>

subsection \<open>An operation that has finished\<close>

definition job_context :: "DisposableRequest env \<Rightarrow> DisposableRequest \<Rightarrow> json" where
  "job_context E d = buildJQContext E d (DGetPollingResponse d) JNilMap"

definition job_answers_done :: "DisposableRequest env \<Rightarrow> Polling \<Rightarrow> DisposableRequest \<Rightarrow> Response \<Rightarrow> bool" where
  "job_answers_done E p d resp \<longleftrightarrow>
     (let ctx = buildJQContext E d (context_response (DGetPollingResponse d) (job_context E d)) (ResponseToMap resp)
      in ParseBool E (PollDone p) ctx = Inr True \<and> (PollError p = [] \<or> Exists E (PollError p) ctx = Inr False)) \<and>
     IsResponseAsExpected E (DForProvider d) resp = Inr True"

definition finished_job :: "DisposableRequest env \<Rightarrow> Polling \<Rightarrow> DisposableRequest \<Rightarrow> DisposableRequest event list \<Rightarrow> bool" where
  "finished_job E p d h \<longleftrightarrow>
     (\<exists>url since. ParseString E (PollURL p) (job_context E d) = Inr url \<and> validateDisposableURL url = [] \<and>
        DStartedAt (DStatus d) = Some since \<and> in_time E p since h \<and>
        (\<forall>g. snd (SendHTTP E g (poll_call url)) = None \<and>
             job_answers_done E p d (HttpResponse (fst (SendHTTP E g (poll_call url))))))"

lemma operation_verdict_finished:
  assumes "finished_job E p (Obj w) (Hist w)"
  shows "wp (operation_verdict (Suc n) E p (DGetPollingResponse (Obj w))) (\<lambda>v w'. Obj w' = Obj w \<and> calls w' = calls w + 1 \<and>
    (\<exists>resp. v = OperationDone resp \<and> IsResponseAsExpected E (DForProvider (Obj w)) resp = Inr True)) w"
proof -
  from assms obtain url since where url: "ParseString E (PollURL p) (job_context E (Obj w)) = Inr url"
      "validateDisposableURL url = []"
    and since: "DStartedAt (DStatus (Obj w)) = Some since" and time: "in_time E p since (Hist w)"
    and sent: "\<And>g. snd (SendHTTP E g (poll_call url)) = None \<and>
      job_answers_done E p (Obj w) (HttpResponse (fst (SendHTTP E g (poll_call url))))"
    unfolding finished_job_def by blast
  have clock: "Clock E (map ClockRead ts @ Hist w) \<le> since + GetTimeout p"
      "Clock E (map ClockRead ts @ Hist w) \<le> Clock E (Hist w) + defaultReconcileBudget" for ts
    using time by (auto simp: in_time_def)
  have out: "poll_verdict E p r (buildJQContext E (Obj w) (context_response (DGetPollingResponse (Obj w))
      (job_context E (Obj w))) (ResponseToMap r)) = Some (OperationDone r)"
    if "job_answers_done E p (Obj w) r" for r
    using that by (auto simp: poll_verdict_def job_answers_done_def Let_def)
  show ?thesis
    using url since clock(1) [of "[t]" for t] clock(1) [of "[]"] clock(2) [of "[a, b]" for a b] clock(2) [of "[a]" for a] sent
    by (simp add: operation_verdict_def job_context_def [symmetric] wp_simps Let_def drive_step_def case_prod_beta out
          not_less [symmetric])
       (auto simp: job_answers_done_def)
qed

subsection \<open>The next reconcile\<close>

lemma conclude_accepted:
  assumes "accepts E" "IsResponseAsExpected E (DForProvider (Obj w)) resp = Inr True"
  shows "wp (conclude E (OperationDone resp)) (\<lambda>r w'. r = None \<and> calls w' = calls w \<and> one_write (job_ends True) w None w') w"
proof -
  have persisted: "wp (persistStatus E) (\<lambda>r _. r = None) v" for v
    using assms(1) by (simp add: persistStatus_def accepts_def wp_simps Let_def)
  have "wp (conclude E (OperationDone resp)) (\<lambda>r _. r = None) w"
    using assms(2) unfolding conclude_def finalizeSuccess_def setterLastReconcileTime_def
    by (simp add: wp_simps Let_def persisted) (rule impI, rule wp_any, simp add: wp_simps Let_def persisted)
  moreover have "wp (conclude E (OperationDone resp)) (\<lambda>_ w'. adds no_call w w') w"
    by (rule keeps_wpI [OF emits_conclude])
  ultimately show ?thesis
    using conclude_concludes [of E "OperationDone resp" w] assms(2)
    by (auto simp: wp_def concludes_def dest: calls_quiet split: prod.splits)
qed

lemma interrupted_job_concluded:
  assumes "accepts E" "in_flight (Obj w)" "\<not> DSynced (DStatus (Obj w))" "\<not> retries_exhausted (Obj w)"
    and "DPolling (DForProvider (Obj w)) = Some p" "finished_job E p (Obj w) (Hist w)"
  shows "wp (DisposableDeployAction (Suc n) E) (\<lambda>r w'. r = None \<and> calls w' = calls w + 1 \<and>
    (\<exists>d h. Hist w' = StatusUpdate d None # h \<and> job_ends True (Obj w) d)) w"
proof -
  have "wp (do { v \<leftarrow> operation_verdict (Suc n) E p (DGetPollingResponse (Obj w)); conclude E v })
      (\<lambda>r w'. r = None \<and> calls w' = calls w + 1 \<and> (\<exists>d h. Hist w' = StatusUpdate d None # h \<and> job_ends True (Obj w) d)) w"
    unfolding wp_bind
  proof (rule wp_mono [OF operation_verdict_finished [OF assms(6)]], goal_cases)
    case (1 v w1)
    then obtain resp where v: "v = OperationDone resp" "IsResponseAsExpected E (DForProvider (Obj w1)) resp = Inr True" by auto
    show ?case
      unfolding v(1) by (rule wp_mono [OF conclude_accepted [OF assms(1) v(2)]]) (use 1 in \<open>auto simp: one_write_def\<close>)
  qed
  then show ?thesis
    using assms(2-5) by (simp add: DisposableDeployAction_def resumePolling_def drivePolling_def wp_simps)
qed

lemma interrupted_job_absent:
  assumes "DDeletionTimestamp (Obj w) = None" "\<not> DSynced (DStatus (Obj w))" "\<not> retries_exhausted (Obj w)"
    and "\<not> needs_retry (Obj w)"
  shows "run_state (DisposableObserve E) w = (Inr \<lparr>ObsExists = False, ObsUpToDate = False\<rparr>, w)"
proof -
  have "wp (DisposableObserve E) (\<lambda>x w'. x = Inr \<lparr>ObsExists = False, ObsUpToDate = False\<rparr> \<and> w' = w) w"
    using assms by (simp add: DisposableObserve_def failed_for_good_def wp_simps)
  then show ?thesis by (simp add: wp_def split: prod.splits)
qed

lemma interrupted_job_Create:
  assumes "accepts E" "in_flight (Obj w)" "\<not> DSynced (DStatus (Obj w))" "\<not> retries_exhausted (Obj w)"
    and "Utils.IsRequestValid (DMethod (DForProvider (Obj w))) (DURL (DForProvider (Obj w))) = None"
    and "DPolling (DForProvider (Obj w)) = Some p" "finished_job E p (Obj w) (Hist w)"
  shows "wp (DisposableCreate (Suc n) E) (\<lambda>r w'. r = None \<and> calls w' = calls w + 1 \<and>
    (\<exists>d h. Hist w' = StatusUpdate d None # h \<and> job_ends True (Obj w) d)) w"
  using assms(5) interrupted_job_concluded [OF assms(1-4,6,7), of n]
  by (auto simp: DisposableCreate_def wp_simps Wrap_def elim!: wp_mono)

subsection \<open>An example\<close>

lemma dx_begun_finished: "finished_job dx_env ex_polling dx_begun []"
  unfolding finished_job_def
proof (intro exI conjI allI)
  have clock: "dx_clock (map ClockRead ts) = 0" for ts by (induction ts) simp_all
  show "ParseString dx_env (PollURL ex_polling) (job_context dx_env dx_begun) = Inr ''http://h''" by code_simp
  show "validateDisposableURL ''http://h'' = []" by code_simp
  show "DStartedAt (DStatus dx_begun) = Some 0" by (simp add: dx_begun_def)
  show "in_time dx_env ex_polling 0 []"
    by (simp add: in_time_def dx_env_def clock ex_polling_def GetTimeout_def DefaultPollTimeout_def defaultReconcileBudget_def)
  fix g
  show "snd (SendHTTP dx_env g (poll_call ''http://h'')) = None" by (simp add: dx_env_def)
  have "job_answers_done dx_env ex_polling dx_begun ex_response" by code_simp
  then show "job_answers_done dx_env ex_polling dx_begun (HttpResponse (fst (SendHTTP dx_env g (poll_call ''http://h''))))"
    by (simp add: dx_env_def)
qed

end
