(* ===== verification/JobTrigger.thy ===== *)
theory JobTrigger
  imports DisposableLifecycle
begin

text \<open>
  The trigger of an operation of a one-off request and the write of its anchor, as one action: the write is attempted
  once, of the response the trigger had, and what the API server holds is what it held when that attempt is refused.
\<close>

text \<open>The one attempt: what is written, what is answered, and what follows.\<close>

definition anchor_attempt ::
  "DisposableRequest env \<Rightarrow> HttpDetails \<Rightarrow> DisposableRequest world \<Rightarrow> goerr option \<Rightarrow> DisposableRequest world \<Rightarrow> bool" where
  "anchor_attempt E details w r w' \<longleftrightarrow>
     (\<exists>resp cr es u. StatusCode resp = StatusCode (HttpResponse details) \<and>
        (DSecretInjectionConfigs (DForProvider (Obj w)) = [] \<longrightarrow> resp = HttpResponse details) \<and>
        job_begins (ResponseToMap resp) (Obj w) cr \<and> list_all is_quiet es \<and>
        Hist u = StatusUpdate cr (fst (KubeStatusWrite E (es @ Hist w) cr)) # es @ Hist w \<and>
        (case fst (KubeStatusWrite E (es @ Hist w) cr) of Some e \<Rightarrow> r = Some e \<and> w' = u | None \<Rightarrow> adds harmless u w'))"

lemma beginPolling_attempt: "wp (beginPolling n E details) (anchor_attempt E details w) w"
proof -
  let ?ok = "\<lambda>resp v. adds_same is_secret_event w v \<and> StatusCode resp = StatusCode (HttpResponse details) \<and>
    (DSecretInjectionConfigs (DForProvider (Obj w)) = [] \<longrightarrow> resp = HttpResponse details)"
  have inj: "wp (if DSecretInjectionConfigs (DForProvider (Obj w)) \<noteq> []
      then ApplyResponseDataToSecrets E (Obj w) ns uid (HttpResponse details) cfgs
      else State_Monad.return (HttpResponse details)) ?ok w" for ns uid cfgs
    using wp_conj [OF keeps_wpI [OF emits_ApplyResponseDataToSecrets] injected_code]
    by (auto simp: wp_return adds_same_def adds_def)
  have persist: "wp (persistStatus E) (\<lambda>x. wp (onError x (\<lambda>e. State_Monad.return (Some e)) (drivePolling n E (ResponseToMap resp)))
      (anchor_attempt E details w)) v"
    if resp: "StatusCode resp = StatusCode (HttpResponse details)"
        "DSecretInjectionConfigs (DForProvider (Obj w)) = [] \<longrightarrow> resp = HttpResponse details"
      and v: "Hist v = es @ Hist w" "list_all is_quiet es" "job_begins (ResponseToMap resp) (Obj w) (Obj v)" for resp v es
  proof -
    let ?s = "KubeStatusWrite E (Hist v) (Obj v)"
    let ?u = "v\<lparr>Obj := snd ?s, Hist := StatusUpdate (Obj v) (fst ?s) # Hist v\<rparr>"
    have "anchor_attempt E details w r w'"
      if "case fst ?s of Some e \<Rightarrow> r = Some e \<and> w' = ?u | None \<Rightarrow> adds harmless ?u w'" for r w'
      unfolding anchor_attempt_def
      by (rule exI [of _ resp], rule exI [of _ "Obj v"], rule exI [of _ es], rule exI [of _ ?u])
        (use that v resp in simp)
    then show ?thesis
      unfolding persistStatus_def wp_kubeStatusUpdate Let_def wp_onError
      by (cases "fst ?s") (simp_all add: wp_return, rule wp_mono [OF keeps_wpI [OF emits_drivePolling]], simp)
  qed
  show ?thesis
    unfolding beginPolling_def Let_def wp_bind wp_theObj
  proof (rule wp_mono [OF inj], rule wp_mono [OF begin_change_begins [OF ResponseToMap_not_nil]], goal_cases)
    case (1 resp v x u)
    then have "adds is_quiet w v" by (auto simp: adds_same_def elim: adds_mono)
    with 1 have "adds is_quiet w u" by (blast intro: adds_trans)
    then obtain es where "Hist u = es @ Hist w" "list_all is_quiet es" by (auto simp: adds_def)
    with 1 show ?case by (intro persist) (auto simp: adds_same_def)
  qed
qed

text \<open>An action that triggers, from the trigger on.\<close>

definition triggers_anew :: "DisposableRequest \<Rightarrow> bool" where
  "triggers_anew d \<longleftrightarrow>
     (DSynced (DStatus d) \<longrightarrow> ShouldLoopInfinitely (DForProvider d)) \<and> \<not> retries_exhausted d \<and> \<not> in_flight d"

lemma triggered_attempt:
  assumes "triggers_anew (Obj w)" "run_state (sendHttpRequest E) w = ((details, None), v)"
    and "KubeRead E (Hist v) (Obj v) = (None, d)" "DPolling (DForProvider d) \<noteq> None"
    and "\<not> IsHTTPError (StatusCode (HttpResponse details)) (DAllowedStatusCodes (DForProvider d))"
  shows "wp (DisposableDeployAction n E)
    (anchor_attempt E details (v\<lparr>Obj := d, Hist := KubeGet d None # Hist v\<rparr>)) w"
proof -
  obtain p where "DPolling (DForProvider d) = Some p" using assms(4) by blast
  then have "wp (after_trigger n E details None) (anchor_attempt E details (v\<lparr>Obj := d, Hist := KubeGet d None # Hist v\<rparr>)) v"
    using assms(3,5) beginPolling_attempt [of n E details "v\<lparr>Obj := d, Hist := KubeGet d None # Hist v\<rparr>"]
    by (simp add: after_trigger_def prepareRequestResource_def wp_simps Wrap_def)
  moreover have "wp (sendHttpRequest E) (\<lambda>x w'. x = (details, None) \<and> w' = v) w" using assms(2) by (simp add: wp_def)
  ultimately show ?thesis
    using assms(1) by (auto simp: DisposableDeployAction_def triggers_anew_def wp_simps elim!: wp_mono)
qed

text \<open>The trigger has been sent, and nothing that is stored has changed.\<close>

lemma trigger_sent:
  assumes "run_state (sendHttpRequest E) w = ((details, None), v)"
  shows "\<exists>c h. Hist v = HttpSent c details None # h @ Hist w \<and> list_all is_secret_read h"
  using wp_run [OF sendHttpRequest_sends assms] by (auto simp: sends_def adds_def)

lemma stored_kept:
  "list_all (\<lambda>e. is_quiet e \<or> (case e of HttpSent _ _ _ \<Rightarrow> True | KubeGet _ _ \<Rightarrow> True | _ \<Rightarrow> False)) es \<Longrightarrow>
   stored raw a0 (es @ h) = stored raw a0 h"
proof (induction es)
  case (Cons e es)
  then show ?case by (cases e) (auto simp: is_quiet_def is_kube_event_def)
qed simp

lemma secret_read_quiet [simp]: "is_secret_read e \<Longrightarrow> is_quiet e"
  by (auto simp: is_secret_read_def is_quiet_def is_kube_event_def split: event.splits)

lemma refused_attempt:
  assumes "anchor_attempt E details u r w'" "Hist u = KubeGet d None # HttpSent c details None # h @ Hist w"
    and "list_all is_secret_read h" "\<And>es x. list_all is_quiet es \<Longrightarrow> fst (KubeStatusWrite E (es @ Hist u) x) = Some e"
  shows "r = Some e \<and> stored job_anchor a0 (Hist w') = stored job_anchor a0 (Hist w) \<and> calls w' = calls w + 1"
proof -
  from assms(1,4) obtain cr es where w': "r = Some e" "Hist w' = StatusUpdate cr (Some e) # es @ Hist u" "list_all is_quiet es"
    by (auto simp: anchor_attempt_def)
  have none: "list_all is_quiet g \<Longrightarrow> filter (\<lambda>e. case e of HttpSent _ _ _ \<Rightarrow> True | _ \<Rightarrow> False) g = []"
    for g :: "DisposableRequest event list"
    by (induction g) (auto simp: is_quiet_def no_call_def split: event.splits)
  have h: "list_all is_quiet h" using assms(3) by (auto simp: list_all_iff)
  with w'(3) have "stored job_anchor a0 (es @ (KubeGet d None # HttpSent c details None # h) @ Hist w) = stored job_anchor a0 (Hist w)"
    using stored_kept [of "es @ KubeGet d None # HttpSent c details None # h" job_anchor a0 "Hist w"]
    by (auto simp: list_all_iff)
  with w' assms(2) show ?thesis by (simp add: calls_def none [OF w'(3)] none [OF h])
qed

end
