(* ===== verification/Interfaces.thy ===== *)
theory Interfaces
  imports StatusHandler DisposableTypes
begin

text \<open>
  \<^verbatim>\<open>apis/interfaces/spec_accessors.go\<close>: what the services see of a resource. An interface of readers is the
  record of their answers, an interface that embeds another extends its record; an interface of
  writers is a record of functions. \<open>as_mapped_spec\<close> to \<open>disposable_status_writer\<close> are the accessors of the kinds
  (\<^verbatim>\<open>spec_accessors.go\<close>, \<^verbatim>\<open>polling_accessors.go\<close>). The locale \<open>status_accessors\<close> states what a reader answers
  after a write.
\<close>

subsection \<open>Specifications\<close>

record PollingSpec =
  SpecPollURL :: string
  SpecPollDone :: string
  SpecPollError :: string
  SpecPollTimeout :: int
  SpecPollInterval :: int

definition NewPollingAdapter :: "Polling option \<Rightarrow> PollingSpec option" where
  "NewPollingAdapter p =
     (case p of
        None \<Rightarrow> None
      | Some q \<Rightarrow> Some \<lparr>SpecPollURL = PollURL q, SpecPollDone = PollDone q, SpecPollError = PollError q,
          SpecPollTimeout = GetTimeout q, SpecPollInterval = GetInterval q\<rparr>)"

record HTTPMapping =
  MappingMethod :: string
  MappingAction :: string
  MappingBody :: string
  MappingURL :: string
  MappingHeaders :: headers
  MappingPolling :: "PollingSpec option"

record HTTPRequestSpec =
  SpecWaitTimeout :: "string option"
  SpecInsecureSkip :: bool
  SpecSecretInjections :: "SecretInjectionConfig list"
  SpecHeaders :: headers

record SimpleHTTPRequestSpec = HTTPRequestSpec +
  SimpleURL :: string
  SimpleMethod :: string
  SimpleBody :: string
  SimpleExpectedResponse :: string
  SimpleAllowedCodes :: "int list"

record HTTPPayload =
  PayloadGetBaseURL :: string
  PayloadGetBody :: string

record MappedHTTPRequestSpec = HTTPRequestSpec +
  SpecMappings :: "HTTPMapping list"
  SpecPayload :: HTTPPayload
  SpecAllowedCodes :: "int list"
  SpecExternalRef :: string
  SpecIsTerminalError :: string
  SpecOIDC :: "OIDCConfig option"

record ResponseCheckAware =
  AwareExpectedResponse :: ResponseCheck
  AwareResourceExists :: ResponseCheck
  AwareIsRemoved :: ResponseCheck

record ReconciliationPolicyAware =
  PolicyNextReconcile :: "string option"
  PolicyLoopInfinitely :: bool

record RollbackAware =
  AwareRetriesLimit :: "32 word option"

definition as_mapping :: "Mapping \<Rightarrow> HTTPMapping" where
  "as_mapping m = \<lparr>MappingMethod = Method m, MappingAction = Action m, MappingBody = MapBody m, MappingURL = URL m,
     MappingHeaders = MapHeaders m, MappingPolling = NewPollingAdapter (MapPolling m)\<rparr>"

definition SetMethod :: "string \<Rightarrow> Mapping \<Rightarrow> Mapping" where
  "SetMethod method m = m\<lparr>Method := method\<rparr>"

lemma SetMethod_seen: "as_mapping (SetMethod method m) = (as_mapping m)\<lparr>MappingMethod := method\<rparr>"
  by (simp add: SetMethod_def as_mapping_def)

definition as_mapped_spec :: "AsyncRequestParameters \<Rightarrow> MappedHTTPRequestSpec" where
  "as_mapped_spec p = \<lparr>SpecWaitTimeout = WaitTimeout p, SpecInsecureSkip = InsecureSkipTLSVerify p,
     SpecSecretInjections = SecretInjectionConfigs p, SpecHeaders = DefaultHeaders p,
     SpecMappings = map as_mapping (Mappings p), SpecPayload = \<lparr>PayloadGetBaseURL = BaseUrl p, PayloadGetBody = PayloadBody p\<rparr>,
     SpecAllowedCodes = AllowedStatusCodes p, SpecExternalRef = ExternalRefExpr p,
     SpecIsTerminalError = IsTerminalError p, SpecOIDC = OIDC p\<rparr>"

definition as_response_checks :: "AsyncRequestParameters \<Rightarrow> ResponseCheckAware" where
  "as_response_checks p = \<lparr>AwareExpectedResponse = ExpectedResponseCheck p,
     AwareResourceExists = ResourceExistsCheck p, AwareIsRemoved = IsRemovedCheck p\<rparr>"

definition as_simple_spec :: "DisposableParameters \<Rightarrow> SimpleHTTPRequestSpec" where
  "as_simple_spec p = \<lparr>SpecWaitTimeout = DWaitTimeout p, SpecInsecureSkip = DInsecureSkipTLSVerify p,
     SpecSecretInjections = DSecretInjectionConfigs p, SpecHeaders = DHeaders p,
     SimpleURL = DURL p, SimpleMethod = DMethod p, SimpleBody = DBody p,
     SimpleExpectedResponse = ExpectedResponse p, SimpleAllowedCodes = DAllowedStatusCodes p\<rparr>"

definition as_policy :: "DisposableParameters \<Rightarrow> ReconciliationPolicyAware" where
  "as_policy p = \<lparr>PolicyNextReconcile = NextReconcile p, PolicyLoopInfinitely = ShouldLoopInfinitely p\<rparr>"

definition as_rollback :: "DisposableParameters \<Rightarrow> RollbackAware" where
  "as_rollback p = \<lparr>AwareRetriesLimit = RollbackRetriesLimit p\<rparr>"

subsection \<open>The status\<close>

record RequestStatusReader =
  ReadResponse :: Response
  ReadFailed :: "32 word"
  ReadRequestDetails :: HTTPMapping
  ReadExternalRef :: string
  ReadPollingResponse :: json
  ReadTerminalError :: string
  ReadObservedGeneration :: int
  ReadGeneration :: int
  ReadStartedAt :: "int option"
  ReadStatusMap :: json

record AsyncStatusReader = RequestStatusReader +
  ReadCachedResponse :: "Response option"

record DisposableStatusReader =
  ReadSynced :: bool
  ReadJobFailed :: "32 word"
  ReadJobResponse :: Response

text \<open>What the poll loop of a one-off request needs beyond these (\<^verbatim>\<open>PollingAware\<close>).\<close>

record 'cr PollingAware =
  AwarePolling :: "'cr \<Rightarrow> Polling option"
  AwarePollingResponse :: "'cr \<Rightarrow> json"
  AwareSetPollingResponse :: "json \<Rightarrow> 'cr \<Rightarrow> 'cr"
  AwareStartedAt :: "'cr \<Rightarrow> int option"
  AwareSetStartedAt :: "int option \<Rightarrow> 'cr \<Rightarrow> 'cr"

record 'cr RequestStatusWriter = "'cr StatusWriter" +
  WriteCache :: "int \<Rightarrow> int \<Rightarrow> headers \<Rightarrow> string \<Rightarrow> 'cr \<Rightarrow> 'cr"
  WriteResetFailures :: "'cr \<Rightarrow> 'cr"
  WriteExternalRef :: "string \<Rightarrow> 'cr \<Rightarrow> 'cr"
  WritePollingResponse :: "json \<Rightarrow> 'cr \<Rightarrow> 'cr"
  WriteTerminalError :: "string \<Rightarrow> 'cr \<Rightarrow> 'cr"
  WriteObservedGeneration :: "int \<Rightarrow> 'cr \<Rightarrow> 'cr"
  WriteStartedAt :: "int option \<Rightarrow> 'cr \<Rightarrow> 'cr"

record 'cr DisposableStatusWriter = "'cr StatusWriter" +
  WriteSynced :: "bool \<Rightarrow> 'cr \<Rightarrow> 'cr"
  WriteFailed :: "32 word \<Rightarrow> 'cr \<Rightarrow> 'cr"
  WriteLastReconcileTime :: "int \<Rightarrow> 'cr \<Rightarrow> 'cr"

definition request_status_reader :: "AsyncRequest \<Rightarrow> AsyncStatusReader" where
  "request_status_reader cr = \<lparr>ReadResponse = StatusResponse (Status cr), ReadFailed = Failed (Status cr),
     ReadRequestDetails = as_mapping (RequestDetails (Status cr)), ReadExternalRef = ExternalRef (Status cr),
     ReadPollingResponse = GetPollingResponse cr, ReadTerminalError = TerminalError (Status cr),
     ReadObservedGeneration = ObservedGeneration (Status cr), ReadGeneration = Generation cr,
     ReadStartedAt = StartedAt (Status cr), ReadStatusMap = GetStatusMap cr,
     ReadCachedResponse = GetCachedResponse cr\<rparr>"

definition disposable_status_reader :: "DisposableRequest \<Rightarrow> DisposableStatusReader" where
  "disposable_status_reader d = \<lparr>ReadSynced = DSynced (DStatus d), ReadJobFailed = DFailed (DStatus d),
     ReadJobResponse = DResponse (DStatus d)\<rparr>"

definition DGetCachedResponse :: "DisposableRequest \<Rightarrow> Response option" where
  "DGetCachedResponse d = (if StatusCode (DResponse (DStatus d)) = 0 then None else Some (DResponse (DStatus d)))"

definition DSetFailed :: "32 word \<Rightarrow> DisposableRequest \<Rightarrow> DisposableRequest" where
  "DSetFailed n d = d\<lparr>DStatus := (DStatus d)\<lparr>DFailed := n\<rparr>\<rparr>"

definition request_status_writer :: "AsyncRequest RequestStatusWriter" where
  "request_status_writer =
     \<lparr>WriteStatusCode = SetStatusCode, WriteHeaders = SetHeaders, WriteBody = SetBody, WriteError = SetError,
      WriteRequestDetails = SetRequestDetails, WriteCache = SetCache, WriteResetFailures = ResetFailures,
      WriteExternalRef = SetExternalRef, WritePollingResponse = SetPollingResponse,
      WriteTerminalError = SetTerminalError, WriteObservedGeneration = SetObservedGeneration,
      WriteStartedAt = SetOperationStartedAt\<rparr>"

definition disposable_status_writer :: "DisposableRequest DisposableStatusWriter" where
  "disposable_status_writer =
     \<lparr>WriteStatusCode = DSetStatusCode, WriteHeaders = DSetHeaders, WriteBody = DSetBody, WriteError = DSetError,
      WriteRequestDetails = DSetRequestDetails, WriteSynced = DSetSynced, WriteFailed = DSetFailed,
      WriteLastReconcileTime = DSetLastReconcileTime\<rparr>"

definition asPollingAware :: "DisposableRequest PollingAware" where
  "asPollingAware = \<lparr>AwarePolling = (\<lambda>d. DPolling (DForProvider d)), AwarePollingResponse = DGetPollingResponse,
     AwareSetPollingResponse = DSetPollingResponse, AwareStartedAt = (\<lambda>d. DStartedAt (DStatus d)),
     AwareSetStartedAt = DSetOperationStartedAt\<rparr>"

text \<open>The writers the status handlers use are the common parts of these.\<close>

lemma common_writers:
  "StatusWriter.truncate request_status_writer = requestWriter"
  "StatusWriter.truncate disposable_status_writer = disposableWriter"
  by (simp_all add: StatusWriter.truncate_def request_status_writer_def requestWriter_def
        disposable_status_writer_def disposableWriter_def)

subsection \<open>What is read after a write\<close>

text \<open>
  The accessors of an AsyncRequest behave like fields: a reader answers what its writer wrote, and no other
  write changes its answer. A map is read back from its JSON text.
\<close>

locale status_accessors =
  fixes R :: "'cr \<Rightarrow> AsyncStatusReader"
    and W :: "'cr RequestStatusWriter"
  assumes ref_written [simp]: "ReadExternalRef (R (WriteExternalRef W ref cr)) = ref"
    and ref_kept [simp]: "ReadExternalRef (R (WritePollingResponse W m cr)) = ReadExternalRef (R cr)"
      "ReadExternalRef (R (WriteStartedAt W t cr)) = ReadExternalRef (R cr)"
      "ReadExternalRef (R (WriteTerminalError W msg cr)) = ReadExternalRef (R cr)"
      "ReadExternalRef (R (WriteObservedGeneration W g cr)) = ReadExternalRef (R cr)"
    and anchor_cleared [simp]: "ReadPollingResponse (R (WritePollingResponse W JNilMap cr)) = JNilMap"
    and anchor_kept [simp]: "ReadPollingResponse (R (WriteExternalRef W ref cr)) = ReadPollingResponse (R cr)"
      "ReadPollingResponse (R (WriteStartedAt W t cr)) = ReadPollingResponse (R cr)"
      "ReadPollingResponse (R (WriteTerminalError W msg cr)) = ReadPollingResponse (R cr)"
      "ReadPollingResponse (R (WriteObservedGeneration W g cr)) = ReadPollingResponse (R cr)"
    and started_written [simp]: "ReadStartedAt (R (WriteStartedAt W t cr)) = t"
    and started_kept [simp]: "ReadStartedAt (R (WriteExternalRef W ref cr)) = ReadStartedAt (R cr)"
      "ReadStartedAt (R (WritePollingResponse W m cr)) = ReadStartedAt (R cr)"
      "ReadStartedAt (R (WriteTerminalError W msg cr)) = ReadStartedAt (R cr)"
      "ReadStartedAt (R (WriteObservedGeneration W g cr)) = ReadStartedAt (R cr)"
    and terminal_written [simp]: "ReadTerminalError (R (WriteTerminalError W msg cr)) = msg"
    and terminal_kept [simp]: "ReadTerminalError (R (WriteObservedGeneration W g cr)) = ReadTerminalError (R cr)"
      "ReadTerminalError (R (WritePollingResponse W m cr)) = ReadTerminalError (R cr)"
      "ReadTerminalError (R (WriteStartedAt W t cr)) = ReadTerminalError (R cr)"
      "ReadTerminalError (R (WriteExternalRef W ref cr)) = ReadTerminalError (R cr)"
    and generation_written [simp]: "ReadObservedGeneration (R (WriteObservedGeneration W g cr)) = g"
    and generation_kept [simp]: "ReadGeneration (R (WriteTerminalError W msg cr)) = ReadGeneration (R cr)"
      "ReadGeneration (R (WritePollingResponse W m cr)) = ReadGeneration (R cr)"
      "ReadGeneration (R (WriteStartedAt W t cr)) = ReadGeneration (R cr)"
      "ReadGeneration (R (WriteObservedGeneration W g cr)) = ReadGeneration (R cr)"
begin

text \<open>The writes of a terminal failure, of its end, and of a completed operation, as the next observation reads them.\<close>

lemma terminal_failure_read:
  "let x = R (WriteObservedGeneration W (ReadGeneration (R (WriteTerminalError W msg cr))) (WriteTerminalError W msg cr))
   in ReadTerminalError x = msg \<and> ReadObservedGeneration x = ReadGeneration x \<and>
      ReadPollingResponse x = ReadPollingResponse (R cr) \<and> ReadStartedAt x = ReadStartedAt (R cr) \<and>
      ReadExternalRef x = ReadExternalRef (R cr)"
  by (simp add: Let_def)

lemma cleared_terminal_read:
  "let x = R (WriteStartedAt W None (WriteTerminalError W [] cr))
   in ReadTerminalError x = [] \<and> ReadStartedAt x = None \<and> ReadPollingResponse x = ReadPollingResponse (R cr)"
  by (simp add: Let_def)

lemma completion_read:
  "let x = R (WriteExternalRef W ref (WriteStartedAt W None (WritePollingResponse W JNilMap cr)))
   in ReadPollingResponse x = JNilMap \<and> ReadStartedAt x = None \<and> ReadExternalRef x = ref \<and>
      ReadTerminalError x = ReadTerminalError (R cr)"
  by (simp add: Let_def)

end

interpretation request_accessors: status_accessors request_status_reader request_status_writer
  by unfold_locales
    (simp_all add: request_status_reader_def request_status_writer_def setter_defs GetPollingResponse_def
      RawExtensionToMap_def)

end
