(* ===== verification/Simulation.thy ===== *)
theory Simulation
  imports Connect
begin

text \<open>
  The code is generic in the resource: it reaches it through interfaces. The relation \<open>simulates\<close> says
  that one instance of a function is the image of another along a map of the resources: same results, and
  worlds that are images, event by event.
\<close>

subsection \<open>Images\<close>

definition image_world :: "('a \<Rightarrow> 'b) \<Rightarrow> 'a world \<Rightarrow> 'b world" where
  "image_world f w = \<lparr>Obj = f (Obj w), Hist = map (map_event f) (Hist w), Captured = Captured w\<rparr>"

lemma image_world_simps [simp]:
  "Obj (image_world f w) = f (Obj w)"
  "Hist (image_world f w) = map (map_event f) (Hist w)"
  "Captured (image_world f w) = Captured w"
  by (simp_all add: image_world_def)

lemma image_world_update:
  "image_world f (w\<lparr>Hist := h\<rparr>) = (image_world f w)\<lparr>Hist := map (map_event f) h\<rparr>"
  "image_world f (w\<lparr>Obj := x\<rparr>) = (image_world f w)\<lparr>Obj := f x\<rparr>"
  by (simp_all add: image_world_def)

text \<open>An environment that answers the images of the calls with the images of the answers.\<close>

definition image_env :: "('a \<Rightarrow> 'b) \<Rightarrow> 'a env \<Rightarrow> 'b env \<Rightarrow> bool" where
  "image_env f E E' \<longleftrightarrow>
     (\<forall>h x. KubeRead E' (map (map_event f) h) (f x) = map_prod id f (KubeRead E h x)) \<and>
     (\<forall>h x. KubeStatusWrite E' (map (map_event f) h) (f x) = map_prod id f (KubeStatusWrite E h x)) \<and>
     (\<forall>h c. SendHTTP E' (map (map_event f) h) c = SendHTTP E h c) \<and>
     (\<forall>h. Clock E' (map (map_event f) h) = Clock E h) \<and>
     (\<forall>h n s. ReadSecret E' (map (map_event f) h) n s = ReadSecret E h n s) \<and>
     (\<exists>n. (\<forall>m. RetryOnConflict E m = retry_steps n m) \<and> (\<forall>m. RetryOnConflict E' m = retry_steps n m)) \<and>
     SetConditions E' = SetConditions E"

subsection \<open>The calculus\<close>

definition simulates :: "('a \<Rightarrow> 'b) \<Rightarrow> ('a world, 'x) state \<Rightarrow> ('b world, 'x) state \<Rightarrow> bool" where
  "simulates f m m' \<longleftrightarrow> (\<forall>w. run_state m' (image_world f w) = map_prod id (image_world f) (run_state m w))"

named_theorems sim_intros \<open>structural rules of the simulation\<close>

lemma simulatesD: "simulates f m m' \<Longrightarrow> run_state m w = (x, w') \<Longrightarrow> run_state m' (image_world f w) = (x, image_world f w')"
  by (simp add: simulates_def)

lemma sim_return [sim_intros]: "simulates f (State_Monad.return x) (State_Monad.return x)"
  by (simp add: simulates_def)

lemma sim_bind [sim_intros]:
  "simulates f m m' \<Longrightarrow> (\<And>x. simulates f (k x) (k' x)) \<Longrightarrow> simulates f (State_Monad.bind m k) (State_Monad.bind m' k')"
  by (auto simp: simulates_def split: prod.split)

lemma sim_get_bind:
  "(\<And>w. simulates f (k w) (k' (image_world f w))) \<Longrightarrow>
   simulates f (State_Monad.bind State_Monad.get k) (State_Monad.bind State_Monad.get k')"
  by (simp add: simulates_def)

lemma sim_theObj_bind:
  "(\<And>x. simulates f (k x) (k' (f x))) \<Longrightarrow> simulates f (State_Monad.bind theObj k) (State_Monad.bind theObj k')"
  by (simp add: simulates_def theObj_def)

lemma sim_if [sim_intros]:
  "simulates f m m' \<Longrightarrow> simulates f n n' \<Longrightarrow> simulates f (if b then m else n) (if b then m' else n')"
  by simp

lemma sim_option [sim_intros]:
  "simulates f m m' \<Longrightarrow> (\<And>x. simulates f (k x) (k' x)) \<Longrightarrow>
   simulates f (case x of None \<Rightarrow> m | Some y \<Rightarrow> k y) (case x of None \<Rightarrow> m' | Some y \<Rightarrow> k' y)"
  by (simp split: option.split)

lemma sim_sum [sim_intros]:
  "(\<And>x. simulates f (m x) (m' x)) \<Longrightarrow> (\<And>x. simulates f (k x) (k' x)) \<Longrightarrow>
   simulates f (case x of Inl e \<Rightarrow> m e | Inr y \<Rightarrow> k y) (case x of Inl e \<Rightarrow> m' e | Inr y \<Rightarrow> k' y)"
  by (simp split: sum.split)

lemma sim_onError [sim_intros]:
  "(\<And>e. simulates f (k e) (k' e)) \<Longrightarrow> simulates f m m' \<Longrightarrow> simulates f (onError r k m) (onError r k' m')"
  by (simp add: onError_def split: option.split)

lemma sim_modifyObj: "(\<And>x. f (g x) = g' (f x)) \<Longrightarrow> simulates f (modifyObj g) (modifyObj g')"
  by (simp add: simulates_def modifyObj_def State_Monad.update_def image_world_update)

lemma sim_emit: "simulates f (emit e) (emit (map_event f e))"
  by (simp add: simulates_def emit_def State_Monad.update_def image_world_update)

lemma sim_retry_steps: "simulates f m m' \<Longrightarrow> simulates f (retry_steps n m) (retry_steps n m')"
  by (induction n) (auto intro!: sim_intros)

subsection \<open>The calls\<close>

lemma sim_timeNow [sim_intros]: "image_env f E E' \<Longrightarrow> simulates f (timeNow E) (timeNow E')"
  unfolding timeNow_def Let_def
  by (rule sim_get_bind) (auto simp: image_env_def intro!: sim_bind sim_return sim_emit [of f "ClockRead _", simplified])

lemma sim_kubeGet [sim_intros]: "image_env f E E' \<Longrightarrow> simulates f (kubeGet E) (kubeGet E')"
  by (auto simp: simulates_def kubeGet_def image_env_def image_world_def split: prod.split)

lemma sim_kubeStatusUpdate [sim_intros]: "image_env f E E' \<Longrightarrow> simulates f (kubeStatusUpdate E) (kubeStatusUpdate E')"
  by (auto simp: simulates_def kubeStatusUpdate_def image_env_def image_world_def split: prod.split)

lemma sim_kubeGetSecret [sim_intros]: "image_env f E E' \<Longrightarrow> simulates f (kubeGetSecret E n s) (kubeGetSecret E' n s)"
  unfolding kubeGetSecret_def
  by (rule sim_get_bind) (auto simp: image_env_def intro!: sim_bind sim_return sim_emit [of f "SecretRead _ _", simplified])

lemma sim_RetryOnConflict [sim_intros]:
  "image_env f E E' \<Longrightarrow> simulates f m m' \<Longrightarrow> simulates f (RetryOnConflict E m) (RetryOnConflict E' m')"
  by (auto simp: image_env_def sim_retry_steps)

subsection \<open>Writing the status\<close>

lemma sim_run_setters:
  "list_all2 (simulates f) ms ms' \<Longrightarrow> simulates f (run_setters ms) (run_setters ms')"
  by (induction rule: list_all2_induct) (auto intro!: sim_intros)

lemma sim_SetRequestResourceStatus:
  "image_env f E E' \<Longrightarrow> list_all2 (simulates f) ms ms' \<Longrightarrow>
   simulates f (SetRequestResourceStatus E ms) (SetRequestResourceStatus E' ms')"
  unfolding SetRequestResourceStatus_def set_status_attempt_def
  by (intro sim_intros sim_run_setters)

text \<open>Writers that correspond: every write of the one is, on images, that of the other.\<close>

definition image_writer :: "('a \<Rightarrow> 'b) \<Rightarrow> ('a, 'x) StatusWriter_scheme \<Rightarrow> ('b, 'y) StatusWriter_scheme \<Rightarrow> bool" where
  "image_writer f W W' \<longleftrightarrow>
     (\<forall>x n. f (WriteStatusCode W n x) = WriteStatusCode W' n (f x)) \<and>
     (\<forall>x h. f (WriteHeaders W h x) = WriteHeaders W' h (f x)) \<and>
     (\<forall>x b. f (WriteBody W b x) = WriteBody W' b (f x)) \<and>
     (\<forall>x e. f (WriteError W e x) = WriteError W' e (f x)) \<and>
     (\<forall>x u m b h. f (WriteRequestDetails W u m b h x) = WriteRequestDetails W' u m b h (f x))"

lemma sim_failure_setters:
  assumes "image_writer f W W'"
  shows "list_all2 (simulates f) (basic_setters W d @ [setterError W e]) (basic_setters W' d @ [setterError W' e])"
  using assms
  by (auto simp: image_writer_def basic_setters_def setterStatusCode_def setterHeaders_def setterBody_def
        setterRequestDetails_def setterError_def Let_def intro!: sim_modifyObj)

subsection \<open>Connecting\<close>

definition image_kind :: "('a \<Rightarrow> 'b) \<Rightarrow> 'a resource_kind \<Rightarrow> 'b resource_kind \<Rightarrow> bool" where
  "image_kind f K K' \<longleftrightarrow>
     (\<forall>x. KindRef K' (f x) = KindRef K x) \<and>
     (\<forall>x r. RefKind r = [] \<longrightarrow> f (KindSetRef K r x) = KindSetRef K' r (f x)) \<and>
     (\<forall>x. KindNamespace K' (f x) = KindNamespace K x) \<and>
     (\<forall>x. KindGCP K' (f x) = KindGCP K x) \<and> (\<forall>x. KindOIDC K' (f x) = KindOIDC K x) \<and>
     (\<forall>x. KindTLS K' (f x) = KindTLS K x) \<and> (\<forall>x. KindSkip K' (f x) = KindSkip K x) \<and>
     (\<forall>x. KindTimeout K' (f x) = KindTimeout K x) \<and> (\<forall>x. KindConditions K' (f x) = KindConditions K x) \<and>
     (\<forall>x cs. f (KindSetConditions K cs x) = KindSetConditions K' cs (f x)) \<and> KindErrNew K' = KindErrNew K"

definition image_api :: "('a \<Rightarrow> 'b) \<Rightarrow> 'a provider_api \<Rightarrow> 'b provider_api \<Rightarrow> bool" where
  "image_api f A A' \<longleftrightarrow>
     (\<forall>h x. TrackUsage A' (map (map_event f) h) (f x) = TrackUsage A h x) \<and>
     (\<forall>h n. ReadClusterProviderConfig A' (map (map_event f) h) n = ReadClusterProviderConfig A h n)"

lemma sim_buildTLSConfigData [sim_intros]:
  "image_env f E E' \<Longrightarrow> simulates f (buildTLSConfigData E r skip p) (buildTLSConfigData E' r skip p)"
  unfolding buildTLSConfigData_def LoadTLSConfig_def load_ref_def loadSecretData_def
  by (intro sim_intros)

lemma sim_report_auth_error [sim_intros]:
  assumes "image_env f E E'" "image_kind f K K'"
  shows "simulates f (report_auth_error E K msg err) (report_auth_error E' K' msg err)"
  unfolding report_auth_error_def
  using assms by (intro sim_intros sim_modifyObj) (auto simp: image_env_def image_kind_def)

lemma sim_connect_cluster:
  assumes E: "image_env f E E'" and A: "image_api f A A'" and K: "image_kind f K K'"
  shows "simulates f (connect E A T K (cluster_scope e)) (connect E' A' T K' (cluster_scope e))"
proof -
  have ref: "f (default_reference K (cluster_scope e) x) = default_reference K' (cluster_scope e) (f x)" for x
    using K by (simp add: image_kind_def default_reference_def cluster_scope_def)
  have api: "TrackUsage A' (map (map_event f) h) (f x) = TrackUsage A h x"
    "ResolvePC (cluster_scope e) A' (map (map_event f) h) ns r = ResolvePC (cluster_scope e) A h ns r" for h x ns r
    using A by (simp_all add: image_api_def cluster_scope_def resolve_cluster_def)
  have kind: "KindRef K' (f x) = KindRef K x" "KindNamespace K' (f x) = KindNamespace K x" "KindGCP K' (f x) = KindGCP K x"
    "KindOIDC K' (f x) = KindOIDC K x" "KindTLS K' (f x) = KindTLS K x" "KindSkip K' (f x) = KindSkip K x"
    "KindTimeout K' (f x) = KindTimeout K x" "KindErrNew K' = KindErrNew K"
    "DefaultRef (cluster_scope e :: 'b scope) = DefaultRef (cluster_scope e :: 'a scope)"
    "ExtractCreds (cluster_scope e :: 'b scope) = ExtractCreds (cluster_scope e :: 'a scope)"
    "ErrTLS (cluster_scope e :: 'b scope) = ErrTLS (cluster_scope e :: 'a scope)" for x
    using K by (simp_all add: image_kind_def cluster_scope_def)
  show ?thesis
    unfolding connect_def
    by (rule sim_get_bind, simp only: image_world_simps api, rule sim_onError, rule sim_return,
        rule sim_bind, rule sim_modifyObj, rule ref, rule sim_theObj_bind, simp only: kind api)
      (intro sim_intros E K)
qed

end
