(* ===== verification/ClusterKinds.thy ===== *)
theory ClusterKinds
  imports Interfaces Simulation
begin

text \<open>
  The cluster-scoped kinds (\<^verbatim>\<open>apis/cluster\<close>): an object without a namespace, whose provider configuration is
  named without a kind. Their specifications and their statuses have the fields of the namespaced kinds and
  share those records; their accessors are translated here from their own files. \<open>as_request\<close> and
  \<open>as_job\<close> see a cluster-scoped object as one of the shared model: every accessor commutes with them, and so
  do the programs that are generic in the kind.
\<close>

subsection \<open>AsyncRequest\<close>

record ClusterRequest =
  CName :: string
  CUID :: string
  CGeneration :: int
  CDeletionTimestamp :: "int option"
  CAnnotations :: "(string \<times> string) list"
  CProviderConfigRef :: "string option"
  CForProvider :: AsyncRequestParameters
  CStatus :: AsyncRequestStatus

definition CSetStatusCode :: "int \<Rightarrow> ClusterRequest \<Rightarrow> ClusterRequest" where
  "CSetStatusCode n c = c\<lparr>CStatus := (CStatus c)\<lparr>StatusResponse := (StatusResponse (CStatus c))\<lparr>StatusCode := n\<rparr>\<rparr>\<rparr>"

definition CSetHeaders :: "headers \<Rightarrow> ClusterRequest \<Rightarrow> ClusterRequest" where
  "CSetHeaders h c = c\<lparr>CStatus := (CStatus c)\<lparr>StatusResponse := (StatusResponse (CStatus c))\<lparr>Headers := h\<rparr>\<rparr>\<rparr>"

definition CSetBody :: "string \<Rightarrow> ClusterRequest \<Rightarrow> ClusterRequest" where
  "CSetBody b c = c\<lparr>CStatus := (CStatus c)\<lparr>StatusResponse := (StatusResponse (CStatus c))\<lparr>Body := b\<rparr>\<rparr>\<rparr>"

definition CSetError :: "goerr option \<Rightarrow> ClusterRequest \<Rightarrow> ClusterRequest" where
  "CSetError e c =
     c\<lparr>CStatus := (CStatus c)\<lparr>Failed := Failed (CStatus c) + 1,
        StatusError := (case e of None \<Rightarrow> StatusError (CStatus c) | Some x \<Rightarrow> Error x)\<rparr>\<rparr>"

definition CResetFailures :: "ClusterRequest \<Rightarrow> ClusterRequest" where
  "CResetFailures c = c\<lparr>CStatus := (CStatus c)\<lparr>Failed := 0, StatusError := []\<rparr>\<rparr>"

definition CSetRequestDetails ::
  "string \<Rightarrow> string \<Rightarrow> string \<Rightarrow> headers \<Rightarrow> ClusterRequest \<Rightarrow> ClusterRequest" where
  "CSetRequestDetails url meth body h c =
     c\<lparr>CStatus := (CStatus c)\<lparr>RequestDetails := (RequestDetails (CStatus c))
        \<lparr>MapBody := body, URL := url, MapHeaders := h, Method := meth\<rparr>\<rparr>\<rparr>"

definition CSetCache :: "int \<Rightarrow> int \<Rightarrow> headers \<Rightarrow> string \<Rightarrow> ClusterRequest \<Rightarrow> ClusterRequest" where
  "CSetCache now n h b c =
     c\<lparr>CStatus := (CStatus c)\<lparr>CacheResponse := \<lparr>StatusCode = n, Body = b, Headers = h\<rparr>,
        CacheLastUpdated := rfc3339 now\<rparr>\<rparr>"

definition CSetExternalRef :: "string \<Rightarrow> ClusterRequest \<Rightarrow> ClusterRequest" where
  "CSetExternalRef r c = c\<lparr>CStatus := (CStatus c)\<lparr>ExternalRef := r\<rparr>\<rparr>"

definition CSetPollingResponse :: "json \<Rightarrow> ClusterRequest \<Rightarrow> ClusterRequest" where
  "CSetPollingResponse m c =
     (if m = JNilMap then c\<lparr>CStatus := (CStatus c)\<lparr>PollingResponse := None\<rparr>\<rparr>
      else c\<lparr>CStatus := (CStatus c)\<lparr>PollingResponse := Some (json_marshal m)\<rparr>\<rparr>)"

definition CSetTerminalError :: "string \<Rightarrow> ClusterRequest \<Rightarrow> ClusterRequest" where
  "CSetTerminalError msg c = c\<lparr>CStatus := (CStatus c)\<lparr>TerminalError := msg, StatusError := msg\<rparr>\<rparr>"

definition CSetObservedGeneration :: "int \<Rightarrow> ClusterRequest \<Rightarrow> ClusterRequest" where
  "CSetObservedGeneration g c = c\<lparr>CStatus := (CStatus c)\<lparr>ObservedGeneration := g\<rparr>\<rparr>"

definition CSetOperationStartedAt :: "int option \<Rightarrow> ClusterRequest \<Rightarrow> ClusterRequest" where
  "CSetOperationStartedAt t c = c\<lparr>CStatus := (CStatus c)\<lparr>StartedAt := t\<rparr>\<rparr>"

definition CSetConditions :: "Condition list \<Rightarrow> ClusterRequest \<Rightarrow> ClusterRequest" where
  "CSetConditions cs c = c\<lparr>CStatus := (CStatus c)\<lparr>Conditions := cs\<rparr>\<rparr>"

definition CGetCachedResponse :: "ClusterRequest \<Rightarrow> Response option" where
  "CGetCachedResponse c =
     (if StatusCode (CacheResponse (CStatus c)) = 0 then None else Some (CacheResponse (CStatus c)))"

definition CGetPollingResponse :: "ClusterRequest \<Rightarrow> json" where
  "CGetPollingResponse c = RawExtensionToMap (PollingResponse (CStatus c))"

definition CGetStatusMap :: "ClusterRequest \<Rightarrow> json" where
  "CGetStatusMap c = status_map (CStatus c)"

definition cluster_mapping :: "Mapping \<Rightarrow> HTTPMapping" where
  "cluster_mapping m = \<lparr>MappingMethod = Method m, MappingAction = Action m, MappingBody = MapBody m,
     MappingURL = URL m, MappingHeaders = MapHeaders m, MappingPolling = NewPollingAdapter (MapPolling m)\<rparr>"

definition cluster_mapped_spec :: "AsyncRequestParameters \<Rightarrow> MappedHTTPRequestSpec" where
  "cluster_mapped_spec p = \<lparr>SpecWaitTimeout = WaitTimeout p, SpecInsecureSkip = InsecureSkipTLSVerify p,
     SpecSecretInjections = SecretInjectionConfigs p, SpecHeaders = DefaultHeaders p,
     SpecMappings = map cluster_mapping (Mappings p),
     SpecPayload = \<lparr>PayloadGetBaseURL = BaseUrl p, PayloadGetBody = PayloadBody p\<rparr>,
     SpecAllowedCodes = AllowedStatusCodes p, SpecExternalRef = ExternalRefExpr p,
     SpecIsTerminalError = IsTerminalError p, SpecOIDC = OIDC p\<rparr>"

definition cluster_response_checks :: "AsyncRequestParameters \<Rightarrow> ResponseCheckAware" where
  "cluster_response_checks p = \<lparr>AwareExpectedResponse = ExpectedResponseCheck p,
     AwareResourceExists = ResourceExistsCheck p, AwareIsRemoved = IsRemovedCheck p\<rparr>"

definition CGetSpec :: "ClusterRequest \<Rightarrow> MappedHTTPRequestSpec" where
  "CGetSpec c = cluster_mapped_spec (CForProvider c)"

definition cluster_status_reader :: "ClusterRequest \<Rightarrow> AsyncStatusReader" where
  "cluster_status_reader c = \<lparr>ReadResponse = StatusResponse (CStatus c), ReadFailed = Failed (CStatus c),
     ReadRequestDetails = cluster_mapping (RequestDetails (CStatus c)), ReadExternalRef = ExternalRef (CStatus c),
     ReadPollingResponse = CGetPollingResponse c, ReadTerminalError = TerminalError (CStatus c),
     ReadObservedGeneration = ObservedGeneration (CStatus c), ReadGeneration = CGeneration c,
     ReadStartedAt = StartedAt (CStatus c), ReadStatusMap = CGetStatusMap c,
     ReadCachedResponse = CGetCachedResponse c\<rparr>"

definition cluster_status_writer :: "ClusterRequest RequestStatusWriter" where
  "cluster_status_writer =
     \<lparr>WriteStatusCode = CSetStatusCode, WriteHeaders = CSetHeaders, WriteBody = CSetBody, WriteError = CSetError,
      WriteRequestDetails = CSetRequestDetails, WriteCache = CSetCache, WriteResetFailures = CResetFailures,
      WriteExternalRef = CSetExternalRef, WritePollingResponse = CSetPollingResponse,
      WriteTerminalError = CSetTerminalError, WriteObservedGeneration = CSetObservedGeneration,
      WriteStartedAt = CSetOperationStartedAt\<rparr>"

subsection \<open>AsyncDisposableRequest\<close>

record ClusterJob =
  JName :: string
  JUID :: string
  JDeletionTimestamp :: "int option"
  JProviderConfigRef :: "string option"
  JForProvider :: DisposableParameters
  JStatus :: DisposableStatus

definition JSetStatusCode :: "int \<Rightarrow> ClusterJob \<Rightarrow> ClusterJob" where
  "JSetStatusCode n d = d\<lparr>JStatus := (JStatus d)\<lparr>DResponse := (DResponse (JStatus d))\<lparr>StatusCode := n\<rparr>\<rparr>\<rparr>"

definition JSetHeaders :: "headers \<Rightarrow> ClusterJob \<Rightarrow> ClusterJob" where
  "JSetHeaders h d = d\<lparr>JStatus := (JStatus d)\<lparr>DResponse := (DResponse (JStatus d))\<lparr>Headers := h\<rparr>\<rparr>\<rparr>"

definition JSetBody :: "string \<Rightarrow> ClusterJob \<Rightarrow> ClusterJob" where
  "JSetBody b d = d\<lparr>JStatus := (JStatus d)\<lparr>DResponse := (DResponse (JStatus d))\<lparr>Body := b\<rparr>\<rparr>\<rparr>"

definition JSetSynced :: "bool \<Rightarrow> ClusterJob \<Rightarrow> ClusterJob" where
  "JSetSynced b d = d\<lparr>JStatus := (JStatus d)\<lparr>DSynced := b, DFailed := 0, DError := []\<rparr>\<rparr>"

definition JSetFailed :: "32 word \<Rightarrow> ClusterJob \<Rightarrow> ClusterJob" where
  "JSetFailed n d = d\<lparr>JStatus := (JStatus d)\<lparr>DFailed := n\<rparr>\<rparr>"

definition JSetLastReconcileTime :: "int \<Rightarrow> ClusterJob \<Rightarrow> ClusterJob" where
  "JSetLastReconcileTime now d = d\<lparr>JStatus := (JStatus d)\<lparr>LastReconcileTime := Some now\<rparr>\<rparr>"

definition JSetError :: "goerr option \<Rightarrow> ClusterJob \<Rightarrow> ClusterJob" where
  "JSetError e d =
     d\<lparr>JStatus := (JStatus d)\<lparr>DFailed := DFailed (JStatus d) + 1, DSynced := False,
        DError := (case e of None \<Rightarrow> DError (JStatus d) | Some x \<Rightarrow> Error x)\<rparr>\<rparr>"

definition JSetRequestDetails ::
  "string \<Rightarrow> string \<Rightarrow> string \<Rightarrow> headers \<Rightarrow> ClusterJob \<Rightarrow> ClusterJob" where
  "JSetRequestDetails url meth body h d =
     d\<lparr>JStatus := (JStatus d)\<lparr>DRequestDetails :=
        \<lparr>ReqMethod = meth, ReqBody = body, ReqURL = url, ReqHeaders = h\<rparr>\<rparr>\<rparr>"

definition JGetPollingResponse :: "ClusterJob \<Rightarrow> json" where
  "JGetPollingResponse d = RawExtensionToMap (DPollingResponse (JStatus d))"

definition JSetPollingResponse :: "json \<Rightarrow> ClusterJob \<Rightarrow> ClusterJob" where
  "JSetPollingResponse m d = d\<lparr>JStatus := (JStatus d)\<lparr>DPollingResponse := MapToRawExtension m\<rparr>\<rparr>"

definition JSetOperationStartedAt :: "int option \<Rightarrow> ClusterJob \<Rightarrow> ClusterJob" where
  "JSetOperationStartedAt t d = d\<lparr>JStatus := (JStatus d)\<lparr>DStartedAt := t\<rparr>\<rparr>"

definition JSetConditions :: "Condition list \<Rightarrow> ClusterJob \<Rightarrow> ClusterJob" where
  "JSetConditions cs d = d\<lparr>JStatus := (JStatus d)\<lparr>DConditions := cs\<rparr>\<rparr>"

definition JGetCachedResponse :: "ClusterJob \<Rightarrow> Response option" where
  "JGetCachedResponse d = (if StatusCode (DResponse (JStatus d)) = 0 then None else Some (DResponse (JStatus d)))"

definition job_simple_spec :: "DisposableParameters \<Rightarrow> SimpleHTTPRequestSpec" where
  "job_simple_spec p = \<lparr>SpecWaitTimeout = DWaitTimeout p, SpecInsecureSkip = DInsecureSkipTLSVerify p,
     SpecSecretInjections = DSecretInjectionConfigs p, SpecHeaders = DHeaders p, SimpleURL = DURL p,
     SimpleMethod = DMethod p, SimpleBody = DBody p, SimpleExpectedResponse = ExpectedResponse p,
     SimpleAllowedCodes = DAllowedStatusCodes p\<rparr>"

definition job_policy :: "DisposableParameters \<Rightarrow> ReconciliationPolicyAware" where
  "job_policy p = \<lparr>PolicyNextReconcile = NextReconcile p, PolicyLoopInfinitely = ShouldLoopInfinitely p\<rparr>"

definition job_rollback :: "DisposableParameters \<Rightarrow> RollbackAware" where
  "job_rollback p = \<lparr>AwareRetriesLimit = RollbackRetriesLimit p\<rparr>"

definition JGetSpec :: "ClusterJob \<Rightarrow> SimpleHTTPRequestSpec" where
  "JGetSpec d = job_simple_spec (JForProvider d)"

definition job_status_reader :: "ClusterJob \<Rightarrow> DisposableStatusReader" where
  "job_status_reader d = \<lparr>ReadSynced = DSynced (JStatus d), ReadJobFailed = DFailed (JStatus d),
     ReadJobResponse = DResponse (JStatus d)\<rparr>"

definition job_status_writer :: "ClusterJob DisposableStatusWriter" where
  "job_status_writer =
     \<lparr>WriteStatusCode = JSetStatusCode, WriteHeaders = JSetHeaders, WriteBody = JSetBody, WriteError = JSetError,
      WriteRequestDetails = JSetRequestDetails, WriteSynced = JSetSynced, WriteFailed = JSetFailed,
      WriteLastReconcileTime = JSetLastReconcileTime\<rparr>"

definition job_polling :: "ClusterJob PollingAware" where
  "job_polling = \<lparr>AwarePolling = (\<lambda>d. DPolling (JForProvider d)), AwarePollingResponse = JGetPollingResponse,
     AwareSetPollingResponse = JSetPollingResponse, AwareStartedAt = (\<lambda>d. DStartedAt (JStatus d)),
     AwareSetStartedAt = JSetOperationStartedAt\<rparr>"

subsection \<open>Seen as objects of the shared model\<close>

definition unkinded :: "string \<Rightarrow> ProviderConfigReference" where
  "unkinded n = \<lparr>RefKind = [], RefName = n\<rparr>"

definition as_request :: "ClusterRequest \<Rightarrow> AsyncRequest" where
  "as_request c = \<lparr>Name = CName c, Namespace = [], UID = CUID c, Generation = CGeneration c,
     DeletionTimestamp = CDeletionTimestamp c, Annotations = CAnnotations c,
     ProviderConfigRef = map_option unkinded (CProviderConfigRef c), ForProvider = CForProvider c, Status = CStatus c\<rparr>"

definition as_job :: "ClusterJob \<Rightarrow> DisposableRequest" where
  "as_job d = \<lparr>DName = JName d, DNamespace = [], DUID = JUID d, DDeletionTimestamp = JDeletionTimestamp d,
     DProviderConfigRef = map_option unkinded (JProviderConfigRef d), DForProvider = JForProvider d, DStatus = JStatus d\<rparr>"

lemmas cluster_setter_defs =
  CSetStatusCode_def CSetHeaders_def CSetBody_def CSetError_def CResetFailures_def CSetRequestDetails_def CSetCache_def
  CSetExternalRef_def CSetPollingResponse_def CSetTerminalError_def CSetObservedGeneration_def CSetOperationStartedAt_def
  CSetConditions_def

lemmas job_setter_defs =
  JSetStatusCode_def JSetHeaders_def JSetBody_def JSetSynced_def JSetFailed_def JSetLastReconcileTime_def JSetError_def
  JSetRequestDetails_def JSetPollingResponse_def JSetOperationStartedAt_def JSetConditions_def

text \<open>The readers of the two scopes answer the same.\<close>

lemma cluster_specs:
  "cluster_mapping = as_mapping" "cluster_mapped_spec = as_mapped_spec" "cluster_response_checks = as_response_checks"
  "job_simple_spec = as_simple_spec" "job_policy = as_policy" "job_rollback = as_rollback"
  by (simp_all add: fun_eq_iff cluster_mapping_def as_mapping_def cluster_mapped_spec_def as_mapped_spec_def
        cluster_response_checks_def as_response_checks_def job_simple_spec_def as_simple_spec_def job_policy_def as_policy_def
        job_rollback_def as_rollback_def)

lemma cluster_reads:
  "cluster_status_reader c = request_status_reader (as_request c)"
  "CGetSpec c = as_mapped_spec (ForProvider (as_request c))"
  by (simp_all add: cluster_status_reader_def request_status_reader_def as_request_def CGetPollingResponse_def
        GetPollingResponse_def CGetStatusMap_def GetStatusMap_def CGetCachedResponse_def GetCachedResponse_def CGetSpec_def cluster_specs)

lemma job_reads:
  "job_status_reader d = disposable_status_reader (as_job d)"
  "JGetSpec d = as_simple_spec (DForProvider (as_job d))"
  "AwarePolling job_polling d = AwarePolling asPollingAware (as_job d)"
  "AwarePollingResponse job_polling d = AwarePollingResponse asPollingAware (as_job d)"
  "AwareStartedAt job_polling d = AwareStartedAt asPollingAware (as_job d)"
  "JGetCachedResponse d = DGetCachedResponse (as_job d)"
  by (simp_all add: job_status_reader_def disposable_status_reader_def as_job_def JGetSpec_def JGetPollingResponse_def
        job_polling_def asPollingAware_def
        DGetPollingResponse_def JGetCachedResponse_def DGetCachedResponse_def cluster_specs)

text \<open>The writers write the same.\<close>

lemma cluster_writes:
  "image_writer as_request cluster_status_writer request_status_writer"
  "image_writer as_request cluster_status_writer requestWriter"
  by (simp_all add: image_writer_def cluster_status_writer_def request_status_writer_def requestWriter_def as_request_def
        cluster_setter_defs setter_defs split: option.split)

lemma cluster_writes_more:
  "as_request (WriteCache cluster_status_writer now n h b c) = WriteCache request_status_writer now n h b (as_request c)"
  "as_request (WriteResetFailures cluster_status_writer c) = WriteResetFailures request_status_writer (as_request c)"
  "as_request (WriteExternalRef cluster_status_writer ref c) = WriteExternalRef request_status_writer ref (as_request c)"
  "as_request (WritePollingResponse cluster_status_writer m c) = WritePollingResponse request_status_writer m (as_request c)"
  "as_request (WriteTerminalError cluster_status_writer msg c) = WriteTerminalError request_status_writer msg (as_request c)"
  "as_request (WriteObservedGeneration cluster_status_writer g c) = WriteObservedGeneration request_status_writer g (as_request c)"
  "as_request (WriteStartedAt cluster_status_writer t c) = WriteStartedAt request_status_writer t (as_request c)"
  by (simp_all add: cluster_status_writer_def request_status_writer_def as_request_def cluster_setter_defs setter_defs)

lemma job_writes:
  "image_writer as_job job_status_writer disposable_status_writer"
  "image_writer as_job job_status_writer disposableWriter"
  by (simp_all add: image_writer_def job_status_writer_def disposable_status_writer_def disposableWriter_def as_job_def
        job_setter_defs disposable_setter_defs split: option.split)

lemma job_writes_more:
  "as_job (WriteSynced job_status_writer b d) = WriteSynced disposable_status_writer b (as_job d)"
  "as_job (WriteFailed job_status_writer n d) = WriteFailed disposable_status_writer n (as_job d)"
  "as_job (WriteLastReconcileTime job_status_writer t d) = WriteLastReconcileTime disposable_status_writer t (as_job d)"
  "as_job (AwareSetPollingResponse job_polling m d) = AwareSetPollingResponse asPollingAware m (as_job d)"
  "as_job (AwareSetStartedAt job_polling since d) = AwareSetStartedAt asPollingAware since (as_job d)"
  by (simp_all add: job_status_writer_def disposable_status_writer_def as_job_def job_setter_defs disposable_setter_defs
        DSetFailed_def job_polling_def asPollingAware_def)

text \<open>The accessors of the cluster-scoped kind keep their promises because those of the namespaced kind do.\<close>

interpretation cluster_accessors: status_accessors cluster_status_reader cluster_status_writer
  by unfold_locales (simp_all add: cluster_reads cluster_writes_more)

interpretation cluster_writer: status_writer "StatusWriter.truncate cluster_status_writer"
    "\<lambda>c. StatusResponse (CStatus c)" "\<lambda>c. Failed (CStatus c)"
  by unfold_locales (simp_all add: StatusWriter.truncate_def cluster_status_writer_def cluster_setter_defs)

interpretation job_writer: status_writer "StatusWriter.truncate job_status_writer"
    "\<lambda>d. DResponse (JStatus d)" "\<lambda>d. DFailed (JStatus d)"
  by unfold_locales (simp_all add: StatusWriter.truncate_def job_status_writer_def job_setter_defs)

end
