(* ===== verification/ClusterConnect.thy ===== *)
theory ClusterConnect
  imports ClusterKinds
begin

text \<open>
  The connectors of the cluster-scoped kinds, each translated from its own file under
  \<^verbatim>\<open>internal/controller/cluster\<close>; then the proof that they are the instances of the one generic connector
  (\<open>Connect\<close>) at the kinds of resource \<open>cluster_kind\<close> and \<open>job_kind\<close>, and that the instances the shared model
  uses are their images.
\<close>

text \<open>The credentials of a provider configuration: read from a secret only.\<close>

definition secret_credentials :: "provider_config \<Rightarrow> goerr + string" where
  "secret_credentials pc =
     (case PCCredentials pc of
        Some cd \<Rightarrow> if Source cd = ''Secret'' then Extracted cd else Inr []
      | None \<Rightarrow> Inr [])"

subsection \<open>AsyncRequest\<close>

definition cluster_buildHTTPClient :: "'h transport \<Rightarrow> ClusterRequest \<Rightarrow> provider_config \<Rightarrow> goerr + http_client" where
  "cluster_buildHTTPClient T c pc =
     (let effectiveGCP = MergeGCPConfigs (GCP (CForProvider c)) (PCGCP pc);
          effectiveOIDC = MergeOIDCConfigs (OIDC (CForProvider c)) (PCOIDC pc)
      in case ValidateAuthSelection \<lparr>CredentialsSet = PCCredentials pc \<noteq> None, SelGCP = effectiveGCP, SelOIDC = effectiveOIDC\<rparr> of
           Some err \<Rightarrow> Inl err
         | None \<Rightarrow>
             (case secret_credentials pc of
                Inl err \<Rightarrow> Inl (Wrapped err errExtractCredentials)
              | Inr creds \<Rightarrow>
                  let h = PlainClient (WaitTimeoutOf (WaitTimeout (CForProvider c))) creds
                  in if effectiveGCP \<noteq> None
                     then (case GCPSource T (the effectiveGCP) of
                             Some err \<Rightarrow> Inl (Wrapped (Wrapped err ''failed to build GCP token source'') errNewHttpClient)
                           | None \<Rightarrow> Inr (GCPClient h (the effectiveGCP)))
                     else if effectiveOIDC \<noteq> None then Inr (OIDCClient h (the effectiveOIDC))
                     else Inr h))"

definition cluster_buildTLSConfigData ::
  "'cr env \<Rightarrow> ClusterRequest \<Rightarrow> provider_config \<Rightarrow> ('cr world, goerr + TLSConfigData) state" where
  "cluster_buildTLSConfigData E c pc =
     (let merged = MergeTLSConfigs (TLS (CForProvider c)) (PCTLS pc)
      in LoadTLSConfig E
           (if InsecureSkipTLSVerify (CForProvider c)
            then Some ((if merged = None then emptyTLS else the merged)\<lparr>InsecureSkipVerify := True\<rparr>)
            else merged))"

definition ClusterConnect ::
  "ClusterRequest env \<Rightarrow> ClusterRequest provider_api \<Rightarrow> 'h transport \<Rightarrow> (ClusterRequest world, goerr + (http_client \<times> TLSConfigData)) state" where
  "ClusterConnect E A T = do {
     w \<leftarrow> State_Monad.get;
     onError (TrackUsage A (Hist w) (Obj w)) (\<lambda>e. State_Monad.return (Inl (Wrapped e errTrackPCUsage))) (do {
       modifyObj (\<lambda>c. if CProviderConfigRef c = None then c\<lparr>CProviderConfigRef := Some defaultProviderConfig\<rparr> else c);
       c \<leftarrow> theObj;
       case ReadClusterProviderConfig A (Hist w) (the (CProviderConfigRef c)) of
         Inl err \<Rightarrow> State_Monad.return (Inl (Wrapped err ''provider could not be retrieved''))
       | Inr pc \<Rightarrow>
           (case cluster_buildHTTPClient T c pc of
              Inl err \<Rightarrow>
                (case auth_message err of
                   None \<Rightarrow> State_Monad.return (Inl err)
                 | Some msg \<Rightarrow> do {
                     t1 \<leftarrow> timeNow E;
                     t2 \<leftarrow> timeNow E;
                     modifyObj (\<lambda>c. CSetConditions (SetConditions E (Conditions (CStatus c))
                       [Unavailable msg t1, ReconcileError (Wrapped err errInvalidAuthSelection) t2]) c);
                     r \<leftarrow> kubeStatusUpdate E;
                     State_Monad.return (Inl (Wrapped err errInvalidAuthSelection))
                   })
            | Inr h \<Rightarrow> do {
                t \<leftarrow> cluster_buildTLSConfigData E c pc;
                State_Monad.return
                  (case t of Inl err \<Rightarrow> Inl (Wrapped err errBuildTLSConfig) | Inr tls \<Rightarrow> Inr (h, tls))
              })
     })
   }"

subsection \<open>AsyncDisposableRequest\<close>

definition job_buildHTTPClient :: "'h transport \<Rightarrow> ClusterJob \<Rightarrow> provider_config \<Rightarrow> goerr + http_client" where
  "job_buildHTTPClient T d pc =
     (let effectiveGCP = MergeGCPConfigs (DGCP (JForProvider d)) (PCGCP pc);
          effectiveOIDC = MergeOIDCConfigs (DOIDC (JForProvider d)) (PCOIDC pc)
      in case ValidateAuthSelection \<lparr>CredentialsSet = PCCredentials pc \<noteq> None, SelGCP = effectiveGCP, SelOIDC = effectiveOIDC\<rparr> of
           Some err \<Rightarrow> Inl err
         | None \<Rightarrow>
             (case secret_credentials pc of
                Inl err \<Rightarrow> Inl (Wrapped err errExtractCredentials)
              | Inr creds \<Rightarrow>
                  let h = PlainClient (WaitTimeoutOf (DWaitTimeout (JForProvider d))) creds
                  in if effectiveGCP \<noteq> None
                     then (case GCPSource T (the effectiveGCP) of
                             Some err \<Rightarrow> Inl (Wrapped (Wrapped err ''failed to build GCP token source'') errNewDisposableClient)
                           | None \<Rightarrow> Inr (GCPClient h (the effectiveGCP)))
                     else if effectiveOIDC \<noteq> None then Inr (OIDCClient h (the effectiveOIDC))
                     else Inr h))"

definition job_tls ::
  "'cr env \<Rightarrow> ClusterJob \<Rightarrow> provider_config \<Rightarrow> ('cr world, goerr + TLSConfigData) state" where
  "job_tls E d pc =
     (let merged = MergeTLSConfigs (DTLS (JForProvider d)) (PCTLS pc)
      in LoadTLSConfig E
           (if DInsecureSkipTLSVerify (JForProvider d)
            then Some ((if merged = None then emptyTLS else the merged)\<lparr>InsecureSkipVerify := True\<rparr>)
            else merged))"

definition JobConnect ::
  "ClusterJob env \<Rightarrow> ClusterJob provider_api \<Rightarrow> 'h transport \<Rightarrow> (ClusterJob world, goerr + (http_client \<times> TLSConfigData)) state" where
  "JobConnect E A T = do {
     w \<leftarrow> State_Monad.get;
     onError (TrackUsage A (Hist w) (Obj w)) (\<lambda>e. State_Monad.return (Inl (Wrapped e errTrackPCUsage))) (do {
       modifyObj (\<lambda>d. if JProviderConfigRef d = None then d\<lparr>JProviderConfigRef := Some defaultProviderConfig\<rparr> else d);
       d \<leftarrow> theObj;
       case ReadClusterProviderConfig A (Hist w) (the (JProviderConfigRef d)) of
         Inl err \<Rightarrow> State_Monad.return (Inl (Wrapped err ''provider could not be retrieved''))
       | Inr pc \<Rightarrow>
           (case job_buildHTTPClient T d pc of
              Inl err \<Rightarrow>
                (case auth_message err of
                   None \<Rightarrow> State_Monad.return (Inl err)
                 | Some msg \<Rightarrow> do {
                     t1 \<leftarrow> timeNow E;
                     t2 \<leftarrow> timeNow E;
                     modifyObj (\<lambda>d. JSetConditions (SetConditions E (DConditions (JStatus d))
                       [Unavailable msg t1, ReconcileError (Wrapped err errInvalidAuthSelection) t2]) d);
                     r \<leftarrow> kubeStatusUpdate E;
                     State_Monad.return (Inl (Wrapped err errInvalidAuthSelection))
                   })
            | Inr h \<Rightarrow> do {
                t \<leftarrow> job_tls E d pc;
                State_Monad.return
                  (case t of Inl err \<Rightarrow> Inl (Wrapped err errLoadTLSConfig) | Inr tls \<Rightarrow> Inr (h, tls))
              })
     })
   }"

subsection \<open>The instances of the generic connector\<close>

definition cluster_kind :: "ClusterRequest resource_kind" where
  "cluster_kind = \<lparr>KindRef = (\<lambda>c. map_option unkinded (CProviderConfigRef c)),
     KindSetRef = (\<lambda>r c. c\<lparr>CProviderConfigRef := Some (RefName r)\<rparr>), KindNamespace = (\<lambda>c. []),
     KindGCP = (\<lambda>c. GCP (CForProvider c)), KindOIDC = (\<lambda>c. OIDC (CForProvider c)),
     KindTLS = (\<lambda>c. TLS (CForProvider c)), KindSkip = (\<lambda>c. InsecureSkipTLSVerify (CForProvider c)),
     KindTimeout = (\<lambda>c. WaitTimeout (CForProvider c)), KindConditions = (\<lambda>c. Conditions (CStatus c)),
     KindSetConditions = CSetConditions, KindErrNew = errNewHttpClient\<rparr>"

definition job_kind :: "ClusterJob resource_kind" where
  "job_kind = \<lparr>KindRef = (\<lambda>d. map_option unkinded (JProviderConfigRef d)),
     KindSetRef = (\<lambda>r d. d\<lparr>JProviderConfigRef := Some (RefName r)\<rparr>), KindNamespace = (\<lambda>d. []),
     KindGCP = (\<lambda>d. DGCP (JForProvider d)), KindOIDC = (\<lambda>d. DOIDC (JForProvider d)),
     KindTLS = (\<lambda>d. DTLS (JForProvider d)), KindSkip = (\<lambda>d. DInsecureSkipTLSVerify (JForProvider d)),
     KindTimeout = (\<lambda>d. DWaitTimeout (JForProvider d)), KindConditions = (\<lambda>d. DConditions (JStatus d)),
     KindSetConditions = JSetConditions, KindErrNew = errNewDisposableClient\<rparr>"

lemma cluster_kinds:
  "image_kind as_request cluster_kind request_kind"
  "image_kind as_job job_kind disposable_kind"
  by (auto simp: image_kind_def cluster_kind_def request_kind_def job_kind_def disposable_kind_def as_request_def
        as_job_def cluster_setter_defs job_setter_defs setter_defs disposable_setter_defs unkinded_def)

lemma secret_credentials_extract:
  "extract_secret_only (PCCredentials pc) = map_sum (\<lambda>e. Wrapped e errExtractCredentials) id (secret_credentials pc)"
  by (auto simp: extract_secret_only_def extract_any_def secret_credentials_def split: option.split sum.split)

lemma build_specialised:
  "cluster_buildHTTPClient T c pc =
     buildHTTPClient T errNewHttpClient extract_secret_only (GCP (CForProvider c)) (OIDC (CForProvider c))
       (WaitTimeout (CForProvider c)) (PCCredentials pc) (PCOIDC pc) (PCGCP pc)"
  "job_buildHTTPClient T d pc =
     buildHTTPClient T errNewDisposableClient extract_secret_only (DGCP (JForProvider d)) (DOIDC (JForProvider d))
       (DWaitTimeout (JForProvider d)) (PCCredentials pc) (PCOIDC pc) (PCGCP pc)"
  unfolding cluster_buildHTTPClient_def job_buildHTTPClient_def buildHTTPClient_def secret_credentials_extract Let_def
  by (auto split: option.splits sum.splits)

lemma tls_specialised:
  "cluster_buildTLSConfigData E c pc =
     buildTLSConfigData E (TLS (CForProvider c)) (InsecureSkipTLSVerify (CForProvider c)) (PCTLS pc)"
  "job_tls E d pc = buildTLSConfigData E (DTLS (JForProvider d)) (DInsecureSkipTLSVerify (JForProvider d)) (PCTLS pc)"
  by (auto simp: cluster_buildTLSConfigData_def job_tls_def buildTLSConfigData_def effectiveTLS_def Let_def split: option.split)

text \<open>Two programs that change the resource, read it and go on alike from what the change leaves.\<close>

lemma change_then:
  assumes "\<And>x. g x = g' x" and "\<And>x. k (g' x) = k' (g' x)"
  shows "State_Monad.bind (modifyObj g) (\<lambda>_. State_Monad.bind theObj k) =
    State_Monad.bind (modifyObj g') (\<lambda>_. State_Monad.bind theObj k')"
  by (rule state.expand) (simp add: fun_eq_iff assms modifyObj_def State_Monad.update_def theObj_def)

lemma cluster_kind_simps:
  "KindRef cluster_kind c = map_option unkinded (CProviderConfigRef c)"
  "KindSetRef cluster_kind r c = c\<lparr>CProviderConfigRef := Some (RefName r)\<rparr>"
  "KindNamespace cluster_kind c = []"
  "KindGCP cluster_kind c = GCP (CForProvider c)"
  "KindOIDC cluster_kind c = OIDC (CForProvider c)"
  "KindTLS cluster_kind c = TLS (CForProvider c)"
  "KindSkip cluster_kind c = InsecureSkipTLSVerify (CForProvider c)"
  "KindTimeout cluster_kind c = WaitTimeout (CForProvider c)"
  "KindConditions cluster_kind c = Conditions (CStatus c)"
  "KindSetConditions cluster_kind = CSetConditions"
  "KindErrNew cluster_kind = errNewHttpClient"
  by (simp_all add: cluster_kind_def)

lemma job_kind_simps:
  "KindRef job_kind d = map_option unkinded (JProviderConfigRef d)"
  "KindSetRef job_kind r d = d\<lparr>JProviderConfigRef := Some (RefName r)\<rparr>"
  "KindNamespace job_kind d = []"
  "KindGCP job_kind d = DGCP (JForProvider d)"
  "KindOIDC job_kind d = DOIDC (JForProvider d)"
  "KindTLS job_kind d = DTLS (JForProvider d)"
  "KindSkip job_kind d = DInsecureSkipTLSVerify (JForProvider d)"
  "KindTimeout job_kind d = DWaitTimeout (JForProvider d)"
  "KindConditions job_kind d = DConditions (JStatus d)"
  "KindSetConditions job_kind = JSetConditions"
  "KindErrNew job_kind = errNewDisposableClient"
  by (simp_all add: job_kind_def)

lemma cluster_scope_simps:
  "DefaultRef (cluster_scope e) = unkinded defaultProviderConfig"
  "ResolvePC (cluster_scope e) A h ns r =
     wrap_left ''provider could not be retrieved'' (ReadClusterProviderConfig A h (RefName r))"
  "ExtractCreds (cluster_scope e) = extract_secret_only"
  "ErrTLS (cluster_scope e) = e"
  by (simp_all add: cluster_scope_def resolve_cluster_def unkinded_def)

lemma unkinded_simps: "RefName (unkinded n) = n"
  by (simp add: unkinded_def)

lemma case_wrap_left:
  "(case wrap_left m x of Inl e \<Rightarrow> f e | Inr y \<Rightarrow> g y) = (case x of Inl e \<Rightarrow> f (Wrapped e m) | Inr y \<Rightarrow> g y)"
  by (simp add: wrap_left_def split: sum.split)

lemma ClusterConnect_generic: "ClusterConnect E A T = connect E A T cluster_kind (cluster_scope errBuildTLSConfig)"
  unfolding ClusterConnect_def connect_def report_auth_error_def build_specialised tls_specialised
proof (rule arg_cong [of _ _ "State_Monad.bind State_Monad.get"], rule ext, rule arg_cong [of _ _ "onError _ _"],
    rule change_then, goal_cases)
  case (1 w c)
  show ?case by (simp add: default_reference_def cluster_kind_simps cluster_scope_simps unkinded_def)
next
  case (2 w c)
  obtain n where "CProviderConfigRef (default_reference cluster_kind (cluster_scope errBuildTLSConfig) c) = Some n"
    by (cases "CProviderConfigRef c") (simp_all add: default_reference_def cluster_kind_simps cluster_scope_simps)
  then show ?case by (simp only: cluster_kind_simps cluster_scope_simps case_wrap_left option.case option.map option.sel unkinded_simps
        State_Monad.bind_assoc State_Monad.bind_left_identity cong: sum.case_cong option.case_cong)
qed

lemma JobConnect_generic: "JobConnect E A T = connect E A T job_kind (cluster_scope errLoadTLSConfig)"
  unfolding JobConnect_def connect_def report_auth_error_def build_specialised tls_specialised
proof (rule arg_cong [of _ _ "State_Monad.bind State_Monad.get"], rule ext, rule arg_cong [of _ _ "onError _ _"],
    rule change_then, goal_cases)
  case (1 w d)
  show ?case by (simp add: default_reference_def job_kind_simps cluster_scope_simps unkinded_def)
next
  case (2 w d)
  obtain n where "JProviderConfigRef (default_reference job_kind (cluster_scope errLoadTLSConfig) d) = Some n"
    by (cases "JProviderConfigRef d") (simp_all add: default_reference_def job_kind_simps cluster_scope_simps)
  then show ?case by (simp only: job_kind_simps cluster_scope_simps case_wrap_left option.case option.map option.sel unkinded_simps
        State_Monad.bind_assoc State_Monad.bind_left_identity cong: sum.case_cong option.case_cong)
qed

lemma cluster_connects:
  "image_env as_request E E' \<Longrightarrow> image_api as_request A A' \<Longrightarrow>
   simulates as_request (ClusterConnect E A T) (connect_cluster_request E' A' T)"
  unfolding ClusterConnect_generic connect_cluster_request_def by (intro sim_connect_cluster cluster_kinds)

lemma job_connects:
  "image_env as_job D D' \<Longrightarrow> image_api as_job B B' \<Longrightarrow>
   simulates as_job (JobConnect D B T) (connect_cluster_disposable D' B' T)"
  unfolding JobConnect_generic connect_cluster_disposable_def by (intro sim_connect_cluster cluster_kinds)

text \<open>The status of a failed call, written by the four setters and the error.\<close>

lemma image_writer_truncate [simp]: "image_writer f (StatusWriter.truncate W) W' \<longleftrightarrow> image_writer f W W'"
  by (simp add: image_writer_def StatusWriter.truncate_def)

lemma cluster_fails:
  "image_env as_request E E' \<Longrightarrow> W = StatusWriter.truncate cluster_status_writer \<Longrightarrow>
   simulates as_request (SetRequestResourceStatus E (basic_setters W r @ [setterError W err]))
     (SetRequestResourceStatus E' (basic_setters requestWriter r @ [setterError requestWriter err]))"
  by (intro sim_SetRequestResourceStatus sim_failure_setters) (simp_all add: cluster_writes)

lemma job_fails:
  "image_env as_job D D' \<Longrightarrow> W = StatusWriter.truncate job_status_writer \<Longrightarrow>
   simulates as_job (SetRequestResourceStatus D (basic_setters W r @ [setterError W err]))
     (SetRequestResourceStatus D' (basic_setters disposableWriter r @ [setterError disposableWriter err]))"
  by (intro sim_SetRequestResourceStatus sim_failure_setters) (simp_all add: job_writes)

end
