(* ===== verification/ClusterExample.thy ===== *)
theory ClusterExample
  imports ClusterConnect DisposableExample ReconcileExample
begin

text \<open>
  A cluster-scoped object of each kind without a reference, and an environment that answers every object alike.
\<close>

definition cx_request :: ClusterRequest where
  "cx_request = \<lparr>CName = ''thing'', CUID = ''uid'', CGeneration = 1, CDeletionTimestamp = None, CAnnotations = [],
     CProviderConfigRef = None, CForProvider = ex_spec, CStatus = ex_status\<rparr>"

definition cx_job :: ClusterJob where
  "cx_job = \<lparr>JName = ''job'', JUID = ''uid'', JDeletionTimestamp = None, JProviderConfigRef = None,
     JForProvider = dx_spec, JStatus = dx_status\<rparr>"

definition fresh_world :: "'cr \<Rightarrow> 'cr world" where
  "fresh_world x = \<lparr>Obj = x, Hist = [], Captured = (JNilMap, JNilMap)\<rparr>"

definition steady_env :: "'cr env" where
  "steady_env = \<lparr>KubeRead = (\<lambda>h d. (None, d)), KubeStatusWrite = (\<lambda>h d. (None, d)),
     SendHTTP = (\<lambda>h c. (ex_details c, None)), Clock = (\<lambda>h. 0), ContextDone = (\<lambda>h. False),
     ContextErr = ErrorString ''context canceled'',
     ReadSecret = (\<lambda>h n s. Inl (KubeError NotFound ''no secret'')), WriteSecret = (\<lambda>h s. (None, s)),
     CreateSecret = (\<lambda>h s. (None, s)), AddOwner = (\<lambda>d s. Inr s), JqParse = (\<lambda>q. None), JqFirst = ex_jq,
     RetryOnConflict = retry_steps 4, SetConditions = (\<lambda>old new. new), Base64 = id\<rparr>"

lemma steady_image: "image_env f steady_env steady_env"
  unfolding image_env_def steady_env_def by (simp add: exI [of _ 4])

lemma rx_api_image: "image_api f rx_api rx_api"
  by (simp add: image_api_def rx_api_def)

text \<open>The connector defaults the reference, by its name alone, and answers the client of the configuration.\<close>

lemma cx_connects:
  "run_state (ClusterConnect steady_env rx_api (rx_transport :: unit transport))
     (fresh_world cx_request) =
   (Inr (rx_client, rx_tls), fresh_world (cx_request\<lparr>CProviderConfigRef := Some ''default''\<rparr>))"
  "run_state (JobConnect steady_env rx_api (rx_transport :: unit transport))
     (fresh_world cx_job) =
   (Inr (rx_client, rx_tls), fresh_world (cx_job\<lparr>JProviderConfigRef := Some ''default''\<rparr>))"
  by code_simp+

end
