(* ===== verification/Spec2Isabelle.thy ===== *)
theory Spec2Isabelle
  imports SecretMap TokenExample ObserveSecrets DriftOrder JobRecovery JobTrigger ClusterExample
begin

text \<open>
  A model of provider-http-async, a Crossplane provider with two kinds of resource. An
  \<^emph>\<open>AsyncRequest\<close> keeps an object behind an HTTP API in the state its spec describes, by calls that
  templates (\<^emph>\<open>mappings\<close>) describe and that may start a long-running operation. An
  \<^emph>\<open>AsyncDisposableRequest\<close> makes one call, with retries. In both the accepted response of the call that
  starts an operation, the \<^emph>\<open>anchor\<close>, is stored in the status before the first poll, and every later
  reconcile resumes the operation from there. The main result is about starting an operation twice (C1, C2,
  C5): a controller that has seen the anchor makes no call but polls, whatever is interleaved or cut off. The anchor
  it has seen is not always the one that is stored. The controllers read through the cache of their manager,
  and a stale read fires a stored operation again; so does removing the polling block of a one-off
  request. The properties name these cases as the only ones, and their witnesses are histories in which the
  second call is made. The rest says what every part of the program does on the way.

  \<^bold>\<open>Conventions.\<close> A definition has the name of its Go function, or a lower-case name where it models a
  part of one (the body of a closure, a loop, a group of branches). A struct is a record, a nilable
  value an \<open>option\<close>, a Go map an association list in the order in which the code happens to walk over it
  (every property holds for every such order), an error a value of \<open>goerr\<close>. A function with effects is a
  program of the library's state monad over \<open>'cr world\<close>: the resource in memory, and the history of the
  calls made so far, the latest first. What the outside answers is the argument \<open>E :: 'cr env\<close>, a record
  of functions of that history, so that it may conflict, fail, or answer the same call differently the
  next time.

  \<^bold>\<open>The parts, from the bottom up\<close> (paths are under \<^verbatim>\<open>src\<close>).

  \<^item> \<^emph>\<open>Go itself.\<close> \<open>Prelude\<close>: errors, the monad, the calculi \<open>wp\<close> and \<open>keeps\<close>. \<open>GoText\<close>, \<open>GoTime\<close>, \<open>GoUrl\<close>,
    \<open>GoJson\<close>: what the code uses of \<^verbatim>\<open>strings\<close>, \<^verbatim>\<open>strconv\<close>, \<^verbatim>\<open>time\<close>, \<^verbatim>\<open>net/url\<close>, \<^verbatim>\<open>encoding/json\<close>, with the
    bounds of durations; \<open>JsonRoundtrip\<close>: printed JSON reads back.
  \<^item> \<^emph>\<open>The API objects.\<close> \<open>ApiTypes\<close> and \<open>DisposableTypes\<close>: \<^verbatim>\<open>apis/common\<close>, \<^verbatim>\<open>apis/interfaces\<close> and the two kinds
    under \<^verbatim>\<open>apis/namespaced\<close>: records, status setters, and the anchor as JSON text (C20). \<open>Interfaces\<close>: the interfaces
    through which the services see them, as records. \<open>ClusterKinds\<close>: the kinds under \<^verbatim>\<open>apis/cluster\<close>, setter by
    setter and accessor by accessor.
  \<^item> \<^emph>\<open>The outside.\<close> \<open>World\<close>: the calls as events, the environment, re-reading and writing the resource;
    \<open>CallOrder\<close>: the kinds of calls, and automata for their order; \<open>AnchorSafety\<close>: the anchor that is stored and the
    one last seen, as functions of the history.
  \<^item> \<^emph>\<open>Data.\<close> \<open>JsonUtil\<close> (\<^verbatim>\<open>internal/json\<close>), \<open>Jq\<close> (\<^verbatim>\<open>internal/jq\<close>), \<open>Utils\<close> and \<open>SetStatus\<close> (\<^verbatim>\<open>internal/utils\<close>),
    \<open>KubeHandler\<close> (\<^verbatim>\<open>internal/kube-handler\<close>), \<open>DataPatcher\<close> (\<^verbatim>\<open>internal/data-patcher\<close>): containment of JSON, jq
    at a type, validation and retry limits, the writer that retries on conflicts (C8), secrets and their
    placeholders and injections (C38, C40). \<open>SecretMap\<close>: secrets in nested maps, which the code offers but
    does not use. \<open>DriftOrder\<close>: the drift check as an order, and by the paths of the desired object (C39).
  \<^item> \<^emph>\<open>The client.\<close> \<open>Auth\<close> (merging of GCP, OIDC and TLS blocks, the selection of one mechanism), \<open>HttpClient\<close>
    (\<^verbatim>\<open>internal/clients/http\<close>: one call to the wire and back, the two decorators that add an identity),
    \<open>ClientCalls\<close> (which header maps a call needs): C29 to C35. \<open>GoCodec\<close> and \<open>Tokens\<close>
    (\<^verbatim>\<open>internal/clients/gcp\<close>, \<^verbatim>\<open>internal/clients/oidc\<close>): where the tokens of the two identities come from
    (C36, C37).
  \<^item> \<^emph>\<open>An AsyncRequest.\<close> \<open>RequestMapping\<close>, \<open>RequestGen\<close>, \<open>StatusHandler\<close>, \<open>Poller\<close>, \<open>ObserveChecks\<close>, \<open>Observe\<close>,
    \<open>Deploy\<close>: one theory per package or file of \<^verbatim>\<open>internal/service/request\<close>. \<open>RequestController\<close>: \<open>Observe\<close>,
    \<open>Create\<close>, \<open>Update\<close> and \<open>Delete\<close> of \<^verbatim>\<open>internal/controller/*/request\<close>.
  \<^item> \<^emph>\<open>An AsyncDisposableRequest.\<close> \<open>DisposablePolling\<close>, \<open>DisposableDeploy\<close>: \<^verbatim>\<open>internal/service/disposablerequest\<close>.
    \<open>DisposableController\<close>: the operations of \<^verbatim>\<open>internal/controller/*/disposablerequest\<close>, the interval hook
    and the reconciler that keeps the condition \<^verbatim>\<open>ErrorObserved\<close>.
  \<^item> \<^emph>\<open>Reconciles.\<close> \<open>Lifecycle\<close> and \<open>DisposableLifecycle\<close>: what one operation leaves for the next reconcile;
    \<open>Recovery\<close>: an operation that was cut off and has finished meanwhile is completed by the next one, by Create
    (C17) or by Delete, which awaits it (C16); \<open>JobRecovery\<close> the same for a one-off request (C18). \<open>JobTrigger\<close>: an
    action of a one-off request from its trigger to the write of the anchor (C26).
    \<open>Connect\<close>: the four connectors, from a resource and its provider configuration to a client. \<open>Reconcile\<close>:
    a reconcile of each of the four controllers, with that client; \<open>lives\<close>, the step relation of a resource
    over reconciles in any order, cut off by crashes anywhere.
  \<^item> \<^emph>\<open>The two scopes.\<close> The services and the operations of the controllers are the same code in both scopes and are
    modelled once, on the namespaced kinds. \<open>Simulation\<close>: a calculus for programs that are each other's image along a
    map of the resources. \<open>ClusterConnect\<close>: the connectors of the cluster-scoped kinds, translated from
    \<^verbatim>\<open>internal/controller/cluster\<close>; they and the writes of the status are images of the shared model (C31).
  \<^item> \<^emph>\<open>Examples.\<close> \<open>Example\<close>, \<open>ReconcileExample\<close>, \<open>DisposableExample\<close>, \<open>TokenExample\<close>,
    \<open>ClusterExample\<close>: the concrete worlds at which the witnesses
    evaluate the code; \<open>ObserveSecrets\<close>: injections on the response of a failed observation.

  \<^bold>\<open>Interfaces.\<close> Six contracts are locales, each interpreted on the definitions of the code:
  \<open>status_writer\<close> (\<open>SetStatus\<close>), what the status writer needs of the setters of a resource, on both kinds and both
  scopes; \<open>status_accessors\<close> (\<open>Interfaces\<close>), what a reader of a status answers after a write, in both scopes;
  \<open>poller\<close> (\<open>Poller\<close>), what an action needs of the poller it is given, on \<open>Poll\<close>; \<open>connectable\<close> (\<open>Connect\<close>), what
  the connector needs of a kind of resource, on both; \<open>controlled\<close> (\<open>Reconcile\<close>), what the life of a
  resource needs of its controller, on both; \<open>token_source\<close> (\<open>Tokens\<close>), what holds of every token that is
  reused, on both sources.

  \<^bold>\<open>What the lemmas show.\<close> In every theory with effects, lemmas named after a function say which calls it
  adds to the history and what it does to the resource in memory (\<open>wp\<close>, \<open>keeps\<close>). Two patterns carry
  the safety results. The calls of an action are matched against small automata (\<open>Deploy\<close>: C3;
  \<open>DisposableDeploy\<close>: C6); and \<open>anchor_safe\<close>, a predicate of a history (no call but polls while the anchor last
  seen is there), is an invariant of the step relations (C1, C2, C5). The functional results follow the branches of the code (C4, C7, C19, C21 to C26);
  those of the poll loops are by induction on the fuel (C9 to C15).

  \<^bold>\<open>Bounds.\<close> The two poll loops spend one unit of fuel a poll. After a poll the
  code waits one interval, and it leaves the loop once the clock is past the budget of the reconcile, so
  that more fuel than intervals fit in the budget is enough (C11, C12, by the clock contract: a wait takes
  at least as long as it should). The JSON reader's fuel is the length of its text, which it consumes. The failure counter is a
  32-bit word and wraps around; durations are \<open>int\<close> nanoseconds that the parser keeps in int64.
\<close>

text \<open>
  \<^bold>\<open>Parameters.\<close> The API server and \<^verbatim>\<open>client-go\<close> (\<open>KubeRead\<close>, \<open>KubeStatusWrite\<close>, \<open>RetryOnConflict\<close>: it runs its
  closure at least once and again only after a conflict), the jq engine \<^verbatim>\<open>gojq\<close>, the clock, the context,
  \<open>SetConditions\<close>, owner references (all in \<open>env\<close>); the network, certificate parsers and the
  extraction of credentials (\<open>transport\<close>); the file system, Google's default credentials and the token cache
  of \<^verbatim>\<open>golang.org/x/oauth2\<close> (\<open>token_world\<close>; \<open>token_transport\<close> is the transport whose tokens come from there);
  the provider configurations and the usage tracker (\<open>provider_api\<close>). What a property assumes of them are hypotheses of its statement.
  A read may answer any version of the resource, or one that somebody has edited; C1, C2 and C5 ask of the API server only
  that an accepted write answers with the anchor it wrote (\<open>writes_answered\<close>). Crossplane's managed
  reconciler is not in the repository either: \<open>lives\<close> allows every order of the four operations.

  \<^bold>\<open>Simplifications.\<close> A client that panics ends the reconcile: it counts as a failed call, and the cut as a
  crash. \<open>buildTLSConfigData\<close> may set the flag to skip verification in the TLS block of the resource in
  memory, where it is already set beside it.
  \<open>JNum\<close> holds exact decimals where Go has \<open>float64\<close>. Logging and events have no effect in the model.

  \<^bold>\<open>Not modelled.\<close> The controllers of the provider
  configurations, \<^verbatim>\<open>cmd\<close>, \<^verbatim>\<open>Setup\<close>, schemes: wiring of third-party components. Generated code
  (\<^verbatim>\<open>zz_generated.*\<close>): deep copies, which a model of values does not need, and accessors of
  embedded fields.
\<close>

section \<open>The asynchronous operation\<close>

text \<open>
  C1: An operation that is seen under way is never fired again. Over any number of reconciles, interleaved in any
  order and cut off by crashes anywhere, every call is a poll (a GET without a body at an absolute HTTP URL),
  or the resource as it was last read or written had no anchor. Nothing is assumed of the reads: the cache
  they go through may lag. Where a call other than a poll is made although an accepted write has stored an
  anchor, that anchor was missing from the last read, and nothing but a read loses it.
\<close>

theorem anchored_operation_only_polled:
  assumes "reaches E w" "retry_contract E" "writes_answered raw_anchor E"
    and "Hist w = later @ HttpSent c d err # earlier"
  shows "c = poll_call (Decrypted (CallURL c)) \<and> validateOperationURL (Decrypted (CallURL c)) = [] \<or>
    \<not> anchored (seen raw_anchor a0 earlier) \<and>
    (anchored (stored raw_anchor a0 earlier) \<longrightarrow> stale_read raw_anchor a0 earlier)"
  using anchor_safe_call [OF reaches_anchor_safe [OF assms(1-3)] assms(4), of a0] by (auto intro: unseen_stale)

text \<open>The witness: a stale read, and the mutate call is made a second time while its anchor is stored.\<close>

theorem anchored_operation_only_polled_witness:
  "reaches ex_stale_env ex_refired \<and> calls ex_refired = 2 \<and>
   anchored (stored raw_anchor None (tl (Hist ex_refired))) \<and> stale_read raw_anchor None (tl (Hist ex_refired))"
proof -
  have h: "Hist ex_refired = [] @ HttpSent ex_call (ex_details ex_call) None # tl (Hist ex_refired)"
    by (simp add: ex_refired_def)
  have stored: "anchored (stored raw_anchor None (tl (Hist ex_refired)))"
    using ex_anchor_stored by (simp add: ex_refired_def ex_mutated_history_def)
  have "ex_call \<noteq> poll_call (Decrypted (CallURL ex_call))" by (simp add: ex_call_def poll_call_def)
  moreover have "calls ex_refired = 2" by (simp add: calls_def ex_refired_def ex_mutated_history_def)
  ultimately show ?thesis
    using anchored_operation_only_polled [OF ex_twice ex_stale_contracts h, of None] stored ex_twice by blast
qed

text \<open>
  C2: The same end to end, whatever client the connector chooses, namespaced or cluster-scoped: in any life
  of an AsyncRequest whose reconciles read it, connect, observe it and go on as the managed reconciler
  says, cut off by crashes anywhere, every call is a poll or made on a resource last seen without an anchor;
  and if an accepted write had stored one, the last read was stale.
\<close>

theorem reconciled_operation_only_polled:
  assumes "lives E A T (request_controller S) w" "retry_contract E" "writes_answered raw_anchor E"
    and "Hist w = later @ HttpSent c d err # earlier"
  shows "c = poll_call (Decrypted (CallURL c)) \<and> validateOperationURL (Decrypted (CallURL c)) = [] \<or>
    \<not> anchored (seen raw_anchor a0 earlier) \<and>
    (anchored (stored raw_anchor a0 earlier) \<longrightarrow> stale_read raw_anchor a0 earlier)"
proof -
  have "anchor_safe raw_anchor a0 (Hist w)"
    using request_lives.lives_anchor_safe [OF assms(1)] assms(2,3) by (simp add: request_sound_def)
  from anchor_safe_call [OF this assms(4)] show ?thesis by (auto intro: unseen_stale)
qed

theorem reconciled_operation_only_polled_witness:
  "lives (ex_env None) rx_api rx_transport namespaced_request_controller rx_finished \<and>
   ex_poll \<in> set (Hist rx_finished) \<and> validateOperationURL ''http://h'' = []"
proof -
  have r: "lives (ex_env None) rx_api rx_transport namespaced_request_controller rx_finished"
    by (rule lives.finish [OF lives.start rx_reconcile]) (simp add: ex_world_def)
  define before where "before = [ClockRead 0, ClockRead 0, ClockRead 0, StatusUpdate (rx_bound ex_anchored) None,
    ClockRead 0, KubeGet (rx_bound ex_request) None, HttpSent ex_call (ex_details ex_call) None] @ Hist rx_read"
  have h: "Hist rx_finished = [StatusUpdate (rx_bound ex_created) None, KubeGet (rx_bound ex_anchored) None] @
      ex_poll # before"
    by (simp add: rx_finished_def before_def)
  have "anchored (seen raw_anchor None before)"
    using ex_anchor_stored by (simp add: before_def rx_bound_def)
  with reconciled_operation_only_polled [OF r [unfolded namespaced_request_controller_def] ex_retry ex_writes_answered
      h [unfolded ex_poll_def], of None]
  show ?thesis using r by (simp add: rx_finished_def poll_call_def)
qed

text \<open>
  C3: The order of one action's calls when no operation is in flight: reads of secrets, at most one
  mutate call, and polls only once an accepted write of this action has stored the anchor
  (\<open>stages\<close> is the automaton that accepts exactly these orders).
\<close>

theorem mutate_once_then_anchor_then_polls:
  assumes "retry_contract E" "GetPollingResponse (Obj w) = JNilMap"
    and "run_state (DeployAction E (Poll n E) action) w = (r, w')"
  shows "\<exists>es t. Hist w' = es @ Hist w \<and> stages raw_anchor Unsent (rev es) = Some t"
  by (rule foreground.DeployAction_staged [OF assms])

theorem mutate_once_then_anchor_then_polls_witness:
  "\<exists>es t. Hist ex_finished = es @ Hist ex_read \<and> stages raw_anchor Unsent (rev es) = Some t"
  by (rule mutate_once_then_anchor_then_polls [OF ex_retry _ ex_deploy])
     (simp add: GetPollingResponse_def RawExtensionToMap_def ex_read_def ex_world_def ex_request_def ex_status_def)

text \<open>
  C4: What a poll's answer leads to. An error ends the action and leaves everything as it is; a terminal
  answer (timeout, bad URL) records the message and keeps the anchor; a failed operation ends with
  the anchor cleared; a finished one with the anchor cleared and, when the expression yields one, the
  external reference set; an operation still running is left alone. The writes of a terminal and of a
  finished one are these and no other, each on the status read just before.
\<close>

theorem poll_answer_decides_anchor:
  assumes "retry_contract E" "run_state (Poll n E m mr) w = ((mr', answer), w1)"
    and "run_state (run_poll E (Poll n E) m mr) w = (r, w')"
  shows "poll_ends answer r w1 w'"
  by (rule run_poll_ends [OF assms])

text \<open>The witness: the poll of the example from its anchored state.\<close>

theorem poll_answer_decides_anchor_witness:
  "\<exists>mr' answer r w1 w'.
     run_state (Poll 3 (ex_env None) ex_create ex_response_map) (ex_world ex_anchored) = ((mr', answer), w1) \<and>
     poll_ends answer r w1 w'"
proof -
  obtain mr' answer w1 where p:
      "run_state (Poll 3 (ex_env None) ex_create ex_response_map) (ex_world ex_anchored) = ((mr', answer), w1)"
    by (metis prod.collapse)
  obtain r w' where r: "run_state (run_poll (ex_env None) (Poll 3 (ex_env None)) ex_create ex_response_map)
      (ex_world ex_anchored) = (r, w')"
    by (metis prod.collapse)
  from p poll_answer_decides_anchor [OF ex_retry p r] show ?thesis by blast
qed

text \<open>
  C5: A one-off request that is seen under way is not triggered again: in any life of an AsyncDisposableRequest
  every call is a poll, or the resource as it was last read or written had no anchor beside a polling block. Where
  a call other than a poll is made although an accepted write has stored an anchor, the polling block was gone
  from what was seen last, or the anchor was missing from the last read.
\<close>

theorem anchored_job_only_polled:
  assumes "lives E A T (disposable_controller S) w" "retry_contract E" "writes_answered live_anchor E"
    and "Hist w = later @ HttpSent c d err # earlier"
  shows "c = poll_call (Decrypted (CallURL c)) \<and> validateOperationURL (Decrypted (CallURL c)) = [] \<or>
    \<not> anchored (seen live_anchor a0 earlier) \<and>
    (anchored (stored job_anchor a0 earlier) \<longrightarrow> polling_removed earlier \<or> stale_read job_anchor a0 earlier)"
proof -
  have "anchor_safe live_anchor a0 (Hist w)"
    using job_lives.lives_anchor_safe [OF assms(1)] assms(2,3) by (simp add: job_sound_def)
  from anchor_safe_call [OF this assms(4)] show ?thesis by (auto dest: unseen_job)
qed

text \<open>The witness: the polling block is removed while the operation is under way, and the request is triggered again.\<close>

theorem anchored_job_only_polled_witness:
  "lives dx_removed_env rx_api rx_transport namespaced_disposable_controller dx_retriggered \<and>
   Hist dx_retriggered = HttpSent dx_call (ex_details dx_call) None # [KubeGet dx_unpolled None] \<and>
   anchored (job_anchor dx_unpolled) \<and> polling_removed [KubeGet dx_unpolled None]"
proof -
  let ?before = "[KubeGet dx_unpolled None]"
  have h: "Hist dx_retriggered = [] @ HttpSent dx_call (ex_details dx_call) None # ?before"
    by (simp add: dx_retriggered_def dx_reread_def)
  have a: "anchored (job_anchor dx_unpolled)" using dx_anchor_stored by (simp add: dx_unpolled_def)
  have "dx_call \<noteq> poll_call (Decrypted (CallURL dx_call))" by (simp add: dx_call_def poll_call_def)
  with anchored_job_only_polled [OF dx_triggered_again [unfolded namespaced_disposable_controller_def]
      dx_removed_contracts h, of "job_anchor dx_unpolled"] a
  have "polling_removed ?before \<or> stale_read job_anchor (job_anchor dx_unpolled) ?before" by auto
  then have "polling_removed ?before" using a by simp
  then show ?thesis using dx_triggered_again h a by simp
qed

text \<open>
  C6: The order of the calls of a one-off request when no operation is in flight: reads, at most one call
  of its own, and polls only once an accepted write of the anchor is behind them.
\<close>

theorem trigger_once_then_anchor_then_polls:
  assumes "retry_contract E" "\<not> in_flight (Obj w)"
    and "run_state (DisposableDeployAction n E) w = (r, w')"
  shows "\<exists>es t. Hist w' = es @ Hist w \<and> stages job_anchor Unsent (rev es) = Some t"
  using wp_run [OF DisposableDeployAction_staged [OF assms(1,2)] assms(3)] unfolding staged_def by auto

theorem trigger_once_then_anchor_then_polls_witness:
  "\<exists>es t. Hist dx_deployed = es @ Hist dx_read \<and> stages job_anchor Unsent (rev es) = Some t"
  by (rule trigger_once_then_anchor_then_polls [OF dx_live(1) _ dx_deploy]) (simp, code_simp)

text \<open>
  C7: What the verdict on an operation leads to, for a one-off request. A broken poll changes nothing; out of
  budget, the operation is left as it is and one write notes the time; a failed operation counts one failure with
  its error and is over; a finished one ends in sync, or counts a failure if its response is not as
  expected, and is over. At most one write is made, of the resource as it is in memory.
\<close>

theorem job_verdict_decides_status:
  assumes "run_state (conclude E v) w = (r, w')"
  shows "concludes E v w r w'"
  by (rule wp_run [OF conclude_concludes assms])

theorem job_verdict_decides_status_witness:
  "concludes dx_live_env (OperationDone ex_response) dx_answered None dx_deployed"
  by (rule job_verdict_decides_status [OF dx_conclude])

text \<open>
  C8: A conflict never counts a failure twice. Every version written while a failed call is recorded is
  one failure and the new response on top of the version read last, however often the API server
  answers a conflict; for both kinds of resource.
\<close>

theorem failure_counted_once:
  assumes "retry_contract E" "reads_not_conflict E" "retry_contract D" "reads_not_conflict D"
    and "run_state (SetRequestResourceStatus E (basic_setters requestWriter d @ [setterError requestWriter e])) w = (r, w')"
    and "run_state (SetRequestResourceStatus D (basic_setters disposableWriter d @ [setterError disposableWriter e])) v = (q, v')"
  shows "fresh_writes (\<lambda>base cr.
      StatusResponse (Status cr) = merge_response (StatusResponse (Status base)) (HttpResponse d) \<and>
      Failed (Status cr) = Failed (Status base) + 1) w w' \<and>
    fresh_writes (\<lambda>base cr.
      DResponse (DStatus cr) = merge_response (DResponse (DStatus base)) (HttpResponse d) \<and>
      DFailed (DStatus cr) = DFailed (DStatus base) + 1) v v'"
proof
  have "fresh_writes (\<lambda>base cr.
      StatusResponse (Status cr) = merge_response (StatusResponse (Status base)) (HttpResponse d) \<and>
      Failed (Status cr) = Failed (Status base) + 1) w w' \<and> ends_written (\<lambda>base cr.
      StatusResponse (Status cr) = merge_response (StatusResponse (Status base)) (HttpResponse d) \<and>
      Failed (Status cr) = Failed (Status base) + 1) w r w'"
    by (rule wp_run [OF SetRequestResourceStatus_spec [OF assms(1,2)] assms(5)])
       (use request_writer.failure_setters_stored in fastforce)
  then show "fresh_writes (\<lambda>base cr.
      StatusResponse (Status cr) = merge_response (StatusResponse (Status base)) (HttpResponse d) \<and>
      Failed (Status cr) = Failed (Status base) + 1) w w'" ..
  have "fresh_writes (\<lambda>base cr.
      DResponse (DStatus cr) = merge_response (DResponse (DStatus base)) (HttpResponse d) \<and>
      DFailed (DStatus cr) = DFailed (DStatus base) + 1) v v' \<and> ends_written (\<lambda>base cr.
      DResponse (DStatus cr) = merge_response (DResponse (DStatus base)) (HttpResponse d) \<and>
      DFailed (DStatus cr) = DFailed (DStatus base) + 1) v q v'"
    by (rule wp_run [OF SetRequestResourceStatus_spec [OF assms(3,4)] assms(6)])
       (use disposable_writer.failure_setters_stored in fastforce)
  then show "fresh_writes (\<lambda>base cr.
      DResponse (DStatus cr) = merge_response (DResponse (DStatus base)) (HttpResponse d) \<and>
      DFailed (DStatus cr) = DFailed (DStatus base) + 1) v v'" ..
qed

text \<open>The witness: the first write of each is refused, with a conflict.\<close>

theorem failure_counted_once_witness:
  "\<exists>r w' q v'. run_state (SetRequestResourceStatus ex_conflict_env
       (basic_setters requestWriter (ex_details ex_call) @ [setterError requestWriter None])) (ex_world ex_request) = (r, w') \<and>
     fresh_writes (\<lambda>base cr.
       StatusResponse (Status cr) = merge_response (StatusResponse (Status base)) ex_response \<and>
       Failed (Status cr) = Failed (Status base) + 1) (ex_world ex_request) w' \<and>
     fresh_writes (\<lambda>base cr.
       DResponse (DStatus cr) = merge_response (DResponse (DStatus base)) ex_response \<and>
       DFailed (DStatus cr) = DFailed (DStatus base) + 1) (dx_world dx_request) v'"
proof -
  obtain r w' where a: "run_state (SetRequestResourceStatus ex_conflict_env
      (basic_setters requestWriter (ex_details ex_call) @ [setterError requestWriter None])) (ex_world ex_request) = (r, w')"
    by (metis prod.collapse)
  obtain q v' where b: "run_state (SetRequestResourceStatus dx_conflict_env
      (basic_setters disposableWriter (ex_details ex_call) @ [setterError disposableWriter None])) (dx_world dx_request) = (q, v')"
    by (metis prod.collapse)
  have "HttpResponse (ex_details ex_call) = ex_response" by (simp add: ex_details_def)
  with a failure_counted_once [OF ex_conflict_contracts dx_conflict_contracts a b] show ?thesis by auto
qed

section \<open>Polling\<close>

text \<open>
  C9: No poll result is invented: one that is finished or failed was read off the last call, a poll of
  the operation's URL without a transport error, whose response made \<^verbatim>\<open>polling.done\<close> true; the failing
  response recorded is that response.
\<close>

theorem poll_result_is_last_response:
  assumes "MapPolling m = Some p" "run_state (Poll n E m mr) w = ((mr', Inr x), w')"
    and "Done x \<or> FailingPollResponse x \<noteq> None"
  shows "\<exists>url. last_poll_done E p url x w'"
  using wp_run [OF Poll_sound [OF assms(1)] assms(2)] assms(3) by (auto simp: answer_sound_def)

theorem poll_result_is_last_response_witness:
  "\<exists>url. last_poll_done (ex_env None) ex_polling url
     (emptyResult\<lparr>Done := True, OperationURL := ''http://h'', PollResponse := ex_response_map\<rparr>) ex_polled"
proof -
  have "MapPolling ex_create = Some ex_polling" by (simp add: ex_create_def)
  from poll_result_is_last_response [OF this ex_poll_run] show ?thesis by simp
qed

text \<open>
  C10: No end of an operation is invented: when a one-off request is concluded on a response, that response
  answered the last call, a poll without a transport error, and made \<^verbatim>\<open>polling.done\<close> true.
\<close>

theorem job_verdict_is_last_response:
  assumes "run_state (operation_verdict n E p tm) w = (v, w')"
    and "v = OperationDone resp \<or> v = OperationFailed e (Some resp)"
  shows "\<exists>url. verdict_seen E p url resp w'"
  using wp_run [OF operation_verdict_sound assms(1)] assms(2) unfolding verdict_sound_def by blast

theorem job_verdict_is_last_response_witness:
  "\<exists>url. verdict_seen dx_live_env ex_polling url ex_response dx_answered"
  by (rule job_verdict_is_last_response [OF dx_steps(6)]) simp

text \<open>
  C11: The poll returns. With more fuel than intervals fit in the budget, and an outside that answers, its
  answer is never the model's \<open>NotReturned\<close>.
\<close>

theorem poll_returns:
  assumes "calls_return E" "clock_contract E" "MapPolling m = Some p" "enough_fuel n p"
    and "run_state (Poll n E m mr) w = ((mr', r), w')"
  shows "r \<noteq> Inl NotReturned"
proof -
  have "wp (Poll n E m mr) (\<lambda>(mr', r) _. proper_sum r) w"
    using assms(1-4) by (intro Poll_returns_proper) auto
  from wp_run [OF this assms(5)] show ?thesis by auto
qed

theorem poll_returns_witness:
  "\<exists>mr' r w'. run_state (Poll 30 (ex_env None) ex_create ex_response_map) (ex_world ex_anchored) = ((mr', r), w') \<and>
     r \<noteq> Inl NotReturned"
proof -
  obtain mr' r w' where p:
      "run_state (Poll 30 (ex_env None) ex_create ex_response_map) (ex_world ex_anchored) = ((mr', r), w')"
    by (metis prod.collapse)
  have "MapPolling ex_create = Some ex_polling" by (simp add: ex_create_def)
  moreover have "enough_fuel 30 ex_polling"
    by (simp add: enough_fuel_def ex_polling_def GetInterval_def defaultReconcileBudget_def DefaultPollInterval_def)
  ultimately show ?thesis using p poll_returns [OF ex_calls_return ex_clock_contract _ _ p] by blast
qed

text \<open>
  C12: The poll of a one-off request returns: with more fuel than intervals fit in the budget its verdict
  never comes from the end of the fuel.
\<close>

theorem job_poll_returns:
  assumes "calls_return E" "clock_contract E" "enough_fuel n p"
    and "run_state (operation_verdict n E p tm) w = (v, w')"
  shows "proper_verdict v"
  by (rule wp_run [OF operation_verdict_returns [OF assms(1-3)] assms(4)])

theorem job_poll_returns_witness:
  "\<exists>v w'. run_state (operation_verdict 30 dx_env ex_polling ex_response_map) dx_written = (v, w') \<and> proper_verdict v"
proof -
  obtain v w' where run: "run_state (operation_verdict 30 dx_env ex_polling ex_response_map) dx_written = (v, w')"
    by (metis prod.collapse)
  have "enough_fuel 30 ex_polling"
    by (simp add: enough_fuel_def ex_polling_def GetInterval_def defaultReconcileBudget_def DefaultPollInterval_def)
  with run job_poll_returns [OF dx_calls_return dx_clock_contract _ run] show ?thesis by blast
qed

text \<open>
  C13: The timeout is kept: once it has passed for a resource that is not being deleted, the answer is
  the terminal timeout and no call is made.
\<close>

theorem poll_times_out:
  assumes "clock_contract E" "0 < n" "MapPolling m = Some p" "\<not> WasDeleted (Obj w)"
    and "StartedAt (Status (Obj w)) = Some since" "since + GetTimeout p < Clock E (Hist w)"
    and "ParseString E (PollURL p) (GenerateRequestContextFromMap E (Obj w) mr JNilMap) = Inr url"
    and "url \<noteq> []" "validateOperationURL url = []"
    and "run_state (Poll n E m mr) w = ((mr', r), w')"
  shows "r = Inr (emptyResult\<lparr>OperationURL := url, TerminalErr := timeoutMessage (GetTimeout p) url\<rparr>) \<and>
    calls w' = calls w \<and> Obj w' = Obj w"
  using wp_run [OF Poll_times_out [OF assms(1-9)] assms(10)] by simp

theorem poll_times_out_witness:
  "\<exists>mr' w'. run_state (Poll 3 (ex_env None) ex_create ex_response_map) ex_late =
     ((mr', Inr (emptyResult\<lparr>OperationURL := ''http://h'',
        TerminalErr := timeoutMessage DefaultPollTimeout ''http://h''\<rparr>)), w') \<and> calls w' = calls ex_late"
proof -
  obtain mr' r w' where p: "run_state (Poll 3 (ex_env None) ex_create ex_response_map) ex_late = ((mr', r), w')"
    by (metis prod.collapse)
  have t: "GetTimeout ex_polling = DefaultPollTimeout" by (simp add: GetTimeout_def ex_polling_def)
  have "MapPolling ex_create = Some ex_polling" by (simp add: ex_create_def)
  moreover have "\<not> WasDeleted (Obj ex_late)" "StartedAt (Status (Obj ex_late)) = Some 0"
    by (simp_all add: ex_late_def ex_world_def ex_anchored_def ex_request_def WasDeleted_def)
  moreover have "0 + GetTimeout ex_polling < Clock (ex_env None) (Hist ex_late)"
    unfolding t by (simp add: ex_late_def ex_env_def DefaultPollTimeout_def)
  moreover have "ParseString (ex_env None) (PollURL ex_polling)
      (GenerateRequestContextFromMap (ex_env None) (Obj ex_late) ex_response_map JNilMap) = Inr ''http://h''"
    by (simp add: ParseString_def runJQQuery_def ex_env_def ex_jq_def ex_polling_def)
  ultimately show ?thesis
    using p poll_times_out [OF ex_clock_contract _ _ _ _ _ _ ex_url_ok p] by (auto simp: t)
qed

text \<open>
  C14: A resource being deleted never times out: the poll of its operation answers a terminal failure
  only for a URL it cannot call, and then without having called anything.
\<close>

theorem deletion_outlives_timeout:
  assumes "WasDeleted (Obj w)" "run_state (Poll n E m mr) w = ((mr', Inr x), w')" "TerminalErr x \<noteq> []"
  shows "w' = w"
  using wp_run [OF Poll_deleted_terminal [OF assms(1)] assms(2)] assms(3) by simp

theorem deletion_outlives_timeout_witness:
  "run_state (Poll 3 (ex_env None) ex_bad_url ex_response_map) ex_deleted =
     ((context_response ex_response_map (GenerateRequestContextFromMap (ex_env None) (Obj ex_deleted) ex_response_map JNilMap),
       Inr (emptyResult\<lparr>TerminalErr := badURLMessage ''ref'' ''7'' (validateOperationURL ''7'')\<rparr>)), ex_deleted)"
proof -
  obtain mr' r w' where p: "run_state (Poll 3 (ex_env None) ex_bad_url ex_response_map) ex_deleted = ((mr', r), w')"
    by (metis prod.collapse)
  have r: "r = Inr (emptyResult\<lparr>TerminalErr := badURLMessage ''ref'' ''7'' (validateOperationURL ''7'')\<rparr>)"
    "mr' = context_response ex_response_map (GenerateRequestContextFromMap (ex_env None) (Obj ex_deleted) ex_response_map JNilMap)"
    using p ex_bad_url_refused
    by (auto simp: Poll_def ex_bad_url_def ex_polling_def ex_create_def run_calls Let_def ParseString_def
          runJQQuery_def ex_env_def ex_jq_def)
  have "WasDeleted (Obj ex_deleted)" by (simp add: ex_deleted_def ex_world_def WasDeleted_def)
  from deletion_outlives_timeout [OF this p [unfolded r(1)]] p r show ?thesis
    by (simp add: badURLMessage_def)
qed

text \<open>
  C15: The cost of a reconcile's poll: whatever the outside answers, at most one poll more than intervals
  fit in the budget of two minutes.
\<close>

theorem poll_call_bound:
  assumes "clock_contract E" "MapPolling m = Some p"
    and "run_state (Poll n E m mr) w = (x, w')"
  shows "calls w' = calls w \<or> (calls w' - calls w - 1) * GetInterval p \<le> defaultReconcileBudget"
  using wp_run [OF Poll_calls [OF assms(1,2)] assms(3)] .

theorem poll_call_bound_witness:
  "\<exists>x w'. run_state (Poll 30 (ex_env None) ex_create ex_response_map) (ex_world ex_anchored) = (x, w') \<and>
     (calls w' = calls (ex_world ex_anchored) \<or>
      (calls w' - calls (ex_world ex_anchored) - 1) * GetInterval ex_polling \<le> defaultReconcileBudget)"
proof -
  obtain x w' where p: "run_state (Poll 30 (ex_env None) ex_create ex_response_map) (ex_world ex_anchored) = (x, w')"
    by (metis prod.collapse)
  have "MapPolling ex_create = Some ex_polling" by (simp add: ex_create_def)
  from p poll_call_bound [OF ex_clock_contract this p] show ?thesis by blast
qed

text \<open>
  C16: Deletion waits for the operation under way, and knows which it is. While the external reference is unknown
  it is the creation: Delete polls it as the CREATE mapping says, and if it has finished completes it, with one call,
  the poll's, and no REMOVE; once the reference is known it is the removal, and the REMOVE mapping says how.
  With nothing under way Delete makes the call of the REMOVE mapping.
\<close>

theorem delete_awaits_operation:
  assumes "retry_contract E" "accepts E" "KubeRead E (Hist w) (Obj w) = (None, cr)" "GetPollingResponse cr \<noteq> JNilMap"
    and "GetMapping (ForProvider cr) (if ExternalRef (Status cr) = [] then ActionCreate else ActionRemove) = (Inr m, p)"
    and "MapPolling m = Some q"
    and "finished_operation E q (cr\<lparr>ForProvider := p\<rparr>) (GetPollingResponse cr) (KubeGet cr None # Hist w)"
    and "run_state (Delete (Suc n) E) w = (r, w')"
    and "KubeRead E (Hist v) (Obj v) = (None, idle)" "GetPollingResponse idle = JNilMap"
    and "GetMapping (ForProvider idle) ActionRemove = (Inr m', p')"
  shows "r = None \<and> calls w' = calls w + 1 \<and>
    (\<exists>es base cr'. Hist w' = StatusUpdate cr' None # es @ Hist w \<and> list_all is_resume_event es \<and> completes base cr') \<and>
    run_state (Delete n E) v = map_prod (\<lambda>r. Wrap r errFailedToSendHttpRequest) id (run_state
      (fire_action E (Poll n E) m') (v\<lparr>Hist := KubeGet idle None # Hist v, Obj := idle\<lparr>ForProvider := p'\<rparr>\<rparr>))"
proof -
  from wp_run [OF awaited_Delete [OF assms(1-4) assms(5) [folded awaited_action_def] assms(6,7)] assms(8)]
  have w': "r = None" "calls w' = calls w + 1" "completed w'" "adds is_resume_event w w'" by simp_all
  from w'(4) obtain fs where fs: "Hist w' = fs @ Hist w" "list_all is_resume_event fs" by (auto simp: adds_def)
  from w'(3) obtain base cr' h where h: "Hist w' = StatusUpdate cr' None # h" "completes base cr'" by (auto simp: completed_def)
  have "fs \<noteq> []" using fs(1) w'(2) by (auto simp: calls_def)
  with fs h have "\<exists>es. Hist w' = StatusUpdate cr' None # es @ Hist w \<and> list_all is_resume_event es"
    by (cases fs) auto
  with w'(1,2) h(2) removing_Delete [OF assms(9-11)] show ?thesis by blast
qed

theorem delete_awaits_operation_witness:
  "\<exists>w'. run_state (Delete 1 (ex_env (Some ex_anchor))) (ex_world ex_interrupted) = (None, w') \<and> calls w' = 1"
proof -
  let ?E = "ex_env (Some ex_anchor)" and ?w = "ex_world ex_interrupted"
  let ?v = "(ex_world ex_request)\<lparr>Hist := [StatusUpdate ex_request None]\<rparr>"
  obtain r w' where run: "run_state (Delete (Suc 0) ?E) ?w = (r, w')" by (metis prod.collapse)
  have accepts: "accepts ?E" by (simp add: accepts_def ex_env_def)
  have read: "KubeRead ?E (Hist ?w) (Obj ?w) = (None, ex_interrupted)"
    by (simp add: ex_env_def ex_world_def ex_interrupted_def)
  have anchor: "GetPollingResponse ex_interrupted \<noteq> JNilMap" by code_simp
  have mapping: "GetMapping (ForProvider ex_interrupted)
      (if ExternalRef (Status ex_interrupted) = [] then ActionCreate else ActionRemove) = (Inr ex_create, ex_spec)"
    by code_simp
  have polling: "MapPolling ex_create = Some ex_polling" by (simp add: ex_create_def)
  have finished: "finished_operation ?E ex_polling (ex_interrupted\<lparr>ForProvider := ex_spec\<rparr>) (GetPollingResponse ex_interrupted)
      (KubeGet ex_interrupted None # Hist ?w)"
    using ex_interrupted_finished by (simp add: ex_world_def)
  have idle: "KubeRead ?E (Hist ?v) (Obj ?v) = (None, ex_request)" "GetPollingResponse ex_request = JNilMap"
    "GetMapping (ForProvider ex_request) ActionRemove = (Inr ex_remove, ex_spec)"
    by code_simp+
  from delete_awaits_operation [OF ex_retry accepts read anchor mapping polling finished run idle] run
  show ?thesis by (simp add: calls_def ex_world_def)
qed

text \<open>
  C17: The way back: when the anchor of a creation is stored and its operation has finished, the next
  reconcile observes the resource as absent, without a call or a write, and its Create completes the
  creation: however many attempts its writes need, with one call, the poll's, and no second mutation. Its
  last write takes the anchor out and keeps what else the status says.
\<close>

theorem interrupted_creation_completes:
  assumes "retry_contract E" "accepts E" "KubeRead E (Hist w) (Obj w) = (None, Obj w)"
    and "create_in_flight (Obj w)" "TerminalError (Status (Obj w)) = []" "\<not> WasDeleted (Obj w)" "import_ref (Obj w) = None"
    and "GetMapping (ForProvider (Obj w)) ActionCreate = (Inr m, p)" "MapPolling m = Some q"
    and "finished_operation E q ((Obj w)\<lparr>ForProvider := p\<rparr>) (GetPollingResponse (Obj w)) (KubeGet (Obj w) None # Hist w)"
    and "run_state (Create (Suc n) E) w = (r, w')"
  shows "run_state (Observe E) w = (Inr \<lparr>ResourceExists = False, ResourceUpToDate = False\<rparr>, w) \<and>
    r = None \<and> calls w' = calls w + 1 \<and> (\<exists>base cr' h. Hist w' = StatusUpdate cr' None # h \<and> completes base cr')"
  using in_flight_creation_absent [OF assms(4-7)]
    wp_run [OF interrupted_Create [OF assms(1-3) _ assms(8-10)] assms(11)] assms(4)
  by (simp add: completed_def create_in_flight_def)

theorem interrupted_creation_completes_witness:
  "\<exists>w'. run_state (Create 1 (ex_env (Some ex_anchor))) (ex_world ex_interrupted) = (None, w') \<and> calls w' = 1"
proof -
  let ?E = "ex_env (Some ex_anchor)" and ?w = "ex_world ex_interrupted"
  obtain r w' where run: "run_state (Create (Suc 0) ?E) ?w = (r, w')" by (metis prod.collapse)
  have accepts: "accepts ?E" by (simp add: accepts_def ex_env_def)
  have read: "KubeRead ?E (Hist ?w) (Obj ?w) = (None, Obj ?w)"
    by (simp add: ex_env_def ex_world_def ex_interrupted_def)
  have state: "create_in_flight (Obj ?w)" "TerminalError (Status (Obj ?w)) = []" "\<not> WasDeleted (Obj ?w)"
      "import_ref (Obj ?w) = None"
    by code_simp+
  have mapping: "GetMapping (ForProvider (Obj ?w)) ActionCreate = (Inr ex_create, ex_spec)" by code_simp
  have polling: "MapPolling ex_create = Some ex_polling" by (simp add: ex_create_def)
  have finished: "finished_operation ?E ex_polling ((Obj ?w)\<lparr>ForProvider := ex_spec\<rparr>) (GetPollingResponse (Obj ?w))
      (KubeGet (Obj ?w) None # Hist ?w)"
    using ex_interrupted_finished by (simp add: ex_world_def)
  from interrupted_creation_completes [OF ex_retry accepts read state mapping polling finished run] run
  show ?thesis by (simp add: calls_def ex_world_def)
qed

text \<open>
  C18: The same for a one-off request: when its operation has finished and its failures are none, the next reconcile
  observes it as absent, without a call or a write, and its Create makes one call, a poll and not
  the trigger, and concludes the operation by one accepted write: in sync, no failures, no anchor.
\<close>

theorem interrupted_job_concludes:
  assumes "accepts E" "in_flight (Obj w)" "DDeletionTimestamp (Obj w) = None" "\<not> DSynced (DStatus (Obj w))"
    and "\<not> retries_exhausted (Obj w)" "\<not> needs_retry (Obj w)"
    and "Utils.IsRequestValid (DMethod (DForProvider (Obj w))) (DURL (DForProvider (Obj w))) = None"
    and "DPolling (DForProvider (Obj w)) = Some p" "finished_job E p (Obj w) (Hist w)"
    and "run_state (DisposableCreate (Suc n) E) w = (r, w')"
  shows "run_state (DisposableObserve E) w = (Inr \<lparr>ObsExists = False, ObsUpToDate = False\<rparr>, w) \<and>
    r = None \<and> calls w' = calls w + 1 \<and>
    (\<exists>d h. Hist w' = StatusUpdate d None # h \<and> job_succeeds (Obj w) d \<and> operation_over d)"
  using interrupted_job_absent [OF assms(3-6)]
    wp_run [OF interrupted_job_Create [OF assms(1,2,4,5,7-9)] assms(10)]
  by (auto simp: job_ends_def)

theorem interrupted_job_concludes_witness:
  "\<exists>w'. run_state (DisposableCreate 1 dx_env) (dx_world dx_begun) = (None, w') \<and> calls w' = 1"
proof -
  let ?w = "dx_world dx_begun"
  obtain r w' where run: "run_state (DisposableCreate (Suc 0) dx_env) ?w = (r, w')" by (metis prod.collapse)
  have accepts: "accepts dx_env" by (simp add: accepts_def dx_env_def)
  have state: "in_flight (Obj ?w)" "DDeletionTimestamp (Obj ?w) = None" "\<not> DSynced (DStatus (Obj ?w))"
      "\<not> retries_exhausted (Obj ?w)" "\<not> needs_retry (Obj ?w)"
      "Utils.IsRequestValid (DMethod (DForProvider (Obj ?w))) (DURL (DForProvider (Obj ?w))) = None"
    by code_simp+
  have polling: "DPolling (DForProvider (Obj ?w)) = Some ex_polling" by (simp add: dx_world_def)
  have finished: "finished_job dx_env ex_polling (Obj ?w) (Hist ?w)"
    using dx_begun_finished by (simp add: dx_world_def)
  from interrupted_job_concludes [OF accepts state polling finished run] run
  show ?thesis by (simp add: calls_def dx_world_def)
qed

section \<open>Status and observation\<close>

text \<open>
  C19: What the answer to a one-off request without polling leads to: an HTTP error, and a response that is not
  as expected, are one failure more on top of the status read last; an expected response ends the
  failures; a response that the expression cannot judge is an error, and nothing is written.
\<close>

theorem job_response_decides_status:
  assumes "retry_contract E" "reads_not_conflict E" "run_state (handleHttpResponse E d) w = (r, w')"
  shows "answer_recorded E d w r w'"
  by (rule wp_run [OF handleHttpResponse_records [OF assms(1,2)] assms(3)])

theorem job_response_decides_status_witness:
  "\<exists>r w'. run_state (handleHttpResponse dx_conflict_env (ex_details dx_call)) (dx_world dx_request) = (r, w') \<and>
     (\<exists>x. StatusCode x = 200 \<and> written (records x job_succeeds) (dx_world dx_request) r w')"
proof -
  obtain r w' where run: "run_state (handleHttpResponse dx_conflict_env (ex_details dx_call)) (dx_world dx_request) = (r, w')"
    by (metis prod.collapse)
  have "IsResponseAsExpected dx_conflict_env (DForProvider (Obj (dx_world dx_request))) ex_response = Inr True"
    by (simp add: IsResponseAsExpected_def dx_simps)
  moreover have "DAllowedStatusCodes (DForProvider (Obj (dx_world dx_request))) = []" by (simp add: dx_simps)
  moreover have "StatusCode ex_response = 200" "\<not> IsHTTPError 200 []" by (simp_all add: ex_response_def IsHTTPError_def)
  ultimately show ?thesis
    using job_response_decides_status [OF dx_conflict_contracts run] run by (auto simp: answer_recorded_def Let_def)
qed

text \<open>
  C20: An anchor survives the API server: the map stored is the map read back, with the fields of its
  objects in the order of their keys.
\<close>

theorem anchor_round_trip:
  assumes "json_wf (JObj fs)"
  shows "GetPollingResponse (SetPollingResponse (JObj fs) cr) = jcanon (JObj fs)"
proof -
  have "json_marshal (JObj fs) \<noteq> []" by simp
  then show ?thesis
    using json_map_roundtrip [OF assms]
    by (simp add: GetPollingResponse_def SetPollingResponse_def RawExtensionToMap_def
             del: json_marshal.simps jcanon.simps)
qed

theorem anchor_round_trip_witness:
  "GetPollingResponse (SetPollingResponse ex_response_map ex_request) = ex_response_map"
proof -
  have wf: "json_wf ex_response_map" by code_simp
  have "jcanon ex_response_map = ex_response_map" by code_simp
  with anchor_round_trip [OF wf [unfolded ex_response_map_def]] show ?thesis
    by (simp add: ex_response_map_def)
qed

text \<open>
  C21: The identity gate: while there is no external reference, an OBSERVE whose URL is built from it is
  not called; the resource is reported as absent, and so will be created.
\<close>

theorem no_observe_without_identity:
  assumes "TerminalError (Status (Obj w)) = []" "GetPollingResponse (Obj w) = JNilMap"
    and "ExternalRef (Status (Obj w)) = []" "import_ref (Obj w) = None"
    and "GetMapping (ForProvider (Obj w)) ActionObserve = (Inr m, p)" "urlReferencesExternalRef (URL m)"
  shows "run_state (Observe E) w =
     (Inr \<lparr>ResourceExists = False, ResourceUpToDate = False\<rparr>, w\<lparr>Obj := (Obj w)\<lparr>ForProvider := p\<rparr>\<rparr>)"
  using IsUpToDate_no_identity [OF assms(1-3,5,6)] assms(4)
  by (simp add: Observe_def seedExternalRef_def run_calls)

theorem no_observe_without_identity_witness:
  "run_state (Observe (ex_env None)) (ex_world ex_request) =
     (Inr \<lparr>ResourceExists = False, ResourceUpToDate = False\<rparr>, ex_world ex_request)"
proof -
  have m: "GetMapping ex_spec ActionObserve = (Inr ex_observe, ex_spec)"
    by (simp add: GetMapping_def getMappingByAction_def ex_spec_def ex_create_def ex_observe_def Let_def)
  have u: "urlReferencesExternalRef (URL ex_observe)" by code_simp
  have "ForProvider ex_request = ex_spec" "ex_request\<lparr>ForProvider := ex_spec\<rparr> = ex_request"
    by (simp_all add: ex_request_def)
  then show ?thesis
    using no_observe_without_identity [of "ex_world ex_request" ex_observe ex_spec "ex_env None"] m u
    by (simp add: ex_world_def ex_request_def ex_status_def import_ref_def GetExternalName_def
          GetPollingResponse_def RawExtensionToMap_def)
qed

text \<open>
  C22: A terminal failure is reported and nothing else happens: no call, no write, until the
  specification changes.
\<close>

theorem terminal_failure_is_only_reported:
  assumes "TerminalError (Status (Obj w)) \<noteq> []" "import_ref (Obj w) = None"
    and "Generation (Obj w) = ObservedGeneration (Status (Obj w))"
    and "WasDeleted (Obj w) \<longrightarrow> GetPollingResponse (Obj w) \<noteq> JNilMap \<or> ExternalRef (Status (Obj w)) \<noteq> []"
  shows "\<exists>cs t. run_state (Observe E) w =
     (Inl (ErrorString (terminalErrorPrefix @ TerminalError (Status (Obj w)))),
      w\<lparr>Hist := ClockRead t # Hist w, Obj := SetConditionList cs (Obj w)\<rparr>)"
proof -
  have u: "run_state (IsUpToDate E) w = (Inr (NewTerminalObserve (TerminalError (Status (Obj w)))), w)"
    using assms by (intro IsUpToDate_terminal) auto
  show ?thesis
    using assms(1,2)
    by (auto simp: Observe_def seedExternalRef_def run_calls u NewTerminalObserve_def NewObserve_def
          setCondition_def Let_def)
qed

theorem terminal_failure_is_only_reported_witness:
  "\<exists>cs t. run_state (Observe (ex_env None)) (ex_world ex_terminal) =
     (Inl (ErrorString ''Terminal error: gone wrong''),
      (ex_world ex_terminal)\<lparr>Hist := [ClockRead t], Obj := SetConditionList cs ex_terminal\<rparr>)"
  using terminal_failure_is_only_reported [of "ex_world ex_terminal" "ex_env None"]
  by (simp add: ex_terminal_def ex_world_def ex_request_def import_ref_def GetExternalName_def WasDeleted_def
        terminalErrorPrefix_def)

text \<open>
  C23: Drift that no mapping can repair stalls: when the check answers out of sync and no mapping serves
  UPDATE, the observation is an error or terminal, and then the terminal failure has been written for
  the present generation.
\<close>

theorem unrepairable_drift_stalls:
  assumes "retry_contract E" "run_state (IsUpToDateCheck E d) w = (Inr False, w1)"
    and "GetMapping (ForProvider (Obj w1)) ActionUpdate = (Inl e, p)"
    and "run_state (determineIfUpToDate E d err) w = (r, w')"
  shows "stalled errUpdateMappingNotFound r w'"
  using wp_run [OF determineIfUpToDate_stalls [OF assms(1-3)] assms(4)] .

theorem unrepairable_drift_stalls_witness:
  "\<exists>r w'. run_state (determineIfUpToDate (ex_env None) (ex_details ex_call) None) ex_drift = (r, w') \<and>
     stalled errUpdateMappingNotFound r w'"
proof -
  obtain r w' where run: "run_state (determineIfUpToDate (ex_env None) (ex_details ex_call) None) ex_drift = (r, w')"
    by (metis prod.collapse)
  from run unrepairable_drift_stalls [OF ex_retry ex_drift_check ex_no_update run] show ?thesis by blast
qed

text \<open>
  C24: A failed OBSERVE touches the injected secrets: when the call of a resource with an identity ends in a
  transport error, its empty response goes through the injection, and a key whose mapping deletes what is
  missing is dropped from its secret.
\<close>

theorem failed_observe_drops_secret_key:
  assumes "retry_contract E" "ExternalRef (Status (Obj w)) \<noteq> []"
    and "run_state (GenerateValidRequestDetails E m) w = (Inr rd, w1)"
    and "SendHTTP E (Hist w1) (details_call (GetEffectiveMethod m) rd) = (d, Some err)" "HttpResponse d = emptyResponse"
    and "CheckType (IsRemovedCheck (ForProvider (Obj w))) \<noteq> CheckTypeCustom" "\<not> has_exists_check (ForProvider (Obj w))"
    and "SecretInjectionConfigs (ForProvider (Obj w)) = [cfg]" "KeyMappings cfg = Some [k]"
      "MissingStrategy k = DeleteMissingField" "\<not> SetOwnerReference cfg"
    and "ReadSecret E (HttpSent (details_call (GetEffectiveMethod m) rd) d (Some err) # Hist w1)
      (SecretRefName cfg) (SecretRefNamespace cfg) = Inr s"
    and "extractValueToPatch E (prepareDataMap (emptyResponse\<lparr>Headers := copyHeaders None\<rparr>)) (ResponseJQ k) = None"
    and "run_state (observeExternalRefDriven E m) w = (r, w')"
  shows "\<exists>s' e. SecretWritten s' e \<in> set (Hist w') \<and>
    SecretData s' = Some (map_del (SecretKey k) (case SecretData s of None \<Rightarrow> [] | Some m \<Rightarrow> m))"
proof -
  obtain e where "SecretWritten (updateSecretData s (SecretKey k) None DeleteMissingField) e \<in> set (Hist w')"
    using wp_run [OF transport_error_drops_key [OF assms(1-13)] assms(14)] by blast
  then show ?thesis by (auto simp: updateSecretData_def Let_def)
qed

theorem failed_observe_drops_secret_key_witness:
  "\<exists>r w' s' e. run_state (observeExternalRefDriven ex_broken_env ex_observe) ex_injecting = (r, w') \<and>
     SecretWritten s' e \<in> set (Hist w') \<and> SecretData s' = Some []"
proof -
  obtain r w' where run: "run_state (observeExternalRefDriven ex_broken_env ex_observe) ex_injecting = (r, w')"
    by (metis prod.collapse)
  have gen: "run_state (GenerateValidRequestDetails ex_broken_env ex_observe) ex_injecting =
      (Inr \<lparr>DetUrl = \<lparr>Encrypted = ''http://h/7'', Decrypted = ''http://h/7''\<rparr>, DetBody = \<lparr>Encrypted = [], Decrypted = []\<rparr>,
         DetHeaders = \<lparr>Encrypted = Some [], Decrypted = Some []\<rparr>\<rparr>, ex_injecting)"
    by code_simp
  have x: "extractValueToPatch ex_broken_env (prepareDataMap (emptyResponse\<lparr>Headers := copyHeaders None\<rparr>)) (ResponseJQ ex_key) = None"
    by code_simp
  have spec: "ExternalRef (Status (Obj ex_injecting)) \<noteq> []" "\<not> has_exists_check (ForProvider (Obj ex_injecting))"
    "CheckType (IsRemovedCheck (ForProvider (Obj ex_injecting))) \<noteq> CheckTypeCustom"
    "SecretInjectionConfigs (ForProvider (Obj ex_injecting)) = [ex_injection]"
    "KeyMappings ex_injection = Some [ex_key]" "MissingStrategy ex_key = DeleteMissingField" "\<not> SetOwnerReference ex_injection"
    by (simp_all add: ex_broken_simps)
  have outside: "SendHTTP ex_broken_env h c = ((ex_details c)\<lparr>HttpResponse := emptyResponse\<rparr>, Some (ErrorString ''connection refused''))"
    "HttpResponse ((ex_details c)\<lparr>HttpResponse := emptyResponse\<rparr>) = emptyResponse"
    "ReadSecret ex_broken_env h n ns = Inr ex_secret" for h c n ns
    by (simp_all add: ex_broken_env_def)
  from failed_observe_drops_secret_key [OF ex_broken_retry spec(1) gen outside(1,2) spec(3,2,4-7) outside(3) x run]
  obtain s' e where "SecretWritten s' e \<in> set (Hist w')"
    "SecretData s' = Some (map_del (SecretKey ex_key) (case SecretData ex_secret of None \<Rightarrow> [] | Some m \<Rightarrow> m))"
    by blast
  with run show ?thesis by (auto simp: ex_secret_def ex_key_def map_del_def)
qed

text \<open>
  C25: An operation in flight for which no mapping serves UPDATE is never resumed while its resource has an
  external reference: the observation asks for an update, and the update returns without a call.
\<close>

theorem in_flight_without_update_stalls:
  assumes "TerminalError (Status (Obj w)) = []" "GetPollingResponse (Obj w) \<noteq> JNilMap" "ExternalRef (Status (Obj w)) \<noteq> []"
    and "GetMapping (ForProvider (Obj w)) ActionUpdate = (Inl err, p)"
  shows "run_state (IsUpToDate E) w = (Inr NewInFlightObserve, w) \<and>
    run_state (DeployAction E poll ActionUpdate) w = (None, w\<lparr>Obj := (Obj w)\<lparr>ForProvider := p\<rparr>\<rparr>)"
  using assms IsUpToDate_in_flight [OF assms(1,2)]
  by (simp add: DeployAction_def getMapping_def run_calls)

theorem in_flight_without_update_stalls_witness:
  "run_state (IsUpToDate (ex_env None)) ex_imported = (Inr NewInFlightObserve, ex_imported) \<and>
   run_state (DeployAction (ex_env None) (Poll 3 (ex_env None)) ActionUpdate) ex_imported = (None, ex_imported)"
proof -
  have a: "TerminalError (Status (Obj ex_imported)) = []" "GetPollingResponse (Obj ex_imported) \<noteq> JNilMap"
    "ExternalRef (Status (Obj ex_imported)) \<noteq> []"
    by code_simp+
  have m: "GetMapping (ForProvider (Obj ex_imported)) ActionUpdate =
      (Inl (ErrorString (ErrMappingNotFound ''UPDATE'' ''PUT'')), ForProvider (Obj ex_imported))"
    by code_simp
  from in_flight_without_update_stalls [OF a m] show ?thesis by simp
qed

text \<open>
  C26: The anchor of a one-off request is written in one attempt, with no retry on a conflict. An action that
  triggers, and whose trigger was answered, writes the answer as the anchor; when that write is
  refused the action ends with its error: the trigger is made, and what the API server holds is what it held before,
  so that the next action triggers again. When it is accepted nothing but polls follows.
\<close>

theorem job_anchor_written_in_one_attempt:
  assumes "triggers_anew (Obj w)" "run_state (sendHttpRequest E) w = ((details, None), v)"
    and "KubeRead E (Hist v) (Obj v) = (None, d)" "DPolling (DForProvider d) \<noteq> None"
    and "\<not> IsHTTPError (StatusCode (HttpResponse details)) (DAllowedStatusCodes (DForProvider d))"
    and "run_state (DisposableDeployAction n E) w = (r, w')"
  shows "anchor_attempt E details (v\<lparr>Obj := d, Hist := KubeGet d None # Hist v\<rparr>) r w' \<and>
    ((\<forall>es x. list_all is_quiet es \<longrightarrow> fst (KubeStatusWrite E (es @ KubeGet d None # Hist v) x) = Some e) \<longrightarrow>
      r = Some e \<and> calls w' = calls w + 1 \<and> stored job_anchor a0 (Hist w') = stored job_anchor a0 (Hist w))"
proof -
  have a: "anchor_attempt E details (v\<lparr>Obj := d, Hist := KubeGet d None # Hist v\<rparr>) r w'"
    by (rule wp_run [OF triggered_attempt [OF assms(1-5)] assms(6)])
  obtain c h where "Hist v = HttpSent c details None # h @ Hist w" "list_all is_secret_read h"
    using trigger_sent [OF assms(2)] by blast
  with refused_attempt [OF a, of d c h w e a0] a show ?thesis by auto
qed

text \<open>The witness: the first write of a status conflicts; the trigger is behind it, and no anchor is stored.\<close>

theorem job_anchor_written_in_one_attempt_witness:
  "\<exists>w'. run_state (DisposableDeployAction 3 dx_conflict_env) dx_read =
       (Some (KubeError Conflict ''the object has been modified''), w') \<and>
     calls w' = 1 \<and> \<not> anchored (stored job_anchor None (Hist w'))"
proof -
  obtain r w' where run: "run_state (DisposableDeployAction 3 dx_conflict_env) dx_read = (r, w')" by (metis prod.collapse)
  have state: "triggers_anew (Obj dx_read)" "run_state (sendHttpRequest dx_conflict_env) dx_read = ((ex_details dx_call, None), dx_sent)"
    "KubeRead dx_conflict_env (Hist dx_sent) (Obj dx_sent) = (None, dx_request)"
    by code_simp+
  have polled: "DPolling (DForProvider dx_request) \<noteq> None"
    "\<not> IsHTTPError (StatusCode (HttpResponse (ex_details dx_call))) (DAllowedStatusCodes (DForProvider dx_request))"
    by simp_all
  have "first_write es" if "list_all is_quiet es" for es :: "DisposableRequest event list"
    using that by (induction es) (auto simp: first_write_def is_quiet_def is_kube_event_def split: event.splits)
  then have "\<forall>es x. list_all is_quiet es \<longrightarrow> fst (KubeStatusWrite dx_conflict_env (es @ KubeGet dx_request None # Hist dx_sent) x) =
      Some (KubeError Conflict ''the object has been modified'')"
    by (auto simp: dx_conflict_env_def refuse_first_def first_write_def dx_sent_def dx_read_def)
  with job_anchor_written_in_one_attempt [OF state polled run, of "KubeError Conflict ''the object has been modified''" None]
  show ?thesis using run by (simp add: calls_def dx_read_def)
qed

text \<open>
  C27: The condition \<^verbatim>\<open>ErrorObserved\<close> mirrors the failure: after a reconcile it is true with the error of a
  request that has used up its retries, and absent from any other; or the write that made it so was
  attempted.
\<close>

theorem error_condition_mirrors_failure:
  assumes "conditions_contract E" "KubeRead E (Hist w) (Obj w) = (None, d)"
    and "distinct (map CondType (DConditions (DStatus d)))" "run_state (update_error_condition E) w = ((), w')"
  shows "(Hist w' = KubeGet d None # Hist w \<and> mirrors_error d) \<or>
    (\<exists>x. one_write (\<lambda>a b. mirrors_error b) (w\<lparr>Obj := d, Hist := KubeGet d None # Hist w\<rparr>) x w')"
  using wp_run [OF update_error_condition_mirrors [OF assms(1-3)] assms(4)] by (simp add: mirror_kept_def)

theorem error_condition_mirrors_failure_witness:
  "Hist dx_settled = KubeGet dx_done None # Hist dx_deployed \<and> mirrors_error dx_done \<or>
   (\<exists>x. one_write (\<lambda>a b. mirrors_error b) (dx_deployed\<lparr>Obj := dx_done, Hist := KubeGet dx_done None # Hist dx_deployed\<rparr>) x
     dx_settled)"
proof -
  have "conditions_contract dx_api_env" by (auto simp: conditions_contract_def dx_api_env_def dx_env_def)
  moreover have "KubeRead dx_api_env (Hist dx_deployed) (Obj dx_deployed) = (None, dx_done)" by code_simp
  moreover have "distinct (map CondType (DConditions (DStatus dx_done)))"
    by (simp add: dx_done_def dx_request_def dx_status_def)
  ultimately show ?thesis by (rule error_condition_mirrors_failure [OF _ _ _ dx_connect(3)])
qed

text \<open>
  C28: The time until the next reconcile of a one-off request is positive, and at most the one configured or
  the default, whatever the clock reads.
\<close>

theorem requeue_interval_bounds:
  assumes "clock_contract E" "\<And>t. LastReconcileTime (DStatus (Obj w)) = Some t \<Longrightarrow> t \<le> Clock E (Hist w)"
    and "run_state (customPollIntervalHook E) w = (d, w')"
  shows "0 < d \<and> d \<le> max defaultPollInterval (ParseDuration (NextReconcile (DForProvider (Obj w))) 0)"
  by (rule wp_run [OF customPollIntervalHook_bounds [OF assms(1,2)] assms(3)])

theorem requeue_interval_bounds_witness:
  "\<exists>d w'. run_state (customPollIntervalHook dx_env) (dx_world dx_done) = (d, w') \<and> 0 < d \<and> d \<le> defaultPollInterval"
proof -
  obtain d w' where run: "run_state (customPollIntervalHook dx_env) (dx_world dx_done) = (d, w')"
    by (metis prod.collapse)
  have "LastReconcileTime (DStatus (Obj (dx_world dx_done))) = Some t \<Longrightarrow> t \<le> Clock dx_env (Hist (dx_world dx_done))" for t
    by (simp add: dx_world_def dx_done_def dx_env_def)
  moreover have "ParseDuration (NextReconcile (DForProvider (Obj (dx_world dx_done)))) 0 \<le> defaultPollInterval"
    by (simp add: dx_world_def dx_done_def dx_request_def dx_spec_def defaultPollInterval_def)
  ultimately show ?thesis using requeue_interval_bounds [OF dx_clock_contract _ run] run by auto
qed

section \<open>The client\<close>



text \<open>
  C30: A selection of none or of several mechanisms is refused: the connector answers an authentication
  error and no client, with one write of the status and no call.
\<close>

theorem ambiguous_selection_refused:
  fixes S :: "AsyncRequest scope"
  assumes "TrackUsage A (Hist w) (Obj w) = None"
    and "ResolvePC S A (Hist w) (Namespace (Obj w)) (effective_ref request_kind S (Obj w)) = Inr pc"
    and "g = MergeGCPConfigs (GCP (ForProvider (Obj w))) (PCGCP pc)"
      "i = MergeOIDCConfigs (OIDC (ForProvider (Obj w))) (PCOIDC pc)"
    and "\<not> (PCCredentials pc \<noteq> None \<and> g = None \<and> i = None)"
      "\<not> (PCCredentials pc = None \<and> (g = None) \<noteq> (i = None))"
    and "run_state (connect E A T request_kind S) w = (x, w')"
  shows "\<exists>m cr r t t'. x = Inl (Wrapped (AuthSelectionError m) errInvalidAuthSelection) \<and>
    Hist w' = StatusUpdate cr r # ClockRead t # ClockRead t' # Hist w"
proof -
  let ?s = "\<lparr>CredentialsSet = PCCredentials pc \<noteq> None, SelGCP = g, SelOIDC = i\<rparr>"
  have "ValidateAuthSelection ?s \<noteq> None" using assms(5,6) by (auto simp: ValidateAuthSelection_iff)
  then obtain e where e: "ValidateAuthSelection ?s = Some e" by auto
  then obtain m where "e = AuthSelectionError m" using selection_error_message by blast
  moreover have "x = Inl (Wrapped e errInvalidAuthSelection) \<and>
    (\<exists>cr r. Hist w' = [StatusUpdate cr r, ClockRead (Clock E (ClockRead (Clock E (Hist w)) # Hist w)),
       ClockRead (Clock E (Hist w))] @ Hist w)"
    by (rule wp_run [OF request_connectable.connect_refused assms(7)])
       (use assms(1-4) e in \<open>simp_all add: request_kind_def\<close>)
  ultimately show ?thesis by auto
qed

theorem ambiguous_selection_refused_witness:
  "\<exists>m w'. run_state (connect (ex_env None) rx_both (rx_transport :: unit transport) request_kind (cluster_scope errBuildTLSConfig)) ex_read =
     (Inl (Wrapped (AuthSelectionError m) errInvalidAuthSelection), w')"
proof -
  obtain x w' where run: "run_state (connect (ex_env None) rx_both (rx_transport :: unit transport) request_kind (cluster_scope errBuildTLSConfig)) ex_read =
      (x, w')"
    by (metis prod.collapse)
  let ?pc = "rx_config\<lparr>PCGCP := Some \<lparr>ServiceAccount = [], Scopes = []\<rparr>\<rparr>"
  have t: "TrackUsage rx_both (Hist ex_read) (Obj ex_read) = None" by (simp add: rx_both_def rx_api_def)
  have pc: "ResolvePC (cluster_scope errBuildTLSConfig) rx_both (Hist ex_read) (Namespace (Obj ex_read))
      (effective_ref request_kind (cluster_scope errBuildTLSConfig) (Obj ex_read)) = Inr ?pc"
    by (simp add: cluster_scope_def resolve_cluster_def wrap_left_def rx_both_def)
  have both: "PCCredentials ?pc \<noteq> None" "MergeGCPConfigs (GCP (ForProvider (Obj ex_read))) (PCGCP ?pc) \<noteq> None"
    by (auto simp: rx_config_def MergeGCPConfigs_def split: option.splits)
  from ambiguous_selection_refused [OF t pc refl refl _ _ run] both obtain m
    where "x = Inl (Wrapped (AuthSelectionError m) errInvalidAuthSelection)" by blast
  with run show ?thesis by auto
qed

text \<open>
  C31: The cluster-scoped kinds are the namespaced kinds without a namespace: seen through \<open>as_request\<close> and
  \<open>as_job\<close>, their connectors and their writes of a failed call are those of the shared model. They answer the same,
  and every object they leave, read or write is the image.
\<close>

theorem cluster_kinds_refine:
  fixes E :: "ClusterRequest env" and D :: "ClusterJob env"
  assumes "image_env as_request E E'" "image_api as_request A A'" "image_env as_job D D'" "image_api as_job B B'"
    and "W = StatusWriter.truncate cluster_status_writer" "V = StatusWriter.truncate job_status_writer"
  shows "simulates as_request (ClusterConnect E A T) (connect_cluster_request E' A' T) \<and>
    simulates as_job (JobConnect D B T) (connect_cluster_disposable D' B' T) \<and>
    simulates as_request (SetRequestResourceStatus E (basic_setters W r @ [setterError W err]))
      (SetRequestResourceStatus E' (basic_setters requestWriter r @ [setterError requestWriter err])) \<and>
    simulates as_job (SetRequestResourceStatus D (basic_setters V r @ [setterError V err]))
      (SetRequestResourceStatus D' (basic_setters disposableWriter r @ [setterError disposableWriter err]))"
  using cluster_connects [OF assms(1,2)] job_connects [OF assms(3,4)] cluster_fails [OF assms(1,5)] job_fails [OF assms(3,6)]
  by blast

theorem cluster_kinds_refine_witness:
  "run_state (connect_cluster_request steady_env rx_api (rx_transport :: unit transport)) (image_world as_request (fresh_world cx_request)) =
     (Inr (rx_client, rx_tls), image_world as_request (fresh_world (cx_request\<lparr>CProviderConfigRef := Some ''default''\<rparr>)))"
  using simulatesD [OF cluster_kinds_refine [OF steady_image rx_api_image steady_image rx_api_image refl refl, THEN conjunct1]
      cx_connects(1)] .

text \<open>
  C32: What a client reports of a call has the form without secrets: the URL, the body and the headers are
  those of the encrypted form, with nothing added to the headers but the mask of its identity.
\<close>

theorem client_reports_no_secrets:
  assumes "http_send T client tls h c = Returned (d, err)"
  shows "HttpRequest d = HttpRequest emptyDetails \<or>
    ReqMethod (HttpRequest d) = CallMethod c \<and> ReqURL (HttpRequest d) = Encrypted (CallURL c) \<and>
    ReqBody (HttpRequest d) = Encrypted (CallBody c) \<and>
    header_set (ReqHeaders (HttpRequest d)) \<subseteq> header_set (Encrypted (CallHeaders c)) \<union> masks client"
  using http_send_logs [OF assms] by (auto simp: logs_only_def)

theorem client_reports_no_secrets_witness:
  "\<exists>d err. http_send rx_transport (GCPClient rx_client \<lparr>ServiceAccount = [], Scopes = []\<rparr>) None () rx_secret_call =
      Returned (d, err) \<and> ReqBody (HttpRequest d) = ''masked'' \<and>
      header_set (ReqHeaders (HttpRequest d)) \<subseteq> {(''Authorization'', [''Bearer [GCP-TOKEN]''])}"
proof -
  have s: "http_send rx_transport (GCPClient rx_client \<lparr>ServiceAccount = [], Scopes = []\<rparr>) None () rx_secret_call =
    Returned (\<lparr>HttpResponse = ex_response, HttpRequest = \<lparr>ReqMethod = ''GET'', ReqBody = ''masked'', ReqURL = ''http://h'',
      ReqHeaders = Some [(''Authorization'', [''Bearer [GCP-TOKEN]''])]\<rparr>\<rparr>, None)"
    by code_simp
  from client_reports_no_secrets [OF s] s show ?thesis
    by (simp add: rx_secret_call_def header_set_def rx_client_def authKey_def emptyDetails_def del: http_send.simps)
qed

text \<open>
  C33: The calls of an AsyncRequest never make a client panic: in any life of one, whichever of the clients
  a call is given to, it answers.
\<close>

theorem request_calls_never_panic:
  assumes "lives E A T (request_controller S) w" "retry_contract E" "HttpSent c d e \<in> set (Hist w)"
  shows "\<exists>answer. http_send U client tls h c = Returned answer"
proof -
  from lives_headed [OF assms(1,2)] assms(3) have "headed_call c" by (auto simp: list_all_iff)
  then have "returned (http_send U client tls h c)" by (intro http_send_returns) (auto simp: headed_call_def)
  then show ?thesis by (auto simp: returned_def split: outcome.splits)
qed

theorem request_calls_never_panic_witness:
  "\<exists>answer. http_send rx_transport (GCPClient rx_client \<lparr>ServiceAccount = [], Scopes = []\<rparr>) None () ex_call = Returned answer"
proof -
  have "lives (ex_env None) rx_api rx_transport namespaced_request_controller rx_finished"
    by (rule lives.finish [OF lives.start rx_reconcile]) (simp add: ex_world_def)
  moreover have "HttpSent ex_call (ex_details ex_call) None \<in> set (Hist rx_finished)" by (simp add: rx_finished_def)
  ultimately show ?thesis
    unfolding namespaced_request_controller_def by (rule request_calls_never_panic [OF _ ex_retry])
qed

text \<open>
  C34: A call without an identity to add it to: a client with an identity panics on the trigger of a
  one-off request whose specification has no headers, as soon as it has its token.
\<close>

theorem identity_panics_without_headers:
  assumes "DHeaders (DForProvider (Obj w)) = None" "run_state (sendHttpRequest E) w = (x, w')"
    and "Hist w' = es @ Hist w" "HttpSent c d e \<in> set es" "GCPToken T g h = Inr t" "OIDCToken T cfg h = Inr t'"
  shows "(\<exists>p. http_send T (GCPClient inner g) tls h c = Panicked p) \<and>
    (\<exists>p. http_send T (OIDCClient inner cfg) tls h c = Panicked p)"
proof -
  from wp_run [OF sendHttpRequest_headers assms(2)] assms(3,4)
  have "spec_headed (DForProvider (Obj w)) (HttpSent c d e)" by (auto simp: adds_def list_all_iff)
  with assms(1) have "Encrypted (CallHeaders c) = None" "Decrypted (CallHeaders c) = Some []" by auto
  from bare_call_panics(1) [OF this assms(5)] bare_call_panics(2) [OF this assms(6)] show ?thesis by blast
qed

theorem identity_panics_without_headers_witness:
  "\<exists>p. http_send rx_transport (GCPClient rx_client \<lparr>ServiceAccount = [], Scopes = []\<rparr>) None () dx_call = Panicked p"
  using identity_panics_without_headers [of dx_read dx_live_env "(ex_details dx_call, None)" dx_sent
      "[HttpSent dx_call (ex_details dx_call) None]" dx_call "ex_details dx_call" None rx_transport
      "\<lparr>ServiceAccount = [], Scopes = []\<rparr>" "()" "''t''" undefined "''t''"] dx_steps(3)
  by (simp add: dx_simps rx_transport_def)

text \<open>
  C35: The inline bundle of the provider configuration wins over a bundle the resource refers to: with no inline
  bundle of its own, the resource's reference is not loaded.
\<close>

theorem provider_bundle_beats_resource_reference:
  assumes "CABundle r = []" "CABundle p \<noteq> []"
    and "run_state (LoadTLSConfig E (MergeTLSConfigs (Some r) (Some p))) w = (Inr d, w')"
  shows "DataCABundle d = CABundle p"
  by (rule provider_bundle_wins [OF assms])

theorem provider_bundle_beats_resource_reference_witness:
  "\<exists>d w'. run_state (LoadTLSConfig ex_broken_env (MergeTLSConfigs
      (Some (emptyTLS\<lparr>CACertSecretRef := Some \<lparr>SelName = ''s'', SelNamespace = ''ns'', SelKey = ''token''\<rparr>\<rparr>))
      (Some (emptyTLS\<lparr>CABundle := ''PEM''\<rparr>)))) (ex_world ex_request) = (Inr d, w') \<and> DataCABundle d = ''PEM''"
proof -
  let ?run = "run_state (LoadTLSConfig ex_broken_env (MergeTLSConfigs
      (Some (emptyTLS\<lparr>CACertSecretRef := Some \<lparr>SelName = ''s'', SelNamespace = ''ns'', SelKey = ''token''\<rparr>\<rparr>))
      (Some (emptyTLS\<lparr>CABundle := ''PEM''\<rparr>)))) (ex_world ex_request)"
  have run: "?run = (Inr \<lparr>DataCABundle = ''PEM'', DataClientCert = [], DataClientKey = [], DataInsecure = False\<rparr>, ex_world ex_request)"
    by code_simp
  have "CABundle (emptyTLS\<lparr>CACertSecretRef := Some \<lparr>SelName = ''s'', SelNamespace = ''ns'', SelKey = ''token''\<rparr>\<rparr>) = []"
    "CABundle (emptyTLS\<lparr>CABundle := ''PEM''\<rparr>) \<noteq> []"
    by (simp_all add: emptyTLS_def)
  from provider_bundle_beats_resource_reference [OF this run] run show ?thesis by simp
qed

text \<open>
  C36: A token that a client sends was named by its issuer, in an accepted answer, and is never sent close to
  its end: unless it has just been issued, more than \<open>refreshBefore\<close> (for an impersonation, a minute) is left
  of the lifetime the answer states.
\<close>

theorem served_token_is_fresh:
  assumes "reuse_contract (CachedOIDC X oidc) (exchange X T oidc) (TimeNow X)"
    and "OIDCToken (token_transport X T) oidc h = Inr a"
    and "reuse_contract (CachedGCP X gcp) (generateAccessToken X T gcp) (TimeNow X)" "ServiceAccount gcp \<noteq> []"
    and "GCPToken (token_transport X T) gcp h = Inr b"
  shows "(\<exists>g n. exchange_answer X T oidc g = Inr (a, n) \<and>
      (g = h \<or> (\<forall>e. exchange_end (refresh_before oidc) (TimeNow X g) n = Some e \<longrightarrow>
                   TimeNow X h < e - refresh_before oidc))) \<and>
    (\<exists>g t. impersonation_answer X T gcp g = Inr (b, t) \<and>
      (g = h \<or> (\<forall>e. impersonation_end t = Some e \<longrightarrow> TimeNow X h < e - impersonateRefreshSlack)))"
  using oidc_token_fresh [OF assms(1,2)] gcp_token_fresh [OF assms(3-5)] by blast

theorem served_token_is_fresh_witness:
  "(\<exists>n. exchange_answer tx_world tx_transport tx_oidc 0 = Inr (''abc'', n)) \<and>
   (\<exists>g t. impersonation_answer tx_world tx_transport tx_gcp g = Inr (''xyz'', t))"
proof -
  have "exchange_answer tx_world tx_transport tx_oidc 0 = Inr (''abc'', 3600)" by code_simp
  with served_token_is_fresh [OF tx_reuse(1) tx_tokens(1) tx_reuse(2) _ tx_tokens(2)] show ?thesis
    by (auto simp: tx_gcp_def)
qed

text \<open>
  C37: The body of a token exchange, as its server reads it back, holds every parameter once: the extra
  parameters of the configuration as they are, and the four of the protocol where those do not replace
  them.
\<close>

theorem exchange_form_read_back:
  assumes "distinct (map fst (extra_params ex))"
  shows "\<exists>ps. form_decode (form_encode (exchange_form ex saToken)) = Some ps \<and> distinct (map fst ps) \<and>
    map_of ps = [''audience'' \<mapsto> Audience ex, ''subject_token'' \<mapsto> saToken,
      ''subject_token_type'' \<mapsto> ''urn:ietf:params:oauth:token-type:jwt'',
      ''grant_type'' \<mapsto> ''urn:ietf:params:oauth:grant-type:token-exchange''] ++ map_of (extra_params ex)"
  using map_of_exchange_form [OF assms] distinct_exchange_form [of ex saToken]
  by (simp add: form_decode_encode map_of_sort_fields)

theorem exchange_form_read_back_witness:
  "\<exists>ps. form_decode (form_encode (exchange_form tx_exchange ''s/t'')) = Some ps \<and>
     map_of ps ''audience'' = Some ''c d'' \<and> map_of ps ''subject_token'' = Some ''s/t''"
proof -
  have "distinct (map fst (extra_params tx_exchange))" by code_simp
  from exchange_form_read_back [OF this, of "''s/t''"] show ?thesis
    by (auto simp: tx_exchange_def extra_params_def)
qed

section \<open>Data\<close>

text \<open>
  C38: A placeholder is replaced by the value of its secret: a text with one well-formed placeholder reads that
  secret, once, and becomes the text with the value in its place.
\<close>

theorem placeholder_replaced_by_secret:
  assumes "placeholder_name (SecretName s)" "placeholder_name (SecretNamespace s)" "placeholder_name k"
    and "no_brace pre" "no_brace post"
    and "ReadSecret E (Hist w) (SecretName s) (SecretNamespace s) = Inr s'"
  shows "run_state (PatchSecretsIntoString E (pre @ secretPlaceholder s k @ post)) w =
    (Inr (pre @ data_value s' k @ post),
     w\<lparr>Hist := SecretRead (SecretName s) (SecretNamespace s) # Hist w\<rparr>)"
  by (rule wp_PatchSecretsIntoString_placeholder [OF assms])

theorem placeholder_replaced_by_secret_witness:
  "run_state (PatchSecretsIntoString ex_broken_env ''Bearer {{s:ns:token}}'') (ex_world ex_request) =
     (Inr ''Bearer abc'', (ex_world ex_request)\<lparr>Hist := [SecretRead ''s'' ''ns'']\<rparr>)"
proof -
  have names: "placeholder_name (SecretName ex_secret)" "placeholder_name (SecretNamespace ex_secret)"
    "placeholder_name ''token''" "no_brace ''Bearer ''" "no_brace []"
    by code_simp+
  have "ReadSecret ex_broken_env (Hist (ex_world ex_request)) (SecretName ex_secret) (SecretNamespace ex_secret) = Inr ex_secret"
    by (simp add: ex_broken_env_def)
  from placeholder_replaced_by_secret [OF names this] show ?thesis
    by (simp add: secretPlaceholder_def ex_secret_def data_value_def ex_world_def)
qed

text \<open>
  C39: A response is in sync exactly if its status is a success and it has everything the desired state has: at every
  path of keys of the desired object the same value, or an object where there is an object; what more it
  has does not matter. A desired state that is not an object has to be a part of the response's text.
\<close>

theorem response_in_sync_iff:
  "comparePatchedResults body desired code = Inr True \<longleftrightarrow> IsHTTPSuccess code \<and>
     (if IsJSONString desired
      then IsJSONString body \<and> (\<forall>k ks x. at_path (JsonStringToMap desired) (k # ks) = Some x \<longrightarrow>
        (\<exists>y. at_path (JsonStringToMap body) (k # ks) = Some y \<and>
          (if is_map x then is_map y else json_marshal x = json_marshal y)))
      else \<not> IsJSONString body \<and> (\<exists>before after. body = before @ desired @ after))"
  using in_sync_paths [of body desired code] by (simp only: agrees_def)

text \<open>The witness: a field the response lacks is drift; a field it has in addition is not.\<close>

theorem response_in_sync_iff_witness:
  "comparePatchedResults (json_marshal (JObj [(''b'', JBool True)]))
     (json_marshal (JObj [(''a'', JObj [(''c'', JStr ''x'')]), (''b'', JBool True)])) 200 \<noteq> Inr True \<and>
   comparePatchedResults (json_marshal (JObj [(''a'', JObj [(''c'', JStr ''x'')]), (''b'', JBool True)]))
     (json_marshal (JObj [(''b'', JBool True)])) 200 = Inr True"
proof
  let ?small = "json_marshal (JObj [(''b'', JBool True)])"
  let ?large = "json_marshal (JObj [(''a'', JObj [(''c'', JStr ''x'')]), (''b'', JBool True)])"
  have large: "IsJSONString ?large" "at_path (JsonStringToMap ?large) [''a'', ''c''] = Some (JStr ''x'')" by code_simp+
  have small: "at_path (JsonStringToMap ?small) [''a'', ''c''] = None" by code_simp
  have "at_path (JsonStringToMap body) (k # ks) \<noteq> None"
    if "comparePatchedResults body desired code = Inr True" "IsJSONString desired"
      "at_path (JsonStringToMap desired) (k # ks) = Some x" for body desired code k ks x
    using that response_in_sync_iff [of body desired code] by fastforce
  from this [OF _ large] small show "comparePatchedResults ?small ?large 200 \<noteq> Inr True" by blast
  show "comparePatchedResults ?large ?small 200 = Inr True" by code_simp
qed

text \<open>
  C40: A label value is valid exactly if it is empty or at most 63 characters long, begins and ends with a
  letter or digit and has only letters, digits, dashes, underscores and dots in between.
\<close>

theorem label_value_valid_iff:
  "isValidLabelValue s \<longleftrightarrow>
     s = [] \<or> (length s \<le> 63 \<and> isAlphanumeric (hd s) \<and> isAlphanumeric (last s) \<and> list_all isValidMiddleChar s)"
  by (rule isValidLabelValue_iff)

end
